(* ===== verification/Prelude.thy ===== *)
theory Prelude
  imports Main "HOL-Library.Word"
begin

text \<open>
  Shared vocabulary of the development: the result type of a fallible step, the
  JavaScript string operations the program calls (on strings of one-byte
  characters), list facts used by several components, and the collections the
  component theories fill.

  Strings are HOL \<open>string\<close>s (lists of \<open>char\<close>). The JavaScript functions
  \<open>trim\<close>, \<open>toUpperCase\<close>, \<open>toLowerCase\<close>, \<open>split\<close>, \<open>join\<close>,
  \<open>padStart\<close>, \<open>replaceAll\<close> and \<open>startsWith\<close> are modelled on ASCII text:
  case mapping moves the letters a-z and A-Z only.
\<close>

named_theorems js_simps "unfolding equations of the JavaScript string operations"
named_theorems route_simps "unfolding equations of request handlers"

section \<open>Results of fallible steps\<close>

type_synonym ('e, 'a) result = "'e + 'a"

text \<open>\<open>x ?? y\<close> of JavaScript: the value if it is not null, else the default.\<close>

definition or_else :: "'a option \<Rightarrow> 'a \<Rightarrow> 'a" where
  "or_else x d = (case x of None \<Rightarrow> d | Some v \<Rightarrow> v)"

lemma or_else_simps [simp]: "or_else None d = d" "or_else (Some v) d = v"
  by (simp_all add: or_else_def)

text \<open>\<open>s || null\<close> on a string: the empty string is falsy.\<close>

definition non_empty :: "string \<Rightarrow> string option" where
  "non_empty s = (if s = [] then None else Some s)"

lemma non_empty_simps [simp]:
  "non_empty [] = None" "s \<noteq> [] \<Longrightarrow> non_empty s = Some s"
  by (simp_all add: non_empty_def)

section \<open>Characters\<close>

definition code_of :: "char \<Rightarrow> nat" where
  "code_of c = of_char c"

lemma code_of_less [simp]: "code_of c < 256"
  by (simp add: code_of_def)

lemma code_of_inject: "code_of c = code_of d \<longleftrightarrow> c = d"
  by (simp add: code_of_def)

definition is_space :: "char \<Rightarrow> bool" where
  "is_space c = (code_of c = 32 \<or> (9 \<le> code_of c \<and> code_of c \<le> 13) \<or> code_of c = 160)"

definition is_upper :: "char \<Rightarrow> bool" where
  "is_upper c = (65 \<le> code_of c \<and> code_of c \<le> 90)"

definition is_lower :: "char \<Rightarrow> bool" where
  "is_lower c = (97 \<le> code_of c \<and> code_of c \<le> 122)"

definition is_digit :: "char \<Rightarrow> bool" where
  "is_digit c = (48 \<le> code_of c \<and> code_of c \<le> 57)"

definition upper_char :: "char \<Rightarrow> char" where
  "upper_char c = (if is_lower c then char_of (code_of c - 32) else c)"

definition lower_char :: "char \<Rightarrow> char" where
  "lower_char c = (if is_upper c then char_of (code_of c + 32) else c)"

lemma code_of_char_of: "n < 256 \<Longrightarrow> code_of (char_of n) = n"
  by (simp add: code_of_def)

lemma upper_char_idem [simp]: "upper_char (upper_char c) = upper_char c"
proof (cases "is_lower c")
  case True
  then have "code_of (upper_char c) = code_of c - 32"
    by (auto simp: upper_char_def is_lower_def intro!: code_of_char_of)
  with True have "\<not> is_lower (upper_char c)"
    by (auto simp: is_lower_def)
  then show ?thesis by (simp add: upper_char_def)
next
  case False
  then show ?thesis by (simp add: upper_char_def)
qed

lemma upper_char_fix: "\<not> is_lower c \<Longrightarrow> upper_char c = c"
  by (simp add: upper_char_def)

text \<open>The middle dot between spaces that the pages put between two details.\<close>

definition dot_sep :: string where
  "dot_sep = [CHR '' '', CHR 0xB7, CHR '' '']"

section \<open>JavaScript string operations\<close>

definition js_upper :: "string \<Rightarrow> string" where
  "js_upper s = map upper_char s"

definition js_lower :: "string \<Rightarrow> string" where
  "js_lower s = map lower_char s"

definition js_trim :: "string \<Rightarrow> string" where
  "js_trim s = rev (dropWhile is_space (rev (dropWhile is_space s)))"

lemma js_upper_idem [simp]: "js_upper (js_upper s) = js_upper s"
  by (simp add: js_upper_def)

lemma js_upper_length [simp]: "length (js_upper s) = length s"
  by (simp add: js_upper_def)

lemma js_upper_append [simp]: "js_upper (s @ t) = js_upper s @ js_upper t"
  by (simp add: js_upper_def)

lemma dropWhile_idem_hd:
  "\<not> P (hd xs) \<or> xs = [] \<Longrightarrow> dropWhile P xs = xs"
  by (cases xs) auto

lemma hd_rev_dropWhile_rev:
  assumes "\<not> P (hd xs)" "rev (dropWhile P (rev xs)) \<noteq> []"
  shows "\<not> P (hd (rev (dropWhile P (rev xs))))"
proof -
  obtain ys where ys: "rev xs = ys @ dropWhile P (rev xs)"
    by (metis takeWhile_dropWhile_id)
  then have "xs = rev (dropWhile P (rev xs)) @ rev ys"
    by (metis rev_append rev_rev_ident)
  then have "hd xs = hd (rev (dropWhile P (rev xs)))"
    using assms(2) by (metis hd_append2)
  then show ?thesis using assms(1) by simp
qed

lemma js_trim_idem [simp]: "js_trim (js_trim s) = js_trim s"
proof (cases "js_trim s = []")
  case True
  moreover have "js_trim [] = []" by (simp add: js_trim_def)
  ultimately show ?thesis by simp
next
  case False
  let ?d = "dropWhile is_space s"
  have "?d \<noteq> []"
  proof
    assume "?d = []"
    with False show False unfolding js_trim_def by simp
  qed
  then have "\<not> is_space (hd ?d)" by (rule hd_dropWhile)
  then have "\<not> is_space (hd (js_trim s))"
    using hd_rev_dropWhile_rev [of is_space ?d] False by (simp add: js_trim_def)
  then have front: "dropWhile is_space (js_trim s) = js_trim s"
    by (simp add: dropWhile_idem_hd)
  have "dropWhile is_space (rev (js_trim s)) = rev (js_trim s)"
    unfolding js_trim_def by (metis dropWhile_idem rev_rev_ident)
  with front show ?thesis by (simp add: js_trim_def [of "js_trim s"])
qed

fun js_join :: "string \<Rightarrow> string list \<Rightarrow> string" where
  "js_join sep [] = []"
| "js_join sep [x] = x"
| "js_join sep (x # y # ys) = x @ sep @ js_join sep (y # ys)"

text \<open>\<open>s.split(c)\<close> at a one character separator: never the empty list.\<close>

fun js_split :: "char \<Rightarrow> string \<Rightarrow> string list" where
  "js_split c [] = [[]]"
| "js_split c (x # xs) =
     (if x = c then [] # js_split c xs
      else (case js_split c xs of [] \<Rightarrow> [[x]] | y # ys \<Rightarrow> (x # y) # ys))"

lemma js_split_not_Nil [simp]: "js_split c s \<noteq> []"
  by (induction s) (auto split: list.splits)

lemma js_split_no_sep: "c \<notin> set s \<Longrightarrow> js_split c s = [s]"
  by (induction s) auto

lemma js_split_append: "c \<notin> set s \<Longrightarrow> js_split c (s @ c # t) = s # js_split c t"
  by (induction s) auto

lemma js_join_split: "js_join [c] (js_split c s) = s"
proof (induction s)
  case Nil
  then show ?case by simp
next
  case (Cons x xs)
  then show ?case
    by (cases "js_split c xs" rule: list.exhaust; cases "tl (js_split c xs)") (auto split: list.splits)
qed

definition js_replace_all :: "char \<Rightarrow> string \<Rightarrow> string \<Rightarrow> string" where
  "js_replace_all c r s = concat (map (\<lambda>x. if x = c then r else [x]) s)"

lemma js_replace_all_Nil [simp]: "js_replace_all c r [] = []"
  by (simp add: js_replace_all_def)

lemma js_replace_all_Cons [simp]:
  "js_replace_all c r (x # xs) = (if x = c then r else [x]) @ js_replace_all c r xs"
  by (simp add: js_replace_all_def)

lemma js_replace_all_append [simp]:
  "js_replace_all c r (xs @ ys) = js_replace_all c r xs @ js_replace_all c r ys"
  by (simp add: js_replace_all_def)

text \<open>Decimal digits, \<open>n.toString()\<close> of a non-negative integer.\<close>

fun show_nat :: "nat \<Rightarrow> string" where
  "show_nat n = (if n < 10 then [char_of (48 + n)] else show_nat (n div 10) @ [char_of (48 + n mod 10)])"

declare show_nat.simps [simp del]

lemma show_nat_not_Nil [simp]: "show_nat n \<noteq> []"
  by (subst show_nat.simps) simp

lemma show_nat_digits: "c \<in> set (show_nat n) \<Longrightarrow> is_digit c"
proof (induction n rule: show_nat.induct)
  case (1 n)
  have digit: "is_digit (char_of (48 + d))" if "d < 10" for d :: nat
    using that by (simp add: is_digit_def code_of_char_of)
  show ?case
  proof (cases "n < 10")
    case True
    with 1 show ?thesis using digit by (subst (asm) show_nat.simps) simp
  next
    case False
    with 1 show ?thesis using digit [of "n mod 10"]
      by (subst (asm) (2) show_nat.simps) auto
  qed
qed

definition js_pad_start :: "nat \<Rightarrow> char \<Rightarrow> string \<Rightarrow> string" where
  "js_pad_start n c s = replicate (n - length s) c @ s"

lemma length_js_pad_start: "length (js_pad_start n c s) = max n (length s)"
  by (simp add: js_pad_start_def)

definition starts_with :: "string \<Rightarrow> string \<Rightarrow> bool" where
  "starts_with p s = (take (length p) s = p)"

text \<open>\<open>s.includes(p)\<close>: a substring test.\<close>

fun js_includes :: "string \<Rightarrow> string \<Rightarrow> bool" where
  "js_includes p [] = (p = [])"
| "js_includes p (x # xs) = (starts_with p (x # xs) \<or> js_includes p xs)"

section \<open>List facts\<close>

text \<open>The first element satisfying a test, \<open>xs.find\<close>.\<close>

lemma find_Some_iff_ex: "(\<exists>y. List.find P xs = Some y) \<longleftrightarrow> (\<exists>x\<in>set xs. P x)"
  by (induction xs) auto

lemma find_SomeD: "List.find P xs = Some x \<Longrightarrow> x \<in> set xs \<and> P x"
  by (induction xs) (auto split: if_splits)

lemma find_None_iff': "List.find P xs = None \<longleftrightarrow> (\<forall>x\<in>set xs. \<not> P x)"
  by (induction xs) auto

lemma distinct_map_filter_one:
  assumes "distinct (map f xs)" "x \<in> set xs"
  shows "filter (\<lambda>y. f y = f x) xs = [x]"
  using assms
proof (induction xs)
  case Nil
  then show ?case by simp
next
  case (Cons a xs)
  show ?case
  proof (cases "x = a")
    case True
    then have "f a \<notin> f ` set xs" using Cons.prems(1) by simp
    then have "filter (\<lambda>y. f y = f a) xs = []" by (auto simp: filter_empty_conv) (metis imageI)
    with True show ?thesis by simp
  next
    case False
    then have "x \<in> set xs" "f a \<noteq> f x" using Cons.prems by auto
    then show ?thesis using Cons by simp
  qed
qed

lemma map_cong_fields:
  "(\<And>x. x \<in> set xs \<Longrightarrow> f (g x) = f x) \<Longrightarrow> map f (map g xs) = map f xs"
  by simp

text \<open>Splitting a list into pieces of a fixed size, as a \<open>for\<close> loop with \<open>slice\<close>.\<close>

function chunks :: "nat \<Rightarrow> 'a list \<Rightarrow> 'a list list" where
  "chunks n xs = (if xs = [] \<or> n = 0 then [] else take n xs # chunks n (drop n xs))"
  by pat_completeness auto
termination
  by (relation "measure (\<lambda>(n, xs). length xs)") auto

declare chunks.simps [simp del]

lemma chunks_Nil [simp]: "chunks n [] = []"
  by (simp add: chunks.simps)

lemma concat_chunks: "0 < n \<Longrightarrow> concat (chunks n xs) = xs"
proof (induction n xs rule: chunks.induct)
  case (1 n xs)
  then show ?case by (cases "xs = []") (simp_all add: chunks.simps [of n xs])
qed

lemma chunks_bounds: "c \<in> set (chunks n xs) \<Longrightarrow> c \<noteq> [] \<and> length c \<le> n"
proof (induction n xs rule: chunks.induct)
  case (1 n xs)
  show ?case
  proof (cases "xs = [] \<or> n = 0")
    case True
    then show ?thesis using 1(2) by (subst (asm) chunks.simps) simp
  next
    case False
    then have "c = take n xs \<or> c \<in> set (chunks n (drop n xs))"
      using 1(2) by (subst (asm) chunks.simps) simp
    with False 1(1) show ?thesis by auto
  qed
qed

lemma length_chunks: "0 < n \<Longrightarrow> length (chunks n xs) = (length xs + n - 1) div n"
proof (induction n xs rule: chunks.induct)
  case (1 n xs)
  consider "xs = []" | "xs \<noteq> []" "length xs \<le> n" | "n < length xs" by force
  then show ?case
  proof cases
    case 1
    then have "chunks n xs = []" by simp
    with 1 "1.prems" show ?thesis by simp
  next
    case 2
    then have eq: "length xs + n - 1 = (length xs - 1) + n" by (cases xs) simp_all
    have "(length xs - 1) div n = 0" using 2 by (cases xs) simp_all
    then have q: "(length xs + n - 1) div n = 1"
      unfolding eq using "1.prems" div_add_self2 [of n "length xs - 1"] by linarith
    have "chunks n xs = [xs]" using 2 "1.prems" by (simp add: chunks.simps [of n xs])
    then show ?thesis using q by simp
  next
    case 3
    then have eq: "length xs + n - 1 = (length (drop n xs) + n - 1) + n" by simp
    have "(length xs + n - 1) div n = Suc ((length (drop n xs) + n - 1) div n)"
      unfolding eq using "1.prems" div_add_self2 [of n "length (drop n xs) + n - 1"] by linarith
    moreover have "xs \<noteq> []" using 3 by auto
    moreover have "length (chunks n xs) = Suc (length (chunks n (drop n xs)))"
      using \<open>xs \<noteq> []\<close> "1.prems" by (subst chunks.simps) simp
    moreover have "length (chunks n (drop n xs)) = (length (drop n xs) + n - 1) div n"
      using "1.IH" \<open>xs \<noteq> []\<close> "1.prems" by blast
    ultimately show ?thesis by linarith
  qed
qed

end
