(* ===== verification/HallTypes.thy ===== *)
theory HallTypes
  imports Prelude Complex_Main
begin

text \<open>
  Data of the hall-pass application (\<^verbatim>\<open>apps/web/src/lib/hallPasses.ts\<close>,
  \<^verbatim>\<open>hallPassPaging.ts\<close>) and of the tables behind it (\<^verbatim>\<open>db/migrations\<close>):
  the rows, the registry state threaded through every operation, the write fence and
  the way a JavaScript number reaches a query.

  Identifiers (uuid) are opaque: the code only compares them, so they are numbers here,
  and \<open>gen_random_uuid()\<close> hands out the next unused one. Instants are integers
  (milliseconds). The ticket-number sequence is a counter that a rolled back
  transaction does not rewind.
\<close>

type_synonym uuid = nat
type_synonym instant = int
type_synonym byte = "8 word"

datatype email_delivery = Not_sent | Sent | Failed

datatype redeem_status = Valid | Used | Invalid

record hall_pass =
  pass_id :: uuid
  ticket_number :: nat
  token :: string
  guest_name :: "string option"
  invite_from :: "string option"
  created_by :: "string option"
  created_at :: instant
  used_at :: "instant option"
  used_by :: "string option"
  invalidated_at :: "instant option"
  invalidated_by :: "string option"
  email_recipient :: "string option"
  email_status :: email_delivery
  email_sent_at :: "instant option"
  email_error :: "string option"

record redeem_result =
  result_id :: "uuid option"
  result_ticket_number :: "nat option"
  result_guest_name :: "string option"
  result_status :: redeem_status
  result_used_at :: "instant option"

record scan_attempt =
  attempt_id :: uuid
  attempt_pass_id :: "uuid option"
  attempt_token :: string
  scanner_email :: "string option"
  attempt_result :: redeem_status
  scanned_at :: instant

record ticket_availability =
  available_limit :: "nat option"
  issued_count :: nat
  remaining_count :: "int option"

record ticket_settings_row =
  ticket_limit :: "nat option"
  settings_updated_by :: "string option"
  settings_updated_at :: instant

text \<open>
  The database. \<open>fence\<close> is \<open>None\<close> when the table \<^verbatim>\<open>legacy_write_fence\<close> does
  not exist, \<open>Some None\<close> when it has no row, \<open>Some (Some f)\<close> for its row's
  \<open>frozen\<close> flag.
\<close>

record hall_db =
  hall_passes :: "hall_pass list"
  ticket_settings :: "ticket_settings_row option"
  scan_attempts :: "scan_attempt list"
  ticket_seq :: nat
  next_uuid :: uuid
  fence :: "bool option option"

datatype db_error =
    Legacy_writes_frozen
  | Token_not_unique
  | Integer_out_of_range
  | Invalid_number_parameter
  | Invalid_uuid

text \<open>
  The statement triggers of migration 011 raise on every insert, update or delete of the
  pass, scan and settings tables while the fence is frozen, whatever rows the statement
  would touch.
\<close>

definition writes_frozen :: "hall_db \<Rightarrow> bool" where
  "writes_frozen db = (fence db = Some (Some True))"

definition fenced :: "hall_db \<Rightarrow> ('a \<times> hall_db) \<Rightarrow> (db_error, 'a) result \<times> hall_db" where
  "fenced db w = (if writes_frozen db then (Inl Legacy_writes_frozen, db) else (Inr (fst w), snd w))"

section \<open>Rows selected and updated by a condition\<close>

definition update_where :: "('r \<Rightarrow> bool) \<Rightarrow> ('r \<Rightarrow> 'r) \<Rightarrow> 'r list \<Rightarrow> 'r list" where
  "update_where P f rows = map (\<lambda>r. if P r then f r else r) rows"

text \<open>\<open>update ... where P returning *\<close>: the rows the statement changed, after the change.\<close>

definition returning :: "('r \<Rightarrow> bool) \<Rightarrow> ('r \<Rightarrow> 'r) \<Rightarrow> 'r list \<Rightarrow> 'r list" where
  "returning P f rows = map f (filter P rows)"

lemma length_update_where [simp]: "length (update_where P f rows) = length rows"
  by (simp add: update_where_def)

lemma update_where_Nil [simp]: "update_where P f [] = []"
  by (simp add: update_where_def)

lemma set_update_where:
  "set (update_where P f rows) = f ` {r \<in> set rows. P r} \<union> {r \<in> set rows. \<not> P r}"
  by (auto simp: update_where_def)

lemma in_update_where_cases:
  assumes "r' \<in> set (update_where P f rows)"
  obtains r where "r \<in> set rows" "P r" "r' = f r"
    | "r' \<in> set rows" "\<not> P r'"
  using assms by (auto simp: set_update_where)

lemma map_update_where:
  "(\<And>r. P r \<Longrightarrow> k (f r) = k r) \<Longrightarrow> map k (update_where P f rows) = map k rows"
  by (auto simp: update_where_def)

lemma update_where_none: "(\<And>r. r \<in> set rows \<Longrightarrow> \<not> P r) \<Longrightarrow> update_where P f rows = rows"
  by (induction rows) (auto simp: update_where_def)

lemma update_where_idem:
  assumes "\<And>r. P r \<Longrightarrow> f (f r) = f r"
  shows "update_where P f (update_where P f rows) = update_where P f rows"
  using assms by (auto simp: update_where_def)

lemma filter_update_where_length:
  "(\<And>r. r \<in> set rows \<Longrightarrow> P r \<Longrightarrow> Q (f r) = Q r) \<Longrightarrow>
    length (filter Q (update_where P f rows)) = length (filter Q rows)"
  by (induction rows) (auto simp: update_where_def)

lemma returning_subset: "set (returning P f rows) \<subseteq> set (update_where P f rows)"
  by (auto simp: returning_def set_update_where)

section \<open>JavaScript numbers\<close>

text \<open>
  The value of \<open>Number(s)\<close>: not every string is a number, and \<open>Infinity\<close> is one.
\<close>

datatype js_number = NaN | Pos_infinity | Neg_infinity | Finite rat

fun js_floor :: "js_number \<Rightarrow> js_number" where
  "js_floor (Finite q) = Finite (of_int \<lfloor>q\<rfloor>)"
| "js_floor x = x"

text \<open>\<open>Math.max(1, x)\<close>.\<close>

fun js_max_one :: "js_number \<Rightarrow> js_number" where
  "js_max_one NaN = NaN"
| "js_max_one Pos_infinity = Pos_infinity"
| "js_max_one Neg_infinity = Finite 1"
| "js_max_one (Finite q) = Finite (max 1 q)"

end
