(* ===== verification/Tenancy.thy ===== *)
theory Tenancy
  imports HallTypes
begin

text \<open>
  The platform's domain rules, \<^verbatim>\<open>packages/domain/src/index.ts\<close>: domain errors,
  actors and tenants, the capability check and the recent-authentication check, with the
  membership lookup \<open>tenant\<close> of \<^verbatim>\<open>packages/persistence/src/index.ts\<close>. A domain error
  is kept as its status and its code; its message is left out.
\<close>

datatype domain_error = Domain_error nat string

type_synonym 'a outcome = "(domain_error, 'a) result"

definition notFound :: domain_error where
  "notFound = Domain_error 404 ''NOT_FOUND''"

text \<open>A guard of a handler: the error is thrown unless the condition holds.\<close>

definition ensure :: "bool \<Rightarrow> domain_error \<Rightarrow> 'a outcome \<Rightarrow> 'a outcome" where
  "ensure c e k = (if c then k else Inl e)"

lemma ensure_Inr [simp]: "ensure c e k = Inr x \<longleftrightarrow> c \<and> k = Inr x"
  by (simp add: ensure_def)

lemma ensure_True [simp]: "ensure True e k = k"
  by (simp add: ensure_def)

section \<open>Tenants and capabilities\<close>

datatype role = Owner | Co_owner | Planner | Security | Media_contributor

datatype capability =
  Cap_read | Cap_edit | Cap_publish | Cap_members | Cap_guests | Cap_media | Cap_scan | Cap_primary

record actor =
  actor_id :: uuid
  session_of :: uuid
  actor_email :: string
  actor_verified :: bool
  reauthenticated_at :: instant

record tenant_context =
  tenant_actor :: uuid
  tenant_role :: role
  recovery_hold :: bool
  tenant_events :: "uuid list"
  tenant_albums :: "uuid list"

record member_row =
  member_user :: uuid
  member_role :: role
  member_events :: "uuid list"
  member_albums :: "uuid list"

definition capability_granted :: "tenant_context \<Rightarrow> capability \<Rightarrow> uuid option \<Rightarrow> bool" where
  "capability_granted t c resource =
     (let own = (tenant_role t = Owner \<or> tenant_role t = Co_owner);
          assigned = (\<lambda>ids. case resource of None \<Rightarrow> False | Some r \<Rightarrow> r \<in> set ids)
      in case c of
           Cap_primary \<Rightarrow> tenant_role t = Owner
         | Cap_read \<Rightarrow> True
         | Cap_publish \<Rightarrow> own
         | Cap_members \<Rightarrow> own
         | Cap_edit \<Rightarrow> own \<or> tenant_role t = Planner
         | Cap_guests \<Rightarrow> own \<or> tenant_role t = Planner
         | Cap_media \<Rightarrow> own \<or> (tenant_role t \<in> {Planner, Media_contributor} \<and> assigned (tenant_albums t))
         | Cap_scan \<Rightarrow> own \<or> (tenant_role t = Security \<and> assigned (tenant_events t)))"

definition requireCapability :: "tenant_context \<Rightarrow> capability \<Rightarrow> uuid option \<Rightarrow> unit outcome" where
  "requireCapability t c resource =
     (if recovery_hold t \<and> c \<in> {Cap_primary, Cap_publish, Cap_members}
      then Inl (Domain_error 409 ''OWNERSHIP_REVIEW_REQUIRED'')
      else if \<not> capability_granted t c resource then Inl notFound
      else Inr ())"

definition requireRecentAuthentication :: "actor \<Rightarrow> instant \<Rightarrow> unit outcome" where
  "requireRecentAuthentication a now =
     (if 15 * 60 * 1000 < now - reauthenticated_at a then Inl (Domain_error 403 ''REAUTH_REQUIRED'') else Inr ())"

text \<open>The membership of an actor; a deleted wedding has no tenants.\<close>

definition tenant :: "bool \<Rightarrow> bool \<Rightarrow> member_row list \<Rightarrow> uuid \<Rightarrow> tenant_context outcome" where
  "tenant deleted hold members user =
     (case List.find (\<lambda>m. member_user m = user) members of
        None \<Rightarrow> Inl notFound
      | Some m \<Rightarrow> ensure (\<not> deleted) notFound
          (Inr \<lparr>tenant_actor = user, tenant_role = member_role m, recovery_hold = hold,
             tenant_events = member_events m, tenant_albums = member_albums m\<rparr>))"

text \<open>\<open>requireCapability(await this.store.tenant(...), ...)\<close>, as the handlers start.\<close>

definition authorise ::
  "bool \<Rightarrow> bool \<Rightarrow> member_row list \<Rightarrow> uuid \<Rightarrow> capability \<Rightarrow> uuid option \<Rightarrow> unit outcome" where
  "authorise deleted hold members user c resource =
     (case tenant deleted hold members user of Inl e \<Rightarrow> Inl e | Inr t \<Rightarrow> requireCapability t c resource)"

section \<open>Separation of duties\<close>

lemma requireCapability_Inr: "requireCapability t c r = Inr () \<longleftrightarrow>
    \<not> (recovery_hold t \<and> c \<in> {Cap_primary, Cap_publish, Cap_members}) \<and> capability_granted t c r"
  by (simp add: requireCapability_def)

text \<open>What each role may do, without the hold.\<close>

fun role_may :: "role \<Rightarrow> capability \<Rightarrow> bool \<Rightarrow> bool" where
  "role_may Owner c assigned = True"
| "role_may Co_owner c assigned = (c \<noteq> Cap_primary)"
| "role_may Planner c assigned = (c \<in> {Cap_read, Cap_edit, Cap_guests} \<or> (c = Cap_media \<and> assigned))"
| "role_may Security c assigned = (c = Cap_read \<or> (c = Cap_scan \<and> assigned))"
| "role_may Media_contributor c assigned = (c = Cap_read \<or> (c = Cap_media \<and> assigned))"

definition assigned_to :: "tenant_context \<Rightarrow> capability \<Rightarrow> uuid option \<Rightarrow> bool" where
  "assigned_to t c resource =
     (case resource of None \<Rightarrow> False
      | Some r \<Rightarrow> r \<in> set (if c = Cap_media then tenant_albums t else tenant_events t))"

lemma capability_granted_role:
  "capability_granted t c r = role_may (tenant_role t) c (assigned_to t c r)"
  by (cases "tenant_role t"; cases c) (simp_all add: capability_granted_def assigned_to_def Let_def)

end
