(* ===== verification/ApiRoutes.thy ===== *)
theory ApiRoutes
  imports Tenancy
begin

text \<open>
  The platform's HTTP application, \<open>Application.dispatch\<close> of
  \<^verbatim>\<open>apps/api/src/application.ts\<close>: the gates in front of every request, and the routes in
  the order of the code. A request is answered with a trace of what it counted, authenticated and
  called, and the status it sent. Schemas, cookies, credentials and the handlers' own
  failures are parameters; a handler is known by the name of its repository and method.
\<close>

section \<open>Requests and answers\<close>

record api_request =
  http_method :: string
  parts :: "string list"
  origin_header :: "string option"
  csrf_header :: "string option"
  body_type :: string
  idempotency_key :: "string option"
  valid_body :: "string \<Rightarrow> bool"
  valid_query :: bool
  declared_length :: "int option"
  sent_length :: int

record api_env =
  public_origin :: string
  wired :: "string \<Rightarrow> bool"
  webhook_ready :: bool
  webhook_signed :: bool
  limit_left :: "string \<Rightarrow> bool"
  staff_session :: "uuid option"
  guest_cookie :: "uuid option"
  upload_cookie :: "uuid option"
  read_uuid :: "string \<Rightarrow> uuid option"
  slug_valid :: "string \<Rightarrow> bool"
  failing :: "string \<Rightarrow> domain_error option"
  archived_site :: bool
  grants_party :: bool
  promised_bytes :: "uuid \<Rightarrow> int"
  active_uploads :: nat

datatype api_event = Counted string | Signed_in uuid | Guest_in uuid | Upload_in uuid | Called string "uuid list"

datatype api_reply = Failed domain_error | Sent nat | File_sent

type_synonym answer = "api_event list \<times> api_reply"

text \<open>Requests carry the parts of their path, which dispatch computes from it first.\<close>

definition path_parts :: "string \<Rightarrow> string list" where
  "path_parts p = filter (\<lambda>s. s \<noteq> []) (js_split (CHR ''/'')
     (if starts_with ''/api/v1/'' p then drop 8 p else if starts_with ''/api/v1'' p then drop 7 p else p))"

definition part :: "api_request \<Rightarrow> nat \<Rightarrow> string option" where
  "part q n = (if n < length (parts q) then Some (parts q ! n) else None)"

definition at_part :: "api_request \<Rightarrow> nat \<Rightarrow> string \<Rightarrow> bool" where
  "at_part q n s = (part q n = Some s)"

definition parts_count :: "api_request \<Rightarrow> nat \<Rightarrow> bool" where
  "parts_count q n = (length (parts q) = n)"

definition via :: "api_request \<Rightarrow> string \<Rightarrow> bool" where
  "via q m = (http_method q = m)"

section \<open>Steps of an answer\<close>

definition fail :: "domain_error \<Rightarrow> answer" where
  "fail e = ([], Failed e)"

definition sent :: "nat \<Rightarrow> answer" where
  "sent n = ([], Sent n)"

definition sent_file :: answer where
  "sent_file = ([], File_sent)"

definition after_event :: "api_event \<Rightarrow> answer \<Rightarrow> answer" where
  "after_event v a = (v # fst a, snd a)"

definition invalid :: domain_error where
  "invalid = Domain_error 400 ''VALIDATION_ERROR''"

definition call :: "api_env \<Rightarrow> string \<Rightarrow> uuid list \<Rightarrow> answer \<Rightarrow> answer" where
  "call env name ids a = after_event (Called name ids) (case failing env name of Some e \<Rightarrow> fail e | None \<Rightarrow> a)"

definition limited :: "api_env \<Rightarrow> string \<Rightarrow> answer \<Rightarrow> answer" where
  "limited env bucket a = after_event (Counted bucket)
     (if limit_left env bucket then a else fail (Domain_error 429 ''RATE_LIMITED''))"

definition parsed :: "api_request \<Rightarrow> string \<Rightarrow> answer \<Rightarrow> answer" where
  "parsed q schema a = (if valid_body q schema then a else fail invalid)"

definition paged :: "api_request \<Rightarrow> answer \<Rightarrow> answer" where
  "paged q a = (if valid_query q then a else fail invalid)"

definition with_id :: "api_env \<Rightarrow> api_request \<Rightarrow> nat \<Rightarrow> (uuid \<Rightarrow> answer) \<Rightarrow> answer" where
  "with_id env q n k =
     (case part q n of
        None \<Rightarrow> fail invalid
      | Some s \<Rightarrow> (case read_uuid env s of None \<Rightarrow> fail invalid | Some i \<Rightarrow> k i))"

definition with_slug :: "api_env \<Rightarrow> api_request \<Rightarrow> nat \<Rightarrow> answer \<Rightarrow> answer" where
  "with_slug env q n a =
     (case part q n of None \<Rightarrow> fail invalid | Some s \<Rightarrow> if slug_valid env s then a else fail invalid)"

definition with_choice :: "api_request \<Rightarrow> nat \<Rightarrow> string list \<Rightarrow> answer \<Rightarrow> answer" where
  "with_choice q n xs a = (case part q n of None \<Rightarrow> fail invalid | Some s \<Rightarrow> if s \<in> set xs then a else fail invalid)"

definition keyed :: "api_env \<Rightarrow> api_request \<Rightarrow> answer \<Rightarrow> answer" where
  "keyed env q a =
     (case idempotency_key q of
        None \<Rightarrow> fail invalid
      | Some s \<Rightarrow> (case read_uuid env s of None \<Rightarrow> fail invalid | Some _ \<Rightarrow> a))"

definition as_staff :: "api_env \<Rightarrow> answer \<Rightarrow> answer" where
  "as_staff env a =
     (case staff_session env of
        None \<Rightarrow> fail (Domain_error 401 ''UNAUTHENTICATED'')
      | Some u \<Rightarrow> after_event (Signed_in u) a)"

definition as_guest :: "api_env \<Rightarrow> answer \<Rightarrow> answer" where
  "as_guest env a =
     (case guest_cookie env of
        None \<Rightarrow> fail (Domain_error 401 ''GUEST_ACCESS_REQUIRED'')
      | Some g \<Rightarrow> after_event (Guest_in g) a)"

definition as_upload :: "api_env \<Rightarrow> answer \<Rightarrow> answer" where
  "as_upload env a =
     (case upload_cookie env of
        None \<Rightarrow> fail (Domain_error 401 ''UPLOAD_ACCESS_REQUIRED'')
      | Some l \<Rightarrow> after_event (Upload_in l) a)"

text \<open>\<open>queued\<close>: the answer to a request that started a job names the job.\<close>

definition queued :: "api_env \<Rightarrow> string \<Rightarrow> uuid list \<Rightarrow> answer" where
  "queued env name ids = call env name ids (call env ''store.jobReferences'' ids (sent 202))"

text \<open>The transfer of a file, once its size was promised.\<close>

definition transfer_file :: "api_env \<Rightarrow> api_request \<Rightarrow> string \<Rightarrow> uuid list \<Rightarrow> answer" where
  "transfer_file env q bucket ids = call env ''media.expectedUpload'' ids
     (if (case declared_length q of None \<Rightarrow> False | Some n \<Rightarrow> promised_bytes env (last ids) < n)
      then fail (Domain_error 413 ''FILE_TOO_LARGE'')
      else if 2 \<le> active_uploads env then fail (Domain_error 429 ''UPLOAD_BUSY'')
      else limited env bucket
        (if promised_bytes env (last ids) < sent_length q then fail (Domain_error 413 ''FILE_TOO_LARGE'')
         else call env ''media.receive'' ids (sent 202)))"

section \<open>Routes without a session\<close>

definition support_routes :: "api_env \<Rightarrow> api_request \<Rightarrow> answer \<Rightarrow> answer" where
  "support_routes env q next =
     (if at_part q 0 ''support'' \<and> wired env ''operator'' then
        if via q ''GET'' then sent 200
        else if via q ''POST'' then limited env ''support'' (parsed q ''supportReportSchema'' (call env ''operator.submitReport'' [] (sent 200)))
        else next
      else next)"

definition identity_routes :: "api_env \<Rightarrow> api_request \<Rightarrow> answer \<Rightarrow> answer" where
  "identity_routes env q next =
     (if at_part q 0 ''identity'' then
        limited env (''identity:'' @ (case part q 1 of None \<Rightarrow> ''undefined'' | Some s \<Rightarrow> s))
          (if at_part q 1 ''register'' \<and> via q ''POST''
           then parsed q ''registerSchema'' (call env ''store.register'' [] (sent 202))
           else if at_part q 1 ''resend-verification'' \<and> via q ''POST''
           then parsed q ''recoverSchema'' (call env ''store.resendVerification'' [] (sent 202))
           else if at_part q 1 ''verify'' \<and> via q ''POST''
           then parsed q ''tokenSchema'' (call env ''store.verify'' [] (sent 200))
           else if at_part q 1 ''login'' \<and> via q ''POST''
           then parsed q ''loginSchema'' (call env ''store.login'' [] (sent 200))
           else if at_part q 1 ''recover'' \<and> via q ''POST''
           then parsed q ''recoverSchema'' (call env ''store.recover'' [] (sent 202))
           else if at_part q 1 ''reset'' \<and> via q ''POST''
           then parsed q ''resetSchema'' (call env ''store.reset'' [] (sent 200))
           else if at_part q 1 ''logout'' \<and> via q ''POST'' then call env ''store.logout'' [] (sent 200)
           else as_staff env
             (if at_part q 1 ''session'' \<and> via q ''GET'' then sent 200
              else if at_part q 1 ''deletion'' \<and> via q ''POST'' \<and> wired env ''retention''
              then parsed q ''accountDeletion'' (call env ''retention.requestAccountDeletion'' [] (sent 200))
              else if at_part q 1 ''reauthenticate'' \<and> via q ''POST''
              then parsed q ''reauthSchema'' (call env ''store.reauthenticate'' [] (sent 200))
              else next))
      else next)"

definition public_routes :: "api_env \<Rightarrow> api_request \<Rightarrow> answer \<Rightarrow> answer" where
  "public_routes env q next =
     (if at_part q 0 ''public'' \<and> at_part q 1 ''weddings'' then
        with_slug env q 2
          (let site = call env ''publication.publicSite'' [];
               unarchived = (\<lambda>a. if archived_site env then fail notFound else a)
           in if at_part q 3 ''media'' \<and> parts_count q 5 \<and> via q ''GET'' \<and> wired env ''media''
              then with_id env q 4 (\<lambda>i. site (call env ''media.readPublic'' [i] sent_file))
              else if parts_count q 3 \<and> via q ''GET'' then site (sent 200)
              else if at_part q 3 ''albums'' \<and> via q ''GET''
              then (if part q 4 = None then paged q (site (unarchived (sent 200)))
                    else with_id env q 4 (\<lambda>_. paged q (site (unarchived (sent 200)))))
              else if at_part q 3 ''posts'' \<and> parts_count q 4 \<and> via q ''GET''
              then paged q (site (unarchived (sent 200)))
              else if at_part q 3 ''access'' \<and> via q ''POST''
              then limited env ''site-access'' (parsed q ''tokenSchema'' (call env ''publication.exchangeShared'' [] (sent 200)))
              else if at_part q 3 ''posts'' \<and> parts_count q 5 \<and> via q ''GET''
              then with_slug env q 4 (call env ''publication.publicPost'' [] (sent 200))
              else next)
      else next)"

definition guest_routes :: "api_env \<Rightarrow> api_request \<Rightarrow> answer \<Rightarrow> answer" where
  "guest_routes env q next =
     (if at_part q 0 ''guest'' \<and> wired env ''guests'' then
        if at_part q 1 ''access'' \<and> via q ''POST''
        then limited env ''guest-access'' (parsed q ''guestAccessSchema'' (call env ''guests.exchange'' [] (sent 200)))
        else if at_part q 1 ''request'' \<and> via q ''POST''
        then limited env ''guest-request'' (parsed q ''accessRequestSchema'' (call env ''guests.request'' [] (sent 200)))
        else if at_part q 1 ''logout'' \<and> via q ''POST'' then call env ''guests.logout'' [] (sent 200)
        else as_guest env
          (if wired env ''passes'' \<and> at_part q 1 ''passes'' \<and> parts_count q 2 \<and> via q ''GET''
           then call env ''passes.guestList'' [] (sent 200)
           else if wired env ''passes'' \<and> at_part q 1 ''passes'' \<and> parts_count q 4 \<and> via q ''GET''
           then with_choice q 3 [''jpeg'', ''pdf''] (with_id env q 2 (\<lambda>i. call env ''passes.guestDownload'' [i] sent_file))
           else if at_part q 1 ''party'' \<and> via q ''GET'' then call env ''guests.party'' [] (sent 200)
           else if at_part q 1 ''events'' \<and> at_part q 3 ''rsvp'' \<and> via q ''POST''
           then with_id env q 2 (\<lambda>e. parsed q ''rsvpSchema'' (keyed env q (call env ''guests.submit'' [e] (sent 200))))
           else next)
      else next)"

definition upload_routes :: "api_env \<Rightarrow> api_request \<Rightarrow> answer \<Rightarrow> answer" where
  "upload_routes env q next =
     (if at_part q 0 ''uploads'' \<and> wired env ''uploads'' \<and> wired env ''media'' then
        if at_part q 1 ''access'' \<and> via q ''POST''
        then limited env ''upload-access'' (parsed q ''uploadAccessSchema'' (call env ''uploads.exchange'' [] (sent 200)))
        else if at_part q 1 ''from-rsvp'' \<and> via q ''POST'' \<and> wired env ''guests''
        then limited env ''upload-session'' (as_guest env (call env ''uploads.fromGuest'' [] (sent 200)))
        else if at_part q 1 ''logout'' \<and> via q ''POST'' then call env ''uploads.logout'' [] (sent 200)
        else as_upload env
          (if at_part q 1 ''session'' \<and> via q ''GET'' then sent 200
           else if at_part q 1 ''media'' \<and> parts_count q 2 \<and> via q ''GET'' then call env ''media.uploadStatus'' [] (sent 200)
           else if at_part q 1 ''intents'' \<and> via q ''POST''
           then limited env ''upload-intent'' (parsed q ''uploadIntentSchema'' (call env ''media.intent'' [] (sent 201)))
           else if at_part q 1 ''media'' \<and> at_part q 3 ''bytes'' \<and> via q ''PUT''
           then with_id env q 2 (\<lambda>i. transfer_file env q ''upload-bytes'' [i])
           else next)
      else next)"

definition operator_routes :: "api_env \<Rightarrow> api_request \<Rightarrow> answer \<Rightarrow> answer" where
  "operator_routes env q next =
     (if at_part q 0 ''operator'' \<and> wired env ''operator'' then
        if parts_count q 1 \<and> via q ''GET'' then paged q (call env ''operator.dashboard'' [] (sent 200))
        else if at_part q 1 ''accounts'' \<and> at_part q 3 ''recover'' \<and> via q ''POST''
        then parsed q ''accountRecovery'' (with_id env q 2 (\<lambda>u. call env ''operator.recoverAccount'' [u] (sent 200)))
        else if at_part q 1 ''media'' \<and> via q ''GET'' then with_id env q 2 (\<lambda>g. call env ''operator.readMedia'' [g] sent_file)
        else if at_part q 1 ''reports'' \<and> via q ''POST''
        then parsed q ''reportState'' (with_id env q 2 (\<lambda>r. call env ''operator.resolveReport'' [r] (sent 200)))
        else if at_part q 1 ''weddings'' then with_id env q 2 (\<lambda>w.
          if parts_count q 3 \<and> via q ''GET'' then call env ''operator.wedding'' [w] (sent 200)
          else if at_part q 3 ''ownership-review'' \<and> via q ''POST''
          then parsed q ''ownershipReview'' (call env ''operator.resolveOwnership'' [w] (sent 200))
          else if at_part q 3 ''admission-holds'' \<and> at_part q 5 ''resolve'' \<and> via q ''POST''
          then parsed q ''resolveHold'' (with_id env q 4 (\<lambda>p. call env ''operator.resolveAdmissionHold'' [w, p] (sent 200)))
          else if at_part q 3 ''controls'' \<and> via q ''POST''
          then parsed q ''operatorControlsSchema'' (call env ''operator.controls'' [w] (sent 200))
          else if at_part q 3 ''renew'' \<and> via q ''POST''
          then parsed q ''operatorRenewalSchema'' (call env ''operator.renew'' [w] (sent 200))
          else if at_part q 3 ''media'' \<and> via q ''POST''
          then parsed q ''operatorMediaSchema'' (call env ''operator.grantMedia'' [w] (sent 200))
          else next)
        else next
      else next)"

end
