(* ===== verification/WeddingRoutes.thy ===== *)
theory WeddingRoutes
  imports ApiRoutes
begin

text \<open>
  The routes under \<^verbatim>\<open>/api/v1/weddings\<close>, feature by feature in the order of
  \<^verbatim>\<open>apps/api/src/application.ts\<close>, and \<open>dispatch\<close> itself. A feature whose routes do
  not match hands on to the next one; an identifier in the path is parsed where the code
  parses it, so a malformed one is refused before later routes are tried.
\<close>

definition workspace_routes :: "api_env \<Rightarrow> api_request \<Rightarrow> uuid \<Rightarrow> answer \<Rightarrow> answer" where
  "workspace_routes env q w next =
     (if at_part q 2 ''jobs'' \<and> parts_count q 4 \<and> via q ''GET''
      then with_id env q 3 (\<lambda>j. call env ''store.readJob'' [w, j] (sent 200))
      else if parts_count q 2 \<and> via q ''GET'' then call env ''store.readWedding'' [w] (sent 200)
      else if parts_count q 2 \<and> via q ''PATCH'' then parsed q ''weddingPatchSchema'' (call env ''store.patchWedding'' [w] (sent 200))
      else if parts_count q 2 \<and> via q ''DELETE'' then parsed q ''deleteSchema'' (call env ''store.deleteWedding'' [w] (sent 200))
      else next)"

definition notification_routes :: "api_env \<Rightarrow> api_request \<Rightarrow> uuid \<Rightarrow> answer \<Rightarrow> answer" where
  "notification_routes env q w next =
     (if wired env ''notifications'' \<and> at_part q 2 ''notifications'' then
        if parts_count q 3 \<and> via q ''GET'' then paged q (call env ''notifications.list'' [w] (sent 200))
        else if at_part q 4 ''retry'' \<and> via q ''POST''
        then parsed q ''retryNotification'' (with_id env q 3 (\<lambda>n. keyed env q (queued env ''notifications.retry'' [w, n])))
        else next
      else next)"

definition retention_routes :: "api_env \<Rightarrow> api_request \<Rightarrow> uuid \<Rightarrow> answer \<Rightarrow> answer" where
  "retention_routes env q w next =
     (if wired env ''retention'' \<and> at_part q 2 ''retention'' then
        if parts_count q 3 \<and> via q ''GET'' then paged q (call env ''retention.status'' [w] (sent 200))
        else if at_part q 3 ''review'' \<and> via q ''POST'' then call env ''retention.review'' [w] (sent 200)
        else if at_part q 3 ''exports'' \<and> parts_count q 4 \<and> via q ''POST''
        then parsed q ''archiveExport'' (keyed env q (queued env ''retention.export'' [w]))
        else if at_part q 3 ''exports'' \<and> at_part q 5 ''retry'' \<and> via q ''POST''
        then with_id env q 4 (\<lambda>x. call env ''retention.retry'' [w, x] (sent 202))
        else if at_part q 3 ''exports'' \<and> at_part q 5 ''access'' \<and> via q ''GET''
        then with_id env q 4 (\<lambda>x. call env ''retention.download'' [w, x] (sent 200))
        else if at_part q 3 ''exports'' \<and> parts_count q 5 \<and> via q ''GET''
        then with_id env q 4 (\<lambda>x. call env ''retention.download'' [w, x] sent_file)
        else next
      else next)"

definition ownership_routes :: "api_env \<Rightarrow> api_request \<Rightarrow> uuid \<Rightarrow> answer \<Rightarrow> answer" where
  "ownership_routes env q w next =
     (if at_part q 2 ''recover'' \<and> via q ''POST'' then call env ''store.recoverWedding'' [w] (sent 200)
      else if at_part q 2 ''transfer'' \<and> via q ''POST'' then parsed q ''transferSchema'' (call env ''store.transfer'' [w] (sent 200))
      else next)"

definition pass_routes :: "api_env \<Rightarrow> api_request \<Rightarrow> uuid \<Rightarrow> answer \<Rightarrow> answer" where
  "pass_routes env q w next =
     (if wired env ''passes'' \<and> at_part q 2 ''passes'' then
        if at_part q 3 ''eligible'' \<and> parts_count q 4 \<and> via q ''GET''
        then paged q (call env ''passes.listEligible'' [w] (sent 200))
        else if parts_count q 3 \<and> via q ''GET'' then paged q (call env ''passes.list'' [w] (sent 200))
        else if parts_count q 3 \<and> via q ''POST''
        then parsed q ''passIssueSchema'' (keyed env q (call env ''passes.issue'' [w] (sent 201)))
        else with_id env q 3 (\<lambda>p.
          if at_part q 4 ''recipients'' \<and> via q ''GET'' then call env ''passes.deliveryRecipients'' [w, p] (sent 200)
          else if at_part q 4 ''send'' \<and> via q ''POST''
          then parsed q ''passSend'' (keyed env q (call env ''passes.send'' [w, p] (sent 200)))
          else if at_part q 4 ''revoke'' \<and> via q ''POST''
          then parsed q ''passActionSchema'' (keyed env q (call env ''passes.revoke'' [w, p] (sent 200)))
          else if at_part q 4 ''reissue'' \<and> via q ''POST''
          then parsed q ''passActionSchema'' (keyed env q (call env ''passes.reissue'' [w, p] (sent 200)))
          else if at_part q 5 ''retry'' \<and> via q ''POST''
          then with_choice q 4 [''jpeg'', ''pdf''] (call env ''passes.retryTicket'' [w, p] (sent 202))
          else if parts_count q 5 \<and> via q ''GET''
          then with_choice q 4 [''jpeg'', ''pdf''] (call env ''passes.download'' [w, p] sent_file)
          else next)
      else next)"

definition door_routes :: "api_env \<Rightarrow> api_request \<Rightarrow> uuid \<Rightarrow> answer \<Rightarrow> answer" where
  "door_routes env q w next =
     (if wired env ''passes'' \<and> at_part q 2 ''events'' \<and> at_part q 4 ''redeem'' \<and> via q ''POST''
      then with_id env q 3 (\<lambda>e. parsed q ''redemptionSchema'' (keyed env q (call env ''passes.redeem'' [w, e] (sent 200))))
      else if wired env ''passes'' \<and> at_part q 2 ''events'' \<and> at_part q 4 ''operational-list'' \<and> via q ''GET''
      then with_id env q 3 (\<lambda>e. call env ''passes.operationalList'' [w, e] (sent 200))
      else if wired env ''passes'' \<and> at_part q 2 ''admission-corrections'' \<and> via q ''POST''
      then parsed q ''admissionCorrectionSchema'' (keyed env q (call env ''passes.correction'' [w] (sent 200)))
      else next)"

text \<open>Approving a request for access also issues the new household's grant.\<close>

definition resolve_request :: "api_env \<Rightarrow> uuid \<Rightarrow> uuid \<Rightarrow> answer" where
  "resolve_request env w r = call env ''guests.resolveRequest'' [w, r]
     (if grants_party env then call env ''guests.issueGrant'' [w] (sent 200) else sent 200)"

definition guest_record_routes :: "api_env \<Rightarrow> api_request \<Rightarrow> uuid \<Rightarrow> answer \<Rightarrow> answer" where
  "guest_record_routes env q w next =
     (if wired env ''guests'' \<and> at_part q 2 ''guests'' then
        if at_part q 3 ''requests'' \<and> parts_count q 4 \<and> via q ''GET''
        then paged q (call env ''guests.listRequests'' [w] (sent 200))
        else if parts_count q 3 \<and> via q ''GET'' then paged q (call env ''guests.list'' [w] (sent 200))
        else if at_part q 3 ''responses'' \<and> at_part q 4 ''export'' \<and> via q ''GET''
        then call env ''guests.rsvpExport'' [w] sent_file
        else if at_part q 3 ''export'' \<and> via q ''GET'' then call env ''guests.csvExport'' [w] sent_file
        else if at_part q 3 ''import'' \<and> via q ''POST''
        then parsed q ''importSchema'' (if at_part q 4 ''preview'' then call env ''guests.importPreview'' [w] (sent 200)
          else call env ''guests.importCommit'' [w] (sent 200))
        else if at_part q 3 ''requests'' \<and> part q 4 \<noteq> None \<and> via q ''POST''
        then parsed q ''guestRequestDecision'' (with_id env q 4 (\<lambda>r. resolve_request env w r))
        else if at_part q 3 ''grants'' \<and> part q 4 \<noteq> None \<and> via q ''DELETE''
        then with_id env q 4 (\<lambda>g. call env ''guests.revokeGrant'' [w, g] (sent 200))
        else if at_part q 3 ''parties'' \<and> part q 4 \<noteq> None \<and> at_part q 5 ''grant'' \<and> via q ''POST''
        then with_id env q 4 (\<lambda>p. parsed q ''guestGrantSchema'' (call env ''guests.issueGrant'' [w, p] (sent 200)))
        else if at_part q 3 ''parties'' \<and> part q 4 \<noteq> None \<and> at_part q 5 ''send'' \<and> via q ''POST''
        then parsed q ''guestSend'' (with_id env q 4 (\<lambda>p. keyed env q (call env ''guests.sendAccess'' [w, p] (sent 200))))
        else if parts_count q 3 \<and> via q ''POST'' then parsed q ''guestSaveSchema'' (call env ''guests.save'' [w] (sent 201))
        else if parts_count q 4 \<and> via q ''PATCH''
        then parsed q ''guestSaveSchema'' (with_id env q 3 (\<lambda>a. call env ''guests.save'' [w, a] (sent 200)))
        else if parts_count q 4 \<and> via q ''DELETE''
        then with_id env q 3 (\<lambda>a. parsed q ''revisionSchema'' (call env ''guests.remove'' [w, a] (sent 200)))
        else next
      else next)"

definition answer_routes :: "api_env \<Rightarrow> api_request \<Rightarrow> uuid \<Rightarrow> answer \<Rightarrow> answer" where
  "answer_routes env q w next =
     (if wired env ''guests'' \<and> at_part q 2 ''events'' \<and> at_part q 4 ''answers'' \<and> via q ''GET''
      then with_id env q 3 (\<lambda>e. call env ''guests.answers'' [w, e] (sent 200))
      else if wired env ''guests'' \<and> at_part q 2 ''events'' \<and> at_part q 4 ''questions'' \<and> via q ''PATCH''
      then with_id env q 3 (\<lambda>e. parsed q ''questionPolicySchema'' (call env ''guests.questions'' [w, e] (sent 200)))
      else if wired env ''guests'' \<and> at_part q 2 ''events'' \<and> at_part q 4 ''rsvp'' \<and> at_part q 6 ''approve'' \<and> via q ''POST''
      then with_id env q 3 (\<lambda>e. with_id env q 5 (\<lambda>a. parsed q ''revisionSchema''
        (call env ''guests.approve'' [w, e, a] (sent 200))))
      else next)"

definition invitation_routes :: "api_env \<Rightarrow> api_request \<Rightarrow> uuid \<Rightarrow> answer \<Rightarrow> answer" where
  "invitation_routes env q w next =
     (if wired env ''invitations'' \<and> at_part q 2 ''invitations'' then
        if parts_count q 4 \<and> at_part q 3 ''designs'' \<and> via q ''GET''
        then paged q (call env ''invitations.listDesigns'' [w] (sent 200))
        else if at_part q 3 ''catalogue'' \<and> via q ''GET'' then call env ''store.readWedding'' [w] (sent 200)
        else if at_part q 3 ''preview'' \<and> via q ''POST''
        then parsed q ''designSchema'' (call env ''invitations.preview'' [w] (sent 200))
        else if parts_count q 3 \<and> via q ''GET'' then paged q (call env ''invitations.list'' [w] (sent 200))
        else if parts_count q 3 \<and> via q ''POST''
        then parsed q ''invitationSave'' (call env ''invitations.save'' [w] (sent 200))
        else if parts_count q 4 \<and> via q ''PATCH''
        then parsed q ''invitationSave'' (with_id env q 3 (\<lambda>x. call env ''invitations.save'' [w, x] (sent 200)))
        else (let export = (if at_part q 4 ''export'' \<and> via q ''POST''
                then parsed q ''invitationExport'' (with_id env q 3 (\<lambda>x. keyed env q (queued env ''invitations.queue'' [w, x])))
                else next)
          in if at_part q 3 ''exports''
             then with_id env q 4 (\<lambda>x. with_choice q 5 [''jpeg'', ''pdf'']
               (if at_part q 6 ''retry'' \<and> via q ''POST'' then call env ''invitations.retry'' [w, x] (sent 202)
                else if via q ''GET'' then call env ''invitations.download'' [w, x] sent_file
                else export))
             else export)
      else next)"

definition concept_routes :: "api_env \<Rightarrow> api_request \<Rightarrow> uuid \<Rightarrow> answer \<Rightarrow> answer" where
  "concept_routes env q w next =
     (if at_part q 3 ''concepts'' then
        if parts_count q 4 \<and> via q ''POST''
        then parsed q ''conceptSaveSchema'' (call env ''creative.saveConcept'' [w] (sent 201))
        else with_id env q 4 (\<lambda>c.
          if parts_count q 5 \<and> via q ''PUT''
          then parsed q ''conceptSaveSchema'' (call env ''creative.saveConcept'' [w, c] (sent 200))
          else if at_part q 5 ''approve'' \<and> via q ''POST''
          then parsed q ''conceptRevisionSchema'' (call env ''creative.approve'' [w, c] (sent 200))
          else if at_part q 5 ''theme-diff'' \<and> via q ''POST''
          then parsed q ''conceptRevisionSchema'' (call env ''creative.themeDiff'' [w, c] (sent 200))
          else if at_part q 5 ''apply'' \<and> via q ''POST''
          then parsed q ''themeApply'' (call env ''creative.applyTheme'' [w, c] (sent 200))
          else if at_part q 5 ''brief'' \<and> via q ''POST''
          then parsed q ''conceptRevisionSchema'' (keyed env q (queued env ''creative.exportBrief'' [w, c]))
          else next)
      else next)"

definition creative_routes :: "api_env \<Rightarrow> api_request \<Rightarrow> uuid \<Rightarrow> answer \<Rightarrow> answer" where
  "creative_routes env q w next =
     (if wired env ''creative'' \<and> at_part q 2 ''creative'' then
        if at_part q 3 ''history'' \<and> parts_count q 5 \<and> via q ''GET''
        then with_choice q 4 [''concepts'', ''briefs'', ''references''] (paged q (call env ''creative.listPage'' [w] (sent 200)))
        else if parts_count q 3 \<and> via q ''GET'' then paged q (call env ''creative.list'' [w] (sent 200))
        else if at_part q 3 ''context'' \<and> via q ''PUT''
        then parsed q ''creativeContextSaveSchema'' (call env ''creative.saveContext'' [w] (sent 200))
        else concept_routes env q w
          (if at_part q 3 ''runs'' \<and> parts_count q 4 \<and> via q ''POST''
           then parsed q ''creativeGenerationSchema'' (keyed env q (queued env ''creative.generate'' [w]))
           else if at_part q 3 ''runs'' \<and> at_part q 5 ''cancel'' \<and> via q ''POST''
           then with_id env q 4 (\<lambda>r. call env ''creative.cancel'' [w, r] (sent 200))
           else if at_part q 3 ''assets'' \<and> via q ''GET''
           then with_id env q 4 (\<lambda>x. call env ''creative.readAsset'' [w, x] sent_file)
           else if at_part q 3 ''briefs''
           then with_id env q 4 (\<lambda>b. with_choice q 5 [''json'', ''pdf'']
             (if at_part q 6 ''retry'' \<and> via q ''POST'' then call env ''creative.retryBrief'' [w, b] (sent 202)
              else if parts_count q 6 \<and> via q ''GET'' then call env ''creative.downloadBrief'' [w, b] sent_file
              else next))
           else next)
      else next)"

definition album_routes :: "api_env \<Rightarrow> api_request \<Rightarrow> uuid \<Rightarrow> answer \<Rightarrow> answer" where
  "album_routes env q w next =
     (if wired env ''uploads'' \<and> at_part q 2 ''upload-grants'' \<and> parts_count q 3 \<and> via q ''GET''
      then paged q (call env ''uploads.list'' [w] (sent 200))
      else if wired env ''uploads'' \<and> at_part q 2 ''upload-grants'' \<and> parts_count q 3 \<and> via q ''POST''
      then parsed q ''uploadGrantSchema'' (call env ''uploads.create'' [w] (sent 201))
      else if wired env ''uploads'' \<and> at_part q 2 ''upload-grants'' \<and> parts_count q 4 \<and> via q ''DELETE''
      then with_id env q 3 (\<lambda>g. call env ''uploads.revoke'' [w, g] (sent 200))
      else if wired env ''media'' \<and> at_part q 2 ''albums'' \<and> parts_count q 3 \<and> via q ''GET''
      then paged q (call env ''media.listAlbums'' [w] (sent 200))
      else if wired env ''media'' \<and> at_part q 2 ''albums'' \<and> parts_count q 3 \<and> via q ''POST''
      then parsed q ''albumSaveSchema'' (call env ''media.saveAlbum'' [w] (sent 201))
      else if wired env ''media'' \<and> at_part q 2 ''albums'' \<and> parts_count q 4 \<and> via q ''PATCH''
      then parsed q ''albumSaveSchema'' (with_id env q 3 (\<lambda>b. call env ''media.saveAlbum'' [w, b] (sent 200)))
      else next)"

definition media_routes :: "api_env \<Rightarrow> api_request \<Rightarrow> uuid \<Rightarrow> answer \<Rightarrow> answer" where
  "media_routes env q w next =
     (if wired env ''media'' \<and> at_part q 2 ''media'' then
        if parts_count q 3 \<and> via q ''GET'' then paged q (call env ''media.list'' [w] (sent 200))
        else if at_part q 3 ''intents'' \<and> via q ''POST''
        then parsed q ''uploadIntentSchema'' (call env ''media.intent'' [w] (sent 201))
        else with_id env q 3 (\<lambda>n.
          if at_part q 4 ''bytes'' \<and> via q ''PUT'' then transfer_file env q ''upload'' [w, n]
          else if via q ''GET'' then call env ''media.read'' [w, n] sent_file
          else if via q ''PATCH'' then parsed q ''mediaEditSchema'' (call env ''media.edit'' [w, n] (sent 200))
          else if via q ''DELETE'' then parsed q ''mediaDeleteSchema'' (call env ''media.remove'' [w, n] (sent 200))
          else next)
      else next)"

definition site_routes :: "api_env \<Rightarrow> api_request \<Rightarrow> uuid \<Rightarrow> answer \<Rightarrow> answer" where
  "site_routes env q w next =
     (if at_part q 2 ''site'' \<and> parts_count q 3 \<and> via q ''GET'' then call env ''publication.site'' [w] (sent 200)
      else if at_part q 2 ''site'' \<and> parts_count q 3 \<and> via q ''PATCH''
      then parsed q ''siteSaveSchema'' (call env ''publication.saveSite'' [w] (sent 200))
      else if at_part q 2 ''site'' \<and> at_part q 3 ''publish'' \<and> via q ''POST''
      then parsed q ''publishSchema'' (call env ''publication.publish'' [w] (sent 200))
      else if at_part q 2 ''site'' \<and> at_part q 3 ''shared-code'' \<and> via q ''POST''
      then call env ''publication.rotateShared'' [w] (sent 200)
      else next)"

definition post_routes :: "api_env \<Rightarrow> api_request \<Rightarrow> uuid \<Rightarrow> answer \<Rightarrow> answer" where
  "post_routes env q w next =
     (if at_part q 2 ''posts'' then
        if parts_count q 3 \<and> via q ''GET'' then paged q (call env ''publication.listPosts'' [w] (sent 200))
        else if parts_count q 3 \<and> via q ''POST''
        then parsed q ''postSaveSchema'' (call env ''publication.savePost'' [w] (sent 201))
        else with_id env q 3 (\<lambda>p.
          if parts_count q 4 \<and> via q ''PATCH''
          then parsed q ''postSaveSchema'' (call env ''publication.savePost'' [w, p] (sent 200))
          else if parts_count q 4 \<and> via q ''DELETE''
          then parsed q ''revisionSchema'' (call env ''publication.deletePost'' [w, p] (sent 200))
          else if (at_part q 4 ''publish'' \<or> at_part q 4 ''unpublish'') \<and> via q ''POST''
          then parsed q ''revisionSchema'' (call env ''publication.publishPost'' [w, p] (sent 200))
          else next)
      else next)"

definition member_routes :: "api_env \<Rightarrow> api_request \<Rightarrow> uuid \<Rightarrow> answer \<Rightarrow> answer" where
  "member_routes env q w next =
     (if at_part q 2 ''events'' \<and> parts_count q 3 \<and> via q ''GET''
      then paged q (call env ''store.listEventPage'' [w] (sent 200))
      else if at_part q 2 ''events'' \<and> parts_count q 3 \<and> via q ''POST''
      then parsed q ''eventSchema'' (call env ''store.saveEvent'' [w] (sent 201))
      else if at_part q 2 ''events'' \<and> parts_count q 4 \<and> via q ''PATCH''
      then parsed q ''eventPatchSchema'' (with_id env q 3 (\<lambda>e. call env ''store.saveEvent'' [w, e] (sent 200)))
      else if at_part q 2 ''members'' \<and> parts_count q 3 \<and> via q ''GET''
      then paged q (call env ''store.members'' [w] (sent 200))
      else if at_part q 2 ''members'' \<and> parts_count q 4 \<and> via q ''DELETE''
      then with_id env q 3 (\<lambda>u. call env ''store.removeMember'' [w, u] (sent 200))
      else if at_part q 2 ''invites'' \<and> parts_count q 3 \<and> via q ''POST''
      then parsed q ''inviteSchema'' (call env ''store.invite'' [w] (sent 201))
      else if at_part q 2 ''invites'' \<and> parts_count q 4 \<and> via q ''DELETE''
      then with_id env q 3 (\<lambda>v. call env ''store.revokeInvite'' [w, v] (sent 200))
      else next)"

definition wedding_routes :: "api_env \<Rightarrow> api_request \<Rightarrow> answer \<Rightarrow> answer" where
  "wedding_routes env q next =
     (if at_part q 0 ''weddings'' then
        if parts_count q 1 \<and> via q ''GET'' then paged q (call env ''store.listWeddings'' [] (sent 200))
        else if parts_count q 1 \<and> via q ''POST'' then parsed q ''weddingSchema'' (call env ''store.createWedding'' [] (sent 201))
        else with_id env q 1 (\<lambda>w.
          workspace_routes env q w (notification_routes env q w (retention_routes env q w (ownership_routes env q w
            (pass_routes env q w (door_routes env q w (guest_record_routes env q w (answer_routes env q w
              (invitation_routes env q w (creative_routes env q w (album_routes env q w (media_routes env q w
                (site_routes env q w (post_routes env q w (member_routes env q w next)))))))))))))))
      else next)"

section \<open>The gates\<close>

definition safe_method :: "api_request \<Rightarrow> bool" where
  "safe_method q = (via q ''GET'' \<or> via q ''HEAD'')"

text \<open>The body is JSON, or the bytes of a file for one of the two transfer routes.\<close>

definition body_accepted :: "api_request \<Rightarrow> bool" where
  "body_accepted q = (body_type q = ''application/json'' \<or>
     (via q ''PUT'' \<and> ((at_part q 0 ''weddings'' \<and> at_part q 2 ''media'' \<and> at_part q 4 ''bytes'') \<or>
        (at_part q 0 ''uploads'' \<and> at_part q 1 ''media'' \<and> at_part q 3 ''bytes'')) \<and>
      body_type q = ''application/octet-stream''))"

definition gated :: "api_env \<Rightarrow> api_request \<Rightarrow> answer \<Rightarrow> answer" where
  "gated env q a =
     (if safe_method q then a
      else if origin_header q \<noteq> Some (public_origin env) then fail (Domain_error 403 ''ORIGIN_REJECTED'')
      else if csrf_header q \<noteq> Some ''1'' \<or> \<not> body_accepted q then fail (Domain_error 403 ''CSRF_REJECTED'')
      else a)"

definition webhook :: "api_env \<Rightarrow> answer" where
  "webhook env =
     (if \<not> webhook_ready env then fail (Domain_error 503 ''WEBHOOK_DISABLED'')
      else if \<not> webhook_signed env then fail (Domain_error 401 ''INVALID_WEBHOOK'')
      else call env ''notifications.receive'' [] (sent 200))"

definition staff_routes :: "api_env \<Rightarrow> api_request \<Rightarrow> answer" where
  "staff_routes env q = as_staff env
     (if at_part q 0 ''invites'' \<and> at_part q 1 ''accept'' \<and> via q ''POST''
      then parsed q ''tokenSchema'' (call env ''store.acceptInvite'' [] (sent 200))
      else operator_routes env q (wedding_routes env q (fail notFound)))"

definition session_routes :: "api_env \<Rightarrow> api_request \<Rightarrow> answer \<Rightarrow> answer" where
  "session_routes env q next =
     support_routes env q (identity_routes env q (public_routes env q (guest_routes env q (upload_routes env q next))))"

definition dispatch :: "api_env \<Rightarrow> api_request \<Rightarrow> answer" where
  "dispatch env q =
     (if via q ''GET'' \<and> at_part q 0 ''openapi.json'' then sent 200
      else if via q ''GET'' \<and> at_part q 0 ''health'' then call env ''store.ping'' [] (sent 200)
      else if at_part q 0 ''provider-events'' \<and> at_part q 1 ''ravenrelay'' \<and> via q ''POST'' then webhook env
      else gated env q (limited env ''http'' (session_routes env q (staff_routes env q))))"

end
