(* ===== verification/RouteRules.thy ===== *)
theory RouteRules
  imports WeddingRoutes
begin

text \<open>
  One traversal of the routes: what holds of every event a feature's routes may add holds of
  its whole trace. The events are counts and calls; a request by a safe method only
  calls reading handlers, and the routes of a wedding name that wedding first. The
  properties of the application rest on this one set of rules.
\<close>

definition only :: "(api_event \<Rightarrow> bool) \<Rightarrow> answer \<Rightarrow> bool" where
  "only Q a = list_all Q (fst a)"

section \<open>Reading handlers\<close>

definition reading :: "string list" where
  "reading =
     [''store.ping'', ''publication.publicSite'', ''media.readPublic'', ''publication.publicPost'', ''passes.guestList'',
      ''passes.guestDownload'', ''guests.party'', ''media.uploadStatus'', ''operator.dashboard'', ''operator.readMedia'',
      ''operator.wedding'', ''store.listWeddings'', ''store.readJob'', ''store.readWedding'', ''notifications.list'',
      ''retention.status'', ''retention.download'', ''passes.listEligible'', ''passes.list'', ''passes.deliveryRecipients'',
      ''passes.download'', ''passes.operationalList'', ''guests.listRequests'', ''guests.list'', ''guests.rsvpExport'',
      ''guests.csvExport'', ''guests.answers'', ''invitations.listDesigns'', ''invitations.list'', ''invitations.download'',
      ''creative.listPage'', ''creative.list'', ''creative.readAsset'', ''creative.downloadBrief'', ''uploads.list'',
      ''media.listAlbums'', ''media.list'', ''media.read'', ''publication.site'', ''publication.listPosts'',
      ''store.listEventPage'', ''store.members'']"

definition reads :: "string \<Rightarrow> bool" where
  "reads n = (n \<in> set reading)"

lemma reading_read: "list_all reads reading"
  by (simp add: list_all_iff reads_def)

lemmas read_names = reading_read [unfolded reading_def list.pred_inject]

lemma safe_methods: "via q ''POST'' \<Longrightarrow> \<not> safe_method q" "via q ''PATCH'' \<Longrightarrow> \<not> safe_method q"
  "via q ''PUT'' \<Longrightarrow> \<not> safe_method q" "via q ''DELETE'' \<Longrightarrow> \<not> safe_method q"
  by (auto simp: via_def safe_method_def)

section \<open>Rules of the steps\<close>

lemma only_fail: "only Q (fail e)" and only_sent: "only Q (sent n)" and only_sent_file: "only Q sent_file"
  by (simp_all add: only_def fail_def sent_def sent_file_def)

lemma only_after: "Q v \<Longrightarrow> only Q a \<Longrightarrow> only Q (after_event v a)"
  by (simp add: only_def after_event_def)

lemma only_if: "(c \<Longrightarrow> only Q a) \<Longrightarrow> (\<not> c \<Longrightarrow> only Q b) \<Longrightarrow> only Q (if c then a else b)"
  by simp

lemma only_call: "Q (Called n ids) \<Longrightarrow> only Q a \<Longrightarrow> only Q (call env n ids a)"
  unfolding call_def by (rule only_after) (auto intro: only_fail split: option.split)

lemma only_limited: "Q (Counted b) \<Longrightarrow> only Q a \<Longrightarrow> only Q (limited env b a)"
  unfolding limited_def by (rule only_after) (auto intro: only_fail)

lemma only_parsed: "only Q a \<Longrightarrow> only Q (parsed q s a)" and only_paged: "only Q a \<Longrightarrow> only Q (paged q a)"
  and only_choice: "only Q a \<Longrightarrow> only Q (with_choice q n xs a)" and only_slug: "only Q a \<Longrightarrow> only Q (with_slug env q n a)"
  and only_keyed: "only Q a \<Longrightarrow> only Q (keyed env q a)"
  by (auto simp: parsed_def paged_def with_choice_def with_slug_def keyed_def intro: only_fail split: option.split)

lemma only_id: "(\<And>i. only Q (k i)) \<Longrightarrow> only Q (with_id env q n k)"
  by (auto simp: with_id_def intro: only_fail split: option.split)

lemma only_staff: "(\<And>u. staff_session env = Some u \<Longrightarrow> Q (Signed_in u)) \<Longrightarrow> only Q a \<Longrightarrow> only Q (as_staff env a)"
  and only_guest: "(\<And>g. guest_cookie env = Some g \<Longrightarrow> Q (Guest_in g)) \<Longrightarrow> only Q a \<Longrightarrow> only Q (as_guest env a)"
  and only_upload: "(\<And>l. upload_cookie env = Some l \<Longrightarrow> Q (Upload_in l)) \<Longrightarrow> only Q a \<Longrightarrow> only Q (as_upload env a)"
  by (auto simp: as_staff_def as_guest_def as_upload_def intro: only_fail only_after split: option.split)

lemma only_queued: "Q (Called n ids) \<Longrightarrow> Q (Called ''store.jobReferences'' ids) \<Longrightarrow> only Q (queued env n ids)"
  unfolding queued_def by (intro only_call only_sent)

lemma only_transfer: "Q (Called ''media.expectedUpload'' ids) \<Longrightarrow> Q (Called ''media.receive'' ids) \<Longrightarrow> Q (Counted b)
    \<Longrightarrow> only Q (transfer_file env q b ids)"
  unfolding transfer_file_def by (intro only_call only_if only_limited only_fail only_sent)

lemmas only_steps = only_fail only_sent only_sent_file only_if only_call only_limited only_parsed only_paged only_choice
  only_slug only_keyed only_id only_queued only_transfer

section \<open>The routes of a wedding\<close>

text \<open>The calls a wedding's routes may make: its identifier leads, and a safe method only reads.\<close>

definition tenant_calls :: "api_request \<Rightarrow> uuid \<Rightarrow> (api_event \<Rightarrow> bool) \<Rightarrow> bool" where
  "tenant_calls q w Q =
     ((\<forall>n ids. (safe_method q \<longrightarrow> reads n) \<longrightarrow> Q (Called n (w # ids))) \<and> (\<forall>b. \<not> safe_method q \<longrightarrow> Q (Counted b)))"

lemma tenant_call: "tenant_calls q w Q \<Longrightarrow> (safe_method q \<Longrightarrow> reads n) \<Longrightarrow> Q (Called n (w # ids))"
  by (simp add: tenant_calls_def)

lemma tenant_count: "tenant_calls q w Q \<Longrightarrow> \<not> safe_method q \<Longrightarrow> Q (Counted b)"
  by (simp add: tenant_calls_def)

text \<open>Each feature hands on to the next one, so its rule asks for no more than the rest's.\<close>

lemma only_workspace: "tenant_calls q w Q \<Longrightarrow> only Q nxt \<Longrightarrow> only Q (workspace_routes env q w nxt)"
  unfolding workspace_routes_def by (intro only_steps tenant_call [of q w Q] tenant_count [of q w Q]) (simp_all add: read_names safe_methods)

lemma only_notification: "tenant_calls q w Q \<Longrightarrow> only Q nxt \<Longrightarrow> only Q (notification_routes env q w nxt)"
  unfolding notification_routes_def by (intro only_steps tenant_call [of q w Q] tenant_count [of q w Q]) (simp_all add: read_names safe_methods)

lemma only_retention: "tenant_calls q w Q \<Longrightarrow> only Q nxt \<Longrightarrow> only Q (retention_routes env q w nxt)"
  unfolding retention_routes_def by (intro only_steps tenant_call [of q w Q] tenant_count [of q w Q]) (simp_all add: read_names safe_methods)

lemma only_ownership: "tenant_calls q w Q \<Longrightarrow> only Q nxt \<Longrightarrow> only Q (ownership_routes env q w nxt)"
  unfolding ownership_routes_def by (intro only_steps tenant_call [of q w Q] tenant_count [of q w Q]) (simp_all add: read_names safe_methods)

lemma only_pass_routes: "tenant_calls q w Q \<Longrightarrow> only Q nxt \<Longrightarrow> only Q (pass_routes env q w nxt)"
  unfolding pass_routes_def by (intro only_steps tenant_call [of q w Q] tenant_count [of q w Q]) (simp_all add: read_names safe_methods)

lemma only_door: "tenant_calls q w Q \<Longrightarrow> only Q nxt \<Longrightarrow> only Q (door_routes env q w nxt)"
  unfolding door_routes_def by (intro only_steps tenant_call [of q w Q] tenant_count [of q w Q]) (simp_all add: read_names safe_methods)

lemma only_guest_record: "tenant_calls q w Q \<Longrightarrow> only Q nxt \<Longrightarrow> only Q (guest_record_routes env q w nxt)"
  unfolding guest_record_routes_def resolve_request_def by (intro only_steps tenant_call [of q w Q] tenant_count [of q w Q]) (simp_all add: read_names safe_methods)

lemma only_answer: "tenant_calls q w Q \<Longrightarrow> only Q nxt \<Longrightarrow> only Q (answer_routes env q w nxt)"
  unfolding answer_routes_def by (intro only_steps tenant_call [of q w Q] tenant_count [of q w Q]) (simp_all add: read_names safe_methods)

lemma only_invitation: "tenant_calls q w Q \<Longrightarrow> only Q nxt \<Longrightarrow> only Q (invitation_routes env q w nxt)"
  unfolding invitation_routes_def Let_def by (intro only_steps tenant_call [of q w Q] tenant_count [of q w Q]) (simp_all add: read_names safe_methods)

lemma only_concept: "tenant_calls q w Q \<Longrightarrow> only Q nxt \<Longrightarrow> only Q (concept_routes env q w nxt)"
  unfolding concept_routes_def by (intro only_steps tenant_call [of q w Q] tenant_count [of q w Q]) (simp_all add: read_names safe_methods)

lemma only_creative: "tenant_calls q w Q \<Longrightarrow> only Q nxt \<Longrightarrow> only Q (creative_routes env q w nxt)"
  unfolding creative_routes_def by (intro only_steps tenant_call [of q w Q] tenant_count [of q w Q] only_concept) (simp_all add: read_names safe_methods)

lemma only_album: "tenant_calls q w Q \<Longrightarrow> only Q nxt \<Longrightarrow> only Q (album_routes env q w nxt)"
  unfolding album_routes_def by (intro only_steps tenant_call [of q w Q] tenant_count [of q w Q]) (simp_all add: read_names safe_methods)

lemma only_media: "tenant_calls q w Q \<Longrightarrow> only Q nxt \<Longrightarrow> only Q (media_routes env q w nxt)"
  unfolding media_routes_def by (intro only_steps tenant_call [of q w Q] tenant_count [of q w Q]) (simp_all add: read_names safe_methods)

lemma only_site: "tenant_calls q w Q \<Longrightarrow> only Q nxt \<Longrightarrow> only Q (site_routes env q w nxt)"
  unfolding site_routes_def by (intro only_steps tenant_call [of q w Q] tenant_count [of q w Q]) (simp_all add: read_names safe_methods)

lemma only_post: "tenant_calls q w Q \<Longrightarrow> only Q nxt \<Longrightarrow> only Q (post_routes env q w nxt)"
  unfolding post_routes_def by (intro only_steps tenant_call [of q w Q] tenant_count [of q w Q]) (simp_all add: read_names safe_methods)

lemma only_member: "tenant_calls q w Q \<Longrightarrow> only Q nxt \<Longrightarrow> only Q (member_routes env q w nxt)"
  unfolding member_routes_def by (intro only_steps tenant_call [of q w Q] tenant_count [of q w Q]) (simp_all add: read_names safe_methods)
lemma only_id_read: "(\<And>s i. part q n = Some s \<Longrightarrow> read_uuid env s = Some i \<Longrightarrow> only Q (k i)) \<Longrightarrow> only Q (with_id env q n k)"
  by (auto simp: with_id_def intro: only_fail split: option.split)

lemma only_wedding:
  assumes tenant: "\<And>s w. part q 1 = Some s \<Longrightarrow> read_uuid env s = Some w \<Longrightarrow> tenant_calls q w Q"
    and open_calls: "Q (Called ''store.listWeddings'' [])" "\<not> safe_method q \<Longrightarrow> Q (Called ''store.createWedding'' [])"
    and nxt: "only Q nxt"
  shows "only Q (wedding_routes env q nxt)"
proof -
  have features: "only Q (workspace_routes env q w (notification_routes env q w (retention_routes env q w (ownership_routes env q w
      (pass_routes env q w (door_routes env q w (guest_record_routes env q w (answer_routes env q w
        (invitation_routes env q w (creative_routes env q w (album_routes env q w (media_routes env q w
          (site_routes env q w (post_routes env q w (member_routes env q w nxt)))))))))))))))"
    if "tenant_calls q w Q" for w
    using that by (intro only_workspace only_notification only_retention only_ownership only_pass_routes only_door
      only_guest_record only_answer only_invitation only_creative only_album only_media only_site only_post only_member nxt)
  show ?thesis
    unfolding wedding_routes_def
    by (intro only_if only_paged only_parsed only_call only_sent only_id_read features tenant nxt open_calls)
      (simp_all add: safe_methods)
qed

section \<open>The other routes and the gates\<close>

text \<open>Every route may count, call a handler the method allows, and sign in whom the cookies name.\<close>

definition free_calls :: "api_env \<Rightarrow> api_request \<Rightarrow> (api_event \<Rightarrow> bool) \<Rightarrow> bool" where
  "free_calls env q Q = ((\<forall>n ids. (safe_method q \<longrightarrow> reads n) \<longrightarrow> Q (Called n ids)) \<and> (\<forall>b. Q (Counted b))
     \<and> (\<forall>u. staff_session env = Some u \<longrightarrow> Q (Signed_in u)) \<and> (\<forall>g. guest_cookie env = Some g \<longrightarrow> Q (Guest_in g))
     \<and> (\<forall>l. upload_cookie env = Some l \<longrightarrow> Q (Upload_in l)))"

lemma free_call: "free_calls env q Q \<Longrightarrow> (safe_method q \<Longrightarrow> reads n) \<Longrightarrow> Q (Called n ids)"
  and free_count: "free_calls env q Q \<Longrightarrow> Q (Counted b)"
  and free_staff: "free_calls env q Q \<Longrightarrow> staff_session env = Some u \<Longrightarrow> Q (Signed_in u)"
  and free_guest: "free_calls env q Q \<Longrightarrow> guest_cookie env = Some g \<Longrightarrow> Q (Guest_in g)"
  and free_upload: "free_calls env q Q \<Longrightarrow> upload_cookie env = Some l \<Longrightarrow> Q (Upload_in l)"
  by (simp_all add: free_calls_def)

lemma only_support: "free_calls env q Q \<Longrightarrow> only Q nxt \<Longrightarrow> only Q (support_routes env q nxt)"
  unfolding support_routes_def
  by (intro only_steps free_call [of env q Q] free_count [of env q Q]) (simp_all add: read_names safe_methods)

lemma only_identity: "free_calls env q Q \<Longrightarrow> only Q nxt \<Longrightarrow> only Q (identity_routes env q nxt)"
  unfolding identity_routes_def
  by (intro only_steps only_staff free_call [of env q Q] free_count [of env q Q] free_staff [of env q Q])
    (simp_all add: read_names safe_methods)

lemma only_public: "free_calls env q Q \<Longrightarrow> only Q nxt \<Longrightarrow> only Q (public_routes env q nxt)"
  unfolding public_routes_def Let_def
  by (intro only_steps free_call [of env q Q] free_count [of env q Q]) (simp_all add: read_names safe_methods)

lemma only_guests: "free_calls env q Q \<Longrightarrow> only Q nxt \<Longrightarrow> only Q (guest_routes env q nxt)"
  unfolding guest_routes_def
  by (intro only_steps only_guest free_call [of env q Q] free_count [of env q Q] free_guest [of env q Q])
    (simp_all add: read_names safe_methods)

lemma only_uploads: "free_calls env q Q \<Longrightarrow> only Q nxt \<Longrightarrow> only Q (upload_routes env q nxt)"
  unfolding upload_routes_def
  by (intro only_steps only_guest only_upload free_call [of env q Q] free_count [of env q Q] free_guest [of env q Q]
      free_upload [of env q Q]) (simp_all add: read_names safe_methods)

lemma only_operator: "free_calls env q Q \<Longrightarrow> only Q nxt \<Longrightarrow> only Q (operator_routes env q nxt)"
  unfolding operator_routes_def
  by (intro only_steps free_call [of env q Q]) (simp_all add: read_names safe_methods)

lemma free_tenant: "free_calls env q Q \<Longrightarrow> tenant_calls q w Q"
  by (simp add: free_calls_def tenant_calls_def)

lemma only_staff_routes:
  assumes "free_calls env q Q"
  shows "only Q (staff_routes env q)"
  unfolding staff_routes_def
  by (intro only_staff only_if only_parsed only_call only_sent only_operator only_wedding only_fail assms
      free_tenant [OF assms] free_call [OF assms] free_staff [OF assms]) (simp_all add: read_names safe_methods)

lemma only_session:
  assumes "free_calls env q Q" "only Q nxt"
  shows "only Q (session_routes env q nxt)"
  unfolding session_routes_def by (intro only_support only_identity only_public only_guests only_uploads assms)

lemma only_dispatch:
  assumes free: "free_calls env q Q" and hook: "webhook_signed env \<Longrightarrow> Q (Called ''notifications.receive'' [])"
  shows "only Q (dispatch env q)"
  unfolding dispatch_def gated_def webhook_def
  by (intro only_if only_sent only_call only_fail only_limited only_session only_staff_routes free
      free_call [OF free] free_count [OF free] hook) (simp_all add: read_names)

end
