(* ===== verification/ApiDocument.thy ===== *)
theory ApiDocument
  imports WeddingRoutes
begin

text \<open>
  The documented endpoints, \<^verbatim>\<open>apps/api/src/openapi.ts\<close>: the table the document is made
  from, in its order, and the requests a client writes by it. An endpoint's path is a
  template; what a schema says of a body is left to the schema library, so the table
  keeps the schema's name.
\<close>

section \<open>The table\<close>

datatype documented_access = Staff_only | Guest_only | Upload_only | Shared | Provider | Public

record endpoint_options =
  access :: documented_access
  status :: nat
  idempotent :: bool
  binary :: bool
  has_query :: bool

record endpoint =
  template :: string
  verb :: string
  body :: "string option"
  options :: endpoint_options

definition plain :: endpoint_options where
  "plain = \<lparr>access = Staff_only, status = 200, idempotent = False, binary = False, has_query = False\<rparr>"

definition route :: "string \<Rightarrow> string \<Rightarrow> string option \<Rightarrow> endpoint_options \<Rightarrow> endpoint" where
  "route p m b opts = \<lparr>template = p, verb = m, body = b, options = opts\<rparr>"

definition under :: "string \<Rightarrow> string" where
  "under p = ''/weddings/{weddingId}'' @ p"

definition core_endpoints :: "endpoint list" where
  "core_endpoints =
     [route ''/health'' ''GET'' None (plain\<lparr>access := Public\<rparr>),
      route ''/openapi.json'' ''GET'' None (plain\<lparr>access := Public\<rparr>),
      route ''/identity/register'' ''POST'' (Some ''registerSchema'') (plain\<lparr>access := Public, status := 202\<rparr>),
      route ''/identity/resend-verification'' ''POST'' (Some ''recoverSchema'') (plain\<lparr>access := Public, status := 202\<rparr>),
      route ''/identity/verify'' ''POST'' (Some ''tokenSchema'') (plain\<lparr>access := Public\<rparr>),
      route ''/identity/login'' ''POST'' (Some ''loginSchema'') (plain\<lparr>access := Public\<rparr>),
      route ''/identity/recover'' ''POST'' (Some ''recoverSchema'') (plain\<lparr>access := Public, status := 202\<rparr>),
      route ''/identity/reset'' ''POST'' (Some ''resetSchema'') (plain\<lparr>access := Public\<rparr>),
      route ''/identity/session'' ''GET'' None plain,
      route ''/identity/logout'' ''POST'' None plain,
      route ''/identity/reauthenticate'' ''POST'' (Some ''reauthSchema'') plain,
      route ''/identity/deletion'' ''POST'' (Some ''accountDeletion'') plain,
      route ''/invites/accept'' ''POST'' (Some ''tokenSchema'') plain,
      route ''/provider-events/ravenrelay'' ''POST'' None (plain\<lparr>access := Provider\<rparr>),
      route ''/support'' ''GET'' None (plain\<lparr>access := Public\<rparr>),
      route ''/support'' ''POST'' (Some ''supportReportSchema'') (plain\<lparr>access := Public\<rparr>)]"

definition workspace_endpoints :: "endpoint list" where
  "workspace_endpoints =
     [route ''/weddings'' ''GET'' None (plain\<lparr>has_query := True\<rparr>),
      route ''/weddings'' ''POST'' (Some ''weddingSchema'') (plain\<lparr>status := 201\<rparr>),
      route (under []) ''GET'' None plain,
      route (under ''/jobs/{jobId}'') ''GET'' None plain,
      route (under []) ''PATCH'' (Some ''weddingPatchSchema'') plain,
      route (under []) ''DELETE'' (Some ''deleteSchema'') plain,
      route (under ''/recover'') ''POST'' None plain,
      route (under ''/transfer'') ''POST'' (Some ''transferSchema'') plain,
      route (under ''/members'') ''GET'' None (plain\<lparr>has_query := True\<rparr>),
      route (under ''/members/{userId}'') ''DELETE'' None plain,
      route (under ''/invites'') ''POST'' (Some ''inviteSchema'') (plain\<lparr>status := 201\<rparr>),
      route (under ''/invites/{inviteId}'') ''DELETE'' None plain,
      route (under ''/events'') ''GET'' None (plain\<lparr>has_query := True\<rparr>),
      route (under ''/events'') ''POST'' (Some ''eventSchema'') (plain\<lparr>status := 201\<rparr>),
      route (under ''/events/{eventId}'') ''PATCH'' (Some ''eventPatchSchema'') plain]"

definition site_endpoints :: "endpoint list" where
  "site_endpoints =
     [route (under ''/site'') ''GET'' None plain,
      route (under ''/site'') ''PATCH'' (Some ''siteSaveSchema'') plain,
      route (under ''/site/publish'') ''POST'' (Some ''publishSchema'') plain,
      route (under ''/site/shared-code'') ''POST'' None plain,
      route (under ''/posts'') ''GET'' None (plain\<lparr>has_query := True\<rparr>),
      route (under ''/posts'') ''POST'' (Some ''postSaveSchema'') (plain\<lparr>status := 201\<rparr>),
      route (under ''/posts/{postId}'') ''PATCH'' (Some ''postSaveSchema'') plain,
      route (under ''/posts/{postId}'') ''DELETE'' (Some ''revisionSchema'') plain,
      route (under ''/posts/{postId}/publish'') ''POST'' (Some ''revisionSchema'') plain,
      route (under ''/posts/{postId}/unpublish'') ''POST'' (Some ''revisionSchema'') plain,
      route (under ''/media'') ''GET'' None (plain\<lparr>has_query := True\<rparr>),
      route (under ''/media/intents'') ''POST'' (Some ''uploadIntentSchema'') (plain\<lparr>status := 201\<rparr>),
      route (under ''/media/{assetId}/bytes'') ''PUT'' None (plain\<lparr>status := 202, binary := True\<rparr>),
      route (under ''/media/{assetId}'') ''GET'' None (plain\<lparr>binary := True\<rparr>),
      route (under ''/media/{assetId}/original'') ''GET'' None (plain\<lparr>binary := True\<rparr>),
      route (under ''/media/{assetId}'') ''PATCH'' (Some ''mediaEditSchema'') plain,
      route (under ''/media/{assetId}'') ''DELETE'' (Some ''mediaDeleteSchema'') plain,
      route (under ''/albums'') ''GET'' None (plain\<lparr>has_query := True\<rparr>),
      route (under ''/albums'') ''POST'' (Some ''albumSaveSchema'') (plain\<lparr>status := 201\<rparr>),
      route (under ''/albums/{albumId}'') ''PATCH'' (Some ''albumSaveSchema'') plain,
      route (under ''/upload-grants'') ''GET'' None (plain\<lparr>has_query := True\<rparr>),
      route (under ''/upload-grants'') ''POST'' (Some ''uploadGrantSchema'') (plain\<lparr>status := 201\<rparr>),
      route (under ''/upload-grants/{grantId}'') ''DELETE'' None plain]"

definition guest_endpoints :: "endpoint list" where
  "guest_endpoints =
     [route (under ''/guests/requests'') ''GET'' None (plain\<lparr>has_query := True\<rparr>),
      route (under ''/guests'') ''GET'' None (plain\<lparr>has_query := True\<rparr>),
      route (under ''/guests'') ''POST'' (Some ''guestSaveSchema'') (plain\<lparr>status := 201\<rparr>),
      route (under ''/guests/{attendeeId}'') ''PATCH'' (Some ''guestSaveSchema'') plain,
      route (under ''/guests/{attendeeId}'') ''DELETE'' (Some ''revisionSchema'') plain,
      route (under ''/guests/import'') ''POST'' (Some ''importSchema'') plain,
      route (under ''/guests/import/preview'') ''POST'' (Some ''importSchema'') plain,
      route (under ''/guests/export'') ''GET'' None (plain\<lparr>binary := True\<rparr>),
      route (under ''/guests/responses/export'') ''GET'' None (plain\<lparr>binary := True\<rparr>),
      route (under ''/guests/requests/{requestId}'') ''POST'' (Some ''guestRequestDecision'') plain,
      route (under ''/guests/grants/{grantId}'') ''DELETE'' None plain,
      route (under ''/guests/parties/{partyId}/grant'') ''POST'' (Some ''guestGrantSchema'') plain,
      route (under ''/guests/parties/{partyId}/send'') ''POST'' (Some ''guestSend'') (plain\<lparr>idempotent := True\<rparr>),
      route (under ''/events/{eventId}/answers'') ''GET'' None plain,
      route (under ''/events/{eventId}/questions'') ''PATCH'' (Some ''questionPolicySchema'') plain,
      route (under ''/events/{eventId}/rsvp/{attendeeId}/approve'') ''POST'' (Some ''revisionSchema'') plain]"

definition pass_endpoints :: "endpoint list" where
  "pass_endpoints =
     [route (under ''/passes'') ''GET'' None (plain\<lparr>has_query := True\<rparr>),
      route (under ''/passes/eligible'') ''GET'' None (plain\<lparr>has_query := True\<rparr>),
      route (under ''/passes'') ''POST'' (Some ''passIssueSchema'') (plain\<lparr>status := 201, idempotent := True\<rparr>),
      route (under ''/passes/{passId}/recipients'') ''GET'' None plain,
      route (under ''/passes/{passId}/send'') ''POST'' (Some ''passSend'') (plain\<lparr>idempotent := True\<rparr>),
      route (under ''/passes/{passId}/revoke'') ''POST'' (Some ''passActionSchema'') (plain\<lparr>idempotent := True\<rparr>),
      route (under ''/passes/{passId}/reissue'') ''POST'' (Some ''passActionSchema'') (plain\<lparr>idempotent := True\<rparr>),
      route (under ''/passes/{passId}/{ticketFormat}'') ''GET'' None (plain\<lparr>binary := True\<rparr>),
      route (under ''/passes/{passId}/{ticketFormat}/retry'') ''POST'' None (plain\<lparr>status := 202\<rparr>),
      route (under ''/events/{eventId}/redeem'') ''POST'' (Some ''redemptionSchema'') (plain\<lparr>idempotent := True\<rparr>),
      route (under ''/events/{eventId}/operational-list'') ''GET'' None plain,
      route (under ''/admission-corrections'') ''POST'' (Some ''admissionCorrectionSchema'') (plain\<lparr>idempotent := True\<rparr>),
      route (under ''/invitations/designs'') ''GET'' None (plain\<lparr>has_query := True\<rparr>),
      route (under ''/invitations'') ''GET'' None (plain\<lparr>has_query := True\<rparr>),
      route (under ''/invitations'') ''POST'' (Some ''invitationSave'') plain,
      route (under ''/invitations/{designId}'') ''PATCH'' (Some ''invitationSave'') plain,
      route (under ''/invitations/catalogue'') ''GET'' None plain,
      route (under ''/invitations/preview'') ''POST'' (Some ''designSchema'') plain,
      route (under ''/invitations/{designId}/export'') ''POST'' (Some ''invitationExport'') (plain\<lparr>status := 202, idempotent := True\<rparr>),
      route (under ''/invitations/exports/{exportId}/{ticketFormat}'') ''GET'' None (plain\<lparr>binary := True\<rparr>),
      route (under ''/invitations/exports/{exportId}/{ticketFormat}/retry'') ''POST'' None (plain\<lparr>status := 202\<rparr>)]"

definition creative_endpoints :: "endpoint list" where
  "creative_endpoints =
     [route (under ''/creative/history/concepts'') ''GET'' None (plain\<lparr>has_query := True\<rparr>),
      route (under ''/creative/history/briefs'') ''GET'' None (plain\<lparr>has_query := True\<rparr>),
      route (under ''/creative/history/references'') ''GET'' None (plain\<lparr>has_query := True\<rparr>),
      route (under ''/creative'') ''GET'' None (plain\<lparr>has_query := True\<rparr>),
      route (under ''/creative/context'') ''PUT'' (Some ''creativeContextSaveSchema'') plain,
      route (under ''/creative/concepts'') ''POST'' (Some ''conceptSaveSchema'') (plain\<lparr>status := 201\<rparr>),
      route (under ''/creative/concepts/{conceptId}'') ''PUT'' (Some ''conceptSaveSchema'') plain,
      route (under ''/creative/concepts/{conceptId}/approve'') ''POST'' (Some ''conceptRevisionSchema'') plain,
      route (under ''/creative/concepts/{conceptId}/theme-diff'') ''POST'' (Some ''conceptRevisionSchema'') plain,
      route (under ''/creative/concepts/{conceptId}/apply'') ''POST'' (Some ''themeApply'') plain,
      route (under ''/creative/concepts/{conceptId}/brief'') ''POST'' (Some ''conceptRevisionSchema'') (plain\<lparr>status := 202, idempotent := True\<rparr>),
      route (under ''/creative/runs'') ''POST'' (Some ''creativeGenerationSchema'') (plain\<lparr>status := 202, idempotent := True\<rparr>),
      route (under ''/creative/runs/{runId}/cancel'') ''POST'' None plain,
      route (under ''/creative/assets/{assetId}'') ''GET'' None (plain\<lparr>binary := True\<rparr>),
      route (under ''/creative/briefs/{briefId}/{briefFormat}'') ''GET'' None (plain\<lparr>binary := True\<rparr>),
      route (under ''/creative/briefs/{briefId}/{briefFormat}/retry'') ''POST'' None (plain\<lparr>status := 202\<rparr>),
      route (under ''/notifications'') ''GET'' None (plain\<lparr>has_query := True\<rparr>),
      route (under ''/notifications/{messageId}/retry'') ''POST'' (Some ''retryNotification'') (plain\<lparr>status := 202, idempotent := True\<rparr>),
      route (under ''/retention'') ''GET'' None (plain\<lparr>has_query := True\<rparr>),
      route (under ''/retention/review'') ''POST'' None plain,
      route (under ''/retention/exports'') ''POST'' (Some ''archiveExport'') (plain\<lparr>status := 202, idempotent := True\<rparr>),
      route (under ''/retention/exports/{exportId}'') ''GET'' None (plain\<lparr>binary := True\<rparr>),
      route (under ''/retention/exports/{exportId}/access'') ''GET'' None plain,
      route (under ''/retention/exports/{exportId}/retry'') ''POST'' None (plain\<lparr>status := 202\<rparr>)]"

definition visitor_endpoints :: "endpoint list" where
  "visitor_endpoints =
     [route ''/public/weddings/{slug}'' ''GET'' None (plain\<lparr>access := Shared\<rparr>),
      route ''/public/weddings/{slug}/posts/{postSlug}'' ''GET'' None (plain\<lparr>access := Shared\<rparr>),
      route ''/public/weddings/{slug}/albums'' ''GET'' None (plain\<lparr>access := Shared, has_query := True\<rparr>),
      route ''/public/weddings/{slug}/albums/{albumId}'' ''GET'' None (plain\<lparr>access := Shared, has_query := True\<rparr>),
      route ''/public/weddings/{slug}/posts'' ''GET'' None (plain\<lparr>access := Shared, has_query := True\<rparr>),
      route ''/public/weddings/{slug}/media/{assetId}'' ''GET'' None (plain\<lparr>access := Shared, binary := True\<rparr>),
      route ''/public/weddings/{slug}/access'' ''POST'' (Some ''tokenSchema'') (plain\<lparr>access := Public\<rparr>),
      route ''/guest/access'' ''POST'' (Some ''guestAccessSchema'') (plain\<lparr>access := Public\<rparr>),
      route ''/guest/request'' ''POST'' (Some ''accessRequestSchema'') (plain\<lparr>access := Public\<rparr>),
      route ''/guest/logout'' ''POST'' None (plain\<lparr>access := Guest_only\<rparr>),
      route ''/guest/party'' ''GET'' None (plain\<lparr>access := Guest_only\<rparr>),
      route ''/guest/events/{eventId}/rsvp'' ''POST'' (Some ''rsvpSchema'') (plain\<lparr>access := Guest_only, idempotent := True\<rparr>),
      route ''/guest/passes'' ''GET'' None (plain\<lparr>access := Guest_only\<rparr>),
      route ''/guest/passes/{passId}/{ticketFormat}'' ''GET'' None (plain\<lparr>access := Guest_only, binary := True\<rparr>),
      route ''/uploads/access'' ''POST'' (Some ''uploadAccessSchema'') (plain\<lparr>access := Public\<rparr>),
      route ''/uploads/from-rsvp'' ''POST'' None (plain\<lparr>access := Guest_only\<rparr>),
      route ''/uploads/session'' ''GET'' None (plain\<lparr>access := Upload_only\<rparr>),
      route ''/uploads/media'' ''GET'' None (plain\<lparr>access := Upload_only\<rparr>),
      route ''/uploads/logout'' ''POST'' None (plain\<lparr>access := Upload_only\<rparr>),
      route ''/uploads/intents'' ''POST'' (Some ''uploadIntentSchema'') (plain\<lparr>access := Upload_only, status := 201\<rparr>),
      route ''/uploads/media/{assetId}/bytes'' ''PUT'' None (plain\<lparr>access := Upload_only, status := 202, binary := True\<rparr>)]"

definition operator_endpoints :: "endpoint list" where
  "operator_endpoints =
     [route ''/operator'' ''GET'' None (plain\<lparr>has_query := True\<rparr>),
      route ''/operator/weddings/{weddingId}'' ''GET'' None plain,
      route ''/operator/accounts/{userId}/recover'' ''POST'' (Some ''accountRecovery'') plain,
      route ''/operator/reports/{reportId}'' ''POST'' (Some ''reportState'') plain,
      route ''/operator/media/{grantId}'' ''GET'' None (plain\<lparr>binary := True\<rparr>),
      route ''/operator/weddings/{weddingId}/ownership-review'' ''POST'' (Some ''ownershipReview'') plain,
      route ''/operator/weddings/{weddingId}/controls'' ''POST'' (Some ''operatorControlsSchema'') plain,
      route ''/operator/weddings/{weddingId}/renew'' ''POST'' (Some ''operatorRenewalSchema'') plain,
      route ''/operator/weddings/{weddingId}/media'' ''POST'' (Some ''operatorMediaSchema'') plain,
      route ''/operator/weddings/{weddingId}/admission-holds/{passId}/resolve'' ''POST'' (Some ''resolveHold'') plain]"

definition api_endpoints :: "endpoint list" where
  "api_endpoints = core_endpoints @ workspace_endpoints @ site_endpoints @ guest_endpoints @ pass_endpoints
     @ creative_endpoints @ visitor_endpoints @ operator_endpoints"

section \<open>Requests by the document\<close>

text \<open>A path with its parameters filled in: a uuid, a slug, or one of a format's names.\<close>

definition sample_uuid :: string where
  "sample_uuid = ''018f6d2e-7c1a-4b3d-9e5f-0a1b2c3d4e5f''"

definition sample_slug :: string where
  "sample_slug = ''ada-and-tunde''"

definition filled :: "string \<Rightarrow> string" where
  "filled s = (if s = ''{slug}'' \<or> s = ''{postSlug}'' then sample_slug
     else if s = ''{ticketFormat}'' \<or> s = ''{briefFormat}'' then ''pdf''
     else if starts_with ''{'' s then sample_uuid else s)"

definition documented_path :: "string \<Rightarrow> string" where
  "documented_path t = ''/api/v1'' @ js_join ''/'' (map filled (js_split (CHR ''/'') t))"

text \<open>An API with every feature, within its limits, and the cookies a client presents.\<close>

definition serving :: "uuid option \<Rightarrow> uuid option \<Rightarrow> uuid option \<Rightarrow> api_env" where
  "serving staff guest upload = \<lparr>public_origin = ''https://wedding.test'', wired = (\<lambda>_. True), webhook_ready = True,
     webhook_signed = True, limit_left = (\<lambda>_. True), staff_session = staff, guest_cookie = guest, upload_cookie = upload,
     read_uuid = (\<lambda>s. if s = sample_uuid then Some 4 else None), slug_valid = (\<lambda>s. s = sample_slug),
     failing = (\<lambda>_. None), archived_site = False, grants_party = True, promised_bytes = (\<lambda>_. 5), active_uploads = 0\<rparr>"

text \<open>A request to an endpoint: its method and path, with the headers the document asks of all.\<close>

definition addressed :: "endpoint \<Rightarrow> api_request \<Rightarrow> bool" where
  "addressed e q = (http_method q = verb e \<and> parts q = path_parts (documented_path (template e))
     \<and> origin_header q = Some ''https://wedding.test'' \<and> csrf_header q = Some ''1''
     \<and> body_type q = (if binary (options e) then ''application/octet-stream'' else ''application/json'')
     \<and> declared_length q = Some 5 \<and> sent_length q = 5)"

text \<open>
  The answer the document promises: the credential first, then a body, a query and a key that
  their schemas accept where the endpoint has them, then its status or its file.
  The three logouts name a credential and answer without one.
\<close>

definition logout :: "endpoint \<Rightarrow> bool" where
  "logout e = (template e \<in> {''/identity/logout'', ''/guest/logout'', ''/uploads/logout''})"

definition denial :: "documented_access \<Rightarrow> string" where
  "denial a = (case a of
      Staff_only \<Rightarrow> ''UNAUTHENTICATED''
    | Guest_only \<Rightarrow> ''GUEST_ACCESS_REQUIRED''
    | Upload_only \<Rightarrow> ''UPLOAD_ACCESS_REQUIRED''
    | _ \<Rightarrow> [])"

definition unidentified :: "endpoint \<Rightarrow> uuid option \<Rightarrow> uuid option \<Rightarrow> uuid option \<Rightarrow> bool" where
  "unidentified e staff guest upload = (\<not> logout e \<and> (case access (options e) of
      Staff_only \<Rightarrow> staff = None
    | Guest_only \<Rightarrow> guest = None
    | Upload_only \<Rightarrow> upload = None
    | _ \<Rightarrow> False))"

definition well_formed_request :: "endpoint \<Rightarrow> api_request \<Rightarrow> bool" where
  "well_formed_request e q = ((case body e of None \<Rightarrow> True | Some s \<Rightarrow> valid_body q s) \<and> (has_query (options e) \<longrightarrow> valid_query q)
     \<and> (idempotent (options e) \<longrightarrow> idempotency_key q = Some sample_uuid))"

definition accepted_reply :: "endpoint \<Rightarrow> api_reply" where
  "accepted_reply e = (if binary (options e) \<and> verb e = ''GET'' then File_sent else Sent (status (options e)))"

definition documented_reply :: "endpoint \<Rightarrow> uuid option \<Rightarrow> uuid option \<Rightarrow> uuid option \<Rightarrow> api_request \<Rightarrow> api_reply" where
  "documented_reply e staff guest upload q =
     (if unidentified e staff guest upload then Failed (Domain_error 401 (denial (access (options e))))
      else if \<not> well_formed_request e q then Failed invalid else accepted_reply e)"

end
