(* ===== verification/ApiConformance.thy ===== *)
theory ApiConformance
  imports ApiDocument
begin

text \<open>
  The application answers its documented endpoints as the document says. A request is
  dispatched symbolically: the parts of its path are facts about the request, and the congruence rules
  below keep the simplifier out of the routes a feature hands on to until it gets there.
\<close>

definition conforms :: "endpoint \<Rightarrow> bool" where
  "conforms e = (\<forall>q s g u. addressed e q \<longrightarrow> snd (dispatch (serving s g u) q) = documented_reply e s g u q)"

section \<open>The parts of a documented path\<close>

lemma split_no_sep: "p \<in> set (js_split c t) \<Longrightarrow> c \<notin> set p"
  by (induction t arbitrary: p) (auto split: if_splits list.splits)

lemma split_of_join: "ps \<noteq> [] \<Longrightarrow> \<forall>p\<in>set ps. c \<notin> set p \<Longrightarrow> js_split c (js_join [c] ps) = ps"
  by (induction "[c]" ps rule: js_join.induct) (auto simp: js_split_no_sep js_split_append)

lemma filled_no_sep: "CHR ''/'' \<notin> set s \<Longrightarrow> CHR ''/'' \<notin> set (filled s)"
  unfolding filled_def sample_slug_def sample_uuid_def by (cases "s = ''{slug}'' \<or> s = ''{postSlug}''"; simp)

lemma split_path: "path_parts (documented_path (CHR ''/'' # t)) = filter (\<lambda>s. s \<noteq> []) (map filled (js_split (CHR ''/'') t))"
proof -
  let ?x = "js_split (CHR ''/'') t"
  have sep: "\<forall>p\<in>set (map filled ?x). CHR ''/'' \<notin> set p"
    using split_no_sep filled_no_sep by auto
  have "js_split (CHR ''/'') (js_join ''/'' (map filled ?x)) = map filled ?x"
    by (rule split_of_join [OF _ sep]) simp
  then show ?thesis
    by (cases ?x) (simp_all add: path_parts_def documented_path_def starts_with_def filled_def)
qed

lemma parts1: "parts q = [a0]
    \<Longrightarrow> (part q 0 = Some a0 \<Longrightarrow> part q 1 = None \<Longrightarrow> part q 2 = None \<Longrightarrow> part q 3 = None \<Longrightarrow>
      part q 4 = None \<Longrightarrow> part q 5 = None \<Longrightarrow> part q 6 = None \<Longrightarrow> length (parts q) = 1 \<Longrightarrow> P) \<Longrightarrow> P"
  by (simp add: part_def)
lemma parts2: "parts q = [a0, a1]
    \<Longrightarrow> (part q 0 = Some a0 \<Longrightarrow> part q 1 = Some a1 \<Longrightarrow> part q 2 = None \<Longrightarrow> part q 3 = None \<Longrightarrow>
      part q 4 = None \<Longrightarrow> part q 5 = None \<Longrightarrow> part q 6 = None \<Longrightarrow> length (parts q) = 2 \<Longrightarrow> P) \<Longrightarrow> P"
  by (simp add: part_def)
lemma parts3: "parts q = [a0, a1, a2]
    \<Longrightarrow> (part q 0 = Some a0 \<Longrightarrow> part q 1 = Some a1 \<Longrightarrow> part q 2 = Some a2 \<Longrightarrow> part q 3 = None \<Longrightarrow>
      part q 4 = None \<Longrightarrow> part q 5 = None \<Longrightarrow> part q 6 = None \<Longrightarrow> length (parts q) = 3 \<Longrightarrow> P) \<Longrightarrow> P"
  by (simp add: part_def)
lemma parts4: "parts q = [a0, a1, a2, a3]
    \<Longrightarrow> (part q 0 = Some a0 \<Longrightarrow> part q 1 = Some a1 \<Longrightarrow> part q 2 = Some a2 \<Longrightarrow> part q 3 = Some a3 \<Longrightarrow>
      part q 4 = None \<Longrightarrow> part q 5 = None \<Longrightarrow> part q 6 = None \<Longrightarrow> length (parts q) = 4 \<Longrightarrow> P) \<Longrightarrow> P"
  by (simp add: part_def)
lemma parts5: "parts q = [a0, a1, a2, a3, a4]
    \<Longrightarrow> (part q 0 = Some a0 \<Longrightarrow> part q 1 = Some a1 \<Longrightarrow> part q 2 = Some a2 \<Longrightarrow> part q 3 = Some a3 \<Longrightarrow>
      part q 4 = Some a4 \<Longrightarrow> part q 5 = None \<Longrightarrow> part q 6 = None \<Longrightarrow> length (parts q) = 5 \<Longrightarrow> P) \<Longrightarrow> P"
  by (simp add: part_def)
lemma parts6: "parts q = [a0, a1, a2, a3, a4, a5]
    \<Longrightarrow> (part q 0 = Some a0 \<Longrightarrow> part q 1 = Some a1 \<Longrightarrow> part q 2 = Some a2 \<Longrightarrow> part q 3 = Some a3 \<Longrightarrow>
      part q 4 = Some a4 \<Longrightarrow> part q 5 = Some a5 \<Longrightarrow> part q 6 = None \<Longrightarrow> length (parts q) = 6 \<Longrightarrow> P) \<Longrightarrow> P"
  by (simp add: part_def)
lemma parts7: "parts q = [a0, a1, a2, a3, a4, a5, a6]
    \<Longrightarrow> (part q 0 = Some a0 \<Longrightarrow> part q 1 = Some a1 \<Longrightarrow> part q 2 = Some a2 \<Longrightarrow> part q 3 = Some a3 \<Longrightarrow>
      part q 4 = Some a4 \<Longrightarrow> part q 5 = Some a5 \<Longrightarrow> part q 6 = Some a6 \<Longrightarrow> length (parts q) = 7 \<Longrightarrow> P) \<Longrightarrow> P"
  by (simp add: part_def)
lemma parts8: "parts q = [a0, a1, a2, a3, a4, a5, a6, a7]
    \<Longrightarrow> (part q 0 = Some a0 \<Longrightarrow> part q 1 = Some a1 \<Longrightarrow> part q 2 = Some a2 \<Longrightarrow> part q 3 = Some a3 \<Longrightarrow>
      part q 4 = Some a4 \<Longrightarrow> part q 5 = Some a5 \<Longrightarrow> part q 6 = Some a6 \<Longrightarrow> length (parts q) = 8 \<Longrightarrow> P) \<Longrightarrow> P"
  by (simp add: part_def)

lemmas parts_elims = parts1 parts2 parts3 parts4 parts5 parts6 parts7 parts8

section \<open>Symbolic dispatch\<close>

lemma lazy:
  "call env n ids a = call env n ids a" "with_id env q m k = with_id env q m k" "after_event v a = after_event v a"
  "limited env b a = limited env b a" "parsed q s a = parsed q s a" "paged q a = paged q a"
  "with_choice q m xs a = with_choice q m xs a" "with_slug env q m a = with_slug env q m a" "keyed env q a = keyed env q a"
  "as_staff env a = as_staff env a" "as_guest env a = as_guest env a" "as_upload env a = as_upload env a"
  "support_routes env q a = support_routes env q a" "identity_routes env q a = identity_routes env q a"
  "public_routes env q a = public_routes env q a" "guest_routes env q a = guest_routes env q a"
  "upload_routes env q a = upload_routes env q a" "operator_routes env q a = operator_routes env q a"
  "wedding_routes env q a = wedding_routes env q a" "session_routes env q a = session_routes env q a" "gated env q a = gated env q a"
  by (rule refl)+

lemma lazy_features:
  "workspace_routes env q w a = workspace_routes env q w a" "notification_routes env q w a = notification_routes env q w a"
  "retention_routes env q w a = retention_routes env q w a" "ownership_routes env q w a = ownership_routes env q w a"
  "pass_routes env q w a = pass_routes env q w a" "door_routes env q w a = door_routes env q w a"
  "guest_record_routes env q w a = guest_record_routes env q w a" "answer_routes env q w a = answer_routes env q w a"
  "invitation_routes env q w a = invitation_routes env q w a" "concept_routes env q w a = concept_routes env q w a"
  "creative_routes env q w a = creative_routes env q w a" "album_routes env q w a = album_routes env q w a"
  "media_routes env q w a = media_routes env q w a" "site_routes env q w a = site_routes env q w a"
  "post_routes env q w a = post_routes env q w a" "member_routes env q w a = member_routes env q w a"
  by (rule refl)+

lemma uuid_eq: "(sample_uuid = c # cs) = (c = CHR ''0'' \<and> cs = tl sample_uuid)"
    "(c # cs = sample_uuid) = (c = CHR ''0'' \<and> cs = tl sample_uuid)"
  and sample_ne: "sample_uuid \<noteq> []" "[] \<noteq> sample_uuid" "sample_slug \<noteq> []"
  by (auto simp: sample_uuid_def sample_slug_def)

lemma serving_env: "staff_session (serving s g u) = s" "guest_cookie (serving s g u) = g" "upload_cookie (serving s g u) = u"
  "public_origin (serving s g u) = ''https://wedding.test''" "wired (serving s g u) f" "webhook_ready (serving s g u)"
  "webhook_signed (serving s g u)" "limit_left (serving s g u) b"
  "read_uuid (serving s g u) x = (if x = sample_uuid then Some 4 else None)" "slug_valid (serving s g u) x = (x = sample_slug)"
  "failing (serving s g u) f = None" "\<not> archived_site (serving s g u)" "grants_party (serving s g u)"
  "promised_bytes (serving s g u) i = 5" "active_uploads (serving s g u) = 0"
  by (simp_all add: serving_def)

lemma serving_call: "call (serving s g u) n ids a = (Called n ids # fst a, snd a)"
  and serving_limited: "limited (serving s g u) n a = (Counted n # fst a, snd a)"
  by (simp_all add: call_def limited_def after_event_def serving_env)

lemma conformsI:
  "(\<And>q s g u. unidentified e s g u \<Longrightarrow> addressed e q
      \<Longrightarrow> snd (dispatch (serving s g u) q) = Failed (Domain_error 401 (denial (access (options e)))))
   \<Longrightarrow> (\<And>q s g u. \<not> unidentified e s g u \<Longrightarrow> addressed e q
      \<Longrightarrow> snd (dispatch (serving s g u) q) = (if well_formed_request e q then accepted_reply e else Failed invalid))
   \<Longrightarrow> conforms e"
  by (simp add: conforms_def documented_reply_def)

lemmas endpoint_simps = route_def plain_def under_def accepted_reply_def denial_def unidentified_def well_formed_request_def
  logout_def addressed_def uuid_eq sample_ne

lemmas document_simps = endpoint_simps split_path filled_def starts_with_def

lemmas step_simps = with_id_def after_event_def parsed_def paged_def with_choice_def with_slug_def keyed_def
 as_staff_def as_guest_def as_upload_def sent_def sent_file_def fail_def queued_def transfer_file_def webhook_def gated_def
  safe_method_def body_accepted_def via_def at_part_def parts_count_def resolve_request_def invalid_def

lemmas route_simps = dispatch_def session_routes_def staff_routes_def support_routes_def identity_routes_def public_routes_def
  guest_routes_def upload_routes_def operator_routes_def wedding_routes_def workspace_routes_def notification_routes_def
  retention_routes_def ownership_routes_def pass_routes_def door_routes_def guest_record_routes_def answer_routes_def
  invitation_routes_def concept_routes_def creative_routes_def album_routes_def media_routes_def site_routes_def
  post_routes_def member_routes_def

lemmas dispatch_simps = endpoint_simps serving_env serving_call serving_limited step_simps route_simps Let_def

section \<open>The endpoints, part by part\<close>

lemma core_conform: "list_all conforms core_endpoints"
  unfolding core_endpoints_def list.pred_inject
  by (intro conjI TrueI conformsI; simp add: document_simps split del: if_split; elim conjE exE parts_elims;
      simp add: dispatch_simps cong: lazy lazy_features option.case_cong_weak split: option.split)

lemma workspace_conform: "list_all conforms workspace_endpoints"
  unfolding workspace_endpoints_def list.pred_inject
  by (intro conjI TrueI conformsI; simp add: document_simps split del: if_split; elim conjE exE parts_elims;
      simp add: dispatch_simps cong: lazy lazy_features option.case_cong_weak split: option.split)

lemma site_conform: "list_all conforms site_endpoints"
  unfolding site_endpoints_def list.pred_inject
  by (intro conjI TrueI conformsI; simp add: document_simps split del: if_split; elim conjE exE parts_elims;
      simp add: dispatch_simps cong: lazy lazy_features option.case_cong_weak split: option.split)

lemma guest_conform: "list_all conforms guest_endpoints"
  unfolding guest_endpoints_def list.pred_inject
  by (intro conjI TrueI conformsI; simp add: document_simps split del: if_split; elim conjE exE parts_elims;
      simp add: dispatch_simps cong: lazy lazy_features option.case_cong_weak split: option.split)

lemma pass_conform: "list_all conforms pass_endpoints"
  unfolding pass_endpoints_def list.pred_inject
  by (intro conjI TrueI conformsI; simp add: document_simps split del: if_split; elim conjE exE parts_elims;
      simp add: dispatch_simps cong: lazy lazy_features option.case_cong_weak split: option.split)

lemma creative_conform: "list_all conforms creative_endpoints"
  unfolding creative_endpoints_def list.pred_inject
  by (intro conjI TrueI conformsI; simp add: document_simps split del: if_split; elim conjE exE parts_elims;
      simp add: dispatch_simps cong: lazy lazy_features option.case_cong_weak split: option.split)

lemma visitor_conform: "list_all conforms visitor_endpoints"
  unfolding visitor_endpoints_def list.pred_inject
  by (intro conjI TrueI conformsI; simp add: document_simps split del: if_split; elim conjE exE parts_elims;
      simp add: dispatch_simps cong: lazy lazy_features option.case_cong_weak split: option.split)

lemma operator_conform: "list_all conforms operator_endpoints"
  unfolding operator_endpoints_def list.pred_inject
  by (intro conjI TrueI conformsI; simp add: document_simps split del: if_split; elim conjE exE parts_elims;
      simp add: dispatch_simps cong: lazy lazy_features option.case_cong_weak split: option.split)

lemmas endpoints_conform = core_conform workspace_conform site_conform guest_conform pass_conform creative_conform visitor_conform operator_conform

end
