(* ===== verification/Codec.thy ===== *)
theory Codec
  imports Prelude
begin

text \<open>
  The encodings of Node's \<^verbatim>\<open>Buffer\<close> that the program uses: UTF-8 of the characters below
  256, base64 and base64url. A \<open>char\<close> is an octet; strings hold code units below 256.
\<close>

section \<open>UTF-8\<close>

definition utf8_char :: "char \<Rightarrow> string" where
  "utf8_char c = (if code_of c < 128 then [c]
     else [char_of (192 + code_of c div 64), char_of (128 + code_of c mod 64)])"

definition utf8_encode :: "string \<Rightarrow> string" where
  "utf8_encode s = concat (map utf8_char s)"

text \<open>
  Decoding; a sequence of three or more octets denotes a code unit this model does not
  hold, and a stray octet decodes to the replacement character, written \<open>?\<close>.
\<close>

fun utf8_decode :: "string \<Rightarrow> string" where
  "utf8_decode [] = []"
| "utf8_decode (a # s) =
     (if code_of a < 128 then a # utf8_decode s
      else (case s of [] \<Rightarrow> ''?''
        | b # t \<Rightarrow>
            if 194 \<le> code_of a \<and> code_of a < 196 \<and> 128 \<le> code_of b \<and> code_of b < 192
            then char_of ((code_of a - 192) * 64 + (code_of b - 128)) # utf8_decode t
            else CHR ''?'' # utf8_decode s))"

lemma char_of_code_of [simp]: "char_of (code_of c) = c"
  by (simp add: code_of_def)

lemma utf8_decode_char: "utf8_decode (utf8_char c @ s) = c # utf8_decode s"
proof (cases "code_of c < 128")
  case True
  then show ?thesis by (simp add: utf8_char_def)
next
  case False
  define n where "n = code_of c"
  have n: "128 \<le> n" "n < 256" using False code_of_less [of c] by (simp_all add: n_def)
  have q: "2 \<le> n div 64" "n div 64 < 4" using n by linarith+
  have a: "code_of (char_of (192 + n div 64)) = 192 + n div 64"
    using q by (intro code_of_char_of) simp
  have b: "code_of (char_of (128 + n mod 64)) = 128 + n mod 64"
    by (intro code_of_char_of) (use mod_less_divisor [of 64 n] in linarith)
  have "char_of ((n div 64) * 64 + n mod 64) = c"
    unfolding div_mult_mod_eq by (simp add: n_def)
  then show ?thesis
    using False q mod_less_divisor [of 64 n]
    by (simp add: utf8_char_def n_def [symmetric] a b)
qed

lemma utf8_round_trip: "utf8_decode (utf8_encode s) = s"
proof (induction s)
  case Nil
  then show ?case by (simp add: utf8_encode_def)
next
  case (Cons c s)
  then show ?case using utf8_decode_char [of c "utf8_encode s"] by (simp add: utf8_encode_def)
qed

section \<open>Base64\<close>

text \<open>Regrouping octets into 6-bit groups and back.\<close>

fun sextets :: "nat list \<Rightarrow> nat list" where
  "sextets [] = []"
| "sextets [a] = [a div 4, a mod 4 * 16]"
| "sextets [a, b] = [a div 4, a mod 4 * 16 + b div 16, b mod 16 * 4]"
| "sextets (a # b # c # r) =
     a div 4 # (a mod 4 * 16 + b div 16) # (b mod 16 * 4 + c div 64) # c mod 64 # sextets r"

fun octets :: "nat list \<Rightarrow> nat list" where
  "octets [] = []"
| "octets [x] = []"
| "octets [x, y] = [x * 4 + y div 16]"
| "octets [x, y, z] = [x * 4 + y div 16, y mod 16 * 16 + z div 4]"
| "octets (x # y # z # w # r) =
     (x * 4 + y div 16) # (y mod 16 * 16 + z div 4) # (z mod 4 * 64 + w) # octets r"

lemma regroup:
  fixes a b c :: nat
  assumes "b < 256" "c < 256"
  shows "a div 4 * 4 + (a mod 4 * 16 + b div 16) div 16 = a"
    and "(a mod 4 * 16 + b div 16) mod 16 * 16 + (b mod 16 * 4 + c div 64) div 4 = b"
    and "(b mod 16 * 4 + c div 64) mod 4 * 64 + c mod 64 = c"
proof -
  have q: "b div 16 < 16" "c div 64 < 4" using assms by linarith+
  show "a div 4 * 4 + (a mod 4 * 16 + b div 16) div 16 = a" using q(1) by simp
  have "(a mod 4 * 16 + b div 16) mod 16 = b div 16" using q(1) by simp
  moreover have "(b mod 16 * 4 + c div 64) div 4 = b mod 16" using q(2) by simp
  ultimately show "(a mod 4 * 16 + b div 16) mod 16 * 16 + (b mod 16 * 4 + c div 64) div 4 = b" by simp
  have "(b mod 16 * 4 + c div 64) mod 4 = c div 64" using q(2) by simp
  then show "(b mod 16 * 4 + c div 64) mod 4 * 64 + c mod 64 = c" by simp
qed

lemma octets_sextets: "\<forall>x\<in>set bs. x < 256 \<Longrightarrow> octets (sextets bs) = bs"
proof (induction bs rule: sextets.induct)
  case 1
  then show ?case by simp
next
  case (2 a)
  then show ?case by simp
next
  case (3 a b)
  then show ?case using regroup(1,2) [of b 0 a] by simp
next
  case (4 a b c r)
  then show ?case using regroup(1,2) [of b c a] regroup(3) [of b c] by simp
qed

lemma sextets_range: "\<forall>x\<in>set bs. x < 256 \<Longrightarrow> s \<in> set (sextets bs) \<Longrightarrow> s < 64"
proof (induction bs rule: sextets.induct)
  case 1
  then show ?case by simp
next
  case (2 a)
  then have "a < 256" by simp
  then have "a div 4 < 64" "a mod 4 * 16 < 64" by linarith+
  then show ?case using 2(2) by auto
next
  case (3 a b)
  then have "a < 256" "b < 256" by simp_all
  then have "a div 4 < 64" "a mod 4 * 16 + b div 16 < 64" "b mod 16 * 4 < 64" by linarith+
  then show ?case using 3(2) by auto
next
  case (4 a b c r)
  then have "a < 256" "b < 256" "c < 256" by simp_all
  then have "a div 4 < 64" "a mod 4 * 16 + b div 16 < 64" "b mod 16 * 4 + c div 64 < 64" "c mod 64 < 64"
    by linarith+
  then show ?case using 4 by auto
qed

definition base64_alphabet :: string where
  "base64_alphabet = ''ABCDEFGHIJKLMNOPQRSTUVWXYZabcdefghijklmnopqrstuvwxyz0123456789+/''"

definition base64url_alphabet :: string where
  "base64url_alphabet = ''ABCDEFGHIJKLMNOPQRSTUVWXYZabcdefghijklmnopqrstuvwxyz0123456789-_''"

definition base64url_encode :: "string \<Rightarrow> string" where
  "base64url_encode s = map (\<lambda>n. base64url_alphabet ! n) (sextets (map code_of s))"

text \<open>\<open>toString("base64")\<close> pads to a multiple of four.\<close>

definition base64_encode :: "string \<Rightarrow> string" where
  "base64_encode s =
     (let body = map (\<lambda>n. base64_alphabet ! n) (sextets (map code_of s))
      in body @ replicate ((4 - length body mod 4) mod 4) (CHR ''=''))"

text \<open>
  \<open>Buffer.from(s, "base64url")\<close>: both alphabets are accepted, decoding ends at a padding
  sign, other characters are skipped.
\<close>

definition base64_value :: "char \<Rightarrow> nat option" where
  "base64_value c =
     (let n = code_of c
      in if 65 \<le> n \<and> n \<le> 90 then Some (n - 65)
         else if 97 \<le> n \<and> n \<le> 122 then Some (n - 71)
         else if 48 \<le> n \<and> n \<le> 57 then Some (n + 4)
         else if n = 43 \<or> n = 45 then Some 62
         else if n = 47 \<or> n = 95 then Some 63
         else None)"

definition base64_decode :: "string \<Rightarrow> string" where
  "base64_decode s = map char_of (octets (List.map_filter base64_value (takeWhile (\<lambda>c. c \<noteq> CHR ''='') s)))"

lemma base64url_values: "map base64_value base64url_alphabet = map Some [0..<64]"
  by (simp add: base64url_alphabet_def base64_value_def code_of_def upt_rec)

lemma base64url_alphabet_chars: "CHR ''='' \<notin> set base64url_alphabet" "CHR ''.'' \<notin> set base64url_alphabet"
  by (simp_all add: base64url_alphabet_def)

lemma base64url_char:
  assumes "n < 64"
  shows "base64_value (base64url_alphabet ! n) = Some n" "base64url_alphabet ! n \<noteq> CHR ''=''"
    "base64url_alphabet ! n \<noteq> CHR ''.''"
proof -
  have l: "length base64url_alphabet = 64" by (simp add: base64url_alphabet_def)
  have "map base64_value base64url_alphabet ! n = map Some [0..<64] ! n" using base64url_values by simp
  then show "base64_value (base64url_alphabet ! n) = Some n" using assms l by simp
  have "base64url_alphabet ! n \<in> set base64url_alphabet" using assms l by (intro nth_mem) simp
  then show "base64url_alphabet ! n \<noteq> CHR ''=''" "base64url_alphabet ! n \<noteq> CHR ''.''"
    using base64url_alphabet_chars by metis+
qed

lemma codes_range: "\<forall>x\<in>set (map code_of s). x < 256"
  by (simp add: code_of_less)

lemma base64url_encode_chars: "c \<in> set (base64url_encode s) \<Longrightarrow> c \<noteq> CHR ''='' \<and> c \<noteq> CHR ''.''"
  using sextets_range [OF codes_range [of s]] base64url_char(2,3) by (auto simp: base64url_encode_def)

lemma map_filter_values:
  assumes "\<And>n. n \<in> set ns \<Longrightarrow> n < 64"
  shows "List.map_filter base64_value (map (\<lambda>n. base64url_alphabet ! n) ns) = ns"
  using assms by (induction ns) (simp_all add: List.map_filter_simps base64url_char(1))

lemma base64url_round_trip: "base64_decode (base64url_encode s) = s"
proof -
  have "takeWhile (\<lambda>c. c \<noteq> CHR ''='') (base64url_encode s) = base64url_encode s"
    using base64url_encode_chars [of _ s] by (simp add: takeWhile_eq_all_conv)
  moreover have "List.map_filter base64_value (base64url_encode s) = sextets (map code_of s)"
    unfolding base64url_encode_def
    by (rule map_filter_values) (rule sextets_range [OF codes_range])
  ultimately have "base64_decode (base64url_encode s) = map char_of (octets (sextets (map code_of s)))"
    unfolding base64_decode_def by (simp only:)
  then show ?thesis by (simp add: octets_sextets [OF codes_range] comp_def)
qed

lemma base64url_encode_Nil [simp]: "base64url_encode s = [] \<longleftrightarrow> s = []"
proof (cases s)
  case Nil
  then show ?thesis by (simp add: base64url_encode_def)
next
  case (Cons c t)
  have "sextets (x # xs) \<noteq> []" for x xs by (cases "x # xs" rule: sextets.cases) auto
  then show ?thesis using Cons by (simp add: base64url_encode_def)
qed

end
