(* ===== verification/Json.thy ===== *)
theory Json
  imports Complex_Main Prelude
begin

text \<open>
  JSON as the program uses it: the values, \<open>JSON.parse\<close>, and the quoting of
  \<open>JSON.stringify\<close>. Numbers are exact rationals (the program's are integers); an
  escape that denotes a code unit above 255 is outside the model's strings and is refused.
\<close>

datatype json =
    JNull
  | JBool bool
  | JNum rat
  | JStr string
  | JArr "json list"
  | JObj "(string \<times> json) list"

section \<open>Quoting\<close>

definition hex_digit :: "nat \<Rightarrow> char" where
  "hex_digit n = (''0123456789abcdef'' ! n)"

definition json_escape :: "char \<Rightarrow> string" where
  "json_escape c =
     (let n = code_of c
      in if n = 34 then [CHR 0x5C, CHR 0x22]
         else if n = 92 then [CHR 0x5C, CHR 0x5C]
         else if n = 8 then [CHR 0x5C, CHR ''b'']
         else if n = 12 then [CHR 0x5C, CHR ''f'']
         else if n = 10 then [CHR 0x5C, CHR ''n'']
         else if n = 13 then [CHR 0x5C, CHR ''r'']
         else if n = 9 then [CHR 0x5C, CHR ''t'']
         else if n < 32 then [CHR 0x5C, CHR ''u'', CHR ''0'', CHR ''0'', hex_digit (n div 16), hex_digit (n mod 16)]
         else [c])"

definition json_quote :: "string \<Rightarrow> string" where
  "json_quote s = [CHR 0x22] @ concat (map json_escape s) @ [CHR 0x22]"

section \<open>Parsing\<close>

definition skip_ws :: "string \<Rightarrow> string" where
  "skip_ws s = dropWhile (\<lambda>c. code_of c \<in> {9, 10, 13, 32}) s"

definition hex_value :: "char \<Rightarrow> nat option" where
  "hex_value c =
     (let n = code_of c
      in if 48 \<le> n \<and> n \<le> 57 then Some (n - 48)
         else if 97 \<le> n \<and> n \<le> 102 then Some (n - 87)
         else if 65 \<le> n \<and> n \<le> 70 then Some (n - 55) else None)"

fun hex_unit :: "string \<Rightarrow> nat option" where
  "hex_unit [a, b, c, d] =
     (case (hex_value a, hex_value b, hex_value c, hex_value d) of
        (Some p, Some q, Some r, Some s) \<Rightarrow> Some (((p * 16 + q) * 16 + r) * 16 + s)
      | _ \<Rightarrow> None)"
| "hex_unit _ = None"

definition json_unescape :: "char \<Rightarrow> char option" where
  "json_unescape c =
     map_of [(CHR 0x22, CHR 0x22), (CHR 0x5C, CHR 0x5C), (CHR ''/'', CHR ''/''), (CHR ''b'', CHR 0x08),
       (CHR ''f'', CHR 0x0C), (CHR ''n'', CHR 0x0A), (CHR ''r'', CHR 0x0D), (CHR ''t'', CHR 0x09)] c"

abbreviation add_char :: "char \<Rightarrow> (string \<times> string) option \<Rightarrow> (string \<times> string) option" where
  "add_char c r \<equiv> map_option (\<lambda>(s, t). (c # s, t)) r"

text \<open>The rest of a string literal after its opening quote.\<close>

function json_chars :: "string \<Rightarrow> (string \<times> string) option" where
  "json_chars s =
     (case s of [] \<Rightarrow> None
      | c # cs \<Rightarrow>
        if c = CHR 0x22 then Some ([], cs)
        else if c = CHR 0x5C then
          (case cs of [] \<Rightarrow> None
           | e # ds \<Rightarrow>
             if e = CHR ''u'' then
               (case hex_unit (take 4 ds) of None \<Rightarrow> None
                | Some n \<Rightarrow> if n < 256 then add_char (char_of n) (json_chars (drop 4 ds)) else None)
             else (case json_unescape e of None \<Rightarrow> None | Some d \<Rightarrow> add_char d (json_chars ds)))
        else if code_of c < 32 then None
        else add_char c (json_chars cs))"
  by pat_completeness auto
termination
  by (relation "measure length") auto

declare json_chars.simps [simp del]

definition digits_value :: "string \<Rightarrow> nat" where
  "digits_value ds = foldl (\<lambda>n c. n * 10 + (code_of c - 48)) 0 ds"

definition json_frac :: "string \<Rightarrow> (rat \<times> string) option" where
  "json_frac s =
     (case s of [] \<Rightarrow> Some (0, [])
      | c # r \<Rightarrow>
        if c = CHR ''.'' then
          (let ds = takeWhile is_digit r
           in if ds = [] then None
              else Some (of_nat (digits_value ds) / 10 ^ length ds, dropWhile is_digit r))
        else Some (0, s))"

definition json_exp :: "string \<Rightarrow> (rat \<times> string) option" where
  "json_exp s =
     (case s of [] \<Rightarrow> Some (1, [])
      | c # r \<Rightarrow>
        if c = CHR ''e'' \<or> c = CHR ''E'' then
          (let signed = (case r of [] \<Rightarrow> False | d # _ \<Rightarrow> d = CHR ''+'' \<or> d = CHR ''-'');
               minus = (case r of [] \<Rightarrow> False | d # _ \<Rightarrow> d = CHR ''-'');
               t = (if signed then tl r else r);
               ds = takeWhile is_digit t
           in if ds = [] then None
              else Some (if minus then 1 / 10 ^ digits_value ds else 10 ^ digits_value ds,
                         dropWhile is_digit t))
        else Some (1, s))"

definition json_number :: "string \<Rightarrow> (rat \<times> string) option" where
  "json_number s =
     (let minus = (case s of [] \<Rightarrow> False | c # _ \<Rightarrow> c = CHR ''-'');
          t = (if minus then tl s else s);
          ds = takeWhile is_digit t
      in if ds = [] \<or> (hd ds = CHR ''0'' \<and> 1 < length ds) then None
         else (case json_frac (dropWhile is_digit t) of None \<Rightarrow> None
           | Some (f, u) \<Rightarrow>
             (case json_exp u of None \<Rightarrow> None
              | Some (e, v) \<Rightarrow>
                Some ((if minus then -1 else 1) * (of_nat (digits_value ds) + f) * e, v))))"

text \<open>
  Values, with a fuel that bounds the nesting of calls. Every call below another consumes
  at least one character first, so the length of the text is enough.
\<close>

fun json_value :: "nat \<Rightarrow> string \<Rightarrow> (json \<times> string) option"
and json_items :: "nat \<Rightarrow> string \<Rightarrow> (json list \<times> string) option"
and json_members :: "nat \<Rightarrow> string \<Rightarrow> ((string \<times> json) list \<times> string) option" where
  "json_value 0 s = None"
| "json_value (Suc n) s =
     (case skip_ws s of [] \<Rightarrow> None
      | c # cs \<Rightarrow>
        if c = CHR 0x22 then map_option (\<lambda>(v, r). (JStr v, r)) (json_chars cs)
        else if c = CHR ''{'' then
          (if take 1 (skip_ws cs) = ''}'' then Some (JObj [], tl (skip_ws cs))
           else map_option (\<lambda>(ms, r). (JObj ms, r)) (json_members n cs))
        else if c = CHR ''['' then
          (if take 1 (skip_ws cs) = '']'' then Some (JArr [], tl (skip_ws cs))
           else map_option (\<lambda>(vs, r). (JArr vs, r)) (json_items n cs))
        else if starts_with ''true'' (c # cs) then Some (JBool True, drop 3 cs)
        else if starts_with ''false'' (c # cs) then Some (JBool False, drop 4 cs)
        else if starts_with ''null'' (c # cs) then Some (JNull, drop 3 cs)
        else map_option (\<lambda>(q, r). (JNum q, r)) (json_number (c # cs)))"
| "json_items 0 s = None"
| "json_items (Suc n) s =
     (case json_value n s of None \<Rightarrow> None
      | Some (v, r) \<Rightarrow>
        (case skip_ws r of [] \<Rightarrow> None
         | c # t \<Rightarrow>
           if c = CHR '','' then map_option (\<lambda>(vs, u). (v # vs, u)) (json_items n t)
           else if c = CHR '']'' then Some ([v], t) else None))"
| "json_members 0 s = None"
| "json_members (Suc n) s =
     (case skip_ws s of [] \<Rightarrow> None
      | q # cs \<Rightarrow>
        if q \<noteq> CHR 0x22 then None
        else (case json_chars cs of None \<Rightarrow> None
          | Some (k, r) \<Rightarrow>
            (case skip_ws r of [] \<Rightarrow> None
             | c # t \<Rightarrow>
               if c \<noteq> CHR '':'' then None
               else (case json_value n t of None \<Rightarrow> None
                 | Some (v, u) \<Rightarrow>
                   (case skip_ws u of [] \<Rightarrow> None
                    | d # w \<Rightarrow>
                      if d = CHR '','' then map_option (\<lambda>(ms, x). ((k, v) # ms, x)) (json_members n w)
                      else if d = CHR ''}'' then Some ([(k, v)], w) else None)))))"

definition json_parse :: "string \<Rightarrow> json option" where
  "json_parse s =
     (case json_value (Suc (length s)) s of None \<Rightarrow> None
      | Some (v, r) \<Rightarrow> if skip_ws r = [] then Some v else None)"

text \<open>Reading a property: the last member with the key counts; other values have none.\<close>

definition json_get :: "string \<Rightarrow> json \<Rightarrow> json option" where
  "json_get k v = (case v of JObj ms \<Rightarrow> map_of (rev ms) k | _ \<Rightarrow> None)"

definition json_str :: "string \<Rightarrow> json \<Rightarrow> string option" where
  "json_str k v = (case json_get k v of Some (JStr s) \<Rightarrow> Some s | _ \<Rightarrow> None)"

section \<open>Round trips\<close>

lemma hex_digit_value: "n < 16 \<Longrightarrow> hex_value (hex_digit n) = Some n"
proof -
  assume "n < 16"
  moreover have "list_all (\<lambda>n. hex_value (hex_digit n) = Some n) [0..<16]" by code_simp
  ultimately show ?thesis by (simp add: list_all_iff)
qed

lemma json_chars_escape: "json_chars (json_escape c @ s) = add_char c (json_chars s)"
proof -
  have ch: "c = char_of (code_of c)" by (simp add: code_of_def)
  have special: ?thesis if "code_of c \<in> {34, 92, 8, 12, 10, 13, 9}"
  proof -
    have chars: "char_of (34::nat) = CHR 0x22" "char_of (92::nat) = CHR 0x5C" "char_of (8::nat) = CHR 0x08"
      "char_of (12::nat) = CHR 0x0C" "char_of (10::nat) = CHR 0x0A" "char_of (13::nat) = CHR 0x0D"
      "char_of (9::nat) = CHR 0x09" by code_simp+
    have "char_of (code_of c) \<in> char_of ` {34, 92, 8, 12, 10, 13, 9::nat}"
      using that by (rule imageI)
    then have "c \<in> {CHR 0x22, CHR 0x5C, CHR 0x08, CHR 0x0C, CHR 0x0A, CHR 0x0D, CHR 0x09}"
      unfolding ch [symmetric] image_insert image_empty chars .
    then show ?thesis
      by (elim insertE emptyE)
        (simp_all add: json_escape_def code_of_def json_chars.simps [of "CHR 0x5C # _"] json_unescape_def)
  qed
  show ?thesis
  proof (cases "code_of c \<in> {34, 92, 8, 12, 10, 13, 9}")
    case True
    then show ?thesis by (rule special)
  next
    case False
    show ?thesis
    proof (cases "code_of c < 32")
      case True
      define n where "n = code_of c"
      have n: "n div 16 < 16" "n mod 16 < 16" "n < 256" using True by (simp_all add: n_def)
      have "hex_unit [CHR ''0'', CHR ''0'', hex_digit (n div 16), hex_digit (n mod 16)] = Some n"
        using hex_digit_value [OF n(1)] hex_digit_value [OF n(2)] by (simp add: hex_value_def code_of_def)
      moreover have "json_escape c = [CHR 0x5C, CHR ''u'', CHR ''0'', CHR ''0'', hex_digit (n div 16), hex_digit (n mod 16)]"
        using False True by (auto simp: json_escape_def Let_def n_def)
      ultimately show ?thesis
        using ch n(3) by (simp add: json_chars.simps [of "CHR 0x5C # _"] n_def [symmetric])
    next
      case big: False
      then have "json_escape c = [c]" "c \<noteq> CHR 0x22" "c \<noteq> CHR 0x5C"
        using False by (auto simp: json_escape_def Let_def code_of_def)
      then show ?thesis using big by (simp add: json_chars.simps [of "c # _"])
    qed
  qed
qed

lemma json_chars_quoted:
  "json_chars (concat (map json_escape s) @ CHR 0x22 # r) = Some (s, r)"
proof (induction s)
  case Nil
  then show ?case by (simp add: json_chars.simps)
next
  case (Cons c s)
  then show ?case by (simp add: json_chars_escape)
qed

end
