(* ===== verification/Session.thy ===== *)
theory Session
  imports Codec Json
begin

text \<open>
  Administrator and door-staff sessions: \<^verbatim>\<open>apps/web/src/lib/auth.ts\<close>,
  \<^verbatim>\<open>users.ts\<close> and the login, logout and session routes. The keyed hash
  \<open>hmac\<close> (HMAC-SHA256 of the secret, in base64url) and the bcrypt comparison are
  parameters. A request body is a JSON value; a property read on a value of the wrong type
  that the code then calls a method of is a type error, which escapes the handler.
\<close>

section \<open>Responses\<close>

datatype failure = Type_error | Uri_error | Mail_error string

record cookie =
  cookie_value :: string
  cookie_secure :: bool
  cookie_max_age :: nat

record 'b response =
  status :: nat
  body :: 'b
  set_cookie :: "cookie option"
  retry_after :: "nat option"

definition respond :: "nat \<Rightarrow> 'b \<Rightarrow> 'b response" where
  "respond st b = \<lparr>status = st, body = b, set_cookie = None, retry_after = None\<rparr>"

lemma respond_sel [simp]:
  "status (respond st b) = st" "body (respond st b) = b" "set_cookie (respond st b) = None"
  "retry_after (respond st b) = None"
  by (simp_all add: respond_def)

text \<open>\<open>body?.k?.trim()\<close> and the truth value of a JSON value.\<close>

definition optional_trim :: "string \<Rightarrow> json \<Rightarrow> (failure, string option) result" where
  "optional_trim k b =
     (case json_get k b of
        None \<Rightarrow> Inr None
      | Some JNull \<Rightarrow> Inr None
      | Some (JStr s) \<Rightarrow> Inr (Some (js_trim s))
      | Some _ \<Rightarrow> Inl Type_error)"

fun json_truthy :: "json \<Rightarrow> bool" where
  "json_truthy JNull = False"
| "json_truthy (JBool b) = b"
| "json_truthy (JNum q) = (q \<noteq> 0)"
| "json_truthy (JStr s) = (s \<noteq> [])"
| "json_truthy (JArr _) = True"
| "json_truthy (JObj _) = True"

section \<open>Sessions\<close>

datatype app_role = Super_admin | Bouncer

definition role_text :: "app_role \<Rightarrow> string" where
  "role_text r = (case r of Super_admin \<Rightarrow> ''super_admin'' | Bouncer \<Rightarrow> ''bouncer'')"

record auth_session =
  session_user_id :: string
  session_email :: string
  session_role :: app_role
  session_issued_at :: rat

definition sessionTtlMs :: int where
  "sessionTtlMs = 1000 * 60 * 60 * 12"

definition show_int :: "int \<Rightarrow> string" where
  "show_int n = (if n < 0 then CHR ''-'' # show_nat (nat (- n)) else show_nat (nat n))"

definition session_json :: "string \<Rightarrow> string \<Rightarrow> app_role \<Rightarrow> int \<Rightarrow> string" where
  "session_json uid email role now =
     ''{'' @ json_quote ''userId'' @ '':'' @ json_quote uid @ '','' @
     json_quote ''email'' @ '':'' @ json_quote email @ '','' @
     json_quote ''role'' @ '':'' @ json_quote (role_text role) @ '','' @
     json_quote ''issuedAt'' @ '':'' @ show_int now @ ''}''"

definition createSessionToken ::
  "(string \<Rightarrow> string) \<Rightarrow> string \<Rightarrow> string \<Rightarrow> app_role \<Rightarrow> int \<Rightarrow> string" where
  "createSessionToken hmac uid email role now =
     (let payload = base64url_encode (utf8_encode (session_json uid email role now))
      in payload @ ''.'' @ hmac payload)"

definition role_of_text :: "string \<Rightarrow> app_role option" where
  "role_of_text s = (if s = ''super_admin'' then Some Super_admin
     else if s = ''bouncer'' then Some Bouncer else None)"

text \<open>The cast of the parsed payload to a session, with the checks that follow it.\<close>

definition checked_session :: "json \<Rightarrow> int \<Rightarrow> auth_session option" where
  "checked_session j now =
     (case (json_str ''role'' j, json_str ''userId'' j, json_str ''email'' j, json_get ''issuedAt'' j) of
        (Some r, Some u, Some e, Some (JNum t)) \<Rightarrow>
          (case role_of_text r of None \<Rightarrow> None
           | Some role \<Rightarrow>
             if u \<noteq> [] \<and> e \<noteq> [] \<and> of_int now - t \<le> of_int sessionTtlMs
             then Some \<lparr>session_user_id = u, session_email = e, session_role = role, session_issued_at = t\<rparr>
             else None)
      | _ \<Rightarrow> None)"

definition verifySessionToken ::
  "(string \<Rightarrow> string) \<Rightarrow> string option \<Rightarrow> int \<Rightarrow> auth_session option" where
  "verifySessionToken hmac token now =
     (case token of None \<Rightarrow> None
      | Some t \<Rightarrow>
        (if t = [] then None
         else (case js_split (CHR ''.'') t of
            payload # signature # _ \<Rightarrow>
              if payload = [] \<or> signature = [] \<or> hmac payload \<noteq> signature then None
              else (case json_parse (utf8_decode (base64_decode payload)) of
                      None \<Rightarrow> None | Some j \<Rightarrow> checked_session j now)
          | _ \<Rightarrow> None)))"

definition canAccessRole :: "auth_session option \<Rightarrow> app_role list \<Rightarrow> bool" where
  "canAccessRole session allowed =
     (case session of None \<Rightarrow> False | Some s \<Rightarrow> session_role s \<in> set allowed)"

definition getSessionMaxAgeSeconds :: nat where
  "getSessionMaxAgeSeconds = nat (sessionTtlMs div 1000)"

section \<open>Users, login and logout\<close>

record app_user =
  user_id :: string
  user_email :: string
  password_hash :: string
  user_role :: app_role

definition findUserByEmail :: "string \<Rightarrow> app_user list \<Rightarrow> app_user option" where
  "findUserByEmail email users = List.find (\<lambda>u. js_lower (user_email u) = js_lower email) users"

datatype auth_body =
    Auth_error string
  | Logged_in string app_role
  | Logged_out
  | Session_state bool "string option" "app_role option"

definition login_POST ::
  "(string \<Rightarrow> string) \<Rightarrow> (string \<Rightarrow> string \<Rightarrow> bool) \<Rightarrow> bool \<Rightarrow> app_user list \<Rightarrow> json \<Rightarrow> int
     \<Rightarrow> (failure, auth_body response) result" where
  "login_POST hmac bcrypt production users b now =
     (case optional_trim ''email'' b of
        Inl e \<Rightarrow> Inl e
      | Inr email \<Rightarrow>
        (let password = or_else (json_get ''password'' b) JNull
         in if or_else email [] = [] \<or> \<not> json_truthy password
            then Inr (respond 400 (Auth_error ''Invalid login request.''))
            else (case findUserByEmail (or_else email []) users of
                None \<Rightarrow> Inr (respond 401 (Auth_error ''Invalid credentials.''))
              | Some user \<Rightarrow>
                (case password of
                   JStr pw \<Rightarrow>
                     if bcrypt pw (password_hash user)
                     then Inr ((respond 200 (Logged_in (user_email user) (user_role user)))
                       \<lparr>set_cookie := Some \<lparr>
                          cookie_value = createSessionToken hmac (user_id user) (user_email user) (user_role user) now,
                          cookie_secure = production, cookie_max_age = getSessionMaxAgeSeconds\<rparr>\<rparr>)
                     else Inr (respond 401 (Auth_error ''Invalid credentials.''))
                 | _ \<Rightarrow> Inl Type_error))))"

definition logout_POST :: "bool \<Rightarrow> auth_body response" where
  "logout_POST production = (respond 200 Logged_out)
     \<lparr>set_cookie := Some \<lparr>cookie_value = [], cookie_secure = production, cookie_max_age = 0\<rparr>\<rparr>"

definition session_GET :: "auth_session option \<Rightarrow> auth_body response" where
  "session_GET session = respond 200
     (Session_state (session \<noteq> None) (map_option session_email session) (map_option session_role session))"

section \<open>The payload parses back\<close>

lemma digits_value_snoc: "digits_value (ds @ [c]) = digits_value ds * 10 + (code_of c - 48)"
  by (simp add: digits_value_def)

lemma digits_value_show: "digits_value (show_nat n) = n"
proof (induction n rule: show_nat.induct)
  case (1 n)
  have d: "code_of (char_of (48 + d)) = 48 + d" if "d < 10" for d :: nat
    using that by (simp add: code_of_char_of)
  show ?case
  proof (cases "n < 10")
    case True
    then show ?thesis using d [of n] by (subst show_nat.simps) (simp add: digits_value_def)
  next
    case False
    then have "digits_value (show_nat n) = (n div 10) * 10 + n mod 10"
      using 1 d [of "n mod 10"] by (subst show_nat.simps) (simp add: digits_value_snoc)
    then show ?thesis by simp
  qed
qed

lemma show_nat_hd: "hd (show_nat n) = CHR ''0'' \<Longrightarrow> n = 0"
proof (induction n rule: show_nat.induct)
  case (1 n)
  show ?case
  proof (cases "n < 10")
    case True
    then have "char_of (48 + n) = CHR ''0''" using 1(2) by (subst (asm) show_nat.simps) simp
    then have "code_of (char_of (48 + n)) = 48" by (simp add: code_of_def)
    then show ?thesis using True by (simp add: code_of_char_of)
  next
    case False
    have "hd (show_nat n) = hd (show_nat (n div 10))"
      using False by (subst show_nat.simps) simp
    then show ?thesis using 1 False by auto
  qed
qed

lemma show_nat_zero: "show_nat 0 = ''0''"
  by code_simp

lemma json_number_show:
  assumes "r \<noteq> []" "\<not> is_digit (hd r)" "hd r \<noteq> CHR ''.''" "hd r \<noteq> CHR ''e''" "hd r \<noteq> CHR ''E''"
  shows "json_number (show_nat n @ r) = Some (of_nat n, r)"
proof -
  have dig: "\<forall>c\<in>set (show_nat n). is_digit c" using show_nat_digits by blast
  have hd: "hd (show_nat n) \<noteq> CHR ''-''"
  proof -
    have "is_digit (hd (show_nat n))" using dig hd_in_set [OF show_nat_not_Nil] by blast
    then show ?thesis by (auto simp: is_digit_def code_of_def)
  qed
  have tw: "takeWhile is_digit (show_nat n @ r) = show_nat n" "dropWhile is_digit (show_nat n @ r) = r"
    using dig assms(1,2) by (cases r; simp add: takeWhile_append2 dropWhile_append2)+
  have zero: "\<not> (hd (show_nat n) = CHR ''0'' \<and> 1 < length (show_nat n))"
    using show_nat_hd [of n] show_nat_zero by auto
  have "json_frac r = Some (0, r)" "json_exp r = Some (1, r)"
    using assms by (cases r; simp add: json_frac_def json_exp_def)+
  moreover obtain c cs where "show_nat n @ r = c # cs" "c \<noteq> CHR ''-''"
    using hd by (cases "show_nat n") auto
  ultimately show ?thesis
    using zero tw by (simp add: json_number_def Let_def digits_value_show)
qed

lemma json_value_quote: "json_value (Suc n) (json_quote s @ r) = Some (JStr s, r)"
  by (simp add: json_quote_def skip_ws_def code_of_def json_chars_quoted)

lemma json_members_quote:
  "json_members (Suc n) (json_quote k @ CHR '':'' # t) =
    (case json_value n t of None \<Rightarrow> None
     | Some (v, u) \<Rightarrow>
       (case skip_ws u of [] \<Rightarrow> None
        | d # w \<Rightarrow>
          if d = CHR '','' then map_option (\<lambda>(ms, x). ((k, v) # ms, x)) (json_members n w)
          else if d = CHR ''}'' then Some ([(k, v)], w) else None))"
  by (simp add: json_quote_def skip_ws_def code_of_def json_chars_quoted)

lemma skip_ws_simps [simp]:
  "skip_ws (CHR '','' # t) = CHR '','' # t" "skip_ws (CHR ''}'' # t) = CHR ''}'' # t"
  "skip_ws (CHR ''{'' # t) = CHR ''{'' # t" "skip_ws [] = []"
  "skip_ws (json_quote s @ t) = json_quote s @ t"
  by (simp_all add: skip_ws_def code_of_def json_quote_def)

lemma json_value_show:
  assumes "r \<noteq> []" "\<not> is_digit (hd r)" "hd r \<noteq> CHR ''.''" "hd r \<noteq> CHR ''e''" "hd r \<noteq> CHR ''E''"
  shows "json_value (Suc n) (show_nat k @ r) = Some (JNum (of_nat k), r)"
proof -
  obtain c cs where c: "show_nat k @ r = c # cs" "is_digit c"
    using show_nat_digits [of _ k] by (cases "show_nat k") auto
  have ne: "c \<noteq> CHR 0x22" "c \<noteq> CHR ''{''" "c \<noteq> CHR ''[''" "c \<noteq> CHR ''t''" "c \<noteq> CHR ''f''" "c \<noteq> CHR ''n''"
    "code_of c \<notin> {9, 10, 13, 32}"
    using c(2) by (auto simp: is_digit_def code_of_def)
  then have "skip_ws (show_nat k @ r) = c # cs" by (simp add: c(1) skip_ws_def)
  then show ?thesis
    using ne json_number_show [OF assms, of k] unfolding c(1) by (simp add: starts_with_def)
qed

definition session_members :: "string \<Rightarrow> string \<Rightarrow> app_role \<Rightarrow> int \<Rightarrow> (string \<times> json) list" where
  "session_members uid email role now =
     [(''userId'', JStr uid), (''email'', JStr email), (''role'', JStr (role_text role)),
      (''issuedAt'', JNum (of_int now))]"

lemma json_quote_head: "\<exists>t. json_quote s @ r = CHR 0x22 # t"
  by (simp add: json_quote_def)

lemma json_parse_session:
  assumes "0 \<le> now"
  shows "json_parse (session_json uid email role now) = Some (JObj (session_members uid email role now))"
proof -
  define tail where "tail = json_quote ''userId'' @ CHR '':'' # json_quote uid @ CHR '','' #
     json_quote ''email'' @ CHR '':'' # json_quote email @ CHR '','' #
     json_quote ''role'' @ CHR '':'' # json_quote (role_text role) @ CHR '','' #
     json_quote ''issuedAt'' @ CHR '':'' # show_nat (nat now) @ ''}''"
  have s: "session_json uid email role now = CHR ''{'' # tail"
    using assms by (simp add: session_json_def tail_def show_int_def)
  have num: "json_value (Suc n) (show_nat (nat now) @ ''}'') = Some (JNum (of_int now), ''}'')" for n
    using json_value_show [of "''}''" n "nat now"] assms by (simp add: is_digit_def code_of_def)
  have members: "json_members (Suc (Suc (Suc (Suc (Suc n))))) tail = Some (session_members uid email role now, [])" for n
    by (simp add: tail_def json_members_quote json_value_quote num session_members_def
        del: json_members.simps json_value.simps)
  obtain t where "tail = CHR 0x22 # t" unfolding tail_def using json_quote_head by blast
  then have "take 1 (skip_ws tail) \<noteq> ''}''" by (simp add: skip_ws_def code_of_def)
  moreover obtain m where "length tail = Suc (Suc (Suc (Suc (Suc m))))"
  proof -
    have "5 \<le> length tail" by (simp add: tail_def json_quote_def)
    then show thesis using that [of "length tail - 5"] by simp
  qed
  ultimately show ?thesis
    using members by (simp add: json_parse_def s)
qed

lemma checked_session_own:
  assumes "uid \<noteq> []" "email \<noteq> []" "now' - now \<le> sessionTtlMs"
  shows "checked_session (JObj (session_members uid email role now)) now' =
    Some \<lparr>session_user_id = uid, session_email = email, session_role = role, session_issued_at = of_int now\<rparr>"
proof -
  have "(of_int now' - of_int now :: rat) \<le> of_int sessionTtlMs"
    using assms(3) by (metis of_int_diff of_int_le_iff)
  then show ?thesis
    using assms(1,2) by (cases role) (simp_all add: checked_session_def session_members_def json_str_def
      json_get_def role_of_text_def role_text_def)
qed

lemma session_payload_split:
  "CHR ''.'' \<notin> set (hmac p) \<Longrightarrow> js_split (CHR ''.'') (base64url_encode q @ ''.'' @ hmac p) =
     [base64url_encode q, hmac p]"
proof -
  have "CHR ''.'' \<notin> set (base64url_encode q)" using base64url_encode_chars by blast
  then show "CHR ''.'' \<notin> set (hmac p) \<Longrightarrow> ?thesis" by (simp add: js_split_append js_split_no_sep)
qed

lemma verify_created:
  assumes "CHR ''.'' \<notin> set (hmac (base64url_encode (utf8_encode (session_json uid email role now))))"
    and "hmac (base64url_encode (utf8_encode (session_json uid email role now))) \<noteq> []" "0 \<le> now"
  shows "verifySessionToken hmac (Some (createSessionToken hmac uid email role now)) now' =
    checked_session (JObj (session_members uid email role now)) now'"
proof -
  let ?p = "base64url_encode (utf8_encode (session_json uid email role now))"
  have ne: "?p \<noteq> []"
    by (simp add: utf8_encode_def session_json_def utf8_char_def code_of_def)
  have "js_split (CHR ''.'') (?p @ ''.'' @ hmac ?p) = [?p, hmac ?p]"
    using assms(1) by (rule session_payload_split)
  moreover have "json_parse (utf8_decode (base64_decode ?p)) = Some (JObj (session_members uid email role now))"
    using assms(3) by (simp only: base64url_round_trip utf8_round_trip json_parse_session)
  ultimately show ?thesis
    using ne assms(2) by (simp add: verifySessionToken_def createSessionToken_def Let_def)
qed

lemma verify_cases:
  assumes "verifySessionToken hmac (Some t) now = Some s"
  obtains payload rest j where "js_split (CHR ''.'') t = payload # hmac payload # rest" "payload \<noteq> []"
    "json_parse (utf8_decode (base64_decode payload)) = Some j" "checked_session j now = Some s"
  using assms
  by (auto simp: verifySessionToken_def split: if_splits list.splits option.splits)

lemma checked_session_Some:
  assumes "checked_session j now = Some s"
  shows "session_user_id s \<noteq> []" "session_email s \<noteq> []" "of_int now - session_issued_at s \<le> of_int sessionTtlMs"
    "json_str ''role'' j = Some (role_text (session_role s))"
  using assms
  by (auto simp: checked_session_def role_of_text_def role_text_def
      split: if_splits option.splits json.splits prod.splits app_role.splits)

end
