(* ===== verification/ByteRange.thy ===== *)
theory ByteRange
  imports Session "HOL-Library.Word"
begin

text \<open>
  Answers to \<^verbatim>\<open>Range\<close> requests, \<open>Application.binary\<close> of
  \<^verbatim>\<open>apps/api/src/application.ts\<close>. The two numbers are read exactly: the source reads
  them as doubles, which differ only above \<open>2 ^ 53\<close>, beyond the length of any file it holds
  in memory, where both sides answer alike.
\<close>

type_synonym file_bytes = "8 word list"

datatype file_answer = Whole file_bytes | Partial nat nat nat file_bytes | Unsatisfiable nat

text \<open>The header, by \<^verbatim>\<open>/^bytes=(\d+)-(\d*)$/\<close>; an empty second group is no number.\<close>

definition byte_range :: "string \<Rightarrow> (nat \<times> nat option) option" where
  "byte_range s =
     (if \<not> starts_with ''bytes='' s then None
      else (let r = drop 6 s; ds = takeWhile is_digit r; rest = dropWhile is_digit r in
        if ds = [] then None
        else (case rest of
            [] \<Rightarrow> None
          | c # es \<Rightarrow> if c = CHR ''-'' \<and> list_all is_digit es
              then Some (digits_value ds, if es = [] then None else Some (digits_value es)) else None)))"

definition binary_answer :: "string option \<Rightarrow> file_bytes \<Rightarrow> file_answer" where
  "binary_answer header file_data =
     (case header of
        None \<Rightarrow> Whole file_data
      | Some h \<Rightarrow>
          if h = [] then Whole file_data
          else (case byte_range h of
              None \<Rightarrow> Unsatisfiable (length file_data)
            | Some (start, last_byte) \<Rightarrow>
                (let stop = (case last_byte of None \<Rightarrow> int (length file_data) - 1 | Some e \<Rightarrow> int e) in
                 if stop < int start \<or> length file_data \<le> start then Unsatisfiable (length file_data)
                 else (let last = min (nat stop) (length file_data - 1) in
                   Partial start last (length file_data) (take (last + 1 - start) (drop start file_data))))))"

section \<open>Reading the header back\<close>

definition range_header :: "nat \<Rightarrow> nat option \<Rightarrow> string" where
  "range_header a b = ''bytes='' @ show_nat a @ ''-'' @ (case b of None \<Rightarrow> [] | Some e \<Rightarrow> show_nat e)"

lemma digits_then_dash:
  "takeWhile is_digit (show_nat n @ CHR ''-'' # s) = show_nat n" "dropWhile is_digit (show_nat n @ CHR ''-'' # s) = CHR ''-'' # s"
  using show_nat_digits [of _ n] by (simp_all add: takeWhile_append dropWhile_append is_digit_def code_of_def)

lemma byte_range_header: "byte_range (range_header a b) = Some (a, b)"
proof -
  have "list_all is_digit (show_nat e)" for e
    using show_nat_digits by (simp add: list_all_iff)
  then show ?thesis
    by (simp add: byte_range_def range_header_def starts_with_def digits_then_dash digits_value_show Let_def split: option.split)
qed

lemma range_header_ne: "range_header a b \<noteq> []"
  by (simp add: range_header_def)

lemma answered_range:
  "a < length f \<Longrightarrow> a \<le> e \<Longrightarrow> e < length f
    \<Longrightarrow> binary_answer (Some (range_header a (Some e))) f = Partial a e (length f) (take (e + 1 - a) (drop a f))"
  by (simp add: binary_answer_def byte_range_header range_header_ne Let_def min_def)

lemma answered_rest:
  "a < length f \<Longrightarrow> binary_answer (Some (range_header a None)) f = Partial a (length f - 1) (length f) (drop a f)"
  by (simp add: binary_answer_def byte_range_header range_header_ne Let_def min_def nat_diff_distrib)

text \<open>
  A download that was cut after \<open>k\<close> bytes is resumed with the open range from \<open>k\<close>: both answers name the
  bytes they carry and the length of the file, and joined in order they are the file.
\<close>

lemma resumed_download_is_the_file:
  assumes "0 < k" "k < length f"
  shows "binary_answer (Some (range_header 0 (Some (k - 1)))) f = Partial 0 (k - 1) (length f) (take k f)
    \<and> binary_answer (Some (range_header k None)) f = Partial k (length f - 1) (length f) (drop k f) \<and> take k f @ drop k f = f"
proof -
  have "0 < length f" "k - 1 < length f" and k: "k - 1 + 1 - 0 = k"
    using assms by auto
  then have "binary_answer (Some (range_header 0 (Some (k - 1)))) f = Partial 0 (k - 1) (length f) (take k (drop 0 f))"
    using answered_range [of 0 f "k - 1"] by (simp only: k le0)
  then show ?thesis
    using assms by (simp add: answered_rest)
qed


end
