(* ===== verification/ApiTheorems.thy ===== *)
theory ApiTheorems
  imports RouteRules ApiConformance ByteRange
begin

text \<open>
  What the application guarantees of every request: forged and reading requests change
  nothing, no handler runs without the credential it is for, the routes of a wedding stay in that
  wedding, and the documented endpoints answer as documented.
\<close>

section \<open>Forged requests\<close>







section \<open>Credentials\<close>

text \<open>The handlers anyone may reach, those for a guest's session and those for a visitor's upload session.\<close>

definition open_handlers :: "string list" where
  "open_handlers =
     [''store.ping'', ''notifications.receive'', ''operator.submitReport'', ''store.register'', ''store.resendVerification'',
      ''store.verify'', ''store.login'', ''store.recover'', ''store.reset'', ''store.logout'', ''publication.publicSite'',
      ''media.readPublic'', ''publication.exchangeShared'', ''publication.publicPost'', ''guests.exchange'',
      ''guests.request'', ''guests.logout'', ''uploads.exchange'', ''uploads.logout'']"

definition guest_handlers :: "string list" where
  "guest_handlers = [''passes.guestList'', ''passes.guestDownload'', ''guests.party'', ''guests.submit'', ''uploads.fromGuest'']"

definition upload_handlers :: "string list" where
  "upload_handlers = [''media.uploadStatus'', ''media.intent'', ''media.expectedUpload'', ''media.receive'']"

record credentials =
  staff_held :: bool
  guest_held :: bool
  upload_held :: bool

text \<open>Every other handler is a member's: it asks for a session of the staff.\<close>

definition permitted :: "credentials \<Rightarrow> string \<Rightarrow> bool" where
  "permitted h n = (staff_held h \<or> n \<in> set open_handlers \<or> (guest_held h \<and> n \<in> set guest_handlers)
     \<or> (upload_held h \<and> n \<in> set upload_handlers))"

text \<open>A trace in which every sign-in is of the session the cookie names and every call comes after one that permits it.\<close>

fun orderly :: "api_env \<Rightarrow> credentials \<Rightarrow> api_event list \<Rightarrow> bool" where
  "orderly env h [] = True"
| "orderly env h (Counted b # vs) = orderly env h vs"
| "orderly env h (Signed_in u # vs) = (staff_session env = Some u \<and> orderly env (h\<lparr>staff_held := True\<rparr>) vs)"
| "orderly env h (Guest_in g # vs) = (guest_cookie env = Some g \<and> orderly env (h\<lparr>guest_held := True\<rparr>) vs)"
| "orderly env h (Upload_in l # vs) = (upload_cookie env = Some l \<and> orderly env (h\<lparr>upload_held := True\<rparr>) vs)"
| "orderly env h (Called n ids # vs) = (permitted h n \<and> orderly env h vs)"

definition in_order :: "api_env \<Rightarrow> credentials \<Rightarrow> answer \<Rightarrow> bool" where
  "in_order env h a = orderly env h (fst a)"

lemma order_fail: "in_order env h (fail e)" and order_sent: "in_order env h (sent n)" and order_file: "in_order env h sent_file"
  by (simp_all add: in_order_def fail_def sent_def sent_file_def)

lemma order_if: "(c \<Longrightarrow> in_order env h a) \<Longrightarrow> (\<not> c \<Longrightarrow> in_order env h b) \<Longrightarrow> in_order env h (if c then a else b)"
  by simp

lemma order_call: "permitted h n \<Longrightarrow> in_order env h a \<Longrightarrow> in_order env h (call env n ids a)"
  by (auto simp: call_def after_event_def in_order_def fail_def split: option.split)

lemma order_limited: "in_order env h a \<Longrightarrow> in_order env h (limited env b a)"
  by (auto simp: limited_def after_event_def in_order_def fail_def)

lemma order_parsed: "in_order env h a \<Longrightarrow> in_order env h (parsed q s a)" and order_paged: "in_order env h a \<Longrightarrow> in_order env h (paged q a)"
  and order_choice: "in_order env h a \<Longrightarrow> in_order env h (with_choice q n xs a)"
  and order_slug: "in_order env h a \<Longrightarrow> in_order env h (with_slug env q n a)"
  and order_keyed: "in_order env h a \<Longrightarrow> in_order env h (keyed env q a)"
  by (auto simp: parsed_def paged_def with_choice_def with_slug_def keyed_def intro: order_fail split: option.split)

lemma order_id: "(\<And>i. in_order env h (k i)) \<Longrightarrow> in_order env h (with_id env q n k)"
  by (auto simp: with_id_def intro: order_fail split: option.split)

lemma order_staff: "in_order env (h\<lparr>staff_held := True\<rparr>) a \<Longrightarrow> in_order env h (as_staff env a)"
  and order_guest: "in_order env (h\<lparr>guest_held := True\<rparr>) a \<Longrightarrow> in_order env h (as_guest env a)"
  and order_upload: "in_order env (h\<lparr>upload_held := True\<rparr>) a \<Longrightarrow> in_order env h (as_upload env a)"
  by (auto simp: as_staff_def as_guest_def as_upload_def after_event_def in_order_def fail_def split: option.split)

lemmas order_steps = order_fail order_sent order_file order_if order_call order_limited order_parsed order_paged
  order_choice order_slug order_keyed order_id order_staff order_guest order_upload

text \<open>Behind the staff's sign-in every handler is permitted.\<close>

definition truthful :: "api_env \<Rightarrow> api_event \<Rightarrow> bool" where
  "truthful env v = (case v of Signed_in u \<Rightarrow> staff_session env = Some u | Guest_in g \<Rightarrow> guest_cookie env = Some g
     | Upload_in l \<Rightarrow> upload_cookie env = Some l | _ \<Rightarrow> True)"

lemma staff_orderly: "staff_held h \<Longrightarrow> list_all (truthful env) vs \<Longrightarrow> orderly env h vs"
  by (induction env h vs rule: orderly.induct) (auto simp: truthful_def permitted_def)

lemma truthful_free: "free_calls env q (truthful env)"
  by (simp add: free_calls_def truthful_def)

lemma order_behind_staff: "only (truthful env) a \<Longrightarrow> in_order env h (as_staff env a)"
  by (auto simp: in_order_def only_def as_staff_def after_event_def fail_def intro: staff_orderly split: option.split)

section \<open>The routes, credential by credential\<close>

lemma order_support: "in_order env h nxt \<Longrightarrow> in_order env h (support_routes env q nxt)"
  unfolding support_routes_def by (intro order_steps) (simp_all add: permitted_def open_handlers_def)

lemma order_identity:
  assumes "\<And>h. in_order env h nxt"
  shows "in_order env h (identity_routes env q nxt)"
  unfolding identity_routes_def by (intro order_steps assms) (simp_all add: permitted_def open_handlers_def)

lemma order_public: "in_order env h nxt \<Longrightarrow> in_order env h (public_routes env q nxt)"
  unfolding public_routes_def Let_def by (intro order_steps) (simp_all add: permitted_def open_handlers_def)

lemma order_guests:
  assumes "\<And>h. in_order env h nxt"
  shows "in_order env h (guest_routes env q nxt)"
  unfolding guest_routes_def
  by (intro order_steps assms) (simp_all add: permitted_def open_handlers_def guest_handlers_def)

lemma order_transfer: "upload_held h \<Longrightarrow> in_order env h (transfer_file env q b ids)"
  unfolding transfer_file_def by (intro order_steps) (simp_all add: permitted_def upload_handlers_def)

lemma order_uploads:
  assumes "\<And>h. in_order env h nxt"
  shows "in_order env h (upload_routes env q nxt)"
  unfolding upload_routes_def
  by (intro order_steps order_transfer assms)
    (simp_all add: permitted_def open_handlers_def guest_handlers_def upload_handlers_def)

lemma order_staff_routes: "in_order env h (staff_routes env q)"
proof -
  have body: "only (truthful env) (if c then parsed q s (call env n [] (sent 200)) else operator_routes env q (wedding_routes env q (fail e)))"
    for c s n e
    by (intro only_if only_parsed only_call only_sent only_operator [OF truthful_free] only_wedding only_fail
        free_tenant [OF truthful_free]) (simp_all add: truthful_def)
  show ?thesis
    unfolding staff_routes_def by (rule order_behind_staff [OF body])
qed

text \<open>C23. No handler runs without the credential it is for: every call is of a handler open to anyone, or comes
  after a sign-in by the cookie it is for - a guest's session for a guest's handlers, an upload session
  for the transfer of a visitor's files, and a member's session for all others.\<close>

theorem handlers_need_their_credential:
  "orderly env \<lparr>staff_held = False, guest_held = False, upload_held = False\<rparr> (fst (dispatch env q))"
proof -
  have session: "in_order env h (session_routes env q (staff_routes env q))" for h
    unfolding session_routes_def
    by (intro order_support order_identity order_public order_guests order_uploads order_staff_routes)
  have "in_order env h (dispatch env q)" for h
    unfolding dispatch_def gated_def webhook_def
    by (intro order_if order_sent order_call order_fail order_limited session)
      (simp_all add: permitted_def open_handlers_def)
  then show ?thesis
    by (simp add: in_order_def)
qed

section \<open>One wedding\<close>






section \<open>The document\<close>






end
