(* ===== verification/Wedding.thy ===== *)
theory Wedding
  imports Tenancy
begin

text \<open>
  The tables of one wedding (migrations 001, 009 and 011 of \<^verbatim>\<open>packages/persistence\<close>)
  as a record of row lists, and the statements several handlers share. Identifiers are
  numbers; \<open>randomUUID()\<close> is the next unused one.
\<close>

section \<open>Rows\<close>

datatype approval = Approve_automatic | Approve_manual

datatype admission_policy = Adm_disabled | Adm_automatic | Adm_owner

record questions =
  ask_meal :: bool
  ask_dietary :: bool
  ask_accessibility :: bool
  ask_note :: bool

record event_row =
  event_id :: uuid
  event_title :: string
  event_venue :: string
  event_timezone :: string
  event_version :: nat
  capacity :: "nat option"
  confirmed_count :: int
  approval_policy :: approval
  admission :: admission_policy
  starts_at :: "instant option"
  ends_at :: "instant option"
  rsvp_cutoff :: "instant option"
  admission_starts :: "instant option"
  admission_ends :: "instant option"
  asked :: questions

record attendee_row =
  attendee_id :: uuid
  attendee_party :: uuid
  attendee_name :: string
  attendee_email :: "string option"
  plus_one_of :: "uuid option"
  attendee_version :: nat
  attendee_deleted :: bool

datatype rsvp_state = Pending | Confirmed | Declined | Waitlisted

record answers =
  ans_meal :: string
  ans_dietary :: string
  ans_accessibility :: string
  ans_note :: string

record rsvp_row =
  rsvp_attendee :: uuid
  rsvp_event :: uuid
  rsvp_state :: rsvp_state
  rsvp_answers :: answers
  rsvp_version :: nat

datatype pass_status = Pass_active | Pass_revoked | Pass_used | Pass_expired

record entry_pass =
  entry_id :: uuid
  entry_attendee :: uuid
  entry_event :: uuid
  entry_status :: pass_status
  credential_hash :: string
  manual_hash :: string
  sealed_payload :: bool
  entry_version :: nat
  entry_used_at :: "instant option"
  entry_used_by :: "uuid option"
  revoked_reason :: "string option"
  issued_at :: instant

record admission_row =
  admission_id :: uuid
  admitted_pass :: uuid
  admitted_event :: uuid
  admitted_attendee :: uuid
  admitted_by :: "uuid option"

datatype scan_state =
    Admitted | Already_used | Admission_off | Window_required | Outside_window | Unknown_pass | Revoked_pass
  | Not_confirmed

record scan_outcome =
  scan_state :: scan_state
  scan_name :: "string option"
  scan_used_at :: "instant option"

record scan_row =
  scan_event :: uuid
  scan_actor :: uuid
  scan_key :: string
  scan_hash :: string
  scan_reply :: scan_outcome
  scan_pass :: "uuid option"

datatype op_result =
    Pass_result uuid nat
  | Rsvp_result "(uuid \<times> rsvp_state \<times> nat) list"
  | Correction_result

record op_row =
  op_actor :: string
  op_name :: string
  op_key :: string
  op_hash :: string
  op_result :: op_result

record history_row =
  history_pass :: uuid
  history_action :: string
  history_actor :: "uuid option"
  history_reason :: "string option"

record correction_row =
  corrected_event :: uuid
  corrected_attendee :: uuid
  corrected_by :: uuid
  correction_reason :: string
  corrected_from :: "string \<times> rsvp_state option"
  corrected_to :: "string option \<times> rsvp_state option"

record hold_row =
  held_pass :: uuid
  hold_reason :: string
  hold_open :: bool

datatype ticket_format = Jpeg | Pdf

datatype job =
    Issue_job string uuid uuid nat
  | Ticket_job string uuid nat ticket_format
  | Mail_job string string

record audit_row =
  audit_actor :: "uuid option"
  audit_action :: string
  audit_resource :: uuid

record wedding =
  deleted :: bool
  archived :: bool
  ownership_hold :: bool
  legacy_held :: bool
  primary_owner :: uuid
  members :: "member_row list"
  events :: "event_row list"
  attendees :: "attendee_row list"
  eligible :: "(uuid \<times> uuid) list"
  rsvps :: "rsvp_row list"
  reservations :: "(uuid \<times> uuid) list"
  passes :: "entry_pass list"
  pass_files :: "(uuid \<times> nat \<times> ticket_format) list"
  admissions :: "admission_row list"
  scans :: "scan_row list"
  operations :: "op_row list"
  history :: "history_row list"
  corrections :: "correction_row list"
  holds :: "hold_row list"
  jobs :: "job list"
  audits :: "audit_row list"
  next_id :: uuid

section \<open>Shared statements\<close>

definition permitted :: "wedding \<Rightarrow> uuid \<Rightarrow> capability \<Rightarrow> uuid option \<Rightarrow> 'a outcome \<Rightarrow> 'a outcome" where
  "permitted w user c resource k =
     (case authorise (deleted w) (ownership_hold w) (members w) user c resource of Inl e \<Rightarrow> Inl e | Inr _ \<Rightarrow> k)"

lemma permitted_Inr [simp]: "permitted w user c r k = Inr x \<longleftrightarrow>
    authorise (deleted w) (ownership_hold w) (members w) user c r = Inr () \<and> k = Inr x"
  by (auto simp: permitted_def split: sum.splits)

definition recovery_open :: "wedding \<Rightarrow> bool" where
  "recovery_open w = list_ex hold_open (holds w)"

definition find_event :: "uuid \<Rightarrow> wedding \<Rightarrow> event_row option" where
  "find_event e w = List.find (\<lambda>x. event_id x = e) (events w)"

definition audit :: "uuid option \<Rightarrow> string \<Rightarrow> uuid \<Rightarrow> wedding \<Rightarrow> wedding" where
  "audit who action resource w =
     w\<lparr>audits := audits w @ [\<lparr>audit_actor = who, audit_action = action, audit_resource = resource\<rparr>]\<rparr>"

definition record_history :: "uuid \<Rightarrow> string \<Rightarrow> uuid option \<Rightarrow> string option \<Rightarrow> wedding \<Rightarrow> wedding" where
  "record_history pid action who reason w =
     w\<lparr>history := history w @ [\<lparr>history_pass = pid, history_action = action, history_actor = who,
         history_reason = reason\<rparr>]\<rparr>"

text \<open>\<open>history\<close> of the pass handlers writes the row and the audit event.\<close>

definition pass_history :: "uuid \<Rightarrow> string \<Rightarrow> uuid option \<Rightarrow> string option \<Rightarrow> wedding \<Rightarrow> wedding" where
  "pass_history pid action who reason w = audit who (''pass.'' @ action) pid (record_history pid action who reason w)"

definition add_issue_job :: "job \<Rightarrow> wedding \<Rightarrow> wedding" where
  "add_issue_job j w = (if j \<in> set (jobs w) then w else w\<lparr>jobs := jobs w @ [j]\<rparr>)"

definition ticket_jobs :: "string \<Rightarrow> uuid \<Rightarrow> nat \<Rightarrow> wedding \<Rightarrow> wedding" where
  "ticket_jobs prefix pid version w =
     w\<lparr>pass_files := pass_files w @ [(pid, version, Jpeg), (pid, version, Pdf)],
       jobs := jobs w @ [Ticket_job prefix pid version Jpeg, Ticket_job prefix pid version Pdf]\<rparr>"

definition set_count :: "uuid \<Rightarrow> (int \<Rightarrow> int) \<Rightarrow> wedding \<Rightarrow> wedding" where
  "set_count e f w = w\<lparr>events := update_where (\<lambda>x. event_id x = e) (\<lambda>x. x\<lparr>confirmed_count := f (confirmed_count x)\<rparr>) (events w)\<rparr>"

definition reserve :: "uuid \<Rightarrow> uuid \<Rightarrow> wedding \<Rightarrow> wedding" where
  "reserve a e w = w\<lparr>reservations := reservations w @ [(a, e)]\<rparr>"

definition release :: "uuid \<Rightarrow> uuid \<Rightarrow> wedding \<Rightarrow> wedding" where
  "release a e w = w\<lparr>reservations := filter (\<lambda>r. r \<noteq> (a, e)) (reservations w)\<rparr>"

text \<open>Revoking the active passes a condition selects, with a log entry for each.\<close>

definition revoked :: "string \<Rightarrow> entry_pass \<Rightarrow> entry_pass" where
  "revoked reason p = p\<lparr>entry_status := Pass_revoked, sealed_payload := False, revoked_reason := Some reason,
     entry_version := Suc (entry_version p)\<rparr>"

definition revoke_where :: "(entry_pass \<Rightarrow> bool) \<Rightarrow> string \<Rightarrow> (uuid \<Rightarrow> wedding \<Rightarrow> wedding) \<Rightarrow> wedding \<Rightarrow> wedding" where
  "revoke_where P reason write w =
     (let hit = (\<lambda>p. P p \<and> entry_status p = Pass_active)
      in fold (\<lambda>p. write (entry_id p)) (filter hit (passes w))
           (w\<lparr>passes := update_where hit (revoked reason) (passes w)\<rparr>))"

text \<open>Active passes whose printed details changed get a new version and new tickets.\<close>

definition renew_tickets :: "(entry_pass \<Rightarrow> bool) \<Rightarrow> string \<Rightarrow> string \<Rightarrow> uuid option \<Rightarrow> wedding \<Rightarrow> wedding" where
  "renew_tickets P prefix reason who w =
     (let hit = (\<lambda>p. P p \<and> entry_status p = Pass_active)
      in fold (\<lambda>p. ticket_jobs prefix (entry_id p) (Suc (entry_version p)) \<circ>
                record_history (entry_id p) ''details_updated'' who (Some reason))
           (filter hit (passes w))
           (w\<lparr>passes := update_where hit (\<lambda>p. p\<lparr>entry_version := Suc (entry_version p)\<rparr>) (passes w)\<rparr>))"

definition refreshTickets :: "uuid \<Rightarrow> uuid option \<Rightarrow> wedding \<Rightarrow> wedding" where
  "refreshTickets a who w =
     renew_tickets (\<lambda>p. entry_attendee p = a) ''pass-name'' ''Attendee name changed before admission'' who w"

text \<open>A rejected idempotency key, or the result of the first use of the key.\<close>

definition previous_op ::
  "string \<Rightarrow> string \<Rightarrow> string \<Rightarrow> string \<Rightarrow> wedding \<Rightarrow> op_result option outcome" where
  "previous_op who name key hash w =
     (case List.find (\<lambda>r. op_actor r = who \<and> op_name r = name \<and> op_key r = key) (operations w) of
        None \<Rightarrow> Inr None
      | Some r \<Rightarrow> if op_hash r \<noteq> hash then Inl (Domain_error 409 ''IDEMPOTENCY_CONFLICT'') else Inr (Some (op_result r)))"

definition store_op :: "string \<Rightarrow> string \<Rightarrow> string \<Rightarrow> string \<Rightarrow> op_result \<Rightarrow> wedding \<Rightarrow> wedding" where
  "store_op who name key hash r w =
     w\<lparr>operations := operations w @ [\<lparr>op_actor = who, op_name = name, op_key = key, op_hash = hash, op_result = r\<rparr>]\<rparr>"

text \<open>A handler that runs a body once per key.\<close>

definition once ::
  "string \<Rightarrow> string \<Rightarrow> string \<Rightarrow> string \<Rightarrow> (op_result \<times> wedding) outcome \<Rightarrow> wedding \<Rightarrow> (op_result \<times> wedding) outcome" where
  "once who name key hash body w =
     (case previous_op who name key hash w of
        Inl e \<Rightarrow> Inl e
      | Inr (Some r) \<Rightarrow> Inr (r, w)
      | Inr None \<Rightarrow> (case body of Inl e \<Rightarrow> Inl e | Inr (r, w') \<Rightarrow> Inr (r, store_op who name key hash r w')))"

fun each :: "('x \<Rightarrow> 's \<Rightarrow> 's outcome) \<Rightarrow> 'x list \<Rightarrow> 's \<Rightarrow> 's outcome" where
  "each f [] s = Inr s"
| "each f (x # xs) s = (case f x s of Inl e \<Rightarrow> Inl e | Inr s' \<Rightarrow> each f xs s')"

lemma each_invariant:
  assumes "each f xs s = Inr s'" "P s" "\<And>x s s'. x \<in> set xs \<Longrightarrow> P s \<Longrightarrow> f x s = Inr s' \<Longrightarrow> P s'"
  shows "P s'"
  using assms
proof (induction xs arbitrary: s)
  case Nil
  then show ?case by simp
next
  case (Cons x xs)
  then obtain t where "f x s = Inr t" "each f xs t = Inr s'" by (auto split: sum.splits)
  then show ?case using Cons by (metis list.set_intros(1) list.set_intros(2))
qed

end
