(* ===== verification/JobQueue.thy ===== *)
theory JobQueue
  imports HallTypes "HOL-Library.List_Lexorder"
begin

text \<open>
  The job queue and the delivery of mail: \<^verbatim>\<open>packages/persistence/src/jobs.ts\<close> and the
  delivery events of \<^verbatim>\<open>packages/persistence/src/notifications.ts\<close>. A worker polls the
  queue: it leases the oldest ready job for sixty seconds, runs it, and acknowledges it or
  records its failure. The handlers of the other job types, the mail provider and the check of
  a message's context are parameters of a poll.
\<close>

section \<open>Rows\<close>

datatype job_state =
  Job_pending | Job_leased | Job_running | Job_succeeded | Job_failed | Job_cancelled | Job_unknown

text \<open>\<open>job_mail\<close> is the message of an \<open>email\<close> job.\<close>

record queue_job =
  job_key :: uuid
  job_mail :: "uuid option"
  job_state :: job_state
  job_attempts :: nat
  lease_owner :: "string option"
  lease_until :: "instant option"
  retry_at :: instant
  job_error :: "string option"

datatype mail_state =
    Queued | Provider_queued | Accepted | Delivered | Bounced | Complained | Delayed | Mail_failed | Mail_unknown

record mail_row =
  mail_id :: uuid
  mail_recipient :: string
  mail_state :: mail_state
  provider_ref :: "string option"
  provider_event_at :: "instant option"
  mail_error :: "string option"

datatype provider_status = P_sent | P_delivered | P_hard_bounced | P_soft_bounced | P_complained | P_delayed | P_failed

record provider_event =
  event_key :: string
  event_ref :: string
  event_status :: provider_status
  event_at :: instant
  event_recipients :: "string list"
  event_failure :: "string option"
  event_processed :: bool

record mail_store =
  queue :: "queue_job list"
  mails :: "mail_row list"
  inbox :: "provider_event list"

section \<open>Leasing, acknowledging, failing\<close>

definition job_ready :: "instant \<Rightarrow> queue_job \<Rightarrow> bool" where
  "job_ready now j = ((job_state j = Job_pending \<and> retry_at j \<le> now) \<or>
     (job_state j \<in> {Job_leased, Job_running} \<and> (case lease_until j of Some t \<Rightarrow> t < now | None \<Rightarrow> False)))"

definition leased_row :: "string \<Rightarrow> instant \<Rightarrow> queue_job \<Rightarrow> queue_job" where
  "leased_row owner now j = j\<lparr>job_state := Job_leased, lease_owner := Some owner, lease_until := Some (now + 60000),
     job_attempts := Suc (job_attempts j)\<rparr>"

definition with_job :: "(queue_job \<Rightarrow> bool) \<Rightarrow> (queue_job \<Rightarrow> queue_job) \<Rightarrow> mail_store \<Rightarrow> mail_store" where
  "with_job P f s = s\<lparr>queue := update_where P f (queue s)\<rparr>"

text \<open>The leased job as returned to the worker, with the attempt counted.\<close>

definition lease :: "string \<Rightarrow> instant \<Rightarrow> mail_store \<Rightarrow> (queue_job \<times> mail_store) option" where
  "lease owner now s =
     (case List.find (job_ready now) (queue s) of
        None \<Rightarrow> None
      | Some j \<Rightarrow> Some (leased_row owner now j, with_job (\<lambda>x. job_key x = job_key j) (leased_row owner now) s))"

definition held_by :: "queue_job \<Rightarrow> queue_job \<Rightarrow> bool" where
  "held_by j x = (job_key x = job_key j \<and> lease_owner x = lease_owner j \<and> job_state x \<in> {Job_leased, Job_running})"

definition ack :: "queue_job \<Rightarrow> mail_store \<Rightarrow> mail_store" where
  "ack j s = with_job (held_by j) (\<lambda>x. x\<lparr>job_state := Job_succeeded, lease_until := None\<rparr>) s"

definition failed_state :: "string \<Rightarrow> bool \<Rightarrow> nat \<Rightarrow> job_state" where
  "failed_state code retryable attempts =
     (if code \<in> {''UNCERTAIN_SEND'', ''AI_SUBMISSION_UNCERTAIN'', ''AI_PROVIDER_UNAVAILABLE''} then Job_unknown
      else if retryable \<and> attempts < 5 then Job_pending else Job_failed)"

definition backoff :: "nat \<Rightarrow> int" where
  "backoff attempts = 1000 * min 300 (2 ^ attempts)"

definition fail_job :: "queue_job \<Rightarrow> string \<Rightarrow> bool \<Rightarrow> instant \<Rightarrow> mail_store \<Rightarrow> mail_store" where
  "fail_job j code retryable now s =
     with_job (held_by j) (\<lambda>x. x\<lparr>job_state := failed_state code retryable (job_attempts j), job_error := Some code,
       retry_at := now + backoff (job_attempts j), lease_until := None\<rparr>) s"

section \<open>Delivery events\<close>

definition target_state :: "provider_event \<Rightarrow> mail_state" where
  "target_state e = (case event_status e of
       P_sent \<Rightarrow> Accepted | P_delivered \<Rightarrow> Delivered | P_hard_bounced \<Rightarrow> Bounced | P_complained \<Rightarrow> Complained
     | P_soft_bounced \<Rightarrow> Delayed | P_delayed \<Rightarrow> Delayed
     | P_failed \<Rightarrow> if event_failure e = Some ''delivery_unknown'' then Mail_unknown else Mail_failed)"

definition event_applies :: "provider_event \<Rightarrow> mail_row \<Rightarrow> bool" where
  "event_applies e m =
     (let target = target_state e;
          sticky = (mail_state m \<in> {Bounced, Complained});
          newer = (case provider_event_at m of None \<Rightarrow> True | Some t \<Rightarrow> t \<le> event_at e)
      in mail_recipient m \<in> set (event_recipients e) \<and>
         ((\<not> sticky \<and> (target = Bounced \<or> target = Complained \<or>
             newer \<and> (mail_state m \<noteq> Delivered \<or> target = Delivered))) \<or>
          (mail_state m = Bounced \<and> target = Complained)))"

definition apply_event :: "provider_event \<Rightarrow> mail_row \<Rightarrow> mail_row" where
  "apply_event e m = (if event_applies e m
     then m\<lparr>mail_state := target_state e, provider_event_at := Some (event_at e), mail_error := event_failure e\<rparr> else m)"

text \<open>Open events of a reference, oldest first, ties by their id.\<close>

definition open_events :: "string \<Rightarrow> mail_store \<Rightarrow> provider_event list" where
  "open_events ref s =
     sort_key event_at (sort_key (\<lambda>e. map code_of (event_key e))
       (filter (\<lambda>e. event_ref e = ref \<and> \<not> event_processed e) (inbox s)))"

definition reconcile :: "string \<Rightarrow> mail_store \<Rightarrow> mail_store" where
  "reconcile ref s =
     (if \<not> list_ex (\<lambda>m. provider_ref m = Some ref) (mails s) then s
      else s\<lparr>mails := update_where (\<lambda>m. provider_ref m = Some ref) (fold apply_event (open_events ref s)) (mails s),
             inbox := update_where (\<lambda>e. event_ref e = ref) (\<lambda>e. e\<lparr>event_processed := True\<rparr>) (inbox s)\<rparr>)"

definition receive :: "(string \<Rightarrow> bool) \<Rightarrow> provider_event \<Rightarrow> mail_store \<Rightarrow> mail_store" where
  "receive erased e s =
     (if erased (event_ref e) then s
      else reconcile (event_ref e)
        (if list_ex (\<lambda>x. event_key x = event_key e) (inbox s) then s else s\<lparr>inbox := inbox s @ [e\<lparr>event_processed := False\<rparr>]\<rparr>))"

definition submitted :: "uuid \<Rightarrow> mail_state \<Rightarrow> string \<Rightarrow> mail_store \<Rightarrow> mail_store" where
  "submitted i st ref s =
     reconcile ref (s\<lparr>mails := update_where (\<lambda>m. mail_id m = i \<and> provider_event_at m = None)
       (\<lambda>m. m\<lparr>mail_state := st, provider_ref := Some ref\<rparr>) (mails s)\<rparr>)"

section \<open>One poll\<close>

datatype raised = Email_error string bool | Creative_error string bool | Domain_raised string | Other_error string

definition error_code :: "raised \<Rightarrow> string" where
  "error_code e = (case e of Creative_error c uncertain \<Rightarrow> if uncertain then ''AI_SUBMISSION_UNCERTAIN'' else c
     | Email_error c _ \<Rightarrow> c | Domain_raised c \<Rightarrow> c | Other_error c \<Rightarrow> c)"

definition retryable :: "raised \<Rightarrow> bool" where
  "retryable e = (case e of Email_error _ b \<Rightarrow> b | _ \<Rightarrow> False)"

text \<open>How the work ends: a handler returns or throws, or the worker dies with the job leased.\<close>

datatype work = Returns | Throws raised | Dies

text \<open>How a submission ends: recorded, accepted but not recorded, refused, or the worker dies.\<close>

datatype delivery = Sent mail_state string | Unrecorded raised | Refused raised | Dies_sending

record poll =
  poll_at :: instant
  poll_end :: instant
  handler :: "queue_job \<Rightarrow> work"
  idempotent :: bool
  wedding_live :: bool
  context_error :: "string option"
  send :: "uuid \<Rightarrow> delivery"

text \<open>The check before a message is handed to the provider; it sets the message to \<open>unknown\<close>.\<close>

definition may_send :: "poll \<Rightarrow> uuid \<Rightarrow> mail_store \<Rightarrow> (raised, bool) result" where
  "may_send p i s =
     (case List.find (\<lambda>m. mail_id m = i) (mails s) of
        None \<Rightarrow> Inr False
      | Some m \<Rightarrow>
        if mail_state m \<in> {Provider_queued, Accepted, Delivered, Bounced, Complained, Delayed} then Inr False
        else if mail_state m = Mail_unknown \<and> \<not> idempotent p then Inl (Other_error ''UNCERTAIN_SEND'')
        else if \<not> wedding_live p then Inr False
        else (case context_error p of Some c \<Rightarrow> Inl (Domain_raised c) | None \<Rightarrow> Inr True))"

definition set_mail :: "uuid \<Rightarrow> mail_state \<Rightarrow> mail_store \<Rightarrow> mail_store" where
  "set_mail i st s = s\<lparr>mails := update_where (\<lambda>m. mail_id m = i) (\<lambda>m. m\<lparr>mail_state := st\<rparr>) (mails s)\<rparr>"

definition mark_failure :: "uuid \<Rightarrow> raised \<Rightarrow> mail_store \<Rightarrow> mail_store" where
  "mark_failure i e s =
     s\<lparr>mails := update_where (\<lambda>m. mail_id m = i \<and> mail_state m \<notin> {Delivered, Bounced, Complained})
       (\<lambda>m. m\<lparr>mail_state := (if error_code e = ''UNCERTAIN_SEND'' \<or> retryable e then Mail_unknown else Mail_failed),
              mail_error := Some (error_code e)\<rparr>) (mails s)\<rparr>"

definition thrown :: "poll \<Rightarrow> queue_job \<Rightarrow> raised \<Rightarrow> mail_store \<Rightarrow> mail_store" where
  "thrown p j e s =
     (let s' = fail_job j (error_code e) (retryable e) (poll_end p) s
      in case job_mail j of None \<Rightarrow> s' | Some i \<Rightarrow> mark_failure i e s')"

text \<open>The result names the message handed to the provider, if any.\<close>

definition process_mail :: "poll \<Rightarrow> queue_job \<Rightarrow> uuid \<Rightarrow> mail_store \<Rightarrow> uuid option \<times> mail_store" where
  "process_mail p j i s =
     (case may_send p i s of
        Inl e \<Rightarrow> (None, thrown p j e s)
      | Inr False \<Rightarrow> (None, ack j s)
      | Inr True \<Rightarrow> (let s1 = set_mail i Mail_unknown s in (Some i,
          (case send p i of
             Sent st ref \<Rightarrow> ack j (submitted i st ref s1)
           | Unrecorded e \<Rightarrow> thrown p j e s1
           | Refused e \<Rightarrow> thrown p j e s1
           | Dies_sending \<Rightarrow> s1))))"

definition processOne :: "string \<Rightarrow> poll \<Rightarrow> mail_store \<Rightarrow> uuid option \<times> mail_store" where
  "processOne owner p s =
     (case lease owner (poll_at p) s of
        None \<Rightarrow> (None, s)
      | Some (j, s1) \<Rightarrow>
        (case job_mail j of
           Some i \<Rightarrow> process_mail p j i s1
         | None \<Rightarrow> (None, (case handler p j of Returns \<Rightarrow> ack j s1 | Throws e \<Rightarrow> thrown p j e s1 | Dies \<Rightarrow> s1))))"

datatype queue_op = Poll string poll | Deliver "string \<Rightarrow> bool" provider_event

fun queue_step :: "queue_op \<Rightarrow> mail_store \<Rightarrow> uuid option \<times> mail_store" where
  "queue_step (Poll owner p) s = processOne owner p s"
| "queue_step (Deliver erased e) s = (None, receive erased e s)"

end
