(* ===== verification/Directory.thy ===== *)
theory Directory
  imports Wedding JobQueue
begin

text \<open>
  The tables of the platform that are not one wedding's own: users, identity tokens, sign-in
  sessions, workspaces with their members' invitations, albums, media assets, upload and guest
  grants (migrations 001, 003, 004, 006, 009, 012 and 014 of \<^verbatim>\<open>packages/persistence\<close>),
  as one record of row lists, with the statements shared by the handlers of
  \<^verbatim>\<open>packages/persistence/src\<close>. The rows of a wedding that \<^verbatim>\<open>Wedding\<close> models are the
  field \<open>tables\<close> of its workspace, so a membership or a pass is one row in both parts.
  An external ledger is a list of the records written to it.
\<close>

section \<open>Accounts\<close>

record user_row =
  user_id :: uuid
  user_email :: string
  password_hash :: string
  user_verified :: bool
  user_deleted :: bool

datatype token_purpose = Verify_email | Reset_password

record token_row =
  token_id :: uuid
  token_user :: uuid
  token_purpose :: token_purpose
  token_hash :: string
  token_expires :: instant
  token_consumed :: bool

record login_row =
  login_id :: uuid
  login_user :: uuid
  login_hash :: string
  login_expires :: instant
  login_revoked :: bool
  login_confirmed :: instant

record rate_row =
  rate_key :: string
  window_start :: instant
  rate_count :: nat

section \<open>Workspaces\<close>

datatype lifecycle = Planning | Wedding_period | Memories | Archived

record invite_row =
  invite_id :: uuid
  invite_email :: string
  invite_role :: role
  invite_hash :: string
  invite_events :: "uuid list"
  invite_albums :: "uuid list"
  invite_expires :: instant
  invite_revoked :: bool
  invite_accepted :: bool
  invite_created :: instant

datatype album_visibility = Album_private | Album_inherit | Album_invited

record album_row =
  album_id :: uuid
  album_title :: string
  album_description :: string
  album_position :: nat
  album_visibility :: album_visibility
  album_published :: bool
  album_cover :: "uuid option"
  guest_uploads :: bool
  album_version :: nat
  album_deleted :: bool

datatype processing = Awaiting_upload | Receiving | Uploaded | Processing | Ready | Rejected | Expired

datatype moderation = Mod_pending | Mod_approved | Mod_rejected

record asset_row =
  asset_id :: uuid
  asset_album :: uuid
  expected_bytes :: int
  reserved_for :: int
  actual_bytes :: int
  asset_checksum :: "string option"
  declared_type :: string
  asset_content :: "string option"
  asset_processing :: processing
  asset_moderation :: moderation
  asset_caption :: string
  asset_alt :: string
  asset_position :: nat
  asset_creator :: "uuid option"
  asset_session :: "uuid option"
  asset_expires :: instant
  asset_deleted :: bool
  asset_error :: "string option"
  asset_version :: nat

record usage_row =
  stored_bytes :: int
  reserved_bytes :: int
  limit_bytes :: int
  usage_enabled :: bool

record upload_grant =
  grant_id :: uuid
  grant_event :: uuid
  grant_album :: uuid
  grant_token :: string
  grant_code :: string
  grant_expires :: instant
  grant_revoked :: bool
  grant_files :: int
  grant_bytes :: int
  grant_created :: instant

datatype session_source = By_upload_grant uuid | By_guest_grant uuid

record upload_session =
  upload_id :: uuid
  upload_hash :: string
  upload_source :: session_source
  upload_expires :: instant
  files_reserved :: int
  bytes_reserved :: int
  file_limit :: int
  byte_limit :: int
  upload_created :: instant

record party_row =
  party_id :: uuid
  party_name :: string
  party_deleted :: bool

record guest_grant =
  guest_id :: uuid
  guest_party :: uuid
  guest_token :: string
  guest_code :: string
  guest_expires :: instant
  guest_revoked :: bool
  guest_created :: instant

record guest_login =
  guest_login_id :: uuid
  guest_login_grant :: uuid
  guest_login_hash :: string
  guest_login_expires :: instant

record shared_grant =
  shared_hash :: string
  shared_generation :: nat
  shared_created :: instant

record site_session =
  site_session_hash :: string
  site_generation :: nat
  site_expires :: instant

record space =
  space_id :: uuid
  space_slug :: string
  display_names :: string
  space_timezone :: string
  primary_date :: "string option"
  space_locale :: string
  space_palette :: string
  lifecycle :: lifecycle
  space_version :: nat
  space_created :: instant
  recovery_until :: "instant option"
  archived_at :: "instant option"
  service_expires :: instant
  renewed_until :: "instant option"
  uploads_enabled :: bool
  tables :: wedding
  invites :: "invite_row list"
  albums :: "album_row list"
  assets :: "asset_row list"
  usage :: "usage_row option"
  upload_grants :: "upload_grant list"
  upload_sessions :: "upload_session list"
  parties :: "party_row list"
  guest_grants :: "guest_grant list"
  guest_logins :: "guest_login list"
  shared_grant :: "shared_grant option"
  site_sessions :: "site_session list"

section \<open>The directory\<close>

datatype mail_context = Identity_mail uuid | Invite_mail uuid | Guest_mail uuid uuid

record message_row =
  message_id :: uuid
  message_wedding :: "uuid option"
  message_to :: string
  message_subject :: string
  message_link :: string
  message_context :: "mail_context option"

datatype work_kind = Email_work uuid | Media_work uuid | Media_delete_work uuid

record work_row =
  work_id :: uuid
  work_wedding :: "uuid option"
  work_requester :: "uuid option"
  work_kind :: work_kind
  work_state :: job_state
  work_created :: instant

record trail_row =
  trail_wedding :: "uuid option"
  trail_actor :: "uuid option"
  trail_action :: string
  trail_resource :: "uuid option"

datatype metric_key = Metric_of string uuid uuid | Response_of uuid "uuid option" "uuid option"

datatype erasure_kind = Erased_member | Erased_media

datatype deletion_state = Requested | Recovered

record deletion_record =
  deletion_subject :: uuid
  deletion_state :: deletion_state
  erase_after :: instant

record directory =
  users :: "user_row list"
  identity_tokens :: "token_row list"
  logins :: "login_row list"
  spaces :: "space list"
  retired_slugs :: "string list"
  tombstones :: "(uuid \<times> instant) list"
  account_requests :: "(uuid \<times> instant) list"
  messages :: "message_row list"
  pending_work :: "work_row list"
  trail :: "trail_row list"
  metrics :: "(uuid \<times> string \<times> metric_key) list"
  erasure_ledger :: "(erasure_kind \<times> uuid \<times> uuid) list"
  wedding_ledger :: "deletion_record list"
  account_ledger :: "deletion_record list"
  next_row :: uuid

type_synonym 'a handled = "('a \<times> directory) outcome"

section \<open>Shared statements\<close>

text \<open>A unique index or primary key violated (23505): \<open>transaction\<close> turns it into a conflict.\<close>

definition conflict :: domain_error where
  "conflict = Domain_error 409 ''CONFLICT''"

definition bump :: "directory \<Rightarrow> directory" where
  "bump d = d\<lparr>next_row := Suc (next_row d)\<rparr>"

definition find_space :: "uuid \<Rightarrow> directory \<Rightarrow> space option" where
  "find_space i d = List.find (\<lambda>s. space_id s = i) (spaces d)"

definition set_space :: "uuid \<Rightarrow> (space \<Rightarrow> space) \<Rightarrow> directory \<Rightarrow> directory" where
  "set_space i f d = d\<lparr>spaces := update_where (\<lambda>s. space_id s = i) f (spaces d)\<rparr>"

definition find_user :: "uuid \<Rightarrow> directory \<Rightarrow> user_row option" where
  "find_user u d = List.find (\<lambda>x. user_id x = u) (users d)"

definition metric :: "uuid \<Rightarrow> string \<Rightarrow> metric_key \<Rightarrow> directory \<Rightarrow> directory" where
  "metric w kind key d =
     (if key \<in> (snd \<circ> snd) ` set (metrics d) then d else d\<lparr>metrics := metrics d @ [(w, kind, key)]\<rparr>)"

definition audit_metric :: "string \<Rightarrow> string option" where
  "audit_metric action = map_of
     [(''wedding.created'', ''wedding_created''), (''legacy.imported'', ''wedding_created''),
      (''site.published'', ''first_publication''), (''creative.concept_approved'', ''approved_concept''),
      (''creative.brief_exported'', ''brief_export'')] action"

text \<open>\<open>audit\<close> with the \<open>eventId\<close> of its details; most calls have none.\<close>

definition audit_with ::
  "uuid option \<Rightarrow> uuid option \<Rightarrow> uuid option \<Rightarrow> string \<Rightarrow> uuid option \<Rightarrow> directory \<Rightarrow> directory" where
  "audit_with event w who action resource d =
     (let d1 = d\<lparr>trail := trail d @ [\<lparr>trail_wedding = w, trail_actor = who, trail_action = action,
                  trail_resource = resource\<rparr>]\<rparr>;
          d2 = (case (w, audit_metric action) of
                  (Some i, Some kind) \<Rightarrow>
                    metric i kind (Metric_of kind i (if action = ''site.published'' then i else or_else resource i)) d1
                | _ \<Rightarrow> d1)
      in case w of
           Some i \<Rightarrow> if action = ''rsvp.submitted'' then metric i ''event_response'' (Response_of i resource event) d2
                     else d2
         | None \<Rightarrow> d2)"

definition audit_event ::
  "uuid option \<Rightarrow> uuid option \<Rightarrow> string \<Rightarrow> uuid option \<Rightarrow> directory \<Rightarrow> directory" where
  "audit_event = audit_with None"

definition send_email :: "instant \<Rightarrow> string \<Rightarrow> string \<Rightarrow> string \<Rightarrow> uuid option \<Rightarrow> uuid option \<Rightarrow> mail_context option
    \<Rightarrow> directory \<Rightarrow> directory" where
  "send_email now recipient subject link w who ctx d =
     (let m = next_row d in
      d\<lparr>messages := messages d @ [\<lparr>message_id = m, message_wedding = w, message_to = recipient,
           message_subject = subject, message_link = link, message_context = ctx\<rparr>],
        pending_work := pending_work d @ [\<lparr>work_id = Suc m, work_wedding = w, work_requester = who,
           work_kind = Email_work m, work_state = Job_pending, work_created = now\<rparr>],
        next_row := Suc (Suc m)\<rparr>)"

text \<open>\<open>insert into std_jobs ... on conflict(dedupe_key) do nothing\<close>; the key names the work.\<close>

definition queue_work :: "instant \<Rightarrow> uuid \<Rightarrow> uuid option \<Rightarrow> work_kind \<Rightarrow> directory \<Rightarrow> directory" where
  "queue_work now w who kind d =
     (if kind \<in> work_kind ` set (pending_work d) then d
      else bump (d\<lparr>pending_work := pending_work d @ [\<lparr>work_id = next_row d, work_wedding = Some w,
             work_requester = who, work_kind = kind, work_state = Job_pending, work_created = now\<rparr>]\<rparr>))"

definition cancel_work :: "(work_row \<Rightarrow> bool) \<Rightarrow> directory \<Rightarrow> directory" where
  "cancel_work P d = d\<lparr>pending_work := update_where
     (\<lambda>x. P x \<and> work_state x \<in> {Job_pending, Job_leased, Job_running})
     (\<lambda>x. x\<lparr>work_state := Job_cancelled\<rparr>) (pending_work d)\<rparr>"

definition tenant_of :: "directory \<Rightarrow> uuid \<Rightarrow> uuid \<Rightarrow> tenant_context outcome" where
  "tenant_of d i user =
     (case find_space i d of None \<Rightarrow> Inl notFound
      | Some s \<Rightarrow> tenant (deleted (tables s)) (ownership_hold (tables s)) (members (tables s)) user)"

text \<open>\<open>requireCapability(await tenant(...), ...)\<close> in front of a handler.\<close>

definition as_tenant :: "directory \<Rightarrow> uuid \<Rightarrow> uuid \<Rightarrow> capability \<Rightarrow> uuid option \<Rightarrow> 'a outcome \<Rightarrow> 'a outcome" where
  "as_tenant d i user c resource k =
     (case tenant_of d i user of Inl e \<Rightarrow> Inl e
      | Inr t \<Rightarrow> (case requireCapability t c resource of Inl e \<Rightarrow> Inl e | Inr _ \<Rightarrow> k))"

lemma as_tenant_Inr [simp]:
  "as_tenant d i user c r k = Inr x \<longleftrightarrow>
    (\<exists>t. tenant_of d i user = Inr t \<and> requireCapability t c r = Inr ()) \<and> k = Inr x"
  by (auto simp: as_tenant_def split: sum.splits)

text \<open>\<open>transaction\<close>: an error leaves the tables as they were.\<close>

definition transaction :: "(directory \<Rightarrow> 'a handled) \<Rightarrow> directory \<Rightarrow> 'a outcome \<times> directory" where
  "transaction f d = (case f d of Inl e \<Rightarrow> (Inl e, d) | Inr (x, d') \<Rightarrow> (Inr x, d'))"

definition minutes :: "int \<Rightarrow> instant" where
  "minutes n = n * 60 * 1000"

definition hours :: "int \<Rightarrow> instant" where
  "hours n = n * 60 * 60 * 1000"

definition days :: "int \<Rightarrow> instant" where
  "days n = n * 24 * 60 * 60 * 1000"

end
