(* ===== verification/Identity.thy ===== *)
theory Identity
  imports Directory
begin

text \<open>
  Accounts of the platform: registration, one-time links, sign-in, sessions, password recovery
  and the rate limit (\<open>PostgresStore\<close> of \<^verbatim>\<open>packages/persistence/src/index.ts\<close>,
  lines 42 to 66), with the deletion of an account
  (\<^verbatim>\<open>packages/persistence/src/retention.ts\<close>) and its recovery by an operator
  (\<^verbatim>\<open>packages/persistence/src/operator.ts\<close>). Hashing and the password check are the
  caller's: the handlers take hashes and a test on the stored hash.
\<close>

section \<open>Links\<close>

text \<open>A statement that inserts an identity token; \<open>token_hash\<close> is unique.\<close>

definition issue_token :: "instant \<Rightarrow> uuid \<Rightarrow> token_purpose \<Rightarrow> string \<Rightarrow> directory \<Rightarrow> uuid handled" where
  "issue_token now u purpose h d =
     ensure (h \<notin> token_hash ` set (identity_tokens d)) conflict
       (Inr (next_row d, bump (d\<lparr>identity_tokens := identity_tokens d @
          [\<lparr>token_id = next_row d, token_user = u, token_purpose = purpose, token_hash = h,
            token_expires = now + (case purpose of Verify_email \<Rightarrow> hours 24 | Reset_password \<Rightarrow> minutes 30),
            token_consumed = False\<rparr>]\<rparr>)))"

definition mail_link :: "instant \<Rightarrow> string \<Rightarrow> string \<Rightarrow> string option \<Rightarrow> uuid \<Rightarrow> directory \<Rightarrow> directory" where
  "mail_link now recipient subject link t d =
     (case link of None \<Rightarrow> d | Some l \<Rightarrow> send_email now recipient subject l None None (Some (Identity_mail t)) d)"

definition register :: "instant \<Rightarrow> string \<Rightarrow> string \<Rightarrow> string \<Rightarrow> string option \<Rightarrow> directory \<Rightarrow> unit handled" where
  "register now address pw h link d =
     (if address \<in> user_email ` set (users d) then Inr ((), d)
      else let u = next_row d;
               d1 = bump (d\<lparr>users := users d @ [\<lparr>user_id = u, user_email = address, password_hash = pw,
                      user_verified = False, user_deleted = False\<rparr>]\<rparr>)
           in (case issue_token now u Verify_email h d1 of
                 Inl e \<Rightarrow> Inl e
               | Inr (t, d2) \<Rightarrow> Inr ((), mail_link now address ''Verify your Save The Date account'' link t d2)))"

definition consume_tokens :: "(token_row \<Rightarrow> bool) \<Rightarrow> directory \<Rightarrow> directory" where
  "consume_tokens P d = d\<lparr>identity_tokens :=
     update_where (\<lambda>t. P t \<and> \<not> token_consumed t) (\<lambda>t. t\<lparr>token_consumed := True\<rparr>) (identity_tokens d)\<rparr>"

definition resendVerification :: "instant \<Rightarrow> string \<Rightarrow> string \<Rightarrow> string \<Rightarrow> directory \<Rightarrow> unit handled" where
  "resendVerification now address h link d =
     (case List.find (\<lambda>x. user_email x = address \<and> \<not> user_verified x \<and> \<not> user_deleted x) (users d) of
        None \<Rightarrow> Inr ((), d)
      | Some x \<Rightarrow>
          (case issue_token now (user_id x) Verify_email h
                  (consume_tokens (\<lambda>t. token_user t = user_id x \<and> token_purpose t = Verify_email) d) of
             Inl e \<Rightarrow> Inl e
           | Inr (t, d2) \<Rightarrow> Inr ((), mail_link now address ''Verify your Save The Date account'' (Some link) t d2)))"

definition token_usable :: "instant \<Rightarrow> string list \<Rightarrow> token_purpose \<Rightarrow> token_row \<Rightarrow> bool" where
  "token_usable now hs purpose t = (token_hash t \<in> set hs \<and> token_purpose t = purpose \<and>
     \<not> token_consumed t \<and> now < token_expires t)"

definition invalid_link :: domain_error where
  "invalid_link = Domain_error 400 ''INVALID_LINK''"

text \<open>The handlers that use a link return the identifiers of the rows the statement consumed.\<close>

definition verify :: "instant \<Rightarrow> string list \<Rightarrow> directory \<Rightarrow> uuid list handled" where
  "verify now hs d =
     (case filter (token_usable now hs Verify_email) (identity_tokens d) of
        [] \<Rightarrow> Inl invalid_link
      | t # ts \<Rightarrow>
          (let d1 = consume_tokens (token_usable now hs Verify_email) d in
           Inr (map token_id (t # ts),
             d1\<lparr>users := update_where (\<lambda>x. user_id x = token_user t) (\<lambda>x. x\<lparr>user_verified := True\<rparr>) (users d1)\<rparr>)))"

section \<open>Sessions\<close>

definition to_actor :: "user_row \<Rightarrow> uuid \<Rightarrow> instant \<Rightarrow> actor" where
  "to_actor x s t = \<lparr>actor_id = user_id x, session_of = s, actor_email = user_email x,
     actor_verified = user_verified x, reauthenticated_at = t\<rparr>"

definition sign_in ::
  "instant \<Rightarrow> string \<Rightarrow> (string \<Rightarrow> bool) \<Rightarrow> string \<Rightarrow> directory \<Rightarrow> actor option handled" where
  "sign_in now address check h d =
     (case List.find (\<lambda>x. user_email x = address \<and> \<not> user_deleted x) (users d) of
        None \<Rightarrow> Inr (None, d)
      | Some x \<Rightarrow>
          (if \<not> check (password_hash x) then Inr (None, d)
           else ensure (h \<notin> login_hash ` set (logins d)) conflict
             (Inr (Some (to_actor x (next_row d) now),
               bump (d\<lparr>logins := logins d @ [\<lparr>login_id = next_row d, login_user = user_id x, login_hash = h,
                 login_expires = now + days 7, login_revoked = False, login_confirmed = now\<rparr>]\<rparr>)))))"

definition login_live :: "instant \<Rightarrow> login_row \<Rightarrow> bool" where
  "login_live now s = (\<not> login_revoked s \<and> now < login_expires s)"

definition authenticate :: "instant \<Rightarrow> string list \<Rightarrow> directory \<Rightarrow> actor option" where
  "authenticate now hs d =
     (case List.find (\<lambda>s. login_hash s \<in> set hs \<and> login_live now s \<and>
              (\<exists>x\<in>set (users d). user_id x = login_user s \<and> \<not> user_deleted x)) (logins d) of
        None \<Rightarrow> None
      | Some s \<Rightarrow> map_option (\<lambda>x. to_actor x (login_id s) (login_confirmed s)) (find_user (login_user s) d))"

definition revoke_logins :: "(login_row \<Rightarrow> bool) \<Rightarrow> directory \<Rightarrow> directory" where
  "revoke_logins P d = d\<lparr>logins := update_where P (\<lambda>s. s\<lparr>login_revoked := True\<rparr>) (logins d)\<rparr>"

definition sign_out :: "string list \<Rightarrow> directory \<Rightarrow> directory" where
  "sign_out hs d = revoke_logins (\<lambda>s. login_hash s \<in> set hs) d"

definition reauthenticate :: "instant \<Rightarrow> actor \<Rightarrow> (string \<Rightarrow> bool) \<Rightarrow> directory \<Rightarrow> unit handled" where
  "reauthenticate now a check d =
     (case List.find (\<lambda>x. user_id x = actor_id a \<and> \<not> user_deleted x) (users d) of
        None \<Rightarrow> Inl (Domain_error 401 ''INVALID_LOGIN'')
      | Some x \<Rightarrow>
          ensure (check (password_hash x)) (Domain_error 401 ''INVALID_LOGIN'')
            (let hit = (\<lambda>s. login_id s = session_of a \<and> login_user s = actor_id a \<and> login_live now s) in
             ensure (list_ex hit (logins d)) (Domain_error 401 ''UNAUTHENTICATED'')
               (Inr ((), d\<lparr>logins := update_where hit (\<lambda>s. s\<lparr>login_confirmed := now\<rparr>) (logins d)\<rparr>))))"

section \<open>Recovery\<close>

definition recover :: "instant \<Rightarrow> string \<Rightarrow> string \<Rightarrow> string option \<Rightarrow> directory \<Rightarrow> unit handled" where
  "recover now address h link d =
     (case List.find (\<lambda>x. user_email x = address \<and> \<not> user_deleted x) (users d) of
        None \<Rightarrow> Inr ((), d)
      | Some x \<Rightarrow>
          (case issue_token now (user_id x) Reset_password h d of
             Inl e \<Rightarrow> Inl e
           | Inr (t, d1) \<Rightarrow> Inr ((), mail_link now address ''Recover your Save The Date account'' link t d1)))"

definition reset :: "instant \<Rightarrow> string list \<Rightarrow> string \<Rightarrow> directory \<Rightarrow> uuid list handled" where
  "reset now hs pw d =
     (case List.find (\<lambda>t. token_usable now hs Reset_password t \<and> token_user t \<in> user_id ` set (users d))
             (identity_tokens d) of
        None \<Rightarrow> Inl invalid_link
      | Some t \<Rightarrow>
          (let u = token_user t;
               d1 = d\<lparr>users := update_where (\<lambda>x. user_id x = u) (\<lambda>x. x\<lparr>password_hash := pw\<rparr>) (users d)\<rparr>;
               d2 = consume_tokens (\<lambda>t. token_user t = u \<and> token_purpose t = Reset_password) d1;
               d3 = revoke_logins (\<lambda>s. login_user s = u) d2
           in Inr ([token_id t], audit_event None (Some u) ''identity.recovered'' None d3)))"

section \<open>Closing and restoring an account\<close>

definition requestAccountDeletion :: "instant \<Rightarrow> actor \<Rightarrow> directory \<Rightarrow> unit handled" where
  "requestAccountDeletion now a d =
     (case requireRecentAuthentication a now of
        Inl e \<Rightarrow> Inl e
      | Inr _ \<Rightarrow>
          ensure (\<not> (\<exists>s\<in>set (spaces d). primary_owner (tables s) = actor_id a \<and> \<not> deleted (tables s)))
            (Domain_error 409 ''TRANSFER_OWNERSHIP_REQUIRED'')
            (let u = actor_id a; due = now + days 30;
                 d1 = d\<lparr>account_ledger := account_ledger d @
                        [\<lparr>deletion_subject = u, deletion_state = Requested, erase_after = due\<rparr>],
                      account_requests := (if u \<in> fst ` set (account_requests d) then account_requests d
                                           else account_requests d @ [(u, due)]),
                      users := update_where (\<lambda>x. user_id x = u) (\<lambda>x. x\<lparr>user_deleted := True\<rparr>) (users d)\<rparr>;
                 d2 = revoke_logins (\<lambda>s. login_user s = u) d1;
                 d3 = d2\<lparr>spaces := map (\<lambda>s. s\<lparr>tables := (tables s)\<lparr>members :=
                        filter (\<lambda>m. member_user m \<noteq> u) (members (tables s))\<rparr>\<rparr>) (spaces d2)\<rparr>
             in Inr ((), audit_event None (Some u) ''account.deletion_requested'' (Some u) d3)))"

definition operator_allowed :: "uuid list \<Rightarrow> instant \<Rightarrow> actor \<Rightarrow> string \<Rightarrow> unit outcome" where
  "operator_allowed ids now a reason =
     (if \<not> actor_verified a \<or> actor_id a \<notin> set ids then Inl notFound
      else case requireRecentAuthentication a now of
        Inl e \<Rightarrow> Inl e
      | Inr _ \<Rightarrow> ensure (15 \<le> length (js_trim reason) \<and> length reason \<le> 1000)
                   (Domain_error 400 ''AUDIT_REASON_REQUIRED'') (Inr ()))"

text \<open>The third check of the handler, on \<open>ownershipVerified\<close>, is on a literal of its schema.\<close>

definition recoverAccount ::
  "uuid list \<Rightarrow> instant \<Rightarrow> actor \<Rightarrow> uuid \<Rightarrow> string \<Rightarrow> directory \<Rightarrow> unit handled" where
  "recoverAccount ids now a u reason d =
     (case operator_allowed ids now a reason of
        Inl e \<Rightarrow> Inl e
      | Inr _ \<Rightarrow>
          (case (List.find (\<lambda>x. user_id x = u \<and> user_deleted x) (users d),
                 List.find (\<lambda>r. fst r = u \<and> now < snd r) (account_requests d)) of
             (Some x, Some r) \<Rightarrow>
               ensure (user_verified x) (Domain_error 409 ''ACCOUNT_RECOVERY_UNAVAILABLE'')
                 (let d1 = d\<lparr>account_ledger := account_ledger d @
                             [\<lparr>deletion_subject = u, deletion_state = Recovered, erase_after = snd r\<rparr>],
                           users := update_where (\<lambda>x. user_id x = u) (\<lambda>x. x\<lparr>user_deleted := False\<rparr>) (users d),
                           account_requests := filter (\<lambda>r. fst r \<noteq> u) (account_requests d)\<rparr>;
                      d2 = revoke_logins (\<lambda>s. login_user s = u) d1
                  in Inr ((), audit_event None (Some (actor_id a)) ''operator.account_recovered'' (Some u) d2))
           | _ \<Rightarrow> Inl (Domain_error 409 ''ACCOUNT_RECOVERY_UNAVAILABLE'')))"

section \<open>The rate limit\<close>

text \<open>
  One statement outside any transaction: a refused attempt is counted too. The error of a refused
  attempt carries the seconds to wait.
\<close>

definition hit_rate :: "instant \<Rightarrow> int \<Rightarrow> rate_row \<Rightarrow> rate_row" where
  "hit_rate now seconds r =
     (if window_start r < now - seconds * 1000 then r\<lparr>window_start := now, rate_count := 1\<rparr>
      else r\<lparr>rate_count := Suc (rate_count r)\<rparr>)"

definition retry_after :: "instant \<Rightarrow> int \<Rightarrow> rate_row \<Rightarrow> int" where
  "retry_after now seconds r = max 1 \<lceil>of_int (window_start r + seconds * 1000 - now) / (1000 :: rat)\<rceil>"

definition rateLimit :: "instant \<Rightarrow> string \<Rightarrow> nat \<Rightarrow> int \<Rightarrow> rate_row list \<Rightarrow> (int, unit) result \<times> rate_row list" where
  "rateLimit now key limit seconds rows =
     (let rows' = (if key \<in> rate_key ` set rows
                   then update_where (\<lambda>r. rate_key r = key) (hit_rate now seconds) rows
                   else rows @ [\<lparr>rate_key = key, window_start = now, rate_count = 1\<rparr>])
      in (case List.find (\<lambda>r. rate_key r = key) rows' of
            Some r \<Rightarrow> (if limit < rate_count r then Inl (retry_after now seconds r) else Inr (), rows')
          | None \<Rightarrow> (Inr (), rows')))"

end
