(* ===== verification/Workspace.thy ===== *)
theory Workspace
  imports Identity
begin

text \<open>
  Workspaces and their members: creating and editing a wedding, inviting, accepting and removing
  members, transferring ownership, deleting and recovering a wedding
  (\<open>PostgresStore\<close> of \<^verbatim>\<open>packages/persistence/src/index.ts\<close>, lines 69 to 73 and
  88 to 138), and the operator's review of a restored owner
  (\<^verbatim>\<open>packages/persistence/src/operator.ts\<close>).
\<close>

section \<open>Weddings\<close>

text \<open>
  The trigger \<open>std_wedding_service\<close> sets the end of service. The calendar of the database
  (a year later, the day after a date in a time zone) is a parameter.
\<close>

record calendar =
  plus_year :: "instant \<Rightarrow> instant"
  day_after :: "string \<Rightarrow> string \<Rightarrow> instant"

definition last_event :: "space \<Rightarrow> instant option" where
  "last_event s =
     (case List.map_filter (\<lambda>e. case ends_at e of None \<Rightarrow> starts_at e | Some t \<Rightarrow> Some t) (events (tables s)) of
        [] \<Rightarrow> None | t # ts \<Rightarrow> Some (fold max ts t))"

definition refresh_service :: "calendar \<Rightarrow> space \<Rightarrow> space" where
  "refresh_service c s =
     (if archived_at s \<noteq> None \<or> deleted (tables s) then s
      else let base = (case last_event s of Some t \<Rightarrow> t
                       | None \<Rightarrow> (case primary_date s of Some day \<Rightarrow> day_after c day (space_timezone s)
                                  | None \<Rightarrow> space_created s))
           in s\<lparr>service_expires := (case renewed_until s of None \<Rightarrow> plus_year c base
                                    | Some t \<Rightarrow> max (plus_year c base) t)\<rparr>)"

record wedding_input =
  in_slug :: string
  in_names :: string
  in_timezone :: string
  in_date :: "string option"
  in_locale :: string
  in_palette :: string

definition no_tables :: "uuid \<Rightarrow> wedding" where
  "no_tables who = \<lparr>deleted = False, archived = False, ownership_hold = False, legacy_held = False,
     primary_owner = who,
     members = [\<lparr>member_user = who, member_role = Owner, member_events = [], member_albums = []\<rparr>],
     events = [], attendees = [], eligible = [], rsvps = [], reservations = [], passes = [], pass_files = [],
     admissions = [], scans = [], operations = [], history = [], corrections = [], holds = [], jobs = [],
     audits = [], next_id = 0\<rparr>"

definition new_space :: "instant \<Rightarrow> uuid \<Rightarrow> uuid \<Rightarrow> wedding_input \<Rightarrow> space" where
  "new_space now i who w = \<lparr>space_id = i, space_slug = in_slug w, display_names = in_names w,
     space_timezone = in_timezone w, primary_date = in_date w, space_locale = in_locale w,
     space_palette = in_palette w, lifecycle = Planning, space_version = 1, space_created = now,
     recovery_until = None, archived_at = None, service_expires = now, renewed_until = None,
     uploads_enabled = True, tables = no_tables who, invites = [], albums = [], assets = [], usage = None,
     upload_grants = [], upload_sessions = [], parties = [], guest_grants = [], guest_logins = [],
     shared_grant = None, site_sessions = []\<rparr>"

text \<open>\<open>digest\<close> is SHA-256, under which the slugs of erased weddings are kept.\<close>

definition createWedding :: "instant \<Rightarrow> calendar \<Rightarrow> (string \<Rightarrow> string) \<Rightarrow> actor \<Rightarrow> wedding_input \<Rightarrow>
    directory \<Rightarrow> uuid handled" where
  "createWedding now c digest a w d =
     ensure (actor_verified a) (Domain_error 403 ''VERIFY_EMAIL'')
       (ensure (digest (in_slug w) \<notin> set (retired_slugs d)) (Domain_error 409 ''SLUG_RETIRED'')
         (ensure (in_slug w \<notin> space_slug ` set (spaces d)) conflict
           (let i = next_row d;
                d1 = bump (d\<lparr>spaces := spaces d @ [refresh_service c (new_space now i (actor_id a) w)]\<rparr>)
            in Inr (i, audit_event (Some i) (Some (actor_id a)) ''wedding.created'' (Some i) d1))))"

definition readWedding :: "actor \<Rightarrow> uuid \<Rightarrow> directory \<Rightarrow> (space \<times> role) outcome" where
  "readWedding a i d =
     (case tenant_of d i (actor_id a) of
        Inl e \<Rightarrow> Inl e
      | Inr t \<Rightarrow>
          (case requireCapability t Cap_edit None of
             Inl e \<Rightarrow> Inl e
           | Inr _ \<Rightarrow>
               (case find_space i d of
                  None \<Rightarrow> Inl notFound
                | Some s \<Rightarrow> ensure (\<not> deleted (tables s)) notFound (Inr (s, tenant_role t)))))"

text \<open>
  \<open>patch_date\<close> tells an absent field from a null one; the schema refuses the lifecycle
  \<open>archived\<close>.
\<close>

record wedding_patch =
  expected_version :: nat
  patch_names :: "string option"
  patch_timezone :: "string option"
  patch_date :: "string option option"
  patch_locale :: "string option"
  patch_palette :: "string option"
  patch_lifecycle :: "lifecycle option"

definition set_lifecycle :: "lifecycle \<Rightarrow> space \<Rightarrow> space" where
  "set_lifecycle l s = s\<lparr>lifecycle := l, tables := (tables s)\<lparr>archived := (l = Archived)\<rparr>\<rparr>"

definition patched :: "calendar \<Rightarrow> wedding_patch \<Rightarrow> space \<Rightarrow> space" where
  "patched c p s = refresh_service c
     (let s1 = s\<lparr>display_names := or_else (patch_names p) (display_names s),
                 space_timezone := or_else (patch_timezone p) (space_timezone s),
                 primary_date := or_else (patch_date p) (primary_date s),
                 space_locale := or_else (patch_locale p) (space_locale s),
                 space_palette := or_else (patch_palette p) (space_palette s),
                 space_version := Suc (space_version s)\<rparr>
      in (case patch_lifecycle p of None \<Rightarrow> s1 | Some l \<Rightarrow> set_lifecycle l s1))"

definition patchWedding :: "calendar \<Rightarrow> actor \<Rightarrow> uuid \<Rightarrow> wedding_patch \<Rightarrow> directory \<Rightarrow> unit handled" where
  "patchWedding c a i p d =
     as_tenant d i (actor_id a) Cap_edit None
       (let save =
              (case List.find (\<lambda>s. space_id s = i \<and> space_version s = expected_version p) (spaces d) of
                 None \<Rightarrow> Inl (Domain_error 409 ''VERSION_CONFLICT'')
               | Some _ \<Rightarrow> Inr ((), audit_event (Some i) (Some (actor_id a)) ''wedding.updated'' (Some i)
                   (d\<lparr>spaces := update_where (\<lambda>s. space_id s = i \<and> space_version s = expected_version p)
                      (patched c p) (spaces d)\<rparr>)))
        in case patch_lifecycle p of
             None \<Rightarrow> save
           | Some _ \<Rightarrow>
               as_tenant d i (actor_id a) Cap_publish None
                 (ensure (\<not> (\<exists>s\<in>set (spaces d). space_id s = i \<and> archived_at s \<noteq> None))
                    (Domain_error 409 ''SERVICE_ARCHIVED'') save))"

section \<open>Members\<close>

record invite_input =
  in_email :: string
  in_role :: role
  in_events :: "uuid list"
  in_albums :: "uuid list"

text \<open>The checks of \<open>inviteSchema\<close> (\<^verbatim>\<open>packages/contracts\<close>) past the email address.\<close>

definition inviteSchema :: "invite_input \<Rightarrow> bool" where
  "inviteSchema v = (in_role v \<noteq> Owner \<and> distinct (in_events v) \<and> length (in_events v) \<le> 100 \<and>
     distinct (in_albums v) \<and> length (in_albums v) \<le> 100 \<and> (in_role v = Security \<longrightarrow> in_events v \<noteq> []))"

definition all_invites :: "directory \<Rightarrow> invite_row list" where
  "all_invites d = concat (map invites (spaces d))"

definition invite :: "instant \<Rightarrow> actor \<Rightarrow> uuid \<Rightarrow> invite_input \<Rightarrow> string \<Rightarrow> string \<Rightarrow> directory \<Rightarrow> uuid handled" where
  "invite now a i v h link d =
     as_tenant d i (actor_id a) Cap_members None
       (ensure (\<not> (in_role v = Media_contributor \<and> in_albums v = []))
          (Domain_error 400 ''ALBUM_ASSIGNMENT_REQUIRED'')
         (case find_space i d of
            None \<Rightarrow> Inl notFound
          | Some s \<Rightarrow>
              ensure (length (filter (\<lambda>b. album_id b \<in> set (in_albums v) \<and> \<not> album_deleted b) (albums s))
                        = length (remdups (in_albums v))) notFound
                (ensure (length (filter (\<lambda>e. event_id e \<in> set (in_events v)) (events (tables s)))
                           = length (remdups (in_events v))) notFound
                  (ensure (h \<notin> invite_hash ` set (all_invites d)) conflict
                    (let n = next_row d;
                         row = \<lparr>invite_id = n, invite_email = in_email v, invite_role = in_role v,
                           invite_hash = h, invite_events = in_events v, invite_albums = in_albums v,
                           invite_expires = now + days 7, invite_revoked = False, invite_accepted = False,
                           invite_created = now\<rparr>;
                         d1 = bump (set_space i (\<lambda>s. s\<lparr>invites := invites s @ [row]\<rparr>) d);
                         d2 = send_email now (in_email v) ''You are invited to a wedding workspace'' link (Some i)
                                (Some (actor_id a)) (Some (Invite_mail n)) d1
                     in Inr (n, audit_event (Some i) (Some (actor_id a)) ''member.invited'' (Some n) d2))))))"

definition invite_open :: "instant \<Rightarrow> string list \<Rightarrow> string \<Rightarrow> invite_row \<Rightarrow> bool" where
  "invite_open now hs address v = (invite_hash v \<in> set hs \<and> invite_email v = address \<and>
     \<not> invite_revoked v \<and> \<not> invite_accepted v \<and> now < invite_expires v)"

definition open_invites :: "instant \<Rightarrow> string list \<Rightarrow> string \<Rightarrow> directory \<Rightarrow> (uuid \<times> invite_row) list" where
  "open_invites now hs address d =
     concat (map (\<lambda>s. map (Pair (space_id s)) (filter (invite_open now hs address) (invites s)))
       (filter (\<lambda>s. \<not> deleted (tables s)) (spaces d)))"

definition add_member :: "member_row \<Rightarrow> space \<Rightarrow> space" where
  "add_member m s = s\<lparr>tables := (tables s)\<lparr>members := members (tables s) @ [m]\<rparr>\<rparr>"

definition is_member :: "uuid \<Rightarrow> space \<Rightarrow> bool" where
  "is_member u s = (u \<in> member_user ` set (members (tables s)))"

definition join_as :: "uuid \<Rightarrow> invite_row \<Rightarrow> space \<Rightarrow> space" where
  "join_as u v s = (add_member \<lparr>member_user = u, member_role = invite_role v,
       member_events = invite_events v, member_albums = invite_albums v\<rparr> s)\<lparr>invites :=
     update_where (\<lambda>x. invite_id x = invite_id v) (\<lambda>x. x\<lparr>invite_accepted := True\<rparr>) (invites s)\<rparr>"

definition acceptInvite :: "instant \<Rightarrow> actor \<Rightarrow> string list \<Rightarrow> directory \<Rightarrow> (uuid \<times> uuid) handled" where
  "acceptInvite now a hs d =
     ensure (actor_verified a) (Domain_error 403 ''VERIFY_EMAIL'')
       (case open_invites now hs (actor_email a) d of
          [] \<Rightarrow> Inl invalid_link
        | (i, v) # _ \<Rightarrow>
            ensure (\<not> (\<exists>s\<in>set (spaces d). space_id s = i \<and> is_member (actor_id a) s)) conflict
              (ensure (distinct (invite_events v) \<and> distinct (invite_albums v)) conflict
                (Inr ((i, invite_id v),
                   audit_event (Some i) (Some (actor_id a)) ''member.accepted'' (Some (invite_id v))
                     (set_space i (join_as (actor_id a) v) d)))))"

lemma acceptInvite_Inr:
  assumes "acceptInvite now a hs d = Inr (x, d')"
  obtains i v rest where "open_invites now hs (actor_email a) d = (i, v) # rest" "x = (i, invite_id v)"
    "\<forall>s\<in>set (spaces d). space_id s = i \<longrightarrow> \<not> is_member (actor_id a) s" "actor_verified a"
    "d' = audit_event (Some i) (Some (actor_id a)) ''member.accepted'' (Some (invite_id v))
       (set_space i (join_as (actor_id a) v) d)"
  using assms unfolding acceptInvite_def by (auto split: list.splits)

text \<open>The uploads a removed member left unfinished: their reservation is returned.\<close>

definition unfinished :: "uuid \<Rightarrow> asset_row \<Rightarrow> bool" where
  "unfinished u x = (asset_creator x = Some u \<and> \<not> asset_deleted x \<and>
     asset_processing x \<in> {Awaiting_upload, Receiving, Uploaded, Processing})"

definition add_reserved :: "int \<Rightarrow> space \<Rightarrow> space" where
  "add_reserved n s = s\<lparr>usage := map_option (\<lambda>u. u\<lparr>reserved_bytes := reserved_bytes u + n\<rparr>) (usage s)\<rparr>"

definition expire_asset :: "string \<Rightarrow> asset_row \<Rightarrow> asset_row" where
  "expire_asset code x = x\<lparr>asset_processing := Expired, reserved_for := 0, asset_error := Some code,
     asset_version := Suc (asset_version x)\<rparr>"

definition drop_upload :: "string \<Rightarrow> asset_row \<Rightarrow> space \<Rightarrow> space" where
  "drop_upload code x s = (add_reserved (- reserved_for x) s)\<lparr>assets :=
     update_where (\<lambda>y. asset_id y = asset_id x) (expire_asset code) (assets s)\<rparr>"

definition removeMember :: "instant \<Rightarrow> actor \<Rightarrow> uuid \<Rightarrow> uuid \<Rightarrow> directory \<Rightarrow> unit handled" where
  "removeMember now a i u d =
     as_tenant d i (actor_id a) Cap_members None
       (case find_space i d of
          None \<Rightarrow> Inl notFound
        | Some s \<Rightarrow>
            (let gone = (\<lambda>m. member_user m = u \<and> member_role m \<noteq> Owner);
                 lost = filter (unfinished u) (assets s)
             in ensure (list_ex gone (members (tables s))) notFound
               (let d1 = set_space i (\<lambda>s. s\<lparr>tables := (tables s)\<lparr>members :=
                            filter (\<lambda>m. \<not> gone m) (members (tables s))\<rparr>\<rparr>) d;
                    d2 = d1\<lparr>erasure_ledger := erasure_ledger d1 @ [(Erased_member, i, u)]\<rparr>;
                    d3 = cancel_work (\<lambda>x. work_wedding x = Some i \<and> work_requester x = Some u) d2;
                    d4 = fold (\<lambda>x d. queue_work now i (Some (actor_id a)) (Media_delete_work (asset_id x))
                                 (set_space i (drop_upload ''MEDIA_PERMISSION_REVOKED'' x) d)) lost d3
                in Inr ((), audit_event (Some i) (Some (actor_id a)) ''member.removed'' (Some u) d4))))"

definition revokeInvite :: "actor \<Rightarrow> uuid \<Rightarrow> uuid \<Rightarrow> directory \<Rightarrow> unit handled" where
  "revokeInvite a i n d =
     as_tenant d i (actor_id a) Cap_members None
       (let hit = (\<lambda>v. invite_id v = n \<and> \<not> invite_accepted v) in
        ensure (\<exists>s\<in>set (spaces d). space_id s = i \<and> list_ex hit (invites s)) notFound
          (Inr ((), audit_event (Some i) (Some (actor_id a)) ''invite.revoked'' (Some n)
             (set_space i (\<lambda>s. s\<lparr>invites := update_where hit (\<lambda>v. v\<lparr>invite_revoked := True\<rparr>) (invites s)\<rparr>) d))))"

section \<open>Ownership\<close>

definition set_role :: "uuid \<Rightarrow> role \<Rightarrow> wedding \<Rightarrow> wedding" where
  "set_role u r w = w\<lparr>members :=
     update_where (\<lambda>m. member_user m = u) (\<lambda>m. m\<lparr>member_role := r\<rparr>) (members w)\<rparr>"

definition hand_over :: "uuid \<Rightarrow> uuid \<Rightarrow> space \<Rightarrow> space" where
  "hand_over old new s = s\<lparr>tables := (set_role new Owner (set_role old Co_owner (tables s)))\<lparr>primary_owner := new\<rparr>,
     space_version := Suc (space_version s)\<rparr>"

definition transfer :: "instant \<Rightarrow> actor \<Rightarrow> uuid \<Rightarrow> uuid \<Rightarrow> directory \<Rightarrow> unit handled" where
  "transfer now a i u d =
     (case requireRecentAuthentication a now of
        Inl e \<Rightarrow> Inl e
      | Inr _ \<Rightarrow>
          as_tenant d i (actor_id a) Cap_primary None
            (ensure (\<exists>s\<in>set (spaces d). space_id s = i \<and>
                (\<exists>m\<in>set (members (tables s)). member_user m = u \<and> member_role m = Co_owner))
               (Domain_error 409 ''CO_OWNER_REQUIRED'')
               (Inr ((), audit_event (Some i) (Some (actor_id a)) ''ownership.transferred'' (Some u)
                  (set_space i (hand_over (actor_id a) u) d)))))"

text \<open>
  \<open>resolveOwnership\<close>: an operator ends the hold on a restored wedding; every current owner row
  becomes a co-owner before the verified one is set.
\<close>

definition demote_owners :: "wedding \<Rightarrow> wedding" where
  "demote_owners w = w\<lparr>members :=
     update_where (\<lambda>m. member_role m = Owner) (\<lambda>m. m\<lparr>member_role := Co_owner\<rparr>) (members w)\<rparr>"

definition reconciled :: "uuid \<Rightarrow> space \<Rightarrow> space" where
  "reconciled u s = s\<lparr>tables := (set_role u Owner (demote_owners (tables s)))\<lparr>primary_owner := u,
     ownership_hold := False\<rparr>, space_version := Suc (space_version s)\<rparr>"

definition resolveOwnership ::
  "uuid list \<Rightarrow> instant \<Rightarrow> actor \<Rightarrow> uuid \<Rightarrow> uuid \<Rightarrow> string \<Rightarrow> directory \<Rightarrow> unit handled" where
  "resolveOwnership ids now a i u reason d =
     (case operator_allowed ids now a reason of
        Inl e \<Rightarrow> Inl e
      | Inr _ \<Rightarrow>
          (case List.find (\<lambda>s. space_id s = i \<and> \<not> deleted (tables s)) (spaces d) of
             None \<Rightarrow> Inl notFound
           | Some s \<Rightarrow>
               ensure (ownership_hold (tables s)) (Domain_error 409 ''OWNERSHIP_NOT_HELD'')
                 (ensure ((\<exists>m\<in>set (members (tables s)). member_user m = u \<and> member_role m \<in> {Owner, Co_owner}) \<and>
                     (\<exists>x\<in>set (users d). user_id x = u \<and> user_verified x \<and> \<not> user_deleted x))
                   (Domain_error 409 ''OWNER_LINEAGE_REQUIRED'')
                   (Inr ((), audit_event (Some i) (Some (actor_id a)) ''operator.ownership_reconciled'' (Some u)
                      (set_space i (reconciled u) d))))))"

section \<open>Deleting and recovering a wedding\<close>

definition before :: "instant option \<Rightarrow> instant \<Rightarrow> bool" where
  "before cutoff t = (case cutoff of None \<Rightarrow> True | Some c \<Rightarrow> t \<le> c)"

text \<open>
  \<open>quarantineWedding\<close> on the tables of one workspace. The new hash of the shared link is a
  random identifier: the parameter \<open>nonce\<close>.
\<close>

definition close_grants :: "instant \<Rightarrow> instant option \<Rightarrow> space \<Rightarrow> space" where
  "close_grants now c s = s\<lparr>
     guest_grants := update_where (\<lambda>g. before c (guest_created g)) (\<lambda>g. g\<lparr>guest_revoked := True\<rparr>) (guest_grants s),
     guest_logins := update_where (\<lambda>l. \<exists>g\<in>set (guest_grants s). guest_id g = guest_login_grant l \<and>
         before c (guest_created g)) (\<lambda>l. l\<lparr>guest_login_expires := min (guest_login_expires l) now\<rparr>) (guest_logins s),
     upload_grants := update_where (\<lambda>g. before c (grant_created g)) (\<lambda>g. g\<lparr>grant_revoked := True\<rparr>) (upload_grants s),
     upload_sessions := update_where (\<lambda>l. before c (upload_created l))
         (\<lambda>l. l\<lparr>upload_expires := min (upload_expires l) now\<rparr>) (upload_sessions s)\<rparr>"

definition close_sharing :: "instant \<Rightarrow> string \<Rightarrow> instant option \<Rightarrow> space \<Rightarrow> space" where
  "close_sharing now nonce c s =
     (let hit = (case shared_grant s of None \<Rightarrow> False | Some g \<Rightarrow> before c (shared_created g)) in
      s\<lparr>site_sessions := (if c = None \<or> hit then [] else site_sessions s),
        shared_grant := (if hit then map_option (\<lambda>g. \<lparr>shared_hash = nonce,
            shared_generation = Suc (shared_generation g), shared_created = now\<rparr>) (shared_grant s)
          else shared_grant s),
        invites := update_where (\<lambda>v. \<not> invite_accepted v \<and> before c (invite_created v))
            (\<lambda>v. v\<lparr>invite_revoked := True\<rparr>) (invites s)\<rparr>)"

definition close_passes :: "uuid option \<Rightarrow> instant option \<Rightarrow> space \<Rightarrow> space" where
  "close_passes who c s = s\<lparr>tables := revoke_where (\<lambda>p. before c (issued_at p)) ''Workspace removed''
     (\<lambda>pid. record_history pid ''revoked'' who (Some ''Workspace removed'')) (tables s)\<rparr>"

definition quarantineWedding ::
  "instant \<Rightarrow> string \<Rightarrow> uuid \<Rightarrow> uuid option \<Rightarrow> instant option \<Rightarrow> directory \<Rightarrow> directory" where
  "quarantineWedding now nonce i who c d =
     cancel_work (\<lambda>x. work_wedding x = Some i \<and> before c (work_created x))
       (set_space i (close_passes who c \<circ> close_sharing now nonce c \<circ> close_grants now c) d)"

definition mark_deleted :: "instant \<Rightarrow> space \<Rightarrow> space" where
  "mark_deleted now s = s\<lparr>tables := (tables s)\<lparr>deleted := True\<rparr>, recovery_until := Some (now + days 30),
     space_version := Suc (space_version s)\<rparr>"

definition deleteWedding :: "instant \<Rightarrow> string \<Rightarrow> actor \<Rightarrow> uuid \<Rightarrow> directory \<Rightarrow> unit handled" where
  "deleteWedding now nonce a i d =
     (case requireRecentAuthentication a now of
        Inl e \<Rightarrow> Inl e
      | Inr _ \<Rightarrow>
          as_tenant d i (actor_id a) Cap_primary None
            (let due = now + days 30;
                 d1 = d\<lparr>wedding_ledger := wedding_ledger d @
                        [\<lparr>deletion_subject = i, deletion_state = Requested, erase_after = due\<rparr>]\<rparr>;
                 d2 = set_space i (mark_deleted now) d1;
                 d3 = d2\<lparr>tombstones := filter (\<lambda>t. fst t \<noteq> i) (tombstones d2) @ [(i, due)]\<rparr>;
                 d4 = set_space i (\<lambda>s. s\<lparr>invites := update_where (\<lambda>v. \<not> invite_accepted v)
                        (\<lambda>v. v\<lparr>invite_revoked := True\<rparr>) (invites s)\<rparr>) d3;
                 d5 = cancel_work (\<lambda>x. work_wedding x = Some i) d4;
                 d6 = quarantineWedding now nonce i (Some (actor_id a)) None d5
             in Inr ((), audit_event (Some i) (Some (actor_id a)) ''wedding.deleted'' (Some i) d6)))"

text \<open>
  The owner's membership is inserted again, or takes the role back; another owner row would
  violate \<open>std_one_owner_idx\<close>.
\<close>

definition as_owner :: "uuid \<Rightarrow> wedding \<Rightarrow> wedding" where
  "as_owner u w = (if u \<in> member_user ` set (members w) then set_role u Owner w
     else w\<lparr>members := members w @ [\<lparr>member_user = u, member_role = Owner, member_events = [], member_albums = []\<rparr>]\<rparr>)"

definition recoverable :: "instant \<Rightarrow> uuid \<Rightarrow> uuid \<Rightarrow> space \<Rightarrow> bool" where
  "recoverable now i u s = (space_id s = i \<and> primary_owner (tables s) = u \<and> deleted (tables s) \<and>
     (case recovery_until s of None \<Rightarrow> False | Some t \<Rightarrow> now < t))"

definition undelete :: "space \<Rightarrow> space" where
  "undelete s = s\<lparr>tables := (tables s)\<lparr>deleted := False\<rparr>, recovery_until := None,
     space_version := Suc (space_version s)\<rparr>"

definition recoverWedding :: "instant \<Rightarrow> actor \<Rightarrow> uuid \<Rightarrow> directory \<Rightarrow> unit handled" where
  "recoverWedding now a i d =
     (case requireRecentAuthentication a now of
        Inl e \<Rightarrow> Inl e
      | Inr _ \<Rightarrow>
          (case List.find (recoverable now i (actor_id a)) (spaces d) of
             None \<Rightarrow> Inl notFound
           | Some s \<Rightarrow>
               ensure (\<not> (\<exists>m\<in>set (members (tables s)). member_role m = Owner \<and> member_user m \<noteq> actor_id a)) conflict
                 (let d1 = set_space i undelete d;
                      d2 = d1\<lparr>wedding_ledger := wedding_ledger d1 @
                             [\<lparr>deletion_subject = i, deletion_state = Recovered, erase_after = now\<rparr>],
                           tombstones := filter (\<lambda>t. fst t \<noteq> i) (tombstones d1)\<rparr>;
                      d3 = set_space i (\<lambda>s. s\<lparr>tables := as_owner (actor_id a) (tables s)\<rparr>) d2
                  in Inr ((), audit_event (Some i) (Some (actor_id a)) ''wedding.recovered'' (Some i) d3))))"

end
