(* ===== verification/SingleUse.thy ===== *)
theory SingleUse
  imports Prelude
begin

text \<open>
  A contract shared by every admission path of the program: a store executes a sequence
  of operations, and some outcomes admit the holder of a credential. If admitting spends
  the credential, spending is never undone, and a spent credential is never admitted,
  then no run admits the same credential twice. The hall-pass registry and the platform's
  entry passes both provide this interface.
\<close>

fun run_ops :: "('op \<Rightarrow> 's \<Rightarrow> 'o \<times> 's) \<Rightarrow> 'op list \<Rightarrow> 's \<Rightarrow> 'o list \<times> 's" where
  "run_ops exec [] s = ([], s)"
| "run_ops exec (op # ops) s =
     (let (out, s') = exec op s; (outs, s'') = run_ops exec ops s' in (out # outs, s''))"

lemma run_ops_Cons:
  "run_ops exec (op # ops) s =
    (fst (exec op s) # fst (run_ops exec ops (snd (exec op s))),
     snd (run_ops exec ops (snd (exec op s))))"
  by (simp add: split_beta)

declare run_ops.simps(2) [simp del]
declare run_ops_Cons [simp]

text \<open>A store whose operations preserve an invariant.\<close>

locale guarded_store =
  fixes exec :: "'op \<Rightarrow> 's \<Rightarrow> 'o \<times> 's"
    and inv :: "'s \<Rightarrow> bool"
  assumes exec_inv: "inv s \<Longrightarrow> inv (snd (exec op s))"
begin

lemma run_inv: "inv s \<Longrightarrow> inv (snd (run_ops exec ops s))"
  by (induction ops arbitrary: s) (simp_all add: run_ops_Cons exec_inv)

end

locale single_use = guarded_store exec inv
  for exec :: "'op \<Rightarrow> 's \<Rightarrow> 'o \<times> 's" and inv :: "'s \<Rightarrow> bool" +
  fixes spent :: "'k \<Rightarrow> 's \<Rightarrow> bool"
    and admits :: "'k \<Rightarrow> 'o \<Rightarrow> bool"
  assumes spent_mono: "inv s \<Longrightarrow> spent k s \<Longrightarrow> spent k (snd (exec op s))"
    and admit_fresh: "inv s \<Longrightarrow> admits k (fst (exec op s)) \<Longrightarrow> \<not> spent k s"
    and admit_spends: "inv s \<Longrightarrow> admits k (fst (exec op s)) \<Longrightarrow> spent k (snd (exec op s))"
begin

lemma run_spent: "inv s \<Longrightarrow> spent k s \<Longrightarrow> spent k (snd (run_ops exec ops s))"
  by (induction ops arbitrary: s) (simp_all add: run_ops_Cons exec_inv spent_mono)

lemma spent_never_admits:
  "inv s \<Longrightarrow> spent k s \<Longrightarrow> filter (admits k) (fst (run_ops exec ops s)) = []"
proof (induction ops arbitrary: s)
  case Nil
  then show ?case by simp
next
  case (Cons op ops)
  then have "\<not> admits k (fst (exec op s))" using admit_fresh by blast
  moreover have "filter (admits k) (fst (run_ops exec ops (snd (exec op s)))) = []"
    using Cons by (simp add: exec_inv spent_mono)
  ultimately show ?case by (simp add: run_ops_Cons)
qed

lemma at_most_once:
  "inv s \<Longrightarrow> length (filter (admits k) (fst (run_ops exec ops s))) \<le> 1"
proof (induction ops arbitrary: s)
  case Nil
  then show ?case by simp
next
  case (Cons op ops)
  show ?case
  proof (cases "admits k (fst (exec op s))")
    case True
    then have "filter (admits k) (fst (run_ops exec ops (snd (exec op s)))) = []"
      using Cons.prems by (simp add: exec_inv admit_spends spent_never_admits)
    with True show ?thesis by (simp add: run_ops_Cons)
  next
    case False
    with Cons show ?thesis by (simp add: run_ops_Cons exec_inv)
  qed
qed

end

end
