(* ===== verification/Accounts.thy ===== *)
theory Accounts
  imports Workspace SingleUse
begin

text \<open>
  The account and workspace handlers as requests on the directory. A request carries the time of
  its statements; an action of a signed-in user is authenticated first, as
  \<open>dispatch\<close> does in \<^verbatim>\<open>apps/api/src/application.ts\<close>. Then what the requests keep of
  the rows: keys and references, and the ownership of every workspace.
\<close>

section \<open>Requests\<close>

datatype action =
    Confirm_password "string \<Rightarrow> bool"
  | Create_wedding calendar "string \<Rightarrow> string" wedding_input
  | Patch_wedding calendar uuid wedding_patch
  | Invite_member uuid invite_input string string
  | Accept_invite "string list"
  | Remove_member uuid uuid
  | Revoke_invite uuid uuid
  | Transfer_ownership uuid uuid
  | Delete_wedding uuid string
  | Recover_wedding uuid
  | Close_account
  | Restore_account "uuid list" uuid string
  | Review_owner "uuid list" uuid uuid string

datatype request =
    Register string string string "string option"
  | Resend string string string
  | Verify "string list"
  | Sign_in string "string \<Rightarrow> bool" string
  | Sign_out "string list"
  | Recover string string "string option"
  | Reset "string list" string
  | Act "string list" action

datatype link = Identity_link uuid | Invite_link uuid

datatype account_reply = Silent | Used "link list" | Session "actor option" | Created uuid | Joined uuid uuid

definition reply_of :: "('a \<Rightarrow> account_reply) \<Rightarrow> 'a handled \<Rightarrow> account_reply handled" where
  "reply_of f r = (case r of Inl e \<Rightarrow> Inl e | Inr (x, d) \<Rightarrow> Inr (f x, d))"

lemma reply_of_Inr: "reply_of f r = Inr (y, d) \<longleftrightarrow> (\<exists>x. r = Inr (x, d) \<and> y = f x)"
  by (auto simp: reply_of_def split: sum.splits)

fun act :: "instant \<Rightarrow> actor \<Rightarrow> action \<Rightarrow> directory \<Rightarrow> account_reply handled" where
  "act now a (Confirm_password check) d = reply_of (\<lambda>_. Silent) (reauthenticate now a check d)"
| "act now a (Create_wedding c digest w) d = reply_of Created (createWedding now c digest a w d)"
| "act now a (Patch_wedding c i p) d = reply_of (\<lambda>_. Silent) (patchWedding c a i p d)"
| "act now a (Invite_member i v h l) d =
     (if inviteSchema v then reply_of Created (invite now a i v h l d) else Inl (Domain_error 400 ''VALIDATION_ERROR''))"
| "act now a (Accept_invite hs) d = reply_of (\<lambda>(i, v). Joined i v) (acceptInvite now a hs d)"
| "act now a (Remove_member i u) d = reply_of (\<lambda>_. Silent) (removeMember now a i u d)"
| "act now a (Revoke_invite i n) d = reply_of (\<lambda>_. Silent) (revokeInvite a i n d)"
| "act now a (Transfer_ownership i u) d = reply_of (\<lambda>_. Silent) (transfer now a i u d)"
| "act now a (Delete_wedding i nonce) d = reply_of (\<lambda>_. Silent) (deleteWedding now nonce a i d)"
| "act now a (Recover_wedding i) d = reply_of (\<lambda>_. Silent) (recoverWedding now a i d)"
| "act now a Close_account d = reply_of (\<lambda>_. Silent) (requestAccountDeletion now a d)"
| "act now a (Restore_account ids u reason) d = reply_of (\<lambda>_. Silent) (recoverAccount ids now a u reason d)"
| "act now a (Review_owner ids i u reason) d = reply_of (\<lambda>_. Silent) (resolveOwnership ids now a i u reason d)"

fun handle :: "instant \<Rightarrow> request \<Rightarrow> directory \<Rightarrow> account_reply handled" where
  "handle now (Register address pw h l) d = reply_of (\<lambda>_. Silent) (register now address pw h l d)"
| "handle now (Resend address h l) d = reply_of (\<lambda>_. Silent) (resendVerification now address h l d)"
| "handle now (Verify hs) d = reply_of (\<lambda>ts. Used (map Identity_link ts)) (verify now hs d)"
| "handle now (Sign_in address check h) d = reply_of Session (sign_in now address check h d)"
| "handle now (Sign_out hs) d = Inr (Silent, sign_out hs d)"
| "handle now (Recover address h l) d = reply_of (\<lambda>_. Silent) (recover now address h l d)"
| "handle now (Reset hs pw) d = reply_of (\<lambda>ts. Used (map Identity_link ts)) (reset now hs pw d)"
| "handle now (Act hs a) d =
     (case authenticate now hs d of
        None \<Rightarrow> Inl (Domain_error 401 ''UNAUTHENTICATED'')
      | Some who \<Rightarrow> act now who a d)"

definition exec_request :: "instant \<times> request \<Rightarrow> directory \<Rightarrow> account_reply outcome \<times> directory" where
  "exec_request q d = transaction (handle (fst q) (snd q)) d"

definition empty_directory :: directory where
  "empty_directory = \<lparr>users = [], identity_tokens = [], logins = [], spaces = [], retired_slugs = [],
     tombstones = [], account_requests = [], messages = [], pending_work = [], trail = [], metrics = [],
     erasure_ledger = [], wedding_ledger = [], account_ledger = [], next_row = 0\<rparr>"

section \<open>What holds of the rows\<close>

definition live_users :: "directory \<Rightarrow> uuid set" where
  "live_users d = user_id ` {x \<in> set (users d). \<not> user_deleted x}"

definition row_keys :: "directory \<Rightarrow> uuid list" where
  "row_keys d = map user_id (users d) @ map token_id (identity_tokens d) @ map login_id (logins d) @
     map space_id (spaces d) @ map invite_id (all_invites d)"

definition keys_ok :: "directory \<Rightarrow> bool" where
  "keys_ok d = (distinct (map user_id (users d)) \<and> distinct (map token_id (identity_tokens d)) \<and>
     distinct (map login_id (logins d)) \<and> distinct (map space_id (spaces d)) \<and>
     distinct (map invite_id (all_invites d)) \<and>
     (\<forall>k\<in>set (row_keys d). k < next_row d))"

definition owned :: "uuid set \<Rightarrow> wedding \<Rightarrow> bool" where
  "owned L w = (distinct (map member_user (members w)) \<and>
     (\<forall>m\<in>set (members w). member_user m \<in> L \<and> (member_role m = Owner \<longrightarrow> member_user m = primary_owner w)) \<and>
     (\<not> deleted w \<longrightarrow> (\<exists>m\<in>set (members w). member_role m = Owner)))"

definition spaces_ok :: "directory \<Rightarrow> bool" where
  "spaces_ok d = (\<forall>s\<in>set (spaces d). owned (live_users d) (tables s) \<and> (\<forall>v\<in>set (invites s). invite_role v \<noteq> Owner))"

definition sound_directory :: "directory \<Rightarrow> bool" where
  "sound_directory d = (keys_ok d \<and> spaces_ok d)"

section \<open>Statements that leave the rows alone\<close>

definition same_rows :: "directory \<Rightarrow> directory \<Rightarrow> bool" where
  "same_rows d d' = (users d' = users d \<and> identity_tokens d' = identity_tokens d \<and> logins d' = logins d \<and>
     spaces d' = spaces d \<and> next_row d \<le> next_row d')"

named_theorems row_frame "statements that change no row of an account or a workspace"

lemma same_rows_refl [simp]: "same_rows d d"
  by (simp add: same_rows_def)

lemma same_rows_trans: "same_rows a b \<Longrightarrow> same_rows b c \<Longrightarrow> same_rows a c"
  by (simp add: same_rows_def)

lemma metric_frame [row_frame]: "same_rows d (metric w kind key d)"
  by (simp add: same_rows_def metric_def)

lemma audit_frame [row_frame]: "same_rows d (audit_event w who action resource d)"
  by (auto simp: same_rows_def audit_event_def audit_with_def metric_def Let_def split: option.splits)

lemma email_frame [row_frame]: "same_rows d (send_email now recipient subject link w who ctx d)"
  by (simp add: same_rows_def send_email_def Let_def)

lemma mail_link_frame [row_frame]: "same_rows d (mail_link now recipient subject link t d)"
  by (simp add: mail_link_def row_frame split: option.split)

lemma queue_work_frame [row_frame]: "same_rows d (queue_work now w who kind d)"
  by (simp add: same_rows_def queue_work_def bump_def)

lemma cancel_work_frame [row_frame]: "same_rows d (cancel_work P d)"
  by (simp add: same_rows_def cancel_work_def)

lemma bump_frame [row_frame]: "same_rows d (bump d)"
  by (simp add: same_rows_def bump_def)

lemma keys_same: "same_rows d d' \<Longrightarrow> keys_ok d \<Longrightarrow> keys_ok d'"
  unfolding same_rows_def keys_ok_def all_invites_def row_keys_def
  by (elim conjE, intro conjI ballI) (simp_all only:, blast intro: order_less_le_trans)

lemma live_same: "same_rows d d' \<Longrightarrow> live_users d' = live_users d"
  by (simp add: same_rows_def live_users_def)

lemma sound_same: "same_rows d d' \<Longrightarrow> sound_directory d \<Longrightarrow> sound_directory d'"
  by (simp add: sound_directory_def spaces_ok_def keys_same live_same) (simp add: same_rows_def)

lemmas sound_audit = sound_same [OF audit_frame]

section \<open>Statements on one workspace\<close>

lemma find_space_SomeD: "find_space i d = Some s \<Longrightarrow> s \<in> set (spaces d) \<and> space_id s = i"
  unfolding find_space_def by (drule find_SomeD)

lemma space_unique:
  "keys_ok d \<Longrightarrow> s \<in> set (spaces d) \<Longrightarrow> t \<in> set (spaces d) \<Longrightarrow> space_id s = space_id t \<Longrightarrow> s = t"
  unfolding keys_ok_def by (metis distinct_map inj_onD)

lemma find_space_unique:
  "keys_ok d \<Longrightarrow> find_space i d = Some s \<Longrightarrow> t \<in> set (spaces d) \<Longrightarrow> space_id t = i \<Longrightarrow> t = s"
  using find_space_SomeD space_unique by metis

definition keeps :: "uuid set \<Rightarrow> (space \<Rightarrow> space) \<Rightarrow> space \<Rightarrow> bool" where
  "keeps L f s = (space_id (f s) = space_id s \<and> map invite_id (invites (f s)) = map invite_id (invites s) \<and>
     invite_role ` set (invites (f s)) \<subseteq> invite_role ` set (invites s) \<and>
     (owned L (tables s) \<longrightarrow> owned L (tables (f s))))"

lemma concat_update_where:
  "(\<And>s. s \<in> set xs \<Longrightarrow> P s \<Longrightarrow> g (f s) = g s) \<Longrightarrow> concat (map g (update_where P f xs)) = concat (map g xs)"
  by (induction xs) (auto simp: update_where_def)

lemma set_space_fields [simp]:
  "users (set_space i f d) = users d" "identity_tokens (set_space i f d) = identity_tokens d"
  "logins (set_space i f d) = logins d" "next_row (set_space i f d) = next_row d"
  "spaces (set_space i f d) = update_where (\<lambda>s. space_id s = i) f (spaces d)"
  "live_users (set_space i f d) = live_users d"
  by (simp_all add: set_space_def live_users_def)

lemma map_invite_ids: "map invite_id (all_invites d) = concat (map (\<lambda>s. map invite_id (invites s)) (spaces d))"
  by (simp add: all_invites_def map_concat o_def)

lemma keys_set_space:
  assumes "keys_ok d" "\<And>s. s \<in> set (spaces d) \<Longrightarrow> space_id s = i \<Longrightarrow>
    space_id (f s) = space_id s \<and> map invite_id (invites (f s)) = map invite_id (invites s)"
  shows "keys_ok (set_space i f d)"
proof -
  have a: "map invite_id (all_invites (set_space i f d)) = map invite_id (all_invites d)"
    unfolding map_invite_ids set_space_fields using assms(2) by (intro concat_update_where) blast
  have b: "map space_id (spaces (set_space i f d)) = map space_id (spaces d)"
    using assms(2) by (auto simp: update_where_def)
  show ?thesis using assms(1) unfolding keys_ok_def row_keys_def a b by simp
qed

lemma sound_set_space:
  assumes "sound_directory d" "\<And>s. s \<in> set (spaces d) \<Longrightarrow> space_id s = i \<Longrightarrow> keeps (live_users d) f s"
  shows "sound_directory (set_space i f d)"
proof -
  have "keys_ok (set_space i f d)"
    using assms by (intro keys_set_space) (auto simp: sound_directory_def keeps_def)
  moreover have "spaces_ok (set_space i f d)"
    using assms unfolding sound_directory_def spaces_ok_def keeps_def
    by (fastforce simp: set_update_where)
  ultimately show ?thesis by (simp add: sound_directory_def)
qed

lemma sound_set_space_quiet:
  assumes "sound_directory d" "\<And>s. space_id (f s) = space_id s" "\<And>s. tables (f s) = tables s"
    "\<And>s. map invite_id (invites (f s)) = map invite_id (invites s)"
    "\<And>s. map invite_role (invites (f s)) = map invite_role (invites s)"
  shows "sound_directory (set_space i f d)"
  using assms(1)
proof (rule sound_set_space)
  fix s
  have "invite_role ` set (invites (f s)) = invite_role ` set (invites s)"
    using assms(5) by (metis set_map)
  then show "keeps (live_users d) f s" using assms(2-4) by (simp add: keeps_def)
qed

end
