(* ===== verification/AccountRules.thy ===== *)
theory AccountRules
  imports Accounts "HOL-Library.Multiset"
begin

text \<open>
  Every request keeps the directory sound: first the account handlers, then those of a
  workspace, then the request as a whole.
\<close>

section \<open>Rows of accounts\<close>

lemma owned_mono: "owned L w \<Longrightarrow> L \<subseteq> L' \<Longrightarrow> owned L' w"
  unfolding owned_def by blast

lemma sound_users:
  assumes "sound_directory d" "map user_id us = map user_id (users d)"
    "live_users d \<subseteq> live_users (d\<lparr>users := us\<rparr>)"
  shows "sound_directory (d\<lparr>users := us\<rparr>)"
proof -
  have "keys_ok (d\<lparr>users := us\<rparr>)"
    using assms(1,2) by (simp add: sound_directory_def keys_ok_def row_keys_def all_invites_def)
  moreover have "spaces_ok (d\<lparr>users := us\<rparr>)"
    using assms(1,3) owned_mono unfolding sound_directory_def spaces_ok_def by simp blast
  ultimately show ?thesis by (simp add: sound_directory_def)
qed

lemma live_users_pairs:
  "live_users d = fst ` {p \<in> set (map (\<lambda>x. (user_id x, user_deleted x)) (users d)). \<not> snd p}"
  by (force simp: live_users_def)

lemma sound_users_same:
  assumes "sound_directory d" "\<And>x. user_id (f x) = user_id x" "\<And>x. user_deleted (f x) = user_deleted x"
  shows "sound_directory (d\<lparr>users := update_where P f (users d)\<rparr>)"
proof (rule sound_users [OF assms(1)])
  show "map user_id (update_where P f (users d)) = map user_id (users d)"
    using assms(2) by (rule map_update_where)
  have "map (\<lambda>x. (user_id x, user_deleted x)) (update_where P f (users d))
      = map (\<lambda>x. (user_id x, user_deleted x)) (users d)"
    using assms(2,3) by (simp add: map_update_where)
  then show "live_users d \<subseteq> live_users (d\<lparr>users := update_where P f (users d)\<rparr>)"
    unfolding live_users_pairs by simp
qed

lemma sound_tokens:
  assumes "sound_directory d" "map token_id ts = map token_id (identity_tokens d)"
  shows "sound_directory (d\<lparr>identity_tokens := ts\<rparr>)"
  using assms by (simp add: sound_directory_def keys_ok_def row_keys_def all_invites_def spaces_ok_def live_users_def)

lemma sound_logins:
  assumes "sound_directory d" "map login_id ls = map login_id (logins d)"
  shows "sound_directory (d\<lparr>logins := ls\<rparr>)"
  using assms by (simp add: sound_directory_def keys_ok_def row_keys_def all_invites_def spaces_ok_def live_users_def)

lemma sound_consume: "sound_directory d \<Longrightarrow> sound_directory (consume_tokens P d)"
  by (simp add: consume_tokens_def sound_tokens map_update_where)

lemma sound_revoke: "sound_directory d \<Longrightarrow> sound_directory (revoke_logins P d)"
  by (simp add: revoke_logins_def sound_logins map_update_where)

lemma fresh_key: "keys_ok d \<Longrightarrow> next_row d \<notin> set (row_keys d)"
  unfolding keys_ok_def by blast

lemma sound_new_user:
  assumes "sound_directory d" "user_id x = next_row d"
  shows "sound_directory (bump (d\<lparr>users := users d @ [x]\<rparr>))"
proof -
  have k: "keys_ok d" using assms(1) by (simp add: sound_directory_def)
  have "keys_ok (bump (d\<lparr>users := users d @ [x]\<rparr>))"
    using k fresh_key [OF k] assms(2)
    by (auto simp: keys_ok_def row_keys_def all_invites_def bump_def less_Suc_eq)
  moreover have "spaces_ok (bump (d\<lparr>users := users d @ [x]\<rparr>))"
  proof -
    have "live_users d \<subseteq> live_users (bump (d\<lparr>users := users d @ [x]\<rparr>))"
      by (auto simp: live_users_def bump_def)
    then show ?thesis using assms(1) owned_mono
      unfolding sound_directory_def spaces_ok_def by (simp add: bump_def) blast
  qed
  ultimately show ?thesis by (simp add: sound_directory_def)
qed

lemma sound_new_token:
  assumes "sound_directory d" "token_id x = next_row d"
  shows "sound_directory (bump (d\<lparr>identity_tokens := identity_tokens d @ [x]\<rparr>))"
proof -
  have k: "keys_ok d" using assms(1) by (simp add: sound_directory_def)
  have "keys_ok (bump (d\<lparr>identity_tokens := identity_tokens d @ [x]\<rparr>))"
    using k fresh_key [OF k] assms(2)
    by (auto simp: keys_ok_def row_keys_def all_invites_def bump_def less_Suc_eq)
  then show ?thesis using assms(1)
    by (simp add: sound_directory_def spaces_ok_def live_users_def bump_def)
qed

lemma sound_new_login:
  assumes "sound_directory d" "login_id x = next_row d"
  shows "sound_directory (bump (d\<lparr>logins := logins d @ [x]\<rparr>))"
proof -
  have k: "keys_ok d" using assms(1) by (simp add: sound_directory_def)
  have "keys_ok (bump (d\<lparr>logins := logins d @ [x]\<rparr>))"
    using k fresh_key [OF k] assms(2)
    by (auto simp: keys_ok_def row_keys_def all_invites_def bump_def less_Suc_eq)
  then show ?thesis using assms(1)
    by (simp add: sound_directory_def spaces_ok_def live_users_def bump_def)
qed

section \<open>Account handlers\<close>

lemma sound_issue_token:
  "issue_token now u p h d = Inr (t, d') \<Longrightarrow> sound_directory d \<Longrightarrow> sound_directory d'"
  by (auto simp: issue_token_def intro!: sound_new_token)

lemma sound_mail_link: "sound_directory d \<Longrightarrow> sound_directory (mail_link now r s l t d)"
  using mail_link_frame by (rule sound_same)

lemma sound_register:
  assumes "register now address pw h link d = Inr (x, d')" "sound_directory d"
  shows "sound_directory d'"
proof (cases "address \<in> user_email ` set (users d)")
  case True
  then show ?thesis using assms by (simp add: register_def)
next
  case False
  let ?d1 = "bump (d\<lparr>users := users d @ [\<lparr>user_id = next_row d, user_email = address, password_hash = pw,
                      user_verified = False, user_deleted = False\<rparr>]\<rparr>)"
  obtain t d2 where i: "issue_token now (next_row d) Verify_email h ?d1 = Inr (t, d2)"
    and d': "d' = mail_link now address ''Verify your Save The Date account'' link t d2"
    using assms(1) False by (auto simp: register_def Let_def split: sum.splits)
  have "sound_directory ?d1" using assms(2) by (rule sound_new_user) simp
  then show ?thesis unfolding d' by (intro sound_mail_link sound_issue_token [OF i])
qed

lemma sound_resend:
  assumes "resendVerification now address h link d = Inr (x, d')" "sound_directory d"
  shows "sound_directory d'"
  using assms by (auto simp: resendVerification_def split: option.splits sum.splits
      intro!: sound_mail_link elim!: sound_issue_token intro: sound_consume)

lemma sound_verify:
  assumes "verify now hs d = Inr (x, d')" "sound_directory d"
  shows "sound_directory d'"
  using assms by (auto simp: verify_def Let_def split: list.splits intro!: sound_users_same sound_consume)

lemma sound_sign_in:
  assumes "sign_in now address check h d = Inr (x, d')" "sound_directory d"
  shows "sound_directory d'"
  using assms by (auto simp: sign_in_def split: option.splits if_splits intro!: sound_new_login)

lemma sound_reauthenticate:
  assumes "reauthenticate now a check d = Inr (x, d')" "sound_directory d"
  shows "sound_directory d'"
  using assms by (auto simp: reauthenticate_def Let_def split: option.splits
      intro!: sound_logins map_update_where)

lemma sound_recover:
  assumes "recover now address h link d = Inr (x, d')" "sound_directory d"
  shows "sound_directory d'"
  using assms by (auto simp: recover_def split: option.splits sum.splits
      intro!: sound_mail_link elim!: sound_issue_token)

lemma sound_reset:
  assumes "reset now hs pw d = Inr (x, d')" "sound_directory d"
  shows "sound_directory d'"
  using assms by (auto simp: reset_def Let_def split: option.splits
      intro!: sound_audit sound_revoke sound_consume sound_users_same)

text \<open>Closing an account takes its memberships away; a live wedding keeps its owner.\<close>

lemma owned_without:
  assumes "owned L w" "deleted w \<or> primary_owner w \<noteq> u"
  shows "owned (L - {u}) (w\<lparr>members := filter (\<lambda>m. member_user m \<noteq> u) (members w)\<rparr>)"
  using assms unfolding owned_def by (auto simp: distinct_map_filter)

lemma live_after_closing:
  "live_users d - {u} \<subseteq> user_id ` {x \<in> set (update_where (\<lambda>x. user_id x = u) (\<lambda>x. x\<lparr>user_deleted := True\<rparr>) (users d)).
     \<not> user_deleted x}"
  by (force simp: live_users_def set_update_where)

lemma sound_closing:
  assumes "requestAccountDeletion now a d = Inr (x, d')" "sound_directory d"
  shows "sound_directory d'"
proof -
  let ?u = "actor_id a"
  let ?drop = "\<lambda>s. s\<lparr>tables := (tables s)\<lparr>members := filter (\<lambda>m. member_user m \<noteq> ?u) (members (tables s))\<rparr>\<rparr>"
  let ?us = "update_where (\<lambda>x. user_id x = ?u) (\<lambda>x. x\<lparr>user_deleted := True\<rparr>) (users d)"
  let ?ls = "update_where (\<lambda>s. login_user s = ?u) (\<lambda>s. s\<lparr>login_revoked := True\<rparr>) (logins d)"
  obtain l r where e: "d' = audit_event None (Some ?u) ''account.deletion_requested'' (Some ?u)
      (d\<lparr>account_ledger := l, account_requests := r, users := ?us, logins := ?ls, spaces := map ?drop (spaces d)\<rparr>)"
    and safe: "\<forall>s\<in>set (spaces d). deleted (tables s) \<or> primary_owner (tables s) \<noteq> ?u"
    using assms(1) unfolding requestAccountDeletion_def Let_def revoke_logins_def
    by (auto split: sum.splits)
  define d1 where "d1 = d\<lparr>account_ledger := l, account_requests := r, users := ?us, logins := ?ls,
    spaces := map ?drop (spaces d)\<rparr>"
  have d1: "d' = audit_event None (Some ?u) ''account.deletion_requested'' (Some ?u) d1"
      "users d1 = ?us" "map login_id (logins d1) = map login_id (logins d)"
      "identity_tokens d1 = identity_tokens d" "next_row d1 = next_row d" "spaces d1 = map ?drop (spaces d)"
    by (simp_all add: e d1_def map_update_where)
  have k: "keys_ok d" and o: "spaces_ok d" using assms(2) by (simp_all add: sound_directory_def)
  have ids: "map user_id ?us = map user_id (users d)" by (simp add: map_update_where)
  have invs: "all_invites d1 = all_invites d" by (simp add: all_invites_def d1(6) o_def)
  have sids: "map space_id (spaces d1) = map space_id (spaces d)" by (simp add: d1(6))
  have "keys_ok d1" using k unfolding keys_ok_def row_keys_def d1(2-5) invs sids ids by simp
  moreover have "spaces_ok d1"
    unfolding spaces_ok_def
  proof
    fix s'
    assume "s' \<in> set (spaces d1)"
    then obtain s where s: "s \<in> set (spaces d)" "s' = ?drop s" using d1(6) by auto
    then have "owned (live_users d - {?u}) (tables s')"
      using o safe by (auto simp: spaces_ok_def intro!: owned_without)
    moreover have "live_users d - {?u} \<subseteq> live_users d1"
      using live_after_closing [of d ?u] by (simp add: live_users_def d1(2))
    ultimately have "owned (live_users d1) (tables s')" by (rule owned_mono)
    then show "owned (live_users d1) (tables s') \<and> (\<forall>v\<in>set (invites s'). invite_role v \<noteq> Owner)"
      using s o by (simp add: spaces_ok_def)
  qed
  ultimately have "sound_directory d1" by (simp add: sound_directory_def)
  then show ?thesis unfolding d1(1) by (rule sound_audit)
qed

lemma sound_restoring:
  assumes "recoverAccount ids now a u reason d = Inr (x, d')" "sound_directory d"
  shows "sound_directory d'"
proof -
  let ?us = "update_where (\<lambda>x. user_id x = u) (\<lambda>x. x\<lparr>user_deleted := False\<rparr>) (users d)"
  obtain l r where d': "d' = audit_event None (Some (actor_id a)) ''operator.account_recovered'' (Some u)
      (revoke_logins (\<lambda>s. login_user s = u) (d\<lparr>account_ledger := l, users := ?us, account_requests := r\<rparr>))"
    using assms(1) unfolding recoverAccount_def Let_def by (auto split: sum.splits option.splits)
  have live: "live_users d \<subseteq> live_users (d\<lparr>users := ?us\<rparr>)"
    by (force simp: live_users_def set_update_where)
  have "sound_directory (d\<lparr>users := ?us\<rparr>)"
    by (rule sound_users [OF assms(2) _ live]) (simp add: map_update_where)
  then have "sound_directory (d\<lparr>account_ledger := l, users := ?us, account_requests := r\<rparr>)"
    by (simp add: sound_directory_def keys_ok_def row_keys_def all_invites_def spaces_ok_def live_users_def)
  then show ?thesis unfolding d' by (intro sound_audit sound_revoke)
qed

section \<open>Workspace handlers\<close>

text \<open>The new workspace has its creator as the one owner.\<close>

lemma refresh_service_fields [simp]:
  "space_id (refresh_service c s) = space_id s" "tables (refresh_service c s) = tables s"
  "invites (refresh_service c s) = invites s"
  by (simp_all add: refresh_service_def Let_def)

lemma sound_create:
  assumes "createWedding now c digest a w d = Inr (x, d')" "sound_directory d" "actor_id a \<in> live_users d"
  shows "sound_directory d'"
proof -
  let ?n = "refresh_service c (new_space now (next_row d) (actor_id a) w)"
  let ?d1 = "bump (d\<lparr>spaces := spaces d @ [?n]\<rparr>)"
  have d': "d' = audit_event (Some (next_row d)) (Some (actor_id a)) ''wedding.created'' (Some (next_row d)) ?d1"
    using assms(1) by (auto simp: createWedding_def Let_def)
  have k: "keys_ok d" and o: "spaces_ok d" using assms(2) by (simp_all add: sound_directory_def)
  have "keys_ok ?d1"
    using k fresh_key [OF k] by (auto simp: keys_ok_def row_keys_def all_invites_def bump_def new_space_def less_Suc_eq)
  moreover have "spaces_ok ?d1"
  proof -
    have "live_users ?d1 = live_users d" by (simp add: bump_def live_users_def)
    moreover have "owned (live_users d) (tables ?n)" "invites ?n = []"
      using assms(3) by (simp_all add: owned_def new_space_def no_tables_def)
    ultimately show ?thesis using o by (simp add: spaces_ok_def bump_def)
  qed
  ultimately show ?thesis unfolding d' by (intro sound_audit) (simp add: sound_directory_def)
qed

lemma owned_cong:
  "members w' = members w \<Longrightarrow> primary_owner w' = primary_owner w \<Longrightarrow> deleted w' = deleted w \<Longrightarrow>
    owned L w' = owned L w"
  by (simp add: owned_def)

lemma sound_patch:
  assumes "patchWedding c a i p d = Inr (x, d')" "sound_directory d"
  shows "sound_directory d'"
proof -
  let ?P = "\<lambda>s. space_id s = i \<and> space_version s = expected_version p"
  let ?g = "\<lambda>s. if space_version s = expected_version p then patched c p s else s"
  have "d' = audit_event (Some i) (Some (actor_id a)) ''wedding.updated'' (Some i)
      (d\<lparr>spaces := update_where ?P (patched c p) (spaces d)\<rparr>)"
    using assms(1) by (auto simp: patchWedding_def Let_def split: option.splits)
  moreover have "update_where ?P (patched c p) (spaces d) = update_where (\<lambda>s. space_id s = i) ?g (spaces d)"
    by (simp add: update_where_def)
  ultimately have d': "d' = audit_event (Some i) (Some (actor_id a)) ''wedding.updated'' (Some i) (set_space i ?g d)"
    by (simp add: set_space_def)
  have "keeps L ?g s" for L s
    by (auto simp: keeps_def patched_def set_lifecycle_def Let_def owned_def split: option.split)
  then show ?thesis unfolding d' by (intro sound_audit sound_set_space [OF assms(2)])
qed

lemma split_space:
  assumes "keys_ok d" "find_space i d = Some s"
  obtains xs ys where "spaces d = xs @ s # ys" "\<forall>f. spaces (set_space i f d) = xs @ f s # ys"
proof -
  have s: "s \<in> set (spaces d)" "space_id s = i" using find_space_SomeD [OF assms(2)] by auto
  then obtain xs ys where xs: "spaces d = xs @ s # ys" by (meson split_list)
  have "\<forall>t\<in>set xs \<union> set ys. space_id t \<noteq> i"
    using assms(1) s(2) unfolding keys_ok_def xs by (auto simp: image_iff)
  then have "spaces (set_space i f d) = xs @ f s # ys" for f
    using s(2) by (simp add: xs update_where_def map_idI)
  with xs show ?thesis by (intro that) blast+
qed

lemma sound_add_invite:
  assumes "sound_directory d" "find_space i d = Some s" "invite_id v = next_row d" "invite_role v \<noteq> Owner"
  shows "sound_directory (bump (set_space i (\<lambda>s. s\<lparr>invites := invites s @ [v]\<rparr>) d))"
proof -
  let ?d1 = "bump (set_space i (\<lambda>s. s\<lparr>invites := invites s @ [v]\<rparr>) d)"
  have k: "keys_ok d" using assms(1) by (simp add: sound_directory_def)
  obtain xs ys where xs: "spaces d = xs @ s # ys"
    and d1: "\<forall>f. spaces (set_space i f d) = xs @ f s # ys" using split_space [OF k assms(2)] by blast
  have sp: "spaces ?d1 = xs @ s\<lparr>invites := invites s @ [v]\<rparr> # ys"
    unfolding bump_def using d1 by (simp del: set_space_fields(5))
  have m: "mset (map invite_id (all_invites ?d1)) = add_mset (next_row d) (mset (map invite_id (all_invites d)))"
    unfolding all_invites_def sp xs using assms(3) by simp
  have new: "next_row d \<notin> set (map invite_id (all_invites d))"
    using fresh_key [OF k] by (simp add: row_keys_def)
  have "distinct (map invite_id (all_invites ?d1))"
    using mset_eq_imp_distinct_iff [of "map invite_id (all_invites ?d1)" "next_row d # map invite_id (all_invites d)"]
      m new k by (simp add: keys_ok_def)
  moreover have "set (map invite_id (all_invites ?d1)) = insert (next_row d) (set (map invite_id (all_invites d)))"
    using arg_cong [OF m, of set_mset] by simp
  moreover have "map space_id (spaces ?d1) = map space_id (spaces d)" by (simp add: sp xs)
  ultimately have "keys_ok ?d1"
    using k unfolding keys_ok_def row_keys_def
    by (auto simp: bump_def less_Suc_eq simp del: set_space_fields(5))
  moreover have "spaces_ok ?d1"
  proof -
    have "live_users ?d1 = live_users d" by (simp add: bump_def live_users_def)
    then show ?thesis using assms(1,4) unfolding sound_directory_def spaces_ok_def sp by (auto simp: xs)
  qed
  ultimately show ?thesis by (simp add: sound_directory_def)
qed

lemma sound_invite:
  assumes "invite now a i v h link d = Inr (x, d')" "sound_directory d" "inviteSchema v"
  shows "sound_directory d'"
  using assms unfolding invite_def
  by (auto simp: Let_def inviteSchema_def split: option.splits
      intro!: sound_audit sound_same [OF email_frame] sound_add_invite)

lemma member_users_update:
  "(\<And>m. member_user (f m) = member_user m) \<Longrightarrow> member_user ` set (update_where P f ms) = member_user ` set ms"
  by (metis map_update_where set_map)

lemma open_invites_head:
  assumes "open_invites now hs address d = (i, v) # rest"
  obtains s where "s \<in> set (spaces d)" "space_id s = i" "\<not> deleted (tables s)" "v \<in> set (invites s)"
    "invite_open now hs address v"
proof -
  have "(i, v) \<in> set (open_invites now hs address d)" using assms by simp
  then obtain s where "s \<in> set (spaces d)" "\<not> deleted (tables s)" "space_id s = i" "v \<in> set (invites s)"
    "invite_open now hs address v" unfolding open_invites_def by auto
  then show ?thesis using that by blast
qed

lemma sound_accept:
  assumes "acceptInvite now a hs d = Inr (x, d')" "sound_directory d" "actor_id a \<in> live_users d"
  shows "sound_directory d'"
proof -
  obtain i v rest where o: "open_invites now hs (actor_email a) d = (i, v) # rest"
    and new: "\<forall>s\<in>set (spaces d). space_id s = i \<longrightarrow> \<not> is_member (actor_id a) s"
    and d': "d' = audit_event (Some i) (Some (actor_id a)) ''member.accepted'' (Some (invite_id v))
      (set_space i (join_as (actor_id a) v) d)"
    using acceptInvite_Inr [OF assms(1)] by metis
  obtain s where "s \<in> set (spaces d)" "v \<in> set (invites s)" using o by (rule open_invites_head)
  then have role: "invite_role v \<noteq> Owner" using assms(2) by (auto simp: sound_directory_def spaces_ok_def)
  have roles: "map invite_role (update_where P (\<lambda>x. x\<lparr>invite_accepted := True\<rparr>) vs) = map invite_role vs" for P vs
    by (rule map_update_where) simp
  have rs: "invite_role ` set (update_where P (\<lambda>x. x\<lparr>invite_accepted := True\<rparr>) vs) = invite_role ` set vs" for P vs
    using arg_cong [OF roles, of set] by simp
  show ?thesis unfolding d'
    by (intro sound_audit sound_set_space [OF assms(2)])
      (use new role assms(3) in \<open>auto simp: keeps_def rs map_update_where join_as_def add_member_def owned_def is_member_def\<close>)
qed

lemma owned_remove:
  "owned L w \<Longrightarrow> owned L (w\<lparr>members := filter (\<lambda>m. \<not> (member_user m = u \<and> member_role m \<noteq> Owner)) (members w)\<rparr>)"
  unfolding owned_def by (auto simp: distinct_map_filter)

lemma drop_upload_fields [simp]:
  "space_id (drop_upload c x s) = space_id s" "tables (drop_upload c x s) = tables s"
  "invites (drop_upload c x s) = invites s"
  by (simp_all add: drop_upload_def add_reserved_def)

lemma sound_fold:
  "(\<And>x d. sound_directory d \<Longrightarrow> sound_directory (f x d)) \<Longrightarrow> sound_directory d \<Longrightarrow> sound_directory (fold f xs d)"
  by (induction xs arbitrary: d) simp_all

lemma sound_erasure [simp]:
  "sound_directory (d\<lparr>erasure_ledger := l\<rparr>) = sound_directory d"
  "sound_directory (d\<lparr>wedding_ledger := k\<rparr>) = sound_directory d"
  "sound_directory (d\<lparr>tombstones := t\<rparr>) = sound_directory d"
  by (simp_all add: sound_directory_def keys_ok_def row_keys_def all_invites_def spaces_ok_def live_users_def)

lemma sound_remove_member:
  assumes "removeMember now a i u d = Inr (x, d')" "sound_directory d"
  shows "sound_directory d'"
proof -
  let ?f = "\<lambda>s. s\<lparr>tables := (tables s)\<lparr>members :=
    filter (\<lambda>m. \<not> (member_user m = u \<and> member_role m \<noteq> Owner)) (members (tables s))\<rparr>\<rparr>"
  have "keeps L ?f s" for L s using owned_remove [of L "tables s" u] by (simp add: keeps_def)
  then have "sound_directory (set_space i ?f d)" by (intro sound_set_space [OF assms(2)])
  moreover have "sound_directory (queue_work now i who k (set_space i (drop_upload c y) e))"
    if "sound_directory e" for who k c y e
    using that by (intro sound_same [OF queue_work_frame] sound_set_space_quiet) simp_all
  ultimately show ?thesis
    using assms(1) unfolding removeMember_def Let_def
    by (auto split: option.splits intro!: sound_audit sound_fold sound_same [OF cancel_work_frame])
qed

lemma sound_revoke_invite:
  assumes "revokeInvite a i n d = Inr (x, d')" "sound_directory d"
  shows "sound_directory d'"
  using assms unfolding revokeInvite_def Let_def
  by (auto intro!: sound_audit sound_set_space_quiet map_update_where)

section \<open>Ownership\<close>

lemma owned_by_roles:
  assumes "owned L w" "map member_user (members w') = map member_user (members w)"
    "\<forall>m\<in>set (members w'). member_role m = Owner \<longrightarrow> member_user m = primary_owner w'"
    "\<exists>m\<in>set (members w'). member_role m = Owner"
  shows "owned L w'"
proof -
  have "member_user ` set (members w') = member_user ` set (members w)"
    using arg_cong [OF assms(2), of set] by simp
  moreover have "member_user ` set (members w) \<subseteq> L" using assms(1) by (auto simp: owned_def)
  ultimately have "\<forall>m\<in>set (members w'). member_user m \<in> L" by (metis image_subset_iff)
  then show ?thesis using assms unfolding owned_def by simp
qed

lemma set_role_members: "members (set_role u r w) =
    update_where (\<lambda>m. member_user m = u) (\<lambda>m. m\<lparr>member_role := r\<rparr>) (members w)"
  by (simp add: set_role_def)

lemma owned_hand_over:
  assumes "owned L w" "primary_owner w = old" "new \<in> member_user ` set (members w)" "new \<noteq> old"
  shows "owned L ((set_role new Owner (set_role old Co_owner w))\<lparr>primary_owner := new\<rparr>)"
proof (rule owned_by_roles [OF assms(1)])
  let ?w = "(set_role new Owner (set_role old Co_owner w))\<lparr>primary_owner := new\<rparr>"
  show "map member_user (members ?w) = map member_user (members w)"
    by (simp add: set_role_members map_update_where)
  show "\<forall>m\<in>set (members ?w). member_role m = Owner \<longrightarrow> member_user m = primary_owner ?w"
    using assms(1,2) by (auto simp: owned_def set_role_members set_update_where)
  obtain m where m: "m \<in> set (members w)" "member_user m = new" using assms(3) by auto
  then have "m \<in> set (members (set_role old Co_owner w))"
    using assms(4) by (simp add: set_role_members set_update_where)
  then have "m\<lparr>member_role := Owner\<rparr> \<in> set (members ?w)"
    using m(2) by (simp add: set_role_members [of new] set_update_where)
  then show "\<exists>m\<in>set (members ?w). member_role m = Owner" by force
qed

lemma owned_reconciled:
  assumes "owned L w" "u \<in> member_user ` set (members w)"
  shows "owned L ((set_role u Owner (demote_owners w))\<lparr>primary_owner := u, ownership_hold := False\<rparr>)"
proof (rule owned_by_roles [OF assms(1)])
  let ?w = "(set_role u Owner (demote_owners w))\<lparr>primary_owner := u, ownership_hold := False\<rparr>"
  have users: "map member_user (members (demote_owners w)) = map member_user (members w)"
    by (simp add: demote_owners_def map_update_where)
  then show "map member_user (members ?w) = map member_user (members w)"
    by (simp add: set_role_members map_update_where)
  show "\<forall>m\<in>set (members ?w). member_role m = Owner \<longrightarrow> member_user m = primary_owner ?w"
    by (auto simp: set_role_members demote_owners_def set_update_where)
  have "u \<in> member_user ` set (members (demote_owners w))"
    using assms(2) arg_cong [OF users, of set] by simp
  then obtain m where "m \<in> set (members (demote_owners w))" "member_user m = u" by auto
  then have "m\<lparr>member_role := Owner\<rparr> \<in> set (members ?w)"
    by (simp add: set_role_members set_update_where)
  then show "\<exists>m\<in>set (members ?w). member_role m = Owner" by force
qed

lemma owned_as_owner:
  assumes "owned L w" "primary_owner w = u" "u \<in> L"
  shows "owned L (as_owner u (w\<lparr>deleted := b\<rparr>))"
proof (cases "u \<in> member_user ` set (members w)")
  case True
  let ?w = "as_owner u (w\<lparr>deleted := b\<rparr>)"
  have w: "?w = set_role u Owner (w\<lparr>deleted := b\<rparr>)" using True by (simp add: as_owner_def)
  show ?thesis
  proof (rule owned_by_roles [OF assms(1)])
    show "map member_user (members ?w) = map member_user (members w)"
      by (simp add: w set_role_members map_update_where)
    show "\<forall>m\<in>set (members ?w). member_role m = Owner \<longrightarrow> member_user m = primary_owner ?w"
      using assms(1,2) by (auto simp: w owned_def set_role_def set_update_where)
    obtain m where "m \<in> set (members w)" "member_user m = u" using True by auto
    then have "m\<lparr>member_role := Owner\<rparr> \<in> set (members ?w)"
      by (simp add: w set_role_members set_update_where)
    then show "\<exists>m\<in>set (members ?w). member_role m = Owner" by force
  qed
next
  case False
  then show ?thesis using assms by (auto simp: as_owner_def owned_def)
qed

lemma primary_tenant:
  assumes "tenant_of d i u = Inr t" "requireCapability t Cap_primary r = Inr ()" "sound_directory d"
  obtains s where "find_space i d = Some s" "\<not> deleted (tables s)" "primary_owner (tables s) = u"
proof -
  obtain s where s: "find_space i d = Some s"
    and t: "tenant (deleted (tables s)) (ownership_hold (tables s)) (members (tables s)) u = Inr t"
    using assms(1) by (auto simp: tenant_of_def split: option.splits)
  obtain m where m: "List.find (\<lambda>m. member_user m = u) (members (tables s)) = Some m"
    and live: "\<not> deleted (tables s)" and role: "tenant_role t = member_role m"
    using t by (auto simp: tenant_def split: option.splits)
  have "member_role m = Owner"
    using assms(2) role by (auto simp: requireCapability_Inr capability_granted_def)
  moreover have "m \<in> set (members (tables s))" "member_user m = u" using find_SomeD [OF m] by auto
  moreover have "owned (live_users d) (tables s)"
    using assms(3) find_space_SomeD [OF s] by (simp add: sound_directory_def spaces_ok_def)
  ultimately have "primary_owner (tables s) = u" by (auto simp: owned_def)
  with s live show ?thesis by (rule that)
qed

lemma sound_transfer:
  assumes "transfer now a i u d = Inr (x, d')" "sound_directory d"
  shows "sound_directory d'"
proof -
  obtain t where t: "tenant_of d i (actor_id a) = Inr t" "requireCapability t Cap_primary None = Inr ()"
    and co: "\<exists>s\<in>set (spaces d). space_id s = i \<and>
        (\<exists>m\<in>set (members (tables s)). member_user m = u \<and> member_role m = Co_owner)"
    and d': "d' = audit_event (Some i) (Some (actor_id a)) ''ownership.transferred'' (Some u)
        (set_space i (hand_over (actor_id a) u) d)"
    using assms(1) by (auto simp: transfer_def split: sum.splits)
  obtain s where s: "find_space i d = Some s" "\<not> deleted (tables s)" "primary_owner (tables s) = actor_id a"
    using primary_tenant [OF t assms(2)] .
  have k: "keys_ok d" and o: "spaces_ok d" using assms(2) by (simp_all add: sound_directory_def)
  have only: "r = s" if "r \<in> set (spaces d)" "space_id r = i" for r
    using find_space_unique [OF k s(1) that] .
  obtain m where m: "m \<in> set (members (tables s))" "member_user m = u" "member_role m = Co_owner"
    using co only by blast
  have ow: "owned (live_users d) (tables s)" using o find_space_SomeD [OF s(1)] by (simp add: spaces_ok_def)
  have "u \<noteq> actor_id a"
  proof
    assume "u = actor_id a"
    moreover obtain n where "n \<in> set (members (tables s))" "member_role n = Owner" "member_user n = actor_id a"
      using ow s(2,3) unfolding owned_def by metis
    ultimately have "n = m" using ow m unfolding owned_def by (metis distinct_map inj_onD)
    then show False using m(3) \<open>member_role n = Owner\<close> by simp
  qed
  then have "owned (live_users d) (tables (hand_over (actor_id a) u s))"
    using owned_hand_over [OF ow s(3)] m by (auto simp: hand_over_def)
  then show ?thesis unfolding d'
    by (intro sound_audit sound_set_space [OF assms(2)])
      (use only in \<open>auto simp: keeps_def hand_over_def\<close>)
qed

lemma sound_review:
  assumes "resolveOwnership ids now a i u reason d = Inr (x, d')" "sound_directory d"
  shows "sound_directory d'"
proof -
  obtain s where s: "List.find (\<lambda>s. space_id s = i \<and> \<not> deleted (tables s)) (spaces d) = Some s"
    and m: "u \<in> member_user ` set (members (tables s))"
    and d': "d' = audit_event (Some i) (Some (actor_id a)) ''operator.ownership_reconciled'' (Some u)
        (set_space i (reconciled u) d)"
    using assms(1) by (auto simp: resolveOwnership_def split: sum.splits option.splits)
  have k: "keys_ok d" using assms(2) by (simp add: sound_directory_def)
  have only: "r = s" if "r \<in> set (spaces d)" "space_id r = i" for r
    using space_unique [OF k that(1)] that(2) find_SomeD [OF s] by auto
  show ?thesis unfolding d'
    by (intro sound_audit sound_set_space [OF assms(2)])
      (use only m in \<open>auto simp: keeps_def reconciled_def intro!: owned_reconciled\<close>)
qed

section \<open>Deletion\<close>

lemma revoke_where_members:
  assumes "\<And>pid w. members (write pid w) = members w" "\<And>pid w. primary_owner (write pid w) = primary_owner w"
    "\<And>pid w. deleted (write pid w) = deleted w"
  shows "members (revoke_where P r write w) = members w \<and> primary_owner (revoke_where P r write w) = primary_owner w \<and>
    deleted (revoke_where P r write w) = deleted w"
proof -
  have "members (fold (\<lambda>p. write (entry_id p)) ps v) = members v \<and>
      primary_owner (fold (\<lambda>p. write (entry_id p)) ps v) = primary_owner v \<and>
      deleted (fold (\<lambda>p. write (entry_id p)) ps v) = deleted v" for ps :: "entry_pass list" and v
    by (induction ps arbitrary: v) (simp_all add: assms)
  then show ?thesis by (simp add: revoke_where_def Let_def)
qed

lemma quarantine_keeps: "keeps L (close_passes who c \<circ> close_sharing now nonce c \<circ> close_grants now c) s"
proof -
  let ?w = "tables s"
  have r: "members (tables (close_passes who c s)) = members (tables s) \<and>
      primary_owner (tables (close_passes who c s)) = primary_owner (tables s) \<and>
      deleted (tables (close_passes who c s)) = deleted (tables s)" for s
    using revoke_where_members [of "\<lambda>pid. record_history pid ''revoked'' who (Some ''Workspace removed'')"]
    by (simp add: close_passes_def record_history_def)
  have "map invite_role (update_where P (\<lambda>v. v\<lparr>invite_revoked := True\<rparr>) vs) = map invite_role vs"
    for P and vs :: "invite_row list"
    by (simp add: map_update_where)
  then have "invite_role ` set (update_where P (\<lambda>v. v\<lparr>invite_revoked := True\<rparr>) vs) = invite_role ` set vs"
    for P and vs :: "invite_row list"
    by (metis set_map)
  then show ?thesis
    using r by (simp add: keeps_def owned_def close_passes_def close_sharing_def close_grants_def Let_def
        map_update_where)
qed

lemma sound_quarantine: "sound_directory d \<Longrightarrow> sound_directory (quarantineWedding now nonce i who c d)"
  unfolding quarantineWedding_def
  by (intro sound_same [OF cancel_work_frame] sound_set_space quarantine_keeps)

lemma sound_delete:
  assumes "deleteWedding now nonce a i d = Inr (x, d')" "sound_directory d"
  shows "sound_directory d'"
proof -
  let ?f = "\<lambda>s. s\<lparr>invites := update_where (\<lambda>v. \<not> invite_accepted v) (\<lambda>v. v\<lparr>invite_revoked := True\<rparr>) (invites s)\<rparr>"
  have marked: "sound_directory (set_space i (mark_deleted now) e)" if "sound_directory e" for e
    using that by (rule sound_set_space) (simp add: keeps_def mark_deleted_def owned_def)
  have revoked: "sound_directory (set_space i ?f e)" if "sound_directory e" for e
    using that by (intro sound_set_space_quiet) (simp_all add: map_update_where)
  show ?thesis
    using assms unfolding deleteWedding_def Let_def
    by (auto split: sum.splits intro!: sound_audit sound_quarantine sound_same [OF cancel_work_frame] revoked marked)
qed

lemma sound_recover_wedding:
  assumes "recoverWedding now a i d = Inr (x, d')" "sound_directory d" "actor_id a \<in> live_users d"
  shows "sound_directory d'"
proof -
  let ?f = "\<lambda>s. s\<lparr>tables := as_owner (actor_id a) (tables s)\<rparr>"
  obtain s l t where s: "List.find (recoverable now i (actor_id a)) (spaces d) = Some s"
    and d': "d' = audit_event (Some i) (Some (actor_id a)) ''wedding.recovered'' (Some i)
      (set_space i ?f ((set_space i undelete d)\<lparr>wedding_ledger := l, tombstones := t\<rparr>))"
    using assms(1) unfolding recoverWedding_def Let_def by (auto split: sum.splits option.splits)
  have two: "set_space i ?f ((set_space i undelete d)\<lparr>wedding_ledger := l, tombstones := t\<rparr>) =
      (set_space i (?f \<circ> undelete) d)\<lparr>wedding_ledger := l, tombstones := t\<rparr>"
    by (simp add: set_space_def update_where_def undelete_def)
  have k: "keys_ok d" and o: "spaces_ok d" using assms(2) by (simp_all add: sound_directory_def)
  have r: "recoverable now i (actor_id a) s" "s \<in> set (spaces d)" using find_SomeD [OF s] by auto
  have only: "q = s" if "q \<in> set (spaces d)" "space_id q = i" for q
    using space_unique [OF k that(1) r(2)] that(2) r(1) by (simp add: recoverable_def)
  have "owned (live_users d) (as_owner (actor_id a) ((tables s)\<lparr>deleted := False\<rparr>))"
    using o r assms(3) by (intro owned_as_owner) (auto simp: spaces_ok_def recoverable_def)
  then have "sound_directory (set_space i (?f \<circ> undelete) d)"
    by (intro sound_set_space [OF assms(2)]) (use only in \<open>auto simp: keeps_def undelete_def\<close>)
  then show ?thesis unfolding d' two by (intro sound_audit) simp
qed

section \<open>Every request\<close>

lemma authenticate_live:
  assumes "authenticate now hs d = Some a" "keys_ok d"
  shows "actor_id a \<in> live_users d"
proof -
  obtain s where s: "List.find (\<lambda>s. login_hash s \<in> set hs \<and> login_live now s \<and>
      (\<exists>x\<in>set (users d). user_id x = login_user s \<and> \<not> user_deleted x)) (logins d) = Some s"
    and a: "map_option (\<lambda>x. to_actor x (login_id s) (login_confirmed s)) (find_user (login_user s) d) = Some a"
    using assms(1) by (auto simp: authenticate_def split: option.splits)
  obtain y where y: "y \<in> set (users d)" "user_id y = login_user s" "\<not> user_deleted y"
    using find_SomeD [OF s] by blast
  obtain x where x: "find_user (login_user s) d = Some x" "actor_id a = user_id x"
    using a by (auto simp: to_actor_def)
  have "x \<in> set (users d)" "user_id x = login_user s"
    using find_SomeD [OF x(1) [unfolded find_user_def]] by auto
  then have "actor_id a = user_id y" using x(2) y(2) by simp
  moreover have "user_id y \<in> live_users d" using y(1,3) unfolding live_users_def by blast
  ultimately show ?thesis by simp
qed

lemma sound_act:
  assumes "act now a x d = Inr (y, d')" "sound_directory d" "actor_id a \<in> live_users d"
  shows "sound_directory d'"
proof (cases x)
  case (Invite_member i v h l)
  then show ?thesis using assms sound_invite by (auto simp: reply_of_Inr split: if_splits)
qed (use assms in \<open>auto simp: reply_of_Inr dest: sound_reauthenticate sound_create sound_patch sound_accept
      sound_remove_member sound_revoke_invite sound_transfer sound_delete sound_recover_wedding sound_closing
      sound_restoring sound_review\<close>)

lemma sound_handle:
  assumes "handle now q d = Inr (y, d')" "sound_directory d"
  shows "sound_directory d'"
proof (cases q)
  case (Act hs x)
  then show ?thesis
    using assms authenticate_live sound_act by (auto simp: sound_directory_def split: option.splits)
qed (use assms in \<open>auto simp: reply_of_Inr sign_out_def dest: sound_register sound_resend sound_verify
      sound_sign_in sound_recover sound_reset intro: sound_revoke\<close>)

lemma sound_exec: "sound_directory d \<Longrightarrow> sound_directory (snd (exec_request q d))"
  using sound_handle by (auto simp: exec_request_def transaction_def split: sum.splits)

lemma sound_empty: "sound_directory empty_directory"
  by (simp add: sound_directory_def keys_ok_def row_keys_def all_invites_def spaces_ok_def empty_directory_def)

interpretation directory: guarded_store exec_request sound_directory
  by unfold_locales (rule sound_exec)

end
