(* ===== verification/AccountProgress.thy ===== *)
theory AccountProgress
  imports AccountRules
begin

text \<open>
  What no request undoes: a consumed link, an accepted invitation and a revoked session stay so.
  The accepting handlers use a link that was open.
\<close>

section \<open>Nothing closed opens again\<close>

text \<open>Consumed identity tokens, accepted invitations and revoked sessions.\<close>

definition consumed_ids :: "directory \<Rightarrow> uuid set" where
  "consumed_ids d = token_id ` {t \<in> set (identity_tokens d). token_consumed t}"

definition accepted_in :: "space \<Rightarrow> uuid set" where
  "accepted_in s = invite_id ` {v \<in> set (invites s). invite_accepted v}"

definition accepted_ids :: "directory \<Rightarrow> uuid set" where
  "accepted_ids d = (\<Union>s\<in>set (spaces d). accepted_in s)"

definition revoked_ids :: "directory \<Rightarrow> uuid set" where
  "revoked_ids d = login_id ` {s \<in> set (logins d). login_revoked s}"

definition onward :: "directory \<Rightarrow> directory \<Rightarrow> bool" where
  "onward d d' = (consumed_ids d \<subseteq> consumed_ids d' \<and> accepted_ids d \<subseteq> accepted_ids d' \<and>
     revoked_ids d \<subseteq> revoked_ids d')"

lemma onward_refl [simp]: "onward d d"
  by (simp add: onward_def)

lemma onward_trans: "onward a b \<Longrightarrow> onward b c \<Longrightarrow> onward a c"
  by (auto simp: onward_def)

lemma onward_same: "same_rows e e' \<Longrightarrow> onward d e \<Longrightarrow> onward d e'"
  by (simp add: onward_def same_rows_def consumed_ids_def accepted_ids_def revoked_ids_def)

named_theorems onward_intros "statements that close only"

lemmas [onward_intros] = onward_same [OF audit_frame] onward_same [OF email_frame] onward_same [OF mail_link_frame]
  onward_same [OF queue_work_frame] onward_same [OF cancel_work_frame] onward_same [OF bump_frame]

lemma onward_fields [simp]:
  "onward d (e\<lparr>users := us\<rparr>) = onward d e" "onward d (e\<lparr>account_ledger := al\<rparr>) = onward d e"
  "onward d (e\<lparr>account_requests := ar\<rparr>) = onward d e" "onward d (e\<lparr>wedding_ledger := wl\<rparr>) = onward d e"
  "onward d (e\<lparr>tombstones := tb\<rparr>) = onward d e" "onward d (e\<lparr>erasure_ledger := el\<rparr>) = onward d e"
  by (simp_all add: onward_def consumed_ids_def accepted_ids_def revoked_ids_def)

lemma onward_new_token [onward_intros]: "onward d e \<Longrightarrow> onward d (e\<lparr>identity_tokens := identity_tokens e @ [t]\<rparr>)"
  by (auto simp: onward_def consumed_ids_def accepted_ids_def revoked_ids_def)

lemma onward_new_login [onward_intros]: "onward d e \<Longrightarrow> onward d (e\<lparr>logins := logins e @ [s]\<rparr>)"
  by (auto simp: onward_def consumed_ids_def accepted_ids_def revoked_ids_def)

lemma onward_new_space [onward_intros]: "onward d e \<Longrightarrow> onward d (e\<lparr>spaces := spaces e @ [s]\<rparr>)"
  by (auto simp: onward_def consumed_ids_def accepted_ids_def revoked_ids_def)

lemma image_update_where_mono:
  assumes "\<And>r. k (f r) = k r" "\<And>r. Q r \<Longrightarrow> Q (f r)"
  shows "k ` {r \<in> set rows. Q r} \<subseteq> k ` {r \<in> set (update_where P f rows). Q r}"
proof
  fix x
  assume "x \<in> k ` {r \<in> set rows. Q r}"
  then obtain r where r: "r \<in> set rows" "Q r" "x = k r" by blast
  let ?r = "if P r then f r else r"
  have "?r \<in> set (update_where P f rows)" "Q ?r" "x = k ?r"
    using r assms by (auto simp: update_where_def)
  then show "x \<in> k ` {r \<in> set (update_where P f rows). Q r}" by blast
qed

lemma onward_consume [onward_intros]: "onward d e \<Longrightarrow> onward d (consume_tokens P e)"
proof (rule onward_trans)
  show "onward e (consume_tokens P e)"
    unfolding onward_def consumed_ids_def accepted_ids_def revoked_ids_def consume_tokens_def
    by (simp add: image_update_where_mono)
qed

lemma onward_logins [onward_intros]:
  assumes "onward d e" "\<And>s. login_id (f s) = login_id s" "\<And>s. login_revoked s \<Longrightarrow> login_revoked (f s)"
  shows "onward d (e\<lparr>logins := update_where P f (logins e)\<rparr>)"
proof (rule onward_trans [OF assms(1)])
  show "onward e (e\<lparr>logins := update_where P f (logins e)\<rparr>)"
    unfolding onward_def consumed_ids_def accepted_ids_def revoked_ids_def
    using assms(2,3) by (simp add: image_update_where_mono)
qed

lemma onward_revoke [onward_intros]: "onward d e \<Longrightarrow> onward d (revoke_logins P e)"
  by (simp add: revoke_logins_def onward_logins)

lemma onward_spaces:
  assumes "onward d e" "\<And>s. accepted_in s \<subseteq> accepted_in (f s)"
  shows "onward d (e\<lparr>spaces := update_where P f (spaces e)\<rparr>)"
proof (rule onward_trans [OF assms(1)])
  have "accepted_ids e \<subseteq> (\<Union>s\<in>set (update_where P f (spaces e)). accepted_in s)"
    using assms(2) unfolding accepted_ids_def update_where_def by fastforce
  then show "onward e (e\<lparr>spaces := update_where P f (spaces e)\<rparr>)"
    by (simp add: onward_def consumed_ids_def accepted_ids_def revoked_ids_def)
qed

lemma onward_set_space [onward_intros]:
  "onward d e \<Longrightarrow> (\<And>s. accepted_in s \<subseteq> accepted_in (f s)) \<Longrightarrow> onward d (set_space i f e)"
  unfolding set_space_def by (rule onward_spaces)

section \<open>Handlers only close\<close>

lemma onward_issue:
  "issue_token now u p h e = Inr (t, e') \<Longrightarrow> onward d e \<Longrightarrow> onward d e'"
  by (auto simp: issue_token_def intro!: onward_intros)

lemma onward_account:
  "register now address pw h l d = Inr (u, d') \<Longrightarrow> onward d d'"
  "resendVerification now address h link d = Inr (u, d') \<Longrightarrow> onward d d'"
  "recover now address h l d = Inr (u, d') \<Longrightarrow> onward d d'"
  "verify now hs d = Inr (ts, d') \<Longrightarrow> onward d d'"
  "sign_in now address check h d = Inr (r, d') \<Longrightarrow> onward d d'"
  "reauthenticate now a check d = Inr (u, d') \<Longrightarrow> onward d d'"
  "reset now hs pw d = Inr (ts, d') \<Longrightarrow> onward d d'"
  "recoverAccount ids now a i reason d = Inr (u, d') \<Longrightarrow> onward d d'"
  by (auto simp: register_def resendVerification_def recover_def verify_def sign_in_def reauthenticate_def
      reset_def recoverAccount_def Let_def split: option.splits sum.splits list.splits if_splits
      intro!: onward_intros elim!: onward_issue)

lemma accepted_update [simp]:
  assumes "\<And>v. invite_id (f v) = invite_id v" "\<And>v. invite_accepted v \<Longrightarrow> invite_accepted (f v)"
  shows "accepted_in s \<subseteq> accepted_in (s\<lparr>invites := update_where P f (invites s)\<rparr>)"
  using assms by (simp add: accepted_in_def image_update_where_mono)

lemma accepted_cong: "invites s' = invites s \<Longrightarrow> accepted_in s \<subseteq> accepted_in s'"
  by (simp add: accepted_in_def)

lemma onward_patch:
  assumes "patchWedding c a i p d = Inr (u, d')"
  shows "onward d d'"
proof -
  have "accepted_in s \<subseteq> accepted_in (patched c p s)" for s
    by (rule accepted_cong) (simp add: patched_def set_lifecycle_def Let_def split: option.split)
  then show ?thesis using assms unfolding patchWedding_def Let_def
    by (auto split: option.splits intro!: onward_intros onward_spaces)
qed

lemma onward_fold:
  "(\<And>x e. onward d e \<Longrightarrow> onward d (f x e)) \<Longrightarrow> onward d e \<Longrightarrow> onward d (fold f xs e)"
  by (induction xs arbitrary: e) simp_all

lemma onward_remove:
  assumes "removeMember now a i m d = Inr (u, d')"
  shows "onward d d'"
  using assms unfolding removeMember_def Let_def
  by (auto split: option.splits intro!: onward_intros onward_fold accepted_cong)

lemma onward_members:
  "createWedding now c digest a w d = Inr (n, d') \<Longrightarrow> onward d d'"
  "transfer now a i m d = Inr (u, d') \<Longrightarrow> onward d d'"
  "resolveOwnership ids now a i m reason d = Inr (u, d') \<Longrightarrow> onward d d'"
  "recoverWedding now a i d = Inr (u, d') \<Longrightarrow> onward d d'"
  unfolding createWedding_def transfer_def resolveOwnership_def recoverWedding_def Let_def
  by (auto split: option.splits sum.splits intro!: onward_intros accepted_cong
      simp: hand_over_def reconciled_def undelete_def)

lemma onward_revoke_invite:
  assumes "revokeInvite a i k d = Inr (u, d')"
  shows "onward d d'"
proof -
  have d': "d' = audit_event (Some i) (Some (actor_id a)) ''invite.revoked'' (Some k)
      (set_space i (\<lambda>s. s\<lparr>invites := update_where (\<lambda>v. invite_id v = k \<and> \<not> invite_accepted v)
         (\<lambda>v. v\<lparr>invite_revoked := True\<rparr>) (invites s)\<rparr>) d)"
    using assms by (auto simp: revokeInvite_def Let_def)
  show ?thesis unfolding d' by (intro onward_intros accepted_update onward_refl) simp_all
qed

lemma onward_invite:
  assumes "invite now a i v h l d = Inr (n, d')"
  shows "onward d d'"
  using assms unfolding invite_def Let_def
  by (auto split: option.splits intro!: onward_intros simp: accepted_in_def)

lemma onward_accept:
  assumes "acceptInvite now a hs d = Inr (r, d')"
  shows "onward d d'"
proof -
  obtain i v where "d' = audit_event (Some i) (Some (actor_id a)) ''member.accepted'' (Some (invite_id v))
      (set_space i (join_as (actor_id a) v) d)"
    using acceptInvite_Inr [OF assms] by metis
  moreover have "accepted_in s \<subseteq> accepted_in (join_as u v s)" for u s
    by (simp add: join_as_def add_member_def accepted_in_def image_update_where_mono)
  ultimately show ?thesis by (simp only:) (intro onward_intros onward_refl)
qed

lemma onward_quarantine [onward_intros]:
  assumes "onward d e"
  shows "onward d (quarantineWedding now nonce i who c e)"
proof -
  have "invites (close_passes who c s) = invites s" "invites (close_grants now c s) = invites s" for s
    by (simp_all add: close_passes_def close_grants_def)
  then have "accepted_in (close_passes who c s) = accepted_in s" "accepted_in (close_grants now c s) = accepted_in s" for s
    by (simp_all add: accepted_in_def)
  moreover have "accepted_in s \<subseteq> accepted_in (close_sharing now nonce c s)" for s
    by (simp add: close_sharing_def Let_def accepted_in_def image_update_where_mono)
  ultimately have "accepted_in s \<subseteq> accepted_in ((close_passes who c \<circ> close_sharing now nonce c \<circ> close_grants now c) s)" for s
    unfolding o_def by (simp only:) blast
  then show ?thesis unfolding quarantineWedding_def by (intro onward_intros assms)
qed

lemma onward_delete:
  assumes "deleteWedding now nonce a i d = Inr (u, d')"
  shows "onward d d'"
proof -
  have "accepted_in s \<subseteq> accepted_in (mark_deleted now s)" for s
    by (rule accepted_cong) (simp add: mark_deleted_def)
  then show ?thesis using assms unfolding deleteWedding_def Let_def
    by (auto split: sum.splits intro!: onward_intros accepted_update del: subsetI)
qed

lemma onward_tables [onward_intros]:
  "onward d e \<Longrightarrow> onward d (e\<lparr>spaces := map (\<lambda>s. s\<lparr>tables := f s\<rparr>) (spaces e)\<rparr>)"
  by (simp add: onward_def consumed_ids_def accepted_ids_def revoked_ids_def accepted_in_def)

lemma onward_closing:
  assumes "requestAccountDeletion now a d = Inr (u, d')"
  shows "onward d d'"
  using assms unfolding requestAccountDeletion_def Let_def
  by (auto split: sum.splits intro!: onward_intros)

lemma onward_act:
  assumes "act now a x d = Inr (y, d')"
  shows "onward d d'"
proof (cases x)
  case (Invite_member i v h l)
  then show ?thesis using assms onward_invite by (auto simp: reply_of_Inr split: if_splits)
qed (use assms in \<open>auto simp: reply_of_Inr dest: onward_account onward_members onward_revoke_invite onward_patch
    onward_accept onward_remove onward_delete onward_closing\<close>)

lemma onward_handle:
  assumes "handle now q d = Inr (y, d')"
  shows "onward d d'"
proof (cases q)
  case (Act hs x)
  then show ?thesis using assms onward_act by (auto split: option.splits)
qed (use assms in \<open>auto simp: reply_of_Inr sign_out_def dest: onward_account intro: onward_revoke\<close>)

lemma onward_exec: "onward d (snd (exec_request q d))"
  using onward_handle by (auto simp: exec_request_def transaction_def split: sum.splits)

lemma onward_run: "onward d (snd (run_ops exec_request qs d))"
  by (induction qs arbitrary: d) (auto intro: onward_trans [OF onward_exec])

end
