(* ===== verification/MemberRoles.thy ===== *)
theory MemberRoles
  imports AccountProgress
begin

text \<open>
  Who holds which role after a request: the statements that give none away, and the five
  handlers that do.
\<close>

definition roles_in :: "space \<Rightarrow> (uuid \<times> role) set" where
  "roles_in s = (\<lambda>m. (member_user m, member_role m)) ` set (members (tables s))"

definition roles :: "directory \<Rightarrow> (uuid \<times> uuid \<times> role) set" where
  "roles d = (\<Union>s\<in>set (spaces d). Pair (space_id s) ` roles_in s)"

lemma in_roles: "(i, u, r) \<in> roles d \<longleftrightarrow> (\<exists>s\<in>set (spaces d). space_id s = i \<and> (u, r) \<in> roles_in s)"
  by (auto simp: roles_def)

section \<open>Statements that give no role\<close>

named_theorems roles_intros "statements that give no role"

lemma roles_same: "same_rows e e' \<Longrightarrow> roles e \<subseteq> R \<Longrightarrow> roles e' \<subseteq> R"
  by (simp add: roles_def same_rows_def)

lemmas [roles_intros] = roles_same [OF audit_frame] roles_same [OF email_frame] roles_same [OF mail_link_frame]
  roles_same [OF queue_work_frame] roles_same [OF cancel_work_frame] roles_same [OF bump_frame]

lemma roles_fields [simp]:
  "roles (e\<lparr>users := us\<rparr>) = roles e" "roles (e\<lparr>identity_tokens := ts\<rparr>) = roles e"
  "roles (e\<lparr>logins := ls\<rparr>) = roles e" "roles (e\<lparr>account_ledger := al\<rparr>) = roles e"
  "roles (e\<lparr>account_requests := ar\<rparr>) = roles e" "roles (e\<lparr>wedding_ledger := wl\<rparr>) = roles e"
  "roles (e\<lparr>tombstones := tb\<rparr>) = roles e" "roles (e\<lparr>erasure_ledger := el\<rparr>) = roles e"
  "roles (consume_tokens P e) = roles e" "roles (revoke_logins Q e) = roles e"
  by (simp_all add: roles_def consume_tokens_def revoke_logins_def)

lemma roles_spaces:
  assumes "roles e \<subseteq> R" "\<And>s. space_id (f s) = space_id s" "\<And>s. roles_in (f s) \<subseteq> roles_in s"
  shows "roles (e\<lparr>spaces := update_where P f (spaces e)\<rparr>) \<subseteq> R"
proof
  fix x
  assume "x \<in> roles (e\<lparr>spaces := update_where P f (spaces e)\<rparr>)"
  then obtain s where s: "s \<in> set (update_where P f (spaces e))" "x \<in> Pair (space_id s) ` roles_in s"
    by (auto simp: roles_def)
  then obtain t where "t \<in> set (spaces e)" and "s = t \<or> s = f t" by (auto simp: set_update_where)
  then have "x \<in> Pair (space_id t) ` roles_in t" using s(2) assms(2,3) by auto
  with \<open>t \<in> set (spaces e)\<close> have "x \<in> roles e" unfolding roles_def by blast
  then show "x \<in> R" using assms(1) by blast
qed

lemma roles_set_space [roles_intros]:
  "roles e \<subseteq> R \<Longrightarrow> (\<And>s. space_id (f s) = space_id s) \<Longrightarrow> (\<And>s. roles_in (f s) \<subseteq> roles_in s) \<Longrightarrow>
    roles (set_space i f e) \<subseteq> R"
  unfolding set_space_def by (rule roles_spaces)

lemma roles_issue: "issue_token now u p h e = Inr (t, e') \<Longrightarrow> roles e' = roles e"
  by (auto simp: issue_token_def bump_def roles_def)

lemma roles_in_cong: "members (tables s') = members (tables s) \<Longrightarrow> roles_in s' \<subseteq> roles_in s"
  by (simp add: roles_in_def)

section \<open>Handlers that give no role\<close>

lemma roles_account:
  "register now address pw h l d = Inr (u, d') \<Longrightarrow> roles d' \<subseteq> roles d"
  "resendVerification now address h link d = Inr (u, d') \<Longrightarrow> roles d' \<subseteq> roles d"
  "recover now address h l d = Inr (u, d') \<Longrightarrow> roles d' \<subseteq> roles d"
  "verify now hs d = Inr (ts, d') \<Longrightarrow> roles d' \<subseteq> roles d"
  "sign_in now address check h d = Inr (r, d') \<Longrightarrow> roles d' \<subseteq> roles d"
  "reauthenticate now a check d = Inr (u, d') \<Longrightarrow> roles d' \<subseteq> roles d"
  "reset now hs pw d = Inr (ts, d') \<Longrightarrow> roles d' \<subseteq> roles d"
  "recoverAccount ids now a i reason d = Inr (u, d') \<Longrightarrow> roles d' \<subseteq> roles d"
  by (auto simp: register_def resendVerification_def recover_def verify_def sign_in_def reauthenticate_def
      reset_def recoverAccount_def Let_def roles_issue split: option.splits sum.splits list.splits if_splits
      intro!: roles_intros del: subsetI)

lemma roles_patch:
  assumes "patchWedding c a i p d = Inr (u, d')"
  shows "roles d' \<subseteq> roles d"
proof -
  have "space_id (patched c p s) = space_id s" "roles_in (patched c p s) \<subseteq> roles_in s" for s
    by (auto intro!: roles_in_cong simp: patched_def set_lifecycle_def Let_def split: option.split del: subsetI)
  then show ?thesis using assms unfolding patchWedding_def Let_def
    by (auto split: option.splits intro!: roles_intros roles_spaces del: subsetI)
qed

lemma roles_fold:
  "(\<And>x e. roles e \<subseteq> R \<Longrightarrow> roles (f x e) \<subseteq> R) \<Longrightarrow> roles e \<subseteq> R \<Longrightarrow> roles (fold f xs e) \<subseteq> R"
  by (induction xs arbitrary: e) simp_all

lemma roles_remove:
  assumes "removeMember now a i m d = Inr (u, d')"
  shows "roles d' \<subseteq> roles d"
proof -
  let ?f = "\<lambda>s. s\<lparr>tables := (tables s)\<lparr>members :=
    filter (\<lambda>x. \<not> (member_user x = m \<and> member_role x \<noteq> Owner)) (members (tables s))\<rparr>\<rparr>"
  have "roles_in (?f s) \<subseteq> roles_in s" for s by (auto simp: roles_in_def)
  then have "roles (set_space i ?f d) \<subseteq> roles d" by (intro roles_intros) simp_all
  moreover have "roles_in (drop_upload c y s) \<subseteq> roles_in s" for c y s by (rule roles_in_cong) simp
  ultimately show ?thesis using assms unfolding removeMember_def Let_def
    by (auto split: option.splits intro!: roles_intros roles_fold del: subsetI)
qed

lemma roles_invites:
  "revokeInvite a i k d = Inr (u, d') \<Longrightarrow> roles d' \<subseteq> roles d"
  "invite now a i v h l d = Inr (n, d') \<Longrightarrow> roles d' \<subseteq> roles d"
  unfolding revokeInvite_def invite_def Let_def
  by (auto split: option.splits intro!: roles_intros roles_in_cong del: subsetI)

lemma roles_quarantine [roles_intros]:
  assumes "roles e \<subseteq> R"
  shows "roles (quarantineWedding now nonce i who c e) \<subseteq> R"
proof -
  have "members (tables (close_passes who c s)) = members (tables s)" for s
    using revoke_where_members [of "\<lambda>pid. record_history pid ''revoked'' who (Some ''Workspace removed'')"]
    by (simp add: close_passes_def record_history_def)
  then show ?thesis using assms unfolding quarantineWedding_def
    by (intro roles_intros roles_in_cong) (simp_all add: close_sharing_def close_grants_def close_passes_def Let_def)
qed

lemma roles_delete:
  assumes "deleteWedding now nonce a i d = Inr (u, d')"
  shows "roles d' \<subseteq> roles d"
  using assms unfolding deleteWedding_def Let_def
  by (auto split: sum.splits intro!: roles_intros roles_in_cong simp: mark_deleted_def del: subsetI)

lemma roles_closing:
  assumes "requestAccountDeletion now a d = Inr (u, d')"
  shows "roles d' \<subseteq> roles d"
proof -
  have "roles (e\<lparr>spaces := map (\<lambda>s. s\<lparr>tables := (tables s)\<lparr>members :=
      filter P (members (tables s))\<rparr>\<rparr>) (spaces e)\<rparr>) \<subseteq> roles e" for e :: directory and P
    by (auto simp: roles_def roles_in_def)
  from subset_trans [OF this] show ?thesis using assms unfolding requestAccountDeletion_def Let_def
    by (auto split: sum.splits intro!: roles_intros del: subsetI)
qed

section \<open>Handlers that give a role\<close>

lemma roles_set_space_plus:
  assumes "\<And>s. space_id (f s) = space_id s"
    "\<And>s. s \<in> set (spaces e) \<Longrightarrow> space_id s = i \<Longrightarrow> roles_in (f s) \<subseteq> roles_in s \<union> R"
  shows "roles (set_space i f e) \<subseteq> roles e \<union> Pair i ` R"
proof
  fix x
  assume "x \<in> roles (set_space i f e)"
  then obtain s where s: "s \<in> set (update_where (\<lambda>s. space_id s = i) f (spaces e))" "x \<in> Pair (space_id s) ` roles_in s"
    by (auto simp: roles_def)
  then obtain t where t: "t \<in> set (spaces e)" "space_id t = space_id s" and "s = t \<or> (s = f t \<and> space_id t = i)"
    using assms(1) by (auto simp: set_update_where)
  then have "roles_in s \<subseteq> roles_in t \<or> (space_id s = i \<and> roles_in s \<subseteq> roles_in t \<union> R)"
    using assms(2) by auto
  then have "x \<in> Pair (space_id t) ` roles_in t \<union> Pair i ` R" using s(2) t(2) by auto
  then show "x \<in> roles e \<union> Pair i ` R" using t(1) unfolding roles_def by blast
qed

lemma roles_audit [simp]: "roles (audit_event w who action r e) = roles e"
  using audit_frame [of e] by (simp add: roles_def same_rows_def)

lemma roles_new_space: "roles (bump (d\<lparr>spaces := spaces d @ [s]\<rparr>)) = roles d \<union> Pair (space_id s) ` roles_in s"
  by (auto simp: roles_def bump_def)

lemma roles_create:
  assumes "createWedding now c digest a w d = Inr (n, d')"
  shows "roles d' \<subseteq> roles d \<union> {(n, actor_id a, Owner)} \<and> actor_verified a"
proof -
  let ?s = "refresh_service c (new_space now n (actor_id a) w)"
  have d': "d' = audit_event (Some n) (Some (actor_id a)) ''wedding.created'' (Some n)
      (bump (d\<lparr>spaces := spaces d @ [?s]\<rparr>))" and v: "actor_verified a"
    using assms by (auto simp: createWedding_def Let_def)
  have "space_id ?s = n" "roles_in ?s = {(actor_id a, Owner)}"
    by (simp_all add: roles_in_def new_space_def no_tables_def)
  then show ?thesis using v unfolding d' roles_audit roles_new_space by simp
qed

lemma roles_accept:
  assumes "acceptInvite now a hs d = Inr ((i, k), d')"
  obtains s v where "s \<in> set (spaces d)" "space_id s = i" "\<not> deleted (tables s)" "v \<in> set (invites s)"
    "invite_open now hs (actor_email a) v" "roles d' \<subseteq> roles d \<union> {(i, actor_id a, invite_role v)}"
proof -
  obtain v rest where o: "open_invites now hs (actor_email a) d = (i, v) # rest"
    and d': "d' = audit_event (Some i) (Some (actor_id a)) ''member.accepted'' (Some (invite_id v))
       (set_space i (join_as (actor_id a) v) d)"
    using acceptInvite_Inr [OF assms] by blast
  have "roles (set_space i (join_as (actor_id a) v) d) \<subseteq> roles d \<union> Pair i ` {(actor_id a, invite_role v)}"
    by (rule roles_set_space_plus) (auto simp: join_as_def add_member_def roles_in_def)
  then have "roles d' \<subseteq> roles d \<union> {(i, actor_id a, invite_role v)}" by (simp add: d')
  then show ?thesis using open_invites_head [OF o] that by metis
qed

lemma roles_transfer:
  assumes "transfer now a i u d = Inr (x, d')"
  shows "roles d' \<subseteq> roles d \<union> {(i, u, Owner), (i, actor_id a, Co_owner)} \<and> (i, u, Co_owner) \<in> roles d \<and>
    (\<exists>t. tenant_of d i (actor_id a) = Inr t \<and> tenant_role t = Owner)"
proof -
  obtain t where t: "tenant_of d i (actor_id a) = Inr t" "requireCapability t Cap_primary None = Inr ()"
    and co: "\<exists>s\<in>set (spaces d). space_id s = i \<and>
        (\<exists>m\<in>set (members (tables s)). member_user m = u \<and> member_role m = Co_owner)"
    and d': "d' = audit_event (Some i) (Some (actor_id a)) ''ownership.transferred'' (Some u)
        (set_space i (hand_over (actor_id a) u) d)"
    using assms(1) by (auto simp: transfer_def split: sum.splits)
  have "roles (set_space i (hand_over (actor_id a) u) d) \<subseteq>
      roles d \<union> Pair i ` {(u, Owner), (actor_id a, Co_owner)}"
    by (rule roles_set_space_plus) (auto simp: hand_over_def roles_in_def set_role_def set_update_where)
  moreover have "(i, u, Co_owner) \<in> roles d" using co by (auto simp: in_roles roles_in_def image_iff) metis
  moreover have "tenant_role t = Owner" using t(2) by (simp add: requireCapability_Inr capability_granted_def)
  ultimately show ?thesis using t(1) by (simp add: d')
qed

lemma roles_recover:
  assumes "recoverWedding now a i d = Inr (x, d')"
  shows "roles d' \<subseteq> roles d \<union> {(i, actor_id a, Owner)} \<and>
    (\<exists>s\<in>set (spaces d). space_id s = i \<and> primary_owner (tables s) = actor_id a)"
proof -
  let ?f = "\<lambda>s. s\<lparr>tables := as_owner (actor_id a) (tables s)\<rparr>"
  obtain s l t where s: "List.find (recoverable now i (actor_id a)) (spaces d) = Some s"
    and d': "d' = audit_event (Some i) (Some (actor_id a)) ''wedding.recovered'' (Some i)
      (set_space i ?f ((set_space i undelete d)\<lparr>wedding_ledger := l, tombstones := t\<rparr>))"
    using assms(1) unfolding recoverWedding_def Let_def by (auto split: sum.splits option.splits)
  let ?e = "(set_space i undelete d)\<lparr>wedding_ledger := l, tombstones := t\<rparr>"
  have "roles ?e \<subseteq> roles d" by (auto intro!: roles_intros roles_in_cong simp: undelete_def del: subsetI)
  moreover have "roles (set_space i ?f ?e) \<subseteq> roles ?e \<union> Pair i ` {(actor_id a, Owner)}"
    by (rule roles_set_space_plus) (auto simp: roles_in_def as_owner_def set_role_def set_update_where)
  ultimately have "roles (set_space i ?f ?e) \<subseteq> roles d \<union> {(i, actor_id a, Owner)}" by auto
  then show ?thesis using find_SomeD [OF s] unfolding d' by (auto simp: recoverable_def)
qed

lemma roles_review:
  assumes "resolveOwnership ids now a i u reason d = Inr (x, d')"
  shows "roles d' \<subseteq> roles d \<union> {(i, u, Owner)} \<union> {(i, v, Co_owner) | v. (i, v, Owner) \<in> roles d} \<and> actor_id a \<in> set ids"
proof -
  have d': "d' = audit_event (Some i) (Some (actor_id a)) ''operator.ownership_reconciled'' (Some u)
        (set_space i (reconciled u) d)" and "actor_id a \<in> set ids"
    using assms(1) by (auto simp: resolveOwnership_def operator_allowed_def split: sum.splits option.splits if_splits)
  let ?R = "insert (u, Owner) {(v, Co_owner) | v. (i, v, Owner) \<in> roles d}"
  have "roles (set_space i (reconciled u) d) \<subseteq> roles d \<union> Pair i ` ?R"
  proof (rule roles_set_space_plus)
    fix s
    assume s: "s \<in> set (spaces d)" "space_id s = i"
    show "roles_in (reconciled u s) \<subseteq> roles_in s \<union> ?R"
    proof
      fix p
      assume "p \<in> roles_in (reconciled u s)"
      then obtain m where m: "m \<in> set (members (tables s))"
        and p: "p = (u, Owner) \<or> p = (member_user m, member_role m) \<or>
          (p = (member_user m, Co_owner) \<and> member_role m = Owner)"
        by (auto simp: reconciled_def roles_in_def set_role_def demote_owners_def set_update_where)
      have "(i, member_user m, member_role m) \<in> roles d"
        using s m unfolding in_roles roles_in_def by blast
      then show "p \<in> roles_in s \<union> ?R" using p m by (auto simp: roles_in_def)
    qed
  qed (simp add: reconciled_def)
  then show ?thesis using \<open>actor_id a \<in> set ids\<close> by (auto simp: d')
qed

end
