(* ===== verification/AccountTheorems.thy ===== *)
theory AccountTheorems
  imports MemberRoles
begin

text \<open>
  What a history of requests guarantees: every live wedding has exactly its owner, a link is
  accepted at most once, a closed session never acts again, memberships come from invitations,
  and the rate limit bounds the attempts of any period.
\<close>

section \<open>Links\<close>

fun spent_link :: "link \<Rightarrow> directory \<Rightarrow> bool" where
  "spent_link (Identity_link k) d = (k \<in> consumed_ids d)"
| "spent_link (Invite_link k) d = (k \<in> accepted_ids d)"

fun uses_link :: "link \<Rightarrow> account_reply outcome \<Rightarrow> bool" where
  "uses_link l (Inr (Used ls)) = (l \<in> set ls)"
| "uses_link l (Inr (Joined i v)) = (l = Invite_link v)"
| "uses_link l r = False"

lemma spent_onward: "onward d d' \<Longrightarrow> spent_link k d \<Longrightarrow> spent_link k d'"
  by (cases k) (auto simp: onward_def)

lemma consumed_frames:
  "consumed_ids (audit_event w who ac r d) = consumed_ids d"
  "consumed_ids (d\<lparr>users := us\<rparr>) = consumed_ids d" "consumed_ids (revoke_logins P d) = consumed_ids d"
  using audit_frame [of d] by (simp_all add: consumed_ids_def same_rows_def revoke_logins_def)

lemma consumes:
  "t \<in> set (identity_tokens d) \<Longrightarrow> P t \<Longrightarrow> token_id t \<in> consumed_ids (consume_tokens P d)"
proof -
  assume t: "t \<in> set (identity_tokens d)" "P t"
  let ?r = "if P t \<and> \<not> token_consumed t then t\<lparr>token_consumed := True\<rparr> else t"
  have "?r \<in> set (identity_tokens (consume_tokens P d))" "token_consumed ?r" "token_id ?r = token_id t"
    using t by (auto simp: consume_tokens_def update_where_def)
  then show ?thesis unfolding consumed_ids_def by (intro image_eqI [of _ _ ?r]) simp_all
qed

lemma fresh_token:
  assumes "keys_ok d" "t \<in> set (identity_tokens d)" "\<not> token_consumed t"
  shows "token_id t \<notin> consumed_ids d"
proof
  assume "token_id t \<in> consumed_ids d"
  then obtain r where "r \<in> set (identity_tokens d)" "token_consumed r" "token_id r = token_id t"
    by (auto simp: consumed_ids_def)
  then show False using assms unfolding keys_ok_def by (metis distinct_map inj_onD)
qed

lemma verify_links:
  assumes "verify now hs d = Inr (ts, d')" "keys_ok d" "k \<in> set ts"
  shows "k \<notin> consumed_ids d \<and> k \<in> consumed_ids d'"
proof -
  obtain t where t: "t \<in> set (identity_tokens d)" "token_usable now hs Verify_email t" "k = token_id t"
  proof -
    have "ts = map token_id (filter (token_usable now hs Verify_email) (identity_tokens d))"
      using assms(1) unfolding verify_def Let_def by (auto split: list.splits)
    then show ?thesis using assms(3) that by auto
  qed
  obtain us where "d' = (consume_tokens (token_usable now hs Verify_email) d)\<lparr>users := us\<rparr>"
    using assms(1) unfolding verify_def Let_def by (auto split: list.splits)
  then show ?thesis
    using t fresh_token [OF assms(2) t(1)] consumes [OF t(1), of "token_usable now hs Verify_email"]
    by (simp add: consumed_frames token_usable_def)
qed

lemma reset_Inr:
  assumes "reset now hs pw d = Inr (ts, d')"
  obtains t us where "t \<in> set (identity_tokens d)" "token_usable now hs Reset_password t" "ts = [token_id t]"
    "d' = audit_event None (Some (token_user t)) ''identity.recovered'' None
      (revoke_logins (\<lambda>s. login_user s = token_user t)
        (consume_tokens (\<lambda>r. token_user r = token_user t \<and> token_purpose r = Reset_password) (d\<lparr>users := us\<rparr>)))"
proof -
  obtain t where f: "List.find (\<lambda>t. token_usable now hs Reset_password t \<and> token_user t \<in> user_id ` set (users d))
      (identity_tokens d) = Some t"
    using assms unfolding reset_def by (auto split: option.splits)
  then show ?thesis
    using assms find_SomeD [OF f]
    by (intro that [of t "update_where (\<lambda>x. user_id x = token_user t) (\<lambda>x. x\<lparr>password_hash := pw\<rparr>) (users d)"])
      (auto simp: reset_def Let_def)
qed

lemma reset_links:
  assumes "reset now hs pw d = Inr (ts, d')" "keys_ok d" "k \<in> set ts"
  shows "k \<notin> consumed_ids d \<and> k \<in> consumed_ids d'"
proof -
  obtain t us where t: "t \<in> set (identity_tokens d)" "token_usable now hs Reset_password t" and ts: "ts = [token_id t]"
    and d': "d' = audit_event None (Some (token_user t)) ''identity.recovered'' None
      (revoke_logins (\<lambda>s. login_user s = token_user t)
        (consume_tokens (\<lambda>r. token_user r = token_user t \<and> token_purpose r = Reset_password) (d\<lparr>users := us\<rparr>)))"
    using assms(1) by (rule reset_Inr)
  have "token_id t \<in> consumed_ids (consume_tokens (\<lambda>r. token_user r = token_user t \<and>
      token_purpose r = Reset_password) (d\<lparr>users := us\<rparr>))"
    using t by (intro consumes) (simp_all add: token_usable_def)
  then show ?thesis
    using fresh_token [OF assms(2) t(1)] t(2) assms(3) unfolding d' ts
    by (simp add: consumed_frames token_usable_def)
qed

lemma find_concat_unique:
  assumes "distinct (map f (concat xss))" "xs \<in> set xss" "x \<in> set xs" "ys \<in> set xss" "y \<in> set ys" "f x = f y"
  shows "x = y"
proof -
  have "x \<in> set (concat xss)" "y \<in> set (concat xss)" using assms by auto
  then show ?thesis using assms(1,6) by (metis distinct_map inj_onD)
qed

lemma accept_links:
  assumes "acceptInvite now a hs d = Inr ((i, k), d')" "keys_ok d"
  shows "k \<notin> accepted_ids d \<and> k \<in> accepted_ids d'"
proof -
  obtain v rest where o: "open_invites now hs (actor_email a) d = (i, v) # rest" and k: "k = invite_id v"
    and d': "d' = audit_event (Some i) (Some (actor_id a)) ''member.accepted'' (Some (invite_id v))
       (set_space i (join_as (actor_id a) v) d)"
    using acceptInvite_Inr [OF assms(1)] by blast
  obtain s where s: "s \<in> set (spaces d)" "space_id s = i" "v \<in> set (invites s)"
    "invite_open now hs (actor_email a) v" using o by (rule open_invites_head)
  have fresh: "k \<notin> accepted_ids d"
  proof
    assume "k \<in> accepted_ids d"
    then obtain r q where "r \<in> set (spaces d)" "q \<in> set (invites r)" "invite_accepted q" "invite_id q = invite_id v"
      by (auto simp: accepted_ids_def accepted_in_def k)
    moreover from this have "q = v"
      using assms(2) s find_concat_unique [of invite_id "map invites (spaces d)" "invites r" q "invites s" v]
      by (auto simp: keys_ok_def all_invites_def)
    ultimately show False using s(4) by (simp add: invite_open_def)
  qed
  have "join_as (actor_id a) v s \<in> set (spaces (set_space i (join_as (actor_id a) v) d))"
    using s(1,2) by (auto simp: set_update_where)
  moreover have "k \<in> accepted_in (join_as (actor_id a) v s)"
  proof -
    have "v\<lparr>invite_accepted := True\<rparr> \<in> set (invites (join_as (actor_id a) v s))"
      using s(3) by (simp add: join_as_def set_update_where)
    then show ?thesis unfolding accepted_in_def k by (intro image_eqI [of _ _ "v\<lparr>invite_accepted := True\<rparr>"]) simp_all
  qed
  ultimately have "k \<in> accepted_ids (set_space i (join_as (actor_id a) v) d)"
    unfolding accepted_ids_def by blast
  then show ?thesis
    using fresh audit_frame by (simp add: d' same_rows_def accepted_ids_def)
qed

lemma act_accepts:
  assumes "act now a x d = Inr (y, d')" "uses_link k (Inr y)" "keys_ok d"
  shows "\<not> spent_link k d \<and> spent_link k d'"
proof (cases x)
  case (Accept_invite hs)
  then show ?thesis using assms accept_links by (auto simp: reply_of_Inr split: prod.splits)
next
  case (Invite_member i v h l)
  then show ?thesis using assms by (auto simp: reply_of_Inr split: if_splits)
qed (use assms in \<open>auto simp: reply_of_Inr\<close>)

lemma handle_accepts:
  assumes "handle now q d = Inr (y, d')" "uses_link k (Inr y)" "keys_ok d"
  shows "\<not> spent_link k d \<and> spent_link k d'"
proof (cases q)
  case (Act hs x)
  then show ?thesis using assms act_accepts by (auto split: option.splits)
qed (use assms verify_links reset_links in \<open>auto simp: reply_of_Inr\<close>)

lemma exec_accepts:
  assumes "uses_link k (fst (exec_request q d))" "keys_ok d"
  shows "\<not> spent_link k d \<and> spent_link k (snd (exec_request q d))"
  using assms handle_accepts by (auto simp: exec_request_def transaction_def split: sum.splits prod.splits)

interpretation links: single_use exec_request sound_directory spent_link uses_link
  by unfold_locales
    (auto dest: spent_onward [OF onward_exec] exec_accepts simp: sound_directory_def)

section \<open>The rate limit\<close>

text \<open>
  A history of attempts, each a time and a key; the limit and the period of a key are fixed by the
  route that uses it.
\<close>

definition attempt ::
  "(string \<Rightarrow> nat) \<Rightarrow> (string \<Rightarrow> int) \<Rightarrow> instant \<times> string \<Rightarrow> rate_row list \<Rightarrow> (string \<times> bool) \<times> rate_row list" where
  "attempt limit period a rows =
     (let (r, rows') = rateLimit (fst a) (snd a) (limit (snd a)) (period (snd a)) rows
      in ((snd a, r = Inr ()), rows'))"

definition rate_of :: "string \<Rightarrow> rate_row list \<Rightarrow> rate_row option" where
  "rate_of k rows = List.find (\<lambda>r. rate_key r = k) rows"

definition struck :: "instant \<Rightarrow> string \<Rightarrow> int \<Rightarrow> rate_row option \<Rightarrow> rate_row" where
  "struck now k period r = (case r of None \<Rightarrow> \<lparr>rate_key = k, window_start = now, rate_count = 1\<rparr>
     | Some x \<Rightarrow> hit_rate now period x)"

lemma hit_rate_key [simp]: "rate_key (hit_rate now p r) = rate_key r"
  by (simp add: hit_rate_def)

lemma rate_of_update: "rate_of k (update_where (\<lambda>r. rate_key r = k') (hit_rate now p) rows) =
    (if k = k' then map_option (hit_rate now p) (rate_of k rows) else rate_of k rows)"
  by (induction rows) (auto simp: rate_of_def update_where_def)

lemma rate_of_append: "rate_of k (rows @ [r]) = (case rate_of k rows of None \<Rightarrow> if rate_key r = k then Some r else None
    | Some x \<Rightarrow> Some x)"
  by (induction rows) (auto simp: rate_of_def)

lemma rate_of_None: "rate_of k rows = None \<longleftrightarrow> k \<notin> rate_key ` set rows"
  by (auto simp: rate_of_def find_None_iff')

lemma attempt_row: "rate_of k (snd (attempt limit period (now, k') rows)) =
    (if k = k' then Some (struck now k (period k) (rate_of k rows)) else rate_of k rows)"
proof -
  let ?rows = "if k' \<in> rate_key ` set rows then update_where (\<lambda>r. rate_key r = k') (hit_rate now (period k')) rows
    else rows @ [\<lparr>rate_key = k', window_start = now, rate_count = 1\<rparr>]"
  have "snd (attempt limit period (now, k') rows) = ?rows"
    by (simp add: attempt_def rateLimit_def Let_def split_beta split: option.split)
  moreover have "rate_of k ?rows = (if k = k' then Some (struck now k (period k) (rate_of k rows)) else rate_of k rows)"
    using rate_of_None [of k rows]
    by (cases "rate_of k rows") (auto simp: rate_of_update rate_of_append struck_def)
  ultimately show ?thesis by simp
qed

lemma attempt_result: "fst (attempt limit period (now, k) rows) =
    (k, rate_count (struck now k (period k) (rate_of k rows)) \<le> limit k)"
proof -
  have "rate_of k (snd (rateLimit now k (limit k) (period k) rows)) = Some (struck now k (period k) (rate_of k rows))"
    using attempt_row [of k limit period now k rows] by (simp add: attempt_def split_beta)
  then show ?thesis
    by (auto simp: attempt_def rateLimit_def Let_def rate_of_def split: option.splits if_splits)
qed

definition admitted_attempts ::
  "(string \<Rightarrow> nat) \<Rightarrow> (string \<Rightarrow> int) \<Rightarrow> string \<Rightarrow> (instant \<times> string) list \<Rightarrow> rate_row list \<Rightarrow> nat" where
  "admitted_attempts limit period k as rows =
     length (filter (\<lambda>o'. o' = (k, True)) (fst (run_ops (attempt limit period) as rows)))"

lemma admitted_Cons: "admitted_attempts limit period k ((now, k') # as) rows =
    (if k' = k \<and> rate_count (struck now k (period k) (rate_of k rows)) \<le> limit k then 1 else 0) +
    admitted_attempts limit period k as (snd (attempt limit period (now, k') rows))"
  by (auto simp: admitted_attempts_def attempt_result)

lemma one_window:
  assumes "rate_of k rows = Some r" "\<forall>a\<in>set as. fst a \<le> window_start r + period k * 1000"
  shows "admitted_attempts limit period k as rows \<le> limit k - rate_count r"
  using assms
proof (induction as arbitrary: rows r)
  case Nil
  then show ?case by (simp add: admitted_attempts_def)
next
  case (Cons a as)
  obtain now k' where a: "a = (now, k')" by (cases a)
  show ?case
  proof (cases "k' = k")
    case True
    let ?r = "r\<lparr>rate_count := Suc (rate_count r)\<rparr>"
    have s: "struck now k (period k) (Some r) = ?r"
      using Cons.prems(2) by (auto simp: a struck_def hit_rate_def)
    then have "rate_of k (snd (attempt limit period (now, k') rows)) = Some ?r"
      using Cons.prems(1) True by (simp add: attempt_row)
    then have "admitted_attempts limit period k as (snd (attempt limit period (now, k') rows)) \<le> limit k - Suc (rate_count r)"
      using Cons.IH [of _ ?r] Cons.prems(2) by simp
    then show ?thesis using Cons.prems(1) True s by (auto simp: a admitted_Cons)
  next
    case False
    then show ?thesis using Cons.IH Cons.prems by (simp add: a admitted_Cons attempt_row)
  qed
qed

lemma two_windows:
  assumes "\<forall>a\<in>set as. t0 \<le> fst a \<and> fst a \<le> t0 + period k * 1000"
  shows "admitted_attempts limit period k as rows \<le>
    limit k + (case rate_of k rows of None \<Rightarrow> 0 | Some r \<Rightarrow> limit k - rate_count r)"
  using assms
proof (induction as arbitrary: rows)
  case Nil
  then show ?case by (simp add: admitted_attempts_def)
next
  case (Cons a as)
  obtain now k' where a: "a = (now, k')" by (cases a)
  let ?rows = "snd (attempt limit period (now, k') rows)"
  have later: "\<forall>b\<in>set as. t0 \<le> fst b \<and> fst b \<le> t0 + period k * 1000" using Cons.prems by simp
  show ?case
  proof (cases "k' = k")
    case True
    let ?s = "struck now k (period k) (rate_of k rows)"
    have row: "rate_of k ?rows = Some ?s" using True by (simp add: attempt_row)
    show ?thesis
    proof (cases "window_start ?s = now \<and> rate_count ?s = 1")
      case True
      then have "\<forall>b\<in>set as. fst b \<le> window_start ?s + period k * 1000"
        using Cons.prems by (auto simp: a)
      from one_window [where limit = limit and period = period, OF row this] show ?thesis
        using True by (cases "limit k") (auto simp: a admitted_Cons split: option.split)
    next
      case False
      then obtain r where r: "rate_of k rows = Some r" "rate_count ?s = Suc (rate_count r)"
        by (auto simp: struck_def hit_rate_def split: option.splits if_splits)
      then show ?thesis using Cons.IH [OF later, of ?rows] row by (auto simp: a admitted_Cons)
    qed
  next
    case False
    then show ?thesis using Cons.IH [OF later, of ?rows] by (simp add: a admitted_Cons attempt_row)
  qed
qed

lemma refused_attempt:
  assumes "rateLimit now k l p rows = (Inl n, rows')" "0 < l" "0 < p" "now + n * 1000 < later"
  shows "fst (rateLimit later k l p rows') = Inr ()"
proof -
  let ?s = "struck now k p (rate_of k rows)"
  have r': "rate_of k rows' = Some ?s"
    using attempt_row [of k "\<lambda>_. l" "\<lambda>_. p" now k rows] assms(1) by (simp add: attempt_def)
  let ?x = "of_int (window_start ?s + p * 1000 - now) / (1000 :: rat)"
  have "n = max 1 \<lceil>?x\<rceil>"
    using assms(1) r' by (auto simp: rateLimit_def retry_after_def Let_def rate_of_def split: option.splits if_splits)
  then have "\<lceil>?x\<rceil> \<le> n" by simp
  then have "?x \<le> of_int n" by (simp only: ceiling_le_iff)
  then have "of_int (window_start ?s + p * 1000 - now) \<le> of_int n * (1000 :: rat)"
    by (simp add: divide_le_eq)
  then have "window_start ?s + p * 1000 - now \<le> n * 1000"
    by (metis of_int_le_iff of_int_mult of_int_numeral)
  then have "window_start ?s < later - p * 1000" using assms(4) by linarith
  then have "struck later k p (Some ?s) = ?s\<lparr>window_start := later, rate_count := 1\<rparr>"
    by (simp add: struck_def hit_rate_def)
  then have "fst (attempt (\<lambda>_. l) (\<lambda>_. p) (later, k) rows') = (k, True)"
    unfolding attempt_result r' using assms(2) by simp
  then show ?thesis by (auto simp: attempt_def split_beta)
qed

section \<open>Sessions\<close>

lemma revoked_never_acts:
  assumes "keys_ok d" "i \<in> revoked_ids d" "authenticate now hs d = Some a"
  shows "session_of a \<noteq> i"
proof
  assume i: "session_of a = i"
  obtain s where s: "List.find (\<lambda>s. login_hash s \<in> set hs \<and> login_live now s \<and>
      (\<exists>x\<in>set (users d). user_id x = login_user s \<and> \<not> user_deleted x)) (logins d) = Some s"
    and a: "session_of a = login_id s"
    using assms(3) by (auto simp: authenticate_def to_actor_def split: option.splits)
  have live: "s \<in> set (logins d)" "login_live now s" using find_SomeD [OF s] by auto
  obtain r where "r \<in> set (logins d)" "login_revoked r" "login_id r = login_id s"
    using assms(2) i a by (auto simp: revoked_ids_def)
  moreover from this have "r = s" using assms(1) live(1) unfolding keys_ok_def by (metis distinct_map inj_onD)
  ultimately show False using live(2) by (simp add: login_live_def)
qed

lemma reset_revokes:
  assumes "handle now (Reset hs pw) d = Inr (Used [Identity_link k], d')" "keys_ok d"
    "t \<in> set (identity_tokens d)" "token_id t = k" "s \<in> set (logins d)" "login_user s = token_user t"
  shows "login_id s \<in> revoked_ids d'"
proof -
  obtain r us where r: "r \<in> set (identity_tokens d)" "token_id r = k"
    and d': "d' = audit_event None (Some (token_user r)) ''identity.recovered'' None
      (revoke_logins (\<lambda>s. login_user s = token_user r)
        (consume_tokens (\<lambda>q. token_user q = token_user r \<and> token_purpose q = Reset_password) (d\<lparr>users := us\<rparr>)))"
    using assms(1) by (auto simp: reply_of_Inr elim!: reset_Inr)
  have "r = t" using r assms(2-4) unfolding keys_ok_def by (metis distinct_map inj_onD)
  define e where "e = consume_tokens (\<lambda>q. token_user q = token_user t \<and> token_purpose q = Reset_password) (d\<lparr>users := us\<rparr>)"
  have e: "d' = audit_event None (Some (token_user t)) ''identity.recovered'' None
      (revoke_logins (\<lambda>s. login_user s = token_user t) e)" "logins e = logins d"
    using d' by (simp_all add: \<open>r = t\<close> e_def consume_tokens_def)
  have "revoked_ids d' = revoked_ids (revoke_logins (\<lambda>s. login_user s = token_user t) e)"
    using audit_frame unfolding e(1) same_rows_def revoked_ids_def by simp
  moreover have "s\<lparr>login_revoked := True\<rparr> \<in> set (logins (revoke_logins (\<lambda>s. login_user s = token_user t) e))"
    using assms(5,6) e(2) by (simp add: revoke_logins_def set_update_where)
  ultimately show ?thesis
    by (simp only:) (force simp: revoked_ids_def intro: image_eqI [of _ _ "s\<lparr>login_revoked := True\<rparr>"])
qed

section \<open>What a role comes from\<close>

fun grants :: "instant \<Rightarrow> actor \<Rightarrow> action \<Rightarrow> directory \<Rightarrow> uuid \<Rightarrow> uuid \<Rightarrow> role \<Rightarrow> bool" where
  "grants now a (Create_wedding c digest w) d i u r = (actor_verified a \<and> u = actor_id a \<and> r = Owner)"
| "grants now a (Accept_invite hs) d i u r = (u = actor_id a \<and>
     (\<exists>s\<in>set (spaces d). space_id s = i \<and> \<not> deleted (tables s) \<and>
       (\<exists>v\<in>set (invites s). invite_open now hs (actor_email a) v \<and> invite_role v = r)))"
| "grants now a (Transfer_ownership j n) d i u r = (j = i \<and> (i, n, Co_owner) \<in> roles d \<and>
     (\<exists>t. tenant_of d i (actor_id a) = Inr t \<and> tenant_role t = Owner) \<and>
     (u = n \<and> r = Owner \<or> u = actor_id a \<and> r = Co_owner))"
| "grants now a (Recover_wedding j) d i u r = (j = i \<and> u = actor_id a \<and> r = Owner \<and>
     (\<exists>s\<in>set (spaces d). space_id s = i \<and> primary_owner (tables s) = u))"
| "grants now a (Review_owner ids j n reason) d i u r = (j = i \<and> actor_id a \<in> set ids \<and>
     (u = n \<and> r = Owner \<or> (i, u, Owner) \<in> roles d \<and> r = Co_owner))"
| "grants now a x d i u r = False"

lemma act_roles:
  assumes "act now a x d = Inr (y, d')" "(i, u, r) \<in> roles d'" "(i, u, r) \<notin> roles d"
  shows "grants now a x d i u r"
proof (cases x)
  case (Create_wedding c digest w)
  then show ?thesis using assms by (auto simp: reply_of_Inr dest!: roles_create)
next
  case (Accept_invite hs)
  then obtain j k where acc: "acceptInvite now a hs d = Inr ((j, k), d')" using assms(1) by (auto simp: reply_of_Inr)
  obtain s v where "s \<in> set (spaces d)" "space_id s = j" "\<not> deleted (tables s)" "v \<in> set (invites s)"
    "invite_open now hs (actor_email a) v" "roles d' \<subseteq> roles d \<union> {(j, actor_id a, invite_role v)}"
    using acc by (rule roles_accept)
  then show ?thesis using assms(2,3) Accept_invite by auto
next
  case (Transfer_ownership j n)
  then show ?thesis using assms by (auto simp: reply_of_Inr dest!: roles_transfer)
next
  case (Recover_wedding j)
  then show ?thesis using assms by (auto simp: reply_of_Inr dest!: roles_recover)
next
  case (Review_owner ids j n reason)
  then show ?thesis using assms by (auto simp: reply_of_Inr dest!: roles_review)
next
  case (Invite_member j v h l)
  then show ?thesis using assms by (auto simp: reply_of_Inr split: if_splits dest: roles_invites)
qed (use assms in \<open>auto simp: reply_of_Inr dest: roles_account roles_patch roles_remove roles_invites roles_delete
    roles_closing\<close>)

lemma handle_roles:
  assumes "handle now q d = Inr (y, d')" "(i, u, r) \<in> roles d'" "(i, u, r) \<notin> roles d"
  shows "\<exists>cookies x a. q = Act cookies x \<and> authenticate now cookies d = Some a \<and> grants now a x d i u r"
proof (cases q)
  case (Act cookies x)
  then show ?thesis using assms act_roles by (auto split: option.splits)
qed (use assms in \<open>auto simp: reply_of_Inr sign_out_def dest: roles_account\<close>)

section \<open>Properties\<close>

definition history_of :: "(instant \<times> request) list \<Rightarrow> directory" where
  "history_of qs = snd (run_ops exec_request qs empty_directory)"

lemma history_sound: "sound_directory (history_of qs)"
  unfolding history_of_def by (rule directory.run_inv [OF sound_empty])


text \<open>
  C10. Verification links, password links and invitations: whatever the requests and their order,
  each link that was ever issued is accepted at most once.
\<close>

theorem a_link_is_used_once:
  "length (filter (uses_link l) (fst (run_ops exec_request qs empty_directory))) \<le> 1"
  by (rule links.at_most_once [OF sound_empty])

text \<open>
  C11. Resetting a password ends every session of its account for good: after the reset, no cookie
  and no sequence of requests brings back a session that was open before.
\<close>

theorem reset_ends_every_session:
  assumes "exec_request (now, Reset hs pw) (history_of ps) = (Inr (Used [Identity_link (token_id t)]), d)"
    "t \<in> set (identity_tokens (history_of ps))"
    "s \<in> set (logins (history_of ps))" "login_user s = token_user t"
    "authenticate later cookies (snd (run_ops exec_request qs d)) = Some a"
  shows "session_of a \<noteq> login_id s"
proof -
  have k: "keys_ok (history_of ps)" using history_sound by (simp add: sound_directory_def)
  have h: "handle now (Reset hs pw) (history_of ps) = Inr (Used [Identity_link (token_id t)], d)"
    using assms(1) by (auto simp: exec_request_def transaction_def split: sum.splits)
  have "login_id s \<in> revoked_ids d"
    using reset_revokes [OF h k assms(2) refl assms(3,4)] .
  then have r: "login_id s \<in> revoked_ids (snd (run_ops exec_request qs d))"
    using onward_run [of d qs] by (auto simp: onward_def)
  have "sound_directory d" using sound_handle [OF h history_sound] .
  then have "keys_ok (snd (run_ops exec_request qs d))"
    using directory.run_inv by (auto simp: sound_directory_def)
  from revoked_never_acts [OF this r assms(5)] show ?thesis .
qed

text \<open>
  C12. A role that a request brings about comes from one of five actions of a signed-in user:
  creating the wedding, accepting an open invitation addressed to the user's own email for that role,
  a transfer by the owner to a co-owner, the primary owner's recovery of a deleted wedding, or an
  operator's review. No other request gives anyone a role.
\<close>

theorem roles_come_from_grants:
  assumes "exec_request (now, q) d = (Inr y, d')" "(i, u, r) \<in> roles d'" "(i, u, r) \<notin> roles d"
  shows "\<exists>cookies x a. q = Act cookies x \<and> authenticate now cookies d = Some a \<and> grants now a x d i u r"
proof -
  have "handle now q d = Inr (y, d')"
    using assms(1) by (auto simp: exec_request_def transaction_def split: sum.splits)
  from handle_roles [OF this assms(2,3)] show ?thesis .
qed

text \<open>
  C13. The fixed window of the rate limit: in any stretch of time as long as the period, whatever
  attempts are made and refused on this and other keys, at most twice the limit get through on a key.
\<close>

theorem rate_limit_bounds_a_period:
  assumes "list_all (\<lambda>a. start \<le> fst a \<and> fst a \<le> start + period k * 1000) attempts"
  shows "admitted_attempts limit period k attempts rows \<le> 2 * limit k"
proof -
  have "admitted_attempts limit period k attempts rows \<le>
      limit k + (case rate_of k rows of None \<Rightarrow> 0 | Some r \<Rightarrow> limit k - rate_count r)"
    by (rule two_windows) (use assms in \<open>simp add: list_all_iff\<close>)
  then show ?thesis by (cases "rate_of k rows") simp_all
qed

text \<open>
  The wait a refused attempt is told is long enough: an attempt made later than that is let through,
  if none came between.
\<close>

theorem retry_after_suffices:
  assumes "rateLimit now k limit period rows = (Inl wait, rows')" "0 < limit" "0 < period"
    "now + wait * 1000 < later"
  shows "fst (rateLimit later k limit period rows') = Inr () \<and> 1 \<le> wait"
proof -
  have "1 \<le> wait"
    using assms(1) by (auto simp: rateLimit_def retry_after_def Let_def split: option.splits if_splits)
  with refused_attempt [OF assms] show ?thesis by simp
qed

section \<open>Concrete histories\<close>

text \<open>
  Two accounts; the first creates a wedding and invites the second as a co-owner, who uses_link; then
  the first recovers a forgotten password.
\<close>

definition demo_calendar :: calendar where
  "demo_calendar = \<lparr>plus_year = (\<lambda>t. t + days 365), day_after = (\<lambda>_ _. 0)\<rparr>"

definition demo_account :: "string \<Rightarrow> string \<Rightarrow> string \<Rightarrow> string \<Rightarrow> (instant \<times> request) list" where
  "demo_account address pw link cookie =
     [(1, Register address pw link None), (2, Verify [link]), (3, Sign_in address (\<lambda>h. h = pw) cookie)]"

definition demo_wedding_input :: wedding_input where
  "demo_wedding_input = \<lparr>in_slug = ''ab'', in_names = ''A and B'', in_timezone = ''UTC'', in_date = None,
     in_locale = ''en'', in_palette = ''{}''\<rparr>"

definition demo_invite_input :: invite_input where
  "demo_invite_input = \<lparr>in_email = ''b@x'', in_role = Co_owner, in_events = [], in_albums = []\<rparr>"

definition account_demo :: "(instant \<times> request) list" where
  "account_demo = demo_account ''a@x'' ''pa'' ''va'' ''ca'' @ demo_account ''b@x'' ''pb'' ''vb'' ''cb'' @
     [(4, Act [''ca''] (Create_wedding demo_calendar (\<lambda>s. s) demo_wedding_input)),
      (5, Act [''ca''] (Invite_member 6 demo_invite_input ''inv'' ''link'')),
      (6, Recover ''a@x'' ''ra'' None)]"

definition demo_directory :: directory where
  "demo_directory = history_of account_demo"

lemma demo_history: "demo_directory = history_of account_demo"
  by (simp add: demo_directory_def)

definition demo_token :: token_row where
  "demo_token = \<lparr>token_id = 10, token_user = 0, token_purpose = Reset_password, token_hash = ''ra'',
     token_expires = 1800006, token_consumed = False\<rparr>"

definition account_demo_login :: login_row where
  "account_demo_login = \<lparr>login_id = 2, login_user = 0, login_hash = ''ca'', login_expires = 604800003,
     login_revoked = False, login_confirmed = 3\<rparr>"

definition demo_reset :: "account_reply outcome \<times> directory" where
  "demo_reset = exec_request (7, Reset [''ra''] ''pn'') (history_of account_demo)"

definition demo_return :: "actor option" where
  "demo_return = authenticate 9 [''ca'', ''cn'']
     (snd (run_ops exec_request [(8, Sign_in ''a@x'' (\<lambda>h. h = ''pn'') ''cn'')] (snd demo_reset)))"

text \<open>
  The first account resets its password and signs in again: the old cookie, sent along, yields the
  new session.
\<close>

theorem reset_ends_every_session_witness:
  "fst demo_reset = Inr (Used [Identity_link 10]) \<and> demo_return \<noteq> None \<and> session_of (the demo_return) \<noteq> 2"
proof -
  have r: "fst demo_reset = Inr (Used [Identity_link (token_id demo_token)])" by code_simp
  then have e: "exec_request (7, Reset [''ra''] ''pn'') (history_of account_demo) =
      (Inr (Used [Identity_link (token_id demo_token)]), snd demo_reset)"
    by (simp add: demo_reset_def prod_eq_iff)
  have t: "demo_token \<in> set (identity_tokens (history_of account_demo))" by code_simp
  have s: "account_demo_login \<in> set (logins (history_of account_demo))" by code_simp
  have u: "login_user account_demo_login = token_user demo_token" by code_simp
  have returned: "demo_return \<noteq> None" by code_simp
  then have a: "authenticate 9 [''ca'', ''cn'']
     (snd (run_ops exec_request [(8, Sign_in ''a@x'' (\<lambda>h. h = ''pn'') ''cn'')] (snd demo_reset))) = Some (the demo_return)"
    by (simp add: demo_return_def)
  have "session_of (the demo_return) \<noteq> login_id account_demo_login"
    using reset_ends_every_session [OF e t s u a] .
  moreover have "login_id account_demo_login = 2" "token_id demo_token = 10" by code_simp+
  ultimately show ?thesis using r returned by simp
qed

definition demo_join :: "account_reply outcome \<times> directory" where
  "demo_join = exec_request (7, Act [''cb''] (Accept_invite [''inv''])) demo_directory"

text \<open>The second account uses_link the invitation and becomes a co-owner.\<close>

theorem roles_come_from_grants_witness:
  "(6, 3, Co_owner) \<in> roles (snd demo_join) \<and>
   (\<exists>cookies x a. Act [''cb''] (Accept_invite [''inv'']) = Act cookies x \<and>
      authenticate 7 cookies demo_directory = Some a \<and> grants 7 a x demo_directory 6 3 Co_owner)"
proof -
  have "fst demo_join = Inr (Joined 6 7)" by code_simp
  then have e: "exec_request (7, Act [''cb''] (Accept_invite [''inv''])) demo_directory = (Inr (Joined 6 7), snd demo_join)"
    by (simp add: demo_join_def prod_eq_iff)
  have i: "(6, 3, Co_owner) \<in> roles (snd demo_join)" and o: "(6, 3, Co_owner) \<notin> roles demo_directory"
    by code_simp+
  from roles_come_from_grants [OF e i o] i show ?thesis by blast
qed

definition demo_attempts :: "(instant \<times> string) list" where
  "demo_attempts = [(40000, ''k''), (50000, ''k''), (61000, ''k''), (62000, ''k''), (63000, ''k'')]"

text \<open>
  A limit of two a minute, with the window opened at zero: two attempts get through at its end, two
  at the start of the next.
\<close>

theorem rate_limit_bounds_a_period_witness:
  "admitted_attempts (\<lambda>_. 2) (\<lambda>_. 60) ''k'' demo_attempts [\<lparr>rate_key = ''k'', window_start = 0, rate_count = 0\<rparr>] \<le> 4 \<and>
   admitted_attempts (\<lambda>_. 2) (\<lambda>_. 60) ''k'' demo_attempts [\<lparr>rate_key = ''k'', window_start = 0, rate_count = 0\<rparr>] = 4"
proof -
  have "list_all (\<lambda>a. 10000 \<le> fst a \<and> fst a \<le> 10000 + (\<lambda>_. 60) ''k'' * 1000) demo_attempts" by code_simp
  from rate_limit_bounds_a_period [where period = "\<lambda>_. 60" and limit = "\<lambda>_. 2", OF this]
  have "admitted_attempts (\<lambda>_. 2) (\<lambda>_. 60) ''k'' demo_attempts [\<lparr>rate_key = ''k'', window_start = 0, rate_count = 0\<rparr>] \<le> 4"
    by simp
  moreover have "admitted_attempts (\<lambda>_. 2) (\<lambda>_. 60) ''k'' demo_attempts
      [\<lparr>rate_key = ''k'', window_start = 0, rate_count = 0\<rparr>] = 4" by code_simp
  ultimately show ?thesis by blast
qed

text \<open>Refused half way through the window, an attempt is told to wait thirty seconds.\<close>

theorem retry_after_suffices_witness:
  "fst (rateLimit 30000 ''k'' 2 60 [\<lparr>rate_key = ''k'', window_start = 0, rate_count = 2\<rparr>]) = Inl 30 \<and>
   fst (rateLimit 60001 ''k'' 2 60 [\<lparr>rate_key = ''k'', window_start = 0, rate_count = 3\<rparr>]) = Inr ()"
proof -
  have "rateLimit 30000 ''k'' 2 60 [\<lparr>rate_key = ''k'', window_start = 0, rate_count = 2\<rparr>] =
      (Inl 30, [\<lparr>rate_key = ''k'', window_start = 0, rate_count = 3\<rparr>])" by code_simp
  from this retry_after_suffices [OF this, of 60001] show ?thesis by simp
qed

end
