(* ===== verification/Uploads.thy ===== *)
theory Uploads
  imports Workspace
begin

text \<open>
  Uploads to a wedding's albums: upload grants and sessions
  (\<^verbatim>\<open>packages/persistence/src/uploads.ts\<close>), the life of a media asset from its intent to
  processing and deletion (\<^verbatim>\<open>packages/persistence/src/media.ts\<close>) and the operator's
  limits. Transfers and processing are several transactions with storage calls between them, so each
  transaction is a definition; the storage, the malware scanner and the media processor appear as
  the bytes and outcomes they hand back.
\<close>

section \<open>Grants and sessions\<close>

definition accepting :: "instant \<Rightarrow> space \<Rightarrow> bool" where
  "accepting now s = (lifecycle s \<noteq> Archived \<and> uploads_enabled s \<and> now < service_expires s)"

definition album_there :: "uuid \<Rightarrow> space \<Rightarrow> bool" where
  "album_there b s = (\<exists>x\<in>set (albums s). album_id x = b \<and> \<not> album_deleted x)"

record grant_input =
  grant_for_event :: uuid
  grant_for_album :: uuid
  grant_until :: instant
  grant_file_limit :: int
  grant_byte_limit :: int

text \<open>The bounds of \<open>uploadGrantSchema\<close>.\<close>

definition grant_schema :: "grant_input \<Rightarrow> bool" where
  "grant_schema v = (1 \<le> grant_file_limit v \<and> grant_file_limit v \<le> 100 \<and>
     1 \<le> grant_byte_limit v \<and> grant_byte_limit v \<le> 2147483648)"

definition all_upload_grants :: "directory \<Rightarrow> upload_grant list" where
  "all_upload_grants d = concat (map upload_grants (spaces d))"

definition all_upload_sessions :: "directory \<Rightarrow> upload_session list" where
  "all_upload_sessions d = concat (map upload_sessions (spaces d))"

text \<open>\<open>tok\<close> and \<open>code\<close> are the hashes of the fresh credential and of the manual code.\<close>

definition create_grant :: "instant \<Rightarrow> actor \<Rightarrow> uuid \<Rightarrow> grant_input \<Rightarrow> string \<Rightarrow> string \<Rightarrow> directory \<Rightarrow> uuid handled" where
  "create_grant now a i v tok code d =
     as_tenant d i (actor_id a) Cap_publish None
       (ensure (now < grant_until v \<and> grant_until v \<le> now + days 180) (Domain_error 400 ''GRANT_EXPIRY'')
         (ensure (\<exists>s\<in>set (spaces d). space_id s = i \<and> accepting now s \<and> album_there (grant_for_album v) s \<and>
              grant_for_event v \<in> event_id ` set (events (tables s))) notFound
           (ensure (tok \<notin> grant_token ` set (all_upload_grants d) \<and> code \<notin> grant_code ` set (all_upload_grants d)) conflict
             (let g = \<lparr>grant_id = next_row d, grant_event = grant_for_event v, grant_album = grant_for_album v,
                    grant_token = tok, grant_code = code, grant_expires = grant_until v, grant_revoked = False,
                    grant_files = grant_file_limit v, grant_bytes = grant_byte_limit v, grant_created = now\<rparr>
              in Inr (next_row d, audit_event (Some i) (Some (actor_id a)) ''upload.grant_created'' (Some (next_row d))
                   (bump (set_space i (\<lambda>s. s\<lparr>upload_grants := upload_grants s @ [g]\<rparr>) d)))))))"

definition revoke_grant :: "actor \<Rightarrow> uuid \<Rightarrow> uuid \<Rightarrow> directory \<Rightarrow> unit handled" where
  "revoke_grant a i g d =
     as_tenant d i (actor_id a) Cap_publish None
       (ensure (\<exists>s\<in>set (spaces d). space_id s = i \<and> g \<in> grant_id ` set (upload_grants s)) notFound
         (Inr ((), audit_event (Some i) (Some (actor_id a)) ''upload.grant_revoked'' (Some g)
            (set_space i (\<lambda>s. s\<lparr>upload_grants := update_where (\<lambda>x. grant_id x = g) (\<lambda>x. x\<lparr>grant_revoked := True\<rparr>)
               (upload_grants s)\<rparr>) d))))"

definition upload_denied :: domain_error where
  "upload_denied = Domain_error 401 ''UPLOAD_ACCESS_REQUIRED''"

definition grant_open :: "instant \<Rightarrow> upload_grant \<Rightarrow> bool" where
  "grant_open now g = (\<not> grant_revoked g \<and> now < grant_expires g)"

text \<open>\<open>hs\<close> are the candidate hashes of the credential as typed, \<open>us\<close> those in upper case.\<close>

definition matching_grants :: "instant \<Rightarrow> string \<Rightarrow> string list \<Rightarrow> string list \<Rightarrow> directory \<Rightarrow> (uuid \<times> upload_grant) list" where
  "matching_grants now slug hs us d = concat (map
     (\<lambda>s. map (Pair (space_id s)) (filter (\<lambda>g. grant_open now g \<and> album_there (grant_album g) s \<and>
          (grant_token g \<in> set hs \<or> grant_code g \<in> set hs \<or> grant_code g \<in> set us)) (upload_grants s)))
     (filter (\<lambda>s. space_slug s = slug \<and> \<not> deleted (tables s) \<and> accepting now s) (spaces d)))"

definition new_session :: "instant \<Rightarrow> session_source \<Rightarrow> string \<Rightarrow> instant \<Rightarrow> int \<Rightarrow> int \<Rightarrow> uuid \<Rightarrow> directory \<Rightarrow> unit handled" where
  "new_session now source h until files bytes i d =
     ensure (h \<notin> upload_hash ` set (all_upload_sessions d)) conflict
       (let l = \<lparr>upload_id = next_row d, upload_hash = h, upload_source = source,
              upload_expires = min until (now + days 1), files_reserved = 0, bytes_reserved = 0,
              file_limit = files, byte_limit = bytes, upload_created = now\<rparr>
        in Inr ((), bump (set_space i (\<lambda>s. s\<lparr>upload_sessions := upload_sessions s @ [l]\<rparr>) d)))"

definition exchange_upload ::
  "instant \<Rightarrow> string \<Rightarrow> string list \<Rightarrow> string list \<Rightarrow> string \<Rightarrow> directory \<Rightarrow> unit handled" where
  "exchange_upload now slug hs us h d =
     (case matching_grants now slug hs us d of
        [] \<Rightarrow> Inl upload_denied
      | (i, g) # _ \<Rightarrow>
          new_session now (By_upload_grant (grant_id g)) h (grant_expires g) (grant_files g) (grant_bytes g) i d)"

text \<open>A guest signed in by a household grant: \<open>l\<close> is the session, \<open>g\<close> its grant.\<close>

definition upload_from_guest ::
  "instant \<Rightarrow> uuid \<Rightarrow> uuid \<Rightarrow> uuid \<Rightarrow> string \<Rightarrow> directory \<Rightarrow> unit handled" where
  "upload_from_guest now i g l h d =
     (case concat (map (\<lambda>s. filter (\<lambda>x. guest_id x = g \<and> \<not> guest_revoked x \<and> now < guest_expires x \<and>
              (\<exists>y\<in>set (guest_logins s). guest_login_id y = l \<and> guest_login_grant y = g \<and> now < guest_login_expires y))
            (guest_grants s)) (filter (\<lambda>s. space_id s = i) (spaces d))) of
        [] \<Rightarrow> Inl notFound
      | x # _ \<Rightarrow> new_session now (By_guest_grant g) h (guest_expires x) 20 524288000 i d)"

definition source_open :: "instant \<Rightarrow> space \<Rightarrow> session_source \<Rightarrow> bool" where
  "source_open now s src =
     (case src of
        By_upload_grant g \<Rightarrow> (\<exists>x\<in>set (upload_grants s). grant_id x = g \<and> grant_open now x)
      | By_guest_grant g \<Rightarrow> (\<exists>x\<in>set (guest_grants s). guest_id x = g \<and> \<not> guest_revoked x \<and> now < guest_expires x \<and>
            (\<exists>p\<in>set (parties s). party_id p = guest_party x \<and> \<not> party_deleted p)))"

text \<open>The albums a session may fill; the order of the list is not modelled.\<close>

definition session_albums :: "space \<Rightarrow> session_source \<Rightarrow> uuid list" where
  "session_albums s src =
     map album_id (filter (\<lambda>b. \<not> album_deleted b \<and>
       (case src of
          By_upload_grant g \<Rightarrow> (\<exists>x\<in>set (upload_grants s). grant_id x = g \<and> grant_album x = album_id b)
        | By_guest_grant _ \<Rightarrow> guest_uploads b)) (albums s))"

definition validate :: "instant \<Rightarrow> uuid \<Rightarrow> uuid \<Rightarrow> directory \<Rightarrow> (upload_session \<times> uuid list) outcome" where
  "validate now l i d =
     (case find_space i d of
        None \<Rightarrow> Inl upload_denied
      | Some s \<Rightarrow>
          (case List.find (\<lambda>x. upload_id x = l \<and> now < upload_expires x) (upload_sessions s) of
             None \<Rightarrow> Inl upload_denied
           | Some x \<Rightarrow>
               ensure (\<not> deleted (tables s) \<and> accepting now s \<and> source_open now s (upload_source x)) upload_denied
                 (Inr (x, session_albums s (upload_source x)))))"

definition authenticate_upload :: "instant \<Rightarrow> string list \<Rightarrow> directory \<Rightarrow> (uuid \<times> upload_session \<times> uuid list) outcome" where
  "authenticate_upload now hs d =
     (case concat (map (\<lambda>s. map (Pair (space_id s)) (filter (\<lambda>x. upload_hash x \<in> set hs) (upload_sessions s))) (spaces d)) of
        [] \<Rightarrow> Inl upload_denied
      | (i, x) # _ \<Rightarrow> map_sum id (Pair i) (validate now (upload_id x) i d))"

definition close_upload :: "instant \<Rightarrow> string list \<Rightarrow> directory \<Rightarrow> directory" where
  "close_upload now hs d = d\<lparr>spaces := map (\<lambda>s. s\<lparr>upload_sessions :=
     update_where (\<lambda>x. upload_hash x \<in> set hs) (\<lambda>x. x\<lparr>upload_expires := now\<rparr>) (upload_sessions s)\<rparr>) (spaces d)\<rparr>"

section \<open>Who uploads\<close>

datatype media_actor = Staff actor | Visitor uuid

definition owner_side :: "role \<Rightarrow> bool" where
  "owner_side r = (r = Owner \<or> r = Co_owner)"

text \<open>\<open>scope\<close>: the role of a member, or none for a visitor's session.\<close>

definition scope :: "instant \<Rightarrow> media_actor \<Rightarrow> uuid \<Rightarrow> uuid option \<Rightarrow> directory \<Rightarrow> role option outcome" where
  "scope now u i album d =
     (case u of
        Visitor l \<Rightarrow>
          (case validate now l i d of
             Inl e \<Rightarrow> Inl e
           | Inr (x, bs) \<Rightarrow> ensure (case album of None \<Rightarrow> False | Some b \<Rightarrow> b \<in> set bs) notFound (Inr None))
      | Staff a \<Rightarrow>
          (case tenant_of d i (actor_id a) of
             Inl e \<Rightarrow> Inl e
           | Inr t \<Rightarrow> (case requireCapability t Cap_media album of Inl e \<Rightarrow> Inl e | Inr _ \<Rightarrow> Inr (Some (tenant_role t)))))"

section \<open>Albums\<close>

record album_input =
  album_in_title :: string
  album_in_description :: string
  album_in_position :: nat
  album_in_visibility :: album_visibility
  album_in_published :: bool
  album_in_guests :: bool
  album_in_cover :: "uuid option"

definition cover_ok :: "uuid \<Rightarrow> uuid \<Rightarrow> space \<Rightarrow> bool" where
  "cover_ok b c s = (\<exists>x\<in>set (assets s). asset_id x = c \<and> asset_album x = b \<and> asset_processing x = Ready \<and>
     asset_moderation x = Mod_approved \<and> \<not> asset_deleted x \<and>
     (case asset_content x of None \<Rightarrow> False | Some t \<Rightarrow> starts_with ''image/'' t))"

definition written_album :: "album_input \<Rightarrow> album_row \<Rightarrow> album_row" where
  "written_album v b = b\<lparr>album_title := album_in_title v, album_description := album_in_description v,
     album_position := album_in_position v, album_visibility := album_in_visibility v,
     album_published := album_in_published v, album_cover := album_in_cover v, guest_uploads := album_in_guests v,
     album_version := Suc (album_version b)\<rparr>"

definition new_album :: "uuid \<Rightarrow> album_input \<Rightarrow> album_row" where
  "new_album b v = \<lparr>album_id = b, album_title = album_in_title v, album_description = album_in_description v,
     album_position = album_in_position v, album_visibility = album_in_visibility v,
     album_published = album_in_published v, album_cover = None, guest_uploads = album_in_guests v,
     album_version = 1, album_deleted = False\<rparr>"

definition version_conflict :: domain_error where
  "version_conflict = Domain_error 409 ''VERSION_CONFLICT''"

definition save_album ::
  "actor \<Rightarrow> uuid \<Rightarrow> album_input \<Rightarrow> nat \<Rightarrow> uuid option \<Rightarrow> directory \<Rightarrow> uuid handled" where
  "save_album a i v version target d =
     as_tenant d i (actor_id a) Cap_media target
       (case find_space i d of
          None \<Rightarrow> Inl notFound
        | Some s \<Rightarrow>
            (let publish = as_tenant d i (actor_id a) Cap_publish None;
                 cover = (\<lambda>b. ensure (case album_in_cover v of None \<Rightarrow> True | Some c \<Rightarrow> cover_ok b c s)
                            (Domain_error 400 ''INVALID_COVER''));
                 saved = (\<lambda>b e. Inr (b, audit_event (Some i) (Some (actor_id a)) ''album.saved'' (Some b) e))
             in case target of
                  None \<Rightarrow>
                    (let b = next_row d;
                         go = ensure (version = 0) version_conflict
                                (cover b (saved b (bump (set_space i (\<lambda>s. s\<lparr>albums := albums s @ [new_album b v]\<rparr>) d))))
                     in if album_in_published v then publish go else go)
                | Some b \<Rightarrow>
                    (case List.find (\<lambda>x. album_id x = b) (albums s) of
                       None \<Rightarrow> Inl notFound
                     | Some x \<Rightarrow>
                         (let hit = (\<lambda>x. album_id x = b \<and> album_version x = version \<and> \<not> album_deleted x);
                              go = cover b (ensure (list_ex hit (albums s)) version_conflict
                                     (saved b (set_space i (\<lambda>s. s\<lparr>albums :=
                                        update_where hit (written_album v) (albums s)\<rparr>) d)))
                          in if album_visibility x \<noteq> album_in_visibility v \<or> album_published x \<noteq> album_in_published v
                                \<or> guest_uploads x \<noteq> album_in_guests v
                             then publish go else go))))"

section \<open>From intent to upload\<close>

record upload_intent =
  intent_album :: uuid
  intent_type :: string
  intent_bytes :: int
  intent_alt :: string
  intent_caption :: string

text \<open>The checks of \<open>uploadIntentSchema\<close> on the size; types are those it lists.\<close>

definition intent_schema :: "upload_intent \<Rightarrow> bool" where
  "intent_schema v = (0 < intent_bytes v \<and> intent_bytes v \<le> 262144000 \<and>
     intent_type v \<in> {''image/jpeg'', ''image/png'', ''image/webp'', ''image/heic'', ''image/heif'',
       ''video/mp4'', ''video/quicktime''})"

definition size_limit :: "string \<Rightarrow> int" where
  "size_limit t = (if starts_with ''image/'' t then 25 * 1024 ^ 2 else 250 * 1024 ^ 2)"

text \<open>The original and as much again, at least two mebibytes, for its derivatives.\<close>

definition reservation :: "int \<Rightarrow> int" where
  "reservation n = n + max n (2 * 1024 ^ 2)"

definition ensure_usage :: "int \<Rightarrow> space \<Rightarrow> space" where
  "ensure_usage default_limit s = s\<lparr>usage := (case usage s of
     None \<Rightarrow> Some \<lparr>stored_bytes = 0, reserved_bytes = 0, limit_bytes = default_limit, usage_enabled = True\<rparr>
   | Some u \<Rightarrow> Some u)\<rparr>"

definition fits :: "int \<Rightarrow> space \<Rightarrow> bool" where
  "fits n s = (case usage s of None \<Rightarrow> False
     | Some u \<Rightarrow> usage_enabled u \<and> stored_bytes u + reserved_bytes u + n \<le> limit_bytes u)"

definition session_has_room :: "int \<Rightarrow> uuid \<Rightarrow> upload_session \<Rightarrow> bool" where
  "session_has_room n l x = (upload_id x = l \<and> files_reserved x < file_limit x \<and> bytes_reserved x + n \<le> byte_limit x)"

definition take_room :: "int \<Rightarrow> upload_session \<Rightarrow> upload_session" where
  "take_room n x = x\<lparr>files_reserved := files_reserved x + 1, bytes_reserved := bytes_reserved x + n\<rparr>"

definition new_asset :: "instant \<Rightarrow> uuid \<Rightarrow> media_actor \<Rightarrow> bool \<Rightarrow> upload_intent \<Rightarrow> asset_row" where
  "new_asset now n u approved v = \<lparr>asset_id = n, asset_album = intent_album v, expected_bytes = intent_bytes v,
     reserved_for = reservation (intent_bytes v), actual_bytes = 0, asset_checksum = None,
     declared_type = intent_type v, asset_content = None, asset_processing = Awaiting_upload,
     asset_moderation = (if approved then Mod_approved else Mod_pending), asset_caption = intent_caption v,
     asset_alt = intent_alt v, asset_position = 0,
     asset_creator = (case u of Staff a \<Rightarrow> Some (actor_id a) | Visitor _ \<Rightarrow> None),
     asset_session = (case u of Staff _ \<Rightarrow> None | Visitor l \<Rightarrow> Some l), asset_expires = now + minutes 30,
     asset_deleted = False, asset_error = None, asset_version = 1\<rparr>"

definition reserve_upload :: "media_actor \<Rightarrow> upload_intent \<Rightarrow> asset_row \<Rightarrow> space \<Rightarrow> space" where
  "reserve_upload u v x s = (add_reserved (reserved_for x) s)\<lparr>
     upload_sessions := (case u of Staff _ \<Rightarrow> upload_sessions s
       | Visitor l \<Rightarrow> update_where (session_has_room (intent_bytes v) l) (take_room (intent_bytes v)) (upload_sessions s)),
     assets := assets s @ [x]\<rparr>"

definition media_intent :: "instant \<Rightarrow> int \<Rightarrow> media_actor \<Rightarrow> uuid \<Rightarrow> upload_intent \<Rightarrow> directory \<Rightarrow> uuid handled" where
  "media_intent now default_limit u i v d =
     (case scope now u i (Some (intent_album v)) d of
        Inl e \<Rightarrow> Inl e
      | Inr role \<Rightarrow>
          (case find_space i d of
             None \<Rightarrow> Inl (Domain_error 409 ''UPLOADS_DISABLED'')
           | Some s0 \<Rightarrow>
               ensure (accepting now s0) (Domain_error 409 ''UPLOADS_DISABLED'')
                 (ensure (album_there (intent_album v) s0) notFound
                   (ensure (intent_bytes v \<le> size_limit (intent_type v)) (Domain_error 413 ''FILE_TOO_LARGE'')
                     (let s = ensure_usage default_limit s0;
                          x = new_asset now (next_row d) u (case role of None \<Rightarrow> False | Some r \<Rightarrow> owner_side r) v
                      in ensure (fits (reserved_for x) s) (Domain_error 409 ''UPLOAD_QUOTA'')
                           (ensure (case u of Staff _ \<Rightarrow> True
                                      | Visitor l \<Rightarrow> list_ex (session_has_room (intent_bytes v) l) (upload_sessions s))
                              (Domain_error 409 ''UPLOAD_SESSION_LIMIT'')
                              (Inr (next_row d,
                                 bump (set_space i (reserve_upload u v x \<circ> ensure_usage default_limit) d)))))))))"

text \<open>The asset an uploader may address: a visitor only what the own session sent.\<close>

definition find_asset :: "uuid \<Rightarrow> space \<Rightarrow> asset_row option" where
  "find_asset n s = List.find (\<lambda>x. asset_id x = n) (assets s)"

definition own_asset :: "instant \<Rightarrow> media_actor \<Rightarrow> uuid \<Rightarrow> uuid \<Rightarrow> directory \<Rightarrow> asset_row outcome" where
  "own_asset now u i n d =
     (case find_space i d of
        None \<Rightarrow> Inl notFound
      | Some s \<Rightarrow>
          (case List.find (\<lambda>x. asset_id x = n \<and> \<not> asset_deleted x) (assets s) of
             None \<Rightarrow> Inl notFound
           | Some x \<Rightarrow>
               (case scope now u i (Some (asset_album x)) d of
                  Inl e \<Rightarrow> Inl e
                | Inr _ \<Rightarrow> ensure (case u of Staff _ \<Rightarrow> True | Visitor l \<Rightarrow> asset_session x = Some l) notFound (Inr x))))"

definition set_assets :: "(asset_row \<Rightarrow> bool) \<Rightarrow> (asset_row \<Rightarrow> asset_row) \<Rightarrow> space \<Rightarrow> space" where
  "set_assets P f s = s\<lparr>assets := update_where P f (assets s)\<rparr>"

definition asset_with :: "(asset_row \<Rightarrow> bool) \<Rightarrow> uuid \<Rightarrow> directory \<Rightarrow> bool" where
  "asset_with P i d = (\<exists>s\<in>set (spaces d). space_id s = i \<and> list_ex P (assets s))"

text \<open>
  \<open>receive\<close> in its three statements: the claim, then, once the storage has the bytes, the
  commit, or else the release of the claim. \<open>n_bytes\<close> is the length of the body.
\<close>

definition claimable :: "instant \<Rightarrow> uuid \<Rightarrow> asset_row \<Rightarrow> bool" where
  "claimable now n x = (asset_id x = n \<and> asset_processing x = Awaiting_upload \<and> now < asset_expires x \<and> \<not> asset_deleted x)"

definition media_claim :: "instant \<Rightarrow> media_actor \<Rightarrow> uuid \<Rightarrow> uuid \<Rightarrow> int \<Rightarrow> directory \<Rightarrow> unit handled" where
  "media_claim now u i n n_bytes d =
     (case own_asset now u i n d of
        Inl e \<Rightarrow> Inl e
      | Inr x \<Rightarrow>
          ensure (\<exists>s\<in>set (spaces d). space_id s = i \<and> accepting now s) (Domain_error 409 ''UPLOADS_DISABLED'')
            (ensure (asset_processing x = Awaiting_upload \<and> now \<le> asset_expires x) (Domain_error 409 ''UPLOAD_EXPIRED'')
              (ensure (n_bytes = expected_bytes x) (Domain_error 400 ''UPLOAD_SIZE_MISMATCH'')
                (ensure (asset_with (claimable now n) i d) (Domain_error 409 ''UPLOAD_CONFLICT'')
                  (Inr ((), set_space i (set_assets (claimable now n) (\<lambda>x. x\<lparr>asset_processing := Receiving\<rparr>)) d))))))"

definition receivable :: "instant \<Rightarrow> uuid \<Rightarrow> asset_row \<Rightarrow> bool" where
  "receivable now n x = (asset_id x = n \<and> asset_processing x = Receiving \<and> now < asset_expires x \<and> \<not> asset_deleted x)"

text \<open>\<open>b\<close> is the album of the asset as read at the claim.\<close>

definition media_commit ::
  "instant \<Rightarrow> media_actor \<Rightarrow> uuid \<Rightarrow> uuid \<Rightarrow> uuid \<Rightarrow> string \<Rightarrow> directory \<Rightarrow> unit handled" where
  "media_commit now u i n b checksum d =
     (case scope now u i (Some b) d of
        Inl e \<Rightarrow> Inl e
      | Inr _ \<Rightarrow>
          ensure (asset_with (receivable now n) i d) (Domain_error 409 ''UPLOAD_CONFLICT'')
            (ensure (Media_work n \<notin> work_kind ` set (pending_work d)) conflict
              (Inr ((), queue_work now i (case u of Staff a \<Rightarrow> Some (actor_id a) | Visitor _ \<Rightarrow> None) (Media_work n)
                 (set_space i (set_assets (receivable now n) (\<lambda>x. x\<lparr>asset_processing := Uploaded,
                    asset_checksum := Some checksum, asset_version := Suc (asset_version x)\<rparr>)) d)))))"

definition media_abort :: "uuid \<Rightarrow> uuid \<Rightarrow> directory \<Rightarrow> directory" where
  "media_abort i n d = set_space i (set_assets (\<lambda>x. asset_id x = n \<and> asset_processing x = Receiving)
     (\<lambda>x. x\<lparr>asset_processing := Awaiting_upload\<rparr>)) d"

definition expectedUpload :: "instant \<Rightarrow> media_actor \<Rightarrow> uuid \<Rightarrow> uuid \<Rightarrow> directory \<Rightarrow> int outcome" where
  "expectedUpload now u i n d =
     (case own_asset now u i n d of
        Inl e \<Rightarrow> Inl e
      | Inr x \<Rightarrow> ensure (asset_processing x = Awaiting_upload \<and> now \<le> asset_expires x)
                   (Domain_error 409 ''UPLOAD_EXPIRED'') (Inr (expected_bytes x)))"

section \<open>Reading\<close>

text \<open>The content type of what is served; the bytes are the storage's.\<close>

definition media_read :: "instant \<Rightarrow> actor \<Rightarrow> uuid \<Rightarrow> uuid \<Rightarrow> bool \<Rightarrow> directory \<Rightarrow> string outcome" where
  "media_read now a i n original d =
     (case own_asset now (Staff a) i n d of
        Inl e \<Rightarrow> Inl e
      | Inr x \<Rightarrow>
          ensure (asset_processing x = Ready) (Domain_error 409 ''MEDIA_NOT_READY'')
            (if original then Inr (declared_type x)
             else (case asset_content x of None \<Rightarrow> Inl notFound | Some t \<Rightarrow> Inr t)))"

definition upload_listing :: "instant \<Rightarrow> uuid \<Rightarrow> uuid \<Rightarrow> directory \<Rightarrow> asset_row list outcome" where
  "upload_listing now l i d =
     (case validate now l i d of
        Inl e \<Rightarrow> Inl e
      | Inr _ \<Rightarrow> Inr (case find_space i d of None \<Rightarrow> []
                   | Some s \<Rightarrow> filter (\<lambda>x. asset_session x = Some l \<and> \<not> asset_deleted x) (assets s)))"

definition shown_album :: "uuid \<Rightarrow> space \<Rightarrow> bool" where
  "shown_album b s = (\<exists>y\<in>set (albums s). album_id y = b \<and> \<not> album_deleted y \<and> album_published y \<and>
     album_visibility y \<in> {Album_inherit, Album_invited})"

definition public_row :: "uuid \<Rightarrow> space \<Rightarrow> asset_row \<Rightarrow> bool" where
  "public_row n s x = (asset_id x = n \<and> \<not> asset_deleted x \<and> asset_processing x = Ready \<and>
     asset_moderation x = Mod_approved \<and> shown_album (asset_album x) s)"

text \<open>\<open>projected\<close>: the publication shown to this visitor is not archived and lists the asset in an album.\<close>

definition read_public :: "bool \<Rightarrow> string \<Rightarrow> uuid \<Rightarrow> directory \<Rightarrow> string outcome" where
  "read_public projected slug n d =
     ensure projected notFound
       (case concat (map (\<lambda>s. filter (public_row n s) (assets s))
               (filter (\<lambda>s. space_slug s = slug \<and> \<not> deleted (tables s)) (spaces d))) of
          [] \<Rightarrow> Inl notFound
        | x # _ \<Rightarrow> (case asset_content x of None \<Rightarrow> Inl notFound | Some t \<Rightarrow> Inr t))"

section \<open>Curation\<close>

record media_edit =
  edit_version :: nat
  edit_album :: "uuid option"
  edit_caption :: "string option"
  edit_alt :: "string option"
  edit_moderation :: "moderation option"
  edit_position :: "nat option"

definition edited :: "media_edit \<Rightarrow> asset_row \<Rightarrow> asset_row" where
  "edited v x = x\<lparr>asset_album := or_else (edit_album v) (asset_album x), asset_caption := or_else (edit_caption v) (asset_caption x),
     asset_alt := or_else (edit_alt v) (asset_alt x), asset_moderation := or_else (edit_moderation v) (asset_moderation x),
     asset_position := or_else (edit_position v) (asset_position x), asset_version := Suc (asset_version x)\<rparr>"

definition drop_cover :: "uuid \<Rightarrow> uuid option \<Rightarrow> space \<Rightarrow> space" where
  "drop_cover n target s = (case target of None \<Rightarrow> s
     | Some b \<Rightarrow> s\<lparr>albums := update_where (\<lambda>a. album_cover a = Some n \<and> album_id a \<noteq> b)
         (\<lambda>a. a\<lparr>album_cover := None, album_version := Suc (album_version a)\<rparr>) (albums s)\<rparr>)"

definition media_edit_asset :: "instant \<Rightarrow> actor \<Rightarrow> uuid \<Rightarrow> uuid \<Rightarrow> media_edit \<Rightarrow> directory \<Rightarrow> unit handled" where
  "media_edit_asset now a i n v d =
     (case find_space i d of
        None \<Rightarrow> Inl notFound
      | Some s \<Rightarrow>
          (case List.find (\<lambda>x. asset_id x = n \<and> \<not> asset_deleted x) (assets s) of
             None \<Rightarrow> Inl notFound
           | Some x \<Rightarrow>
               (case scope now (Staff a) i (Some (asset_album x)) d of
                  Inl e \<Rightarrow> Inl e
                | Inr _ \<Rightarrow>
                    (let write = (let hit = (\<lambda>x. asset_id x = n \<and> asset_version x = edit_version v) in
                           ensure (list_ex hit (assets s)) version_conflict
                             (let d1 = audit_event (Some i) (Some (actor_id a)) ''media.edited'' (Some n)
                                    (set_space i (drop_cover n (edit_album v) \<circ> set_assets hit (edited v)) d)
                              in Inr ((), if edit_moderation v = Some Mod_approved \<and> asset_processing x = Ready
                                          then metric i ''approved_upload'' (Metric_of ''approved_upload'' i n) d1 else d1)));
                         move = (case edit_album v of
                             None \<Rightarrow> write
                           | Some b \<Rightarrow> (case scope now (Staff a) i (Some b) d of
                                Inl e \<Rightarrow> Inl e | Inr _ \<Rightarrow> ensure (album_there b s) notFound write))
                     in if edit_moderation v \<noteq> None then as_tenant d i (actor_id a) Cap_publish None move else move))))"

text \<open>\<open>referenced\<close>: a published page or post mentions the asset.\<close>

definition media_remove ::
  "instant \<Rightarrow> bool \<Rightarrow> actor \<Rightarrow> uuid \<Rightarrow> uuid \<Rightarrow> nat \<Rightarrow> bool \<Rightarrow> directory \<Rightarrow> unit handled" where
  "media_remove now referenced a i n version confirmed d =
     (case own_asset now (Staff a) i n d of
        Inl e \<Rightarrow> Inl e
      | Inr _ \<Rightarrow>
          as_tenant d i (actor_id a) Cap_publish None
            (ensure (\<not> referenced \<or> confirmed) (Domain_error 409 ''PUBLISHED_REFERENCE'')
              (let hit = (\<lambda>x. asset_id x = n \<and> asset_version x = version \<and> \<not> asset_deleted x) in
               ensure (asset_with hit i d) version_conflict
                 (let d1 = set_space i (set_assets hit (\<lambda>x. x\<lparr>asset_deleted := True, asset_version := Suc (asset_version x)\<rparr>)) d;
                      d2 = d1\<lparr>erasure_ledger := erasure_ledger d1 @ [(Erased_media, i, n)]\<rparr>;
                      d3 = audit_event (Some i) (Some (actor_id a)) ''media.deleted'' (Some n) d2
                  in Inr ((), queue_work now i (Some (actor_id a)) (Media_delete_work n) d3)))))"

section \<open>The worker\<close>

text \<open>
  \<open>release\<close> gives back what the row holds now. \<open>finish\<close> and \<open>release\<close> run in
  transactions of their own, while other workers may act between them.
\<close>

definition settle_usage :: "int \<Rightarrow> int \<Rightarrow> space \<Rightarrow> space" where
  "settle_usage stored reserved s = s\<lparr>usage := map_option (\<lambda>u. u\<lparr>stored_bytes := stored_bytes u + stored,
     reserved_bytes := reserved_bytes u + reserved\<rparr>) (usage s)\<rparr>"

definition media_release :: "uuid \<Rightarrow> uuid \<Rightarrow> processing \<Rightarrow> string option \<Rightarrow> directory \<Rightarrow> directory" where
  "media_release i n state error d = set_space i (\<lambda>s.
     (case find_asset n s of
        None \<Rightarrow> s
      | Some x \<Rightarrow> set_assets (\<lambda>y. asset_id y = n)
          (\<lambda>y. y\<lparr>asset_processing := state, reserved_for := 0, actual_bytes := 0, asset_error := error,
             asset_version := Suc (asset_version y)\<rparr>)
          (settle_usage (- actual_bytes x) (- reserved_for x) s))) d"

definition media_mark :: "uuid \<Rightarrow> uuid \<Rightarrow> directory \<Rightarrow> directory" where
  "media_mark i n d = set_space i (set_assets (\<lambda>x. asset_id x = n) (\<lambda>x. x\<lparr>asset_processing := Processing\<rparr>)) d"

text \<open>The outcome of processing: the stored sizes and the content type of the display copy.\<close>

record processed =
  original_size :: nat
  display_size :: nat
  poster_size :: nat
  display_type :: string

definition total_size :: "processed \<Rightarrow> int" where
  "total_size p = int (original_size p) + int (display_size p) + int (poster_size p)"

definition finished :: "processed \<Rightarrow> asset_row \<Rightarrow> asset_row" where
  "finished p x = x\<lparr>asset_processing := Ready, reserved_for := 0, actual_bytes := total_size p,
     asset_content := Some (display_type p), asset_version := Suc (asset_version x)\<rparr>"

text \<open>\<open>leased\<close>: the worker still holds the lease of the job.\<close>

definition media_finish ::
  "instant \<Rightarrow> bool \<Rightarrow> media_actor \<Rightarrow> uuid \<Rightarrow> uuid \<Rightarrow> uuid \<Rightarrow> processed \<Rightarrow> directory \<Rightarrow> unit handled" where
  "media_finish now leased u i n b p d =
     ensure leased (Domain_error 500 ''MEDIA_LEASE_LOST'')
       (case scope now u i (Some b) d of
          Inl e \<Rightarrow> Inl e
        | Inr _ \<Rightarrow>
            (case find_space i d of
               None \<Rightarrow> Inl (Domain_error 500 ''MEDIA_UNAVAILABLE'')
             | Some s \<Rightarrow>
                 (case find_asset n s of
                    None \<Rightarrow> Inl (Domain_error 500 ''MEDIA_UNAVAILABLE'')
                  | Some x \<Rightarrow>
                      ensure (\<not> asset_deleted x \<and> asset_processing x = Processing) (Domain_error 500 ''MEDIA_UNAVAILABLE'')
                        (ensure (case usage s of None \<Rightarrow> False
                           | Some q \<Rightarrow> stored_bytes q + reserved_bytes q - reserved_for x + total_size p \<le> limit_bytes q)
                           (Domain_error 500 ''MEDIA_DERIVATIVE_QUOTA'')
                           (let d1 = set_space i (set_assets (\<lambda>y. asset_id y = n) (finished p) \<circ>
                                       settle_usage (total_size p) (- reserved_for x)) d
                            in Inr ((), if asset_moderation x = Mod_approved
                                        then metric i ''approved_upload'' (Metric_of ''approved_upload'' i n) d1 else d1))))))"

definition media_fail :: "bool \<Rightarrow> uuid \<Rightarrow> uuid \<Rightarrow> string \<Rightarrow> directory \<Rightarrow> directory" where
  "media_fail leased i n code d =
     (if leased \<and> \<not> asset_with (\<lambda>x. asset_id x = n \<and> asset_processing x = Ready) i d
      then media_release i n Rejected (Some code) d else d)"

text \<open>\<open>sweep\<close>: the hundred oldest unfinished uploads past their time; the batch is the parameter \<open>due\<close>.\<close>

definition overdue :: "instant \<Rightarrow> asset_row \<Rightarrow> bool" where
  "overdue now x = (asset_processing x \<in> {Awaiting_upload, Receiving} \<and> asset_expires x < now)"

definition expire_upload :: "instant \<Rightarrow> uuid \<Rightarrow> asset_row \<Rightarrow> directory \<Rightarrow> directory" where
  "expire_upload now i x d = queue_work now i (asset_creator x) (Media_delete_work (asset_id x))
     (set_space i (drop_upload ''UPLOAD_EXPIRED'' x) d)"

definition overdue_rows :: "instant \<Rightarrow> directory \<Rightarrow> (uuid \<times> asset_row) list" where
  "overdue_rows now d = concat (map (\<lambda>s. map (Pair (space_id s)) (filter (overdue now) (assets s))) (spaces d))"

definition media_sweep :: "instant \<Rightarrow> directory \<Rightarrow> directory" where
  "media_sweep now d =
     fold (\<lambda>(i, x). expire_upload now i x)
       (take 100 (sort_key (\<lambda>(i, x). asset_expires x) (sort_key (\<lambda>(i, x). asset_id x) (overdue_rows now d)))) d"

section \<open>The operator's limits\<close>

record operator_controls =
  controls_version :: nat
  controls_uploads :: bool
  controls_limit :: int

text \<open>The planning and publication switches of the same form are left out.\<close>

definition set_controls :: "int \<Rightarrow> operator_controls \<Rightarrow> space \<Rightarrow> space" where
  "set_controls default_limit v s = (let s1 = ensure_usage default_limit s in
     s1\<lparr>uploads_enabled := controls_uploads v, space_version := Suc (space_version s1),
        usage := map_option (\<lambda>u. u\<lparr>usage_enabled := controls_uploads v, limit_bytes := controls_limit v\<rparr>) (usage s1)\<rparr>)"

definition operator_limits ::
  "uuid list \<Rightarrow> instant \<Rightarrow> int \<Rightarrow> actor \<Rightarrow> uuid \<Rightarrow> operator_controls \<Rightarrow> string \<Rightarrow> directory \<Rightarrow> unit handled" where
  "operator_limits ids now default_limit a i v reason d =
     (case operator_allowed ids now a reason of
        Inl e \<Rightarrow> Inl e
      | Inr _ \<Rightarrow>
          (case List.find (\<lambda>s. space_id s = i \<and> \<not> deleted (tables s)) (spaces d) of
             None \<Rightarrow> Inl notFound
           | Some s \<Rightarrow>
               ensure (space_version s = controls_version v) version_conflict
                 (ensure (archived_at s = None \<or> \<not> controls_uploads v) (Domain_error 409 ''SERVICE_ARCHIVED'')
                   (ensure (case usage (ensure_usage default_limit s) of None \<Rightarrow> False
                        | Some u \<Rightarrow> stored_bytes u + reserved_bytes u \<le> controls_limit v)
                      (Domain_error 409 ''QUOTA_BELOW_USAGE'')
                      (Inr ((), audit_event (Some i) (Some (actor_id a)) ''operator.controls_changed'' (Some i)
                         (set_space i (set_controls default_limit v) d)))))))"

end
