(* ===== verification/UploadRules.thy ===== *)
theory UploadRules
  imports Uploads Accounts
begin

text \<open>
  What every statement on the media tables keeps: the bytes a wedding's rows reserve and occupy
  are those its usage row counts, within its limit, and the rows a visitor's session has
  sent are those the session counts, within its allowance. The rules are about one workspace;
  \<^verbatim>\<open>UploadSteps\<close> lifts them to the operations.
\<close>

section \<open>The accounts of one workspace\<close>

definition sum_of :: "('a \<Rightarrow> int) \<Rightarrow> 'a list \<Rightarrow> int" where
  "sum_of f xs = sum_list (map f xs)"

lemma sum_of_simps [simp]: "sum_of f [] = 0" "sum_of f (x # xs) = f x + sum_of f xs" "sum_of f (xs @ ys) = sum_of f xs + sum_of f ys"
  by (simp_all add: sum_of_def)

definition sent_by :: "uuid \<Rightarrow> asset_row \<Rightarrow> bool" where
  "sent_by l x = (asset_session x = Some l)"

definition session_core :: "upload_session \<Rightarrow> uuid \<times> int \<times> int \<times> int \<times> int" where
  "session_core l = (upload_id l, files_reserved l, bytes_reserved l, file_limit l, byte_limit l)"

definition grant_core :: "upload_grant \<Rightarrow> int \<times> int" where
  "grant_core g = (grant_files g, grant_bytes g)"

fun allowance_ok :: "asset_row list \<Rightarrow> uuid \<times> int \<times> int \<times> int \<times> int \<Rightarrow> bool" where
  "allowance_ok xs (l, files, bytes, most_files, most_bytes) =
     (files = int (length (filter (sent_by l) xs)) \<and> bytes = sum_of expected_bytes (filter (sent_by l) xs) \<and>
      files \<le> most_files \<and> bytes \<le> most_bytes)"

definition within_allowance :: "space \<Rightarrow> bool" where
  "within_allowance s = list_all (allowance_ok (assets s)) (map session_core (upload_sessions s))"

definition within_quota :: "space \<Rightarrow> bool" where
  "within_quota s =
     (case usage s of
        None \<Rightarrow> assets s = []
      | Some q \<Rightarrow> reserved_bytes q = sum_of reserved_for (assets s) \<and> sum_of actual_bytes (assets s) \<le> stored_bytes q \<and>
          stored_bytes q + reserved_bytes q \<le> limit_bytes q)"

definition row_ok :: "uuid \<Rightarrow> asset_row \<Rightarrow> bool" where
  "row_ok n x = (asset_id x < n \<and> 0 \<le> reserved_for x \<and> 0 \<le> actual_bytes x \<and>
     (case asset_session x of None \<Rightarrow> True | Some l \<Rightarrow> l < n))"

text \<open>\<open>n\<close> is the next fresh key.\<close>

definition rows_ok :: "uuid \<Rightarrow> space \<Rightarrow> bool" where
  "rows_ok n s = (distinct (map asset_id (assets s)) \<and> list_all (row_ok n) (assets s) \<and>
     distinct (map fst (map session_core (upload_sessions s))) \<and>
     list_all (\<lambda>c. fst c < n) (map session_core (upload_sessions s)) \<and>
     list_all (\<lambda>(files, bytes). 0 \<le> files \<and> 0 \<le> bytes) (map grant_core (upload_grants s)))"

definition metered_space :: "uuid \<Rightarrow> space \<Rightarrow> bool" where
  "metered_space n s = (rows_ok n s \<and> within_quota s \<and> within_allowance s)"

definition metered :: "directory \<Rightarrow> bool" where
  "metered d = list_all (metered_space (next_row d)) (spaces d)"

section \<open>Statements that keep the amounts\<close>

definition amounts :: "asset_row \<Rightarrow> uuid \<times> int \<times> int \<times> int \<times> uuid option" where
  "amounts x = (asset_id x, reserved_for x, actual_bytes x, expected_bytes x, asset_session x)"

definition meters :: "space \<Rightarrow> (uuid \<times> int \<times> int \<times> int \<times> uuid option) list \<times> usage_row option \<times>
    (uuid \<times> int \<times> int \<times> int \<times> int) list \<times> (int \<times> int) list" where
  "meters s = (map amounts (assets s), usage s, map session_core (upload_sessions s), map grant_core (upload_grants s))"

lemma amounts_rows:
  assumes "map amounts xs = map amounts ys"
  shows "map asset_id xs = map asset_id ys" "sum_of reserved_for xs = sum_of reserved_for ys"
    "sum_of actual_bytes xs = sum_of actual_bytes ys" "list_all (row_ok n) xs = list_all (row_ok n) ys"
    "length (filter (sent_by l) xs) = length (filter (sent_by l) ys)"
    "sum_of expected_bytes (filter (sent_by l) xs) = sum_of expected_bytes (filter (sent_by l) ys)"
proof -
  have "list_all2 (\<lambda>x y. amounts x = amounts y) xs ys"
    using assms by (simp add: list_all2_conv_all_nth list_eq_iff_nth_eq)
  then have "map asset_id xs = map asset_id ys \<and> sum_of reserved_for xs = sum_of reserved_for ys \<and>
    sum_of actual_bytes xs = sum_of actual_bytes ys \<and> list_all (row_ok n) xs = list_all (row_ok n) ys \<and>
    length (filter (sent_by l) xs) = length (filter (sent_by l) ys) \<and>
    sum_of expected_bytes (filter (sent_by l) xs) = sum_of expected_bytes (filter (sent_by l) ys)"
    by induction (simp_all add: amounts_def row_ok_def sent_by_def)
  then show "map asset_id xs = map asset_id ys" "sum_of reserved_for xs = sum_of reserved_for ys"
    "sum_of actual_bytes xs = sum_of actual_bytes ys" "list_all (row_ok n) xs = list_all (row_ok n) ys"
    "length (filter (sent_by l) xs) = length (filter (sent_by l) ys)"
    "sum_of expected_bytes (filter (sent_by l) xs) = sum_of expected_bytes (filter (sent_by l) ys)"
    by simp_all
qed

lemma allowance_amounts:
  assumes "map amounts xs = map amounts ys"
  shows "allowance_ok xs = allowance_ok ys"
proof
  fix c
  show "allowance_ok xs c = allowance_ok ys c" using amounts_rows [OF assms] by (cases c) simp
qed

lemma metered_meters: "meters s' = meters s \<Longrightarrow> metered_space n s' = metered_space n s"
proof -
  assume eq: "meters s' = meters s"
  then have a: "map amounts (assets s') = map amounts (assets s)" by (simp add: meters_def)
  have "assets s' = [] \<longleftrightarrow> assets s = []" using a by auto
  with eq show ?thesis
    unfolding metered_space_def rows_ok_def within_quota_def within_allowance_def meters_def
    by (simp add: amounts_rows [OF a] allowance_amounts [OF a] cong: option.case_cong)
qed

lemma row_ok_mono: "row_ok n x \<Longrightarrow> n \<le> m \<Longrightarrow> row_ok m x"
  by (auto simp: row_ok_def split: option.splits)

lemma metered_space_mono: "metered_space n s \<Longrightarrow> n \<le> m \<Longrightarrow> metered_space m s"
  unfolding metered_space_def rows_ok_def
  by (auto simp: list_all_iff intro: row_ok_mono order_less_le_trans dest: less_le_trans)

lemma meters_set_assets:
  "(\<And>x. P x \<Longrightarrow> amounts (f x) = amounts x) \<Longrightarrow> meters (set_assets P f s) = meters s"
  by (auto simp: meters_def set_assets_def update_where_def)

section \<open>Statements on one row\<close>

lemma sum_update_where:
  assumes "distinct (map asset_id xs)" "x \<in> set xs"
  shows "sum_of g (update_where (\<lambda>y. asset_id y = asset_id x) f xs) = sum_of g xs - g x + g (f x)"
  using assms
proof (induction xs)
  case (Cons y ys)
  have "update_where (\<lambda>y. asset_id y = asset_id x) f ys = ys" if "asset_id x \<notin> asset_id ` set ys"
    using that by (intro update_where_none) (metis image_eqI)
  then show ?case using Cons by (auto simp: update_where_def image_iff)
qed simp

lemma sent_update_where:
  assumes "\<And>y. asset_session (f y) = asset_session y" "\<And>y. expected_bytes (f y) = expected_bytes y"
  shows "map expected_bytes (filter (sent_by l) (update_where P f xs)) = map expected_bytes (filter (sent_by l) xs)"
  using assms by (induction xs) (auto simp: update_where_def sent_by_def)

text \<open>One row gives up or takes bytes, and the usage row follows.\<close>

lemma metered_one_row:
  assumes s: "metered_space n s" "x \<in> set (assets s)"
    and same: "\<And>y. asset_id (f y) = asset_id y" "\<And>y. asset_session (f y) = asset_session y"
      "\<And>y. expected_bytes (f y) = expected_bytes y"
    and pos: "0 \<le> reserved_for (f x)" "0 \<le> actual_bytes (f x)"
    and q: "usage s = Some q" "usage s' = Some q'"
      "reserved_bytes q' = reserved_bytes q - reserved_for x + reserved_for (f x)"
      "stored_bytes q - actual_bytes x + actual_bytes (f x) \<le> stored_bytes q'"
      "stored_bytes q' + reserved_bytes q' \<le> limit_bytes q'"
    and s': "assets s' = update_where (\<lambda>y. asset_id y = asset_id x) f (assets s)"
      "upload_sessions s' = upload_sessions s" "upload_grants s' = upload_grants s"
  shows "metered_space n s'"
proof -
  let ?xs = "assets s" and ?ys = "assets s'"
  have d: "distinct (map asset_id ?xs)" using s(1) by (simp add: metered_space_def rows_ok_def)
  have one: "y = x" if "y \<in> set ?xs" "asset_id y = asset_id x" for y
    using that s(2) d by (simp add: distinct_map inj_on_def)
  have rows: "list_all (row_ok n) ?ys"
    using s pos one same by (auto simp: metered_space_def rows_ok_def list_all_iff s' set_update_where row_ok_def)
  have ids: "map asset_id ?ys = map asset_id ?xs" using same by (simp add: s' map_update_where)
  have sums: "sum_of g ?ys = sum_of g ?xs - g x + g (f x)" for g
    unfolding s' by (rule sum_update_where [OF d s(2)])
  have "map expected_bytes (filter (sent_by l) ?ys) = map expected_bytes (filter (sent_by l) ?xs)" for l
    unfolding s' using same by (intro sent_update_where) auto
  note sent = this
  have "length (filter (sent_by l) ?ys) = length (filter (sent_by l) ?xs)" for l
    using arg_cong [OF sent, of length] by simp
  then have "allowance_ok ?ys c = allowance_ok ?xs c" for c
    using sent by (cases c) (simp add: sum_of_def)
  then have "allowance_ok ?ys = allowance_ok ?xs" by blast
  moreover have "within_quota s'" using s(1) q sums by (simp add: metered_space_def within_quota_def)
  ultimately show ?thesis
    using s(1) rows by (simp add: metered_space_def rows_ok_def within_allowance_def s'(2,3) ids)
qed

lemma metered_usage: "metered_space n s \<Longrightarrow> x \<in> set (assets s) \<Longrightarrow> \<exists>q. usage s = Some q"
  by (auto simp: metered_space_def within_quota_def split: option.splits)

lemma row_nonneg: "metered_space n s \<Longrightarrow> x \<in> set (assets s) \<Longrightarrow> 0 \<le> reserved_for x \<and> 0 \<le> actual_bytes x"
  by (auto simp: metered_space_def rows_ok_def list_all_iff row_ok_def)

lemma metered_quota:
  "metered_space n s \<Longrightarrow> usage s = Some q \<Longrightarrow> reserved_bytes q = sum_of reserved_for (assets s) \<and>
     sum_of actual_bytes (assets s) \<le> stored_bytes q \<and> stored_bytes q + reserved_bytes q \<le> limit_bytes q"
  by (simp add: metered_space_def within_quota_def)

lemma metered_drop_upload:
  assumes "metered_space n s" "x \<in> set (assets s)"
  shows "metered_space n (drop_upload c x s)"
proof -
  obtain q where q: "usage s = Some q" using metered_usage assms by blast
  show ?thesis
    by (rule metered_one_row [where f = "expire_asset c" and q' = "q\<lparr>reserved_bytes := reserved_bytes q - reserved_for x\<rparr>",
          OF assms])
      (use q row_nonneg [OF assms] metered_quota [OF assms(1) q] in \<open>auto simp: expire_asset_def drop_upload_def add_reserved_def\<close>)
qed

text \<open>The worker's two settlements.\<close>

definition settled :: "uuid \<Rightarrow> int \<Rightarrow> int \<Rightarrow> (asset_row \<Rightarrow> asset_row) \<Rightarrow> space \<Rightarrow> space" where
  "settled n stored reserved f s = set_assets (\<lambda>y. asset_id y = n) f (settle_usage stored reserved s)"

lemma metered_settled:
  assumes "metered_space n s" "x \<in> set (assets s)"
    "\<And>y. asset_id (f y) = asset_id y" "\<And>y. asset_session (f y) = asset_session y"
    "\<And>y. expected_bytes (f y) = expected_bytes y" "reserved_for (f x) = 0" "0 \<le> actual_bytes (f x)"
    "actual_bytes (f x) - actual_bytes x \<le> stored" "usage s = Some q"
    "stored_bytes q + reserved_bytes q - reserved_for x + stored \<le> limit_bytes q"
  shows "metered_space n (settled (asset_id x) stored (- reserved_for x) f s)"
  by (rule metered_one_row [where f = f and q' = "q\<lparr>stored_bytes := stored_bytes q + stored,
        reserved_bytes := reserved_bytes q - reserved_for x\<rparr>", OF assms(1,2)])
    (use assms(3-) in \<open>auto simp: settled_def set_assets_def settle_usage_def\<close>)

section \<open>New rows and limits\<close>

lemma metered_new_usage:
  assumes "metered_space n s" "0 \<le> default_limit"
  shows "metered_space n (ensure_usage default_limit s)"
proof (cases "usage s")
  case None
  then have "assets s = []" using assms(1) by (simp add: metered_space_def within_quota_def)
  then show ?thesis using assms None
    by (simp add: metered_space_def rows_ok_def within_quota_def within_allowance_def ensure_usage_def)
next
  case (Some q)
  then have "meters (ensure_usage default_limit s) = meters s" by (simp add: ensure_usage_def meters_def)
  then show ?thesis using assms(1) metered_meters by blast
qed

lemma metered_limit:
  assumes "metered_space n s" "usage s = Some q" "stored_bytes q + reserved_bytes q \<le> limit"
    "assets s' = assets s" "upload_sessions s' = upload_sessions s" "upload_grants s' = upload_grants s"
    "usage s' = Some (q\<lparr>usage_enabled := b, limit_bytes := limit\<rparr>)"
  shows "metered_space n s'"
  using assms by (simp add: metered_space_def rows_ok_def within_quota_def within_allowance_def)

lemma metered_new_session:
  assumes "metered_space n s" "upload_id l = n" "files_reserved l = 0" "bytes_reserved l = 0"
    "0 \<le> file_limit l" "0 \<le> byte_limit l"
  shows "metered_space (Suc n) (s\<lparr>upload_sessions := upload_sessions s @ [l]\<rparr>)"
proof -
  have "filter (sent_by n) (assets s) = []"
    using assms(1) by (auto simp: metered_space_def rows_ok_def list_all_iff row_ok_def sent_by_def filter_empty_conv
        split: option.splits)
  moreover have "metered_space (Suc n) s" using metered_space_mono [OF assms(1)] by simp
  ultimately show ?thesis using assms
    by (auto simp: metered_space_def rows_ok_def within_quota_def within_allowance_def session_core_def list_all_iff
        split: option.splits)
qed

lemma metered_new_grant:
  assumes "metered_space n s" "0 \<le> grant_files g" "0 \<le> grant_bytes g"
  shows "metered_space n (s\<lparr>upload_grants := upload_grants s @ [g]\<rparr>)"
  using assms by (simp add: metered_space_def rows_ok_def within_quota_def within_allowance_def grant_core_def
      split: option.splits)

lemma allowance_other: "\<not> sent_by (fst c) x \<Longrightarrow> allowance_ok (xs @ [x]) c = allowance_ok xs c"
  by (cases c) simp

lemma allowance_taken:
  assumes "allowance_ok xs (session_core y)" "session_has_room (expected_bytes x) (upload_id y) y"
    "sent_by (upload_id y) x"
  shows "allowance_ok (xs @ [x]) (session_core (take_room (expected_bytes x) y))"
  using assms by (auto simp: session_core_def take_room_def session_has_room_def)

lemma session_unique:
  assumes "metered_space n s" "y \<in> set (upload_sessions s)" "z \<in> set (upload_sessions s)" "upload_id y = upload_id z"
  shows "y = z"
proof -
  have "distinct (map upload_id (upload_sessions s))"
    using assms(1) by (simp add: metered_space_def rows_ok_def session_core_def o_def)
  then show ?thesis using assms(2-) by (simp add: distinct_map inj_on_def)
qed

lemma allowance_session:
  assumes "metered_space n s" "y \<in> set (upload_sessions s)" "asset_session x = (case u of Staff _ \<Rightarrow> None | Visitor l \<Rightarrow> Some l)"
    "case u of Staff _ \<Rightarrow> True | Visitor l \<Rightarrow> list_ex (session_has_room (expected_bytes x) l) (upload_sessions s)"
  shows "allowance_ok (assets s @ [x]) (session_core (case u of Staff _ \<Rightarrow> y
    | Visitor l \<Rightarrow> if session_has_room (expected_bytes x) l y then take_room (expected_bytes x) y else y))"
proof -
  have y: "allowance_ok (assets s) (session_core y)"
    using assms(1,2) by (simp add: metered_space_def within_allowance_def list_all_iff)
  show ?thesis
  proof (cases u)
    case (Staff a)
    then show ?thesis using y assms(3) by (simp add: allowance_other sent_by_def)
  next
    case (Visitor l)
    show ?thesis
    proof (cases "upload_id y = l")
      case True
      obtain z where z: "z \<in> set (upload_sessions s)" "session_has_room (expected_bytes x) l z"
        using assms(4) Visitor by (auto simp: list_ex_iff)
      then have "z = y" using session_unique [OF assms(1) z(1) assms(2)] True by (simp add: session_has_room_def)
      then show ?thesis using Visitor y z True assms(3) allowance_taken by (simp add: sent_by_def)
    next
      case False
      then have "\<not> sent_by (fst (session_core y)) x" using assms(3) Visitor by (simp add: sent_by_def session_core_def)
      then show ?thesis using Visitor y False by (simp add: allowance_other session_has_room_def)
    qed
  qed
qed

lemma metered_reserve:
  assumes s: "metered_space n s" "usage s = Some q" "stored_bytes q + reserved_bytes q + reserved_for x \<le> limit_bytes q"
    and x: "asset_id x = n" "0 \<le> reserved_for x" "actual_bytes x = 0" "expected_bytes x = intent_bytes v"
      "asset_session x = (case u of Staff _ \<Rightarrow> None | Visitor l \<Rightarrow> Some l)"
    and room: "case u of Staff _ \<Rightarrow> True | Visitor l \<Rightarrow> list_ex (session_has_room (intent_bytes v) l) (upload_sessions s)"
  shows "metered_space (Suc n) (reserve_upload u v x s)"
proof -
  let ?t = "reserve_upload u v x s"
  let ?f = "\<lambda>y. case u of Staff _ \<Rightarrow> y | Visitor l \<Rightarrow> if session_has_room (intent_bytes v) l y then take_room (intent_bytes v) y else y"
  have sessions: "upload_sessions ?t = map ?f (upload_sessions s)"
    by (cases u) (simp_all add: reserve_upload_def update_where_def)
  have keys: "fst (session_core (?f y)) = fst (session_core y)" for y
    by (cases u) (simp_all add: session_core_def take_room_def)
  have "allowance_ok (assets s @ [x]) (session_core (?f y))" if "y \<in> set (upload_sessions s)" for y
    using allowance_session [OF s(1) that x(5), unfolded x(4), OF room] .
  then have "within_allowance ?t"
    unfolding within_allowance_def sessions by (simp add: list_all_iff reserve_upload_def)
  moreover have "within_quota ?t"
    using s x metered_quota [OF s(1,2)] by (simp add: within_quota_def reserve_upload_def add_reserved_def)
  moreover have "rows_ok (Suc n) ?t"
  proof -
    have l: "row_ok (Suc n) x"
    proof (cases u)
      case (Visitor l)
      then obtain z where "z \<in> set (upload_sessions s)" "upload_id z = l"
        using room by (auto simp: list_ex_iff session_has_room_def)
      then have "l < n" using s(1) by (auto simp: metered_space_def rows_ok_def list_all_iff session_core_def)
      then show ?thesis using x Visitor by (simp add: row_ok_def)
    qed (use x in \<open>simp add: row_ok_def\<close>)
    have old: "rows_ok n s" "rows_ok (Suc n) s"
      using s(1) metered_space_mono [OF s(1), of "Suc n"] by (simp_all add: metered_space_def)
    have "n \<notin> asset_id ` set (assets s)" using old(1) by (auto simp: rows_ok_def list_all_iff row_ok_def)
    moreover have "map fst (map session_core (upload_sessions ?t)) = map fst (map session_core (upload_sessions s))"
      unfolding sessions by (simp add: keys)
    moreover have "list_all (\<lambda>c. fst c < Suc n) (map session_core (upload_sessions ?t))"
      using old(2) unfolding sessions rows_ok_def by (simp add: list_all_iff keys)
    ultimately show ?thesis using old(2) l x(1)
      by (simp add: rows_ok_def reserve_upload_def add_reserved_def)
  qed
  ultimately show ?thesis by (simp add: metered_space_def)
qed

end
