(* ===== verification/Attendance.thy ===== *)
theory Attendance
  imports Wedding
begin

text \<open>
  Responses and places: \<^verbatim>\<open>submit\<close>, \<^verbatim>\<open>approve\<close> and \<^verbatim>\<open>remove\<close> of
  \<^verbatim>\<open>packages/persistence/src/guests.ts\<close> and the event update of \<^verbatim>\<open>saveEvent\<close> in
  \<^verbatim>\<open>packages/persistence/src/index.ts\<close>. Every handler runs in one transaction that holds
  the event's row lock: it returns its result with the new tables, or an error with nothing
  changed. Digests of requests and of mail addresses are parameters.
\<close>

section \<open>Submitting a household's answers\<close>

record guest_session =
  session_grant :: uuid
  session_party :: uuid

record rsvp_response =
  resp_attendee :: uuid
  resp_version :: nat
  resp_attendee_version :: nat
  resp_attending :: bool
  resp_name :: string
  resp_answers :: answers

record submit_env =
  submit_now :: instant
  submit_hash :: "rsvp_response list \<Rightarrow> string"
  mail_hash :: "string \<Rightarrow> string"

definition day_ms :: int where "day_ms = 86400000"

text \<open>Optional questions close ninety days after the event.\<close>

definition open_questions :: "instant \<Rightarrow> event_row \<Rightarrow> questions" where
  "open_questions now e =
     (case (case ends_at e of Some t \<Rightarrow> Some t | None \<Rightarrow> starts_at e) of
        Some t \<Rightarrow> if t + 90 * day_ms \<le> now
          then \<lparr>ask_meal = False, ask_dietary = False, ask_accessibility = False, ask_note = False\<rparr> else asked e
      | None \<Rightarrow> asked e)"

definition kept_answers :: "questions \<Rightarrow> rsvp_response \<Rightarrow> answers" where
  "kept_answers q r =
     (let keep = (\<lambda>asked v. if resp_attending r \<and> asked then v else []); a = resp_answers r
      in \<lparr>ans_meal = keep (ask_meal q) (ans_meal a), ans_dietary = keep (ask_dietary q) (ans_dietary a),
          ans_accessibility = keep (ask_accessibility q) (ans_accessibility a), ans_note = keep (ask_note q) (ans_note a)\<rparr>)"

definition allocated :: "wedding \<Rightarrow> uuid \<Rightarrow> uuid \<Rightarrow> attendee_row list" where
  "allocated w party e =
     sort_key attendee_id (filter (\<lambda>a. attendee_party a = party \<and> \<not> attendee_deleted a \<and>
       (attendee_id a, e) \<in> set (eligible w)) (attendees w))"

definition allocation_ok :: "attendee_row list \<Rightarrow> rsvp_response list \<Rightarrow> bool" where
  "allocation_ok rows rs =
     (length rs = length rows \<and> distinct (map resp_attendee rs) \<and>
      list_all (\<lambda>r. resp_attendee r \<in> attendee_id ` set rows) rs)"

definition find_rsvp :: "uuid \<Rightarrow> uuid \<Rightarrow> wedding \<Rightarrow> rsvp_row option" where
  "find_rsvp a e w = List.find (\<lambda>r. rsvp_attendee r = a \<and> rsvp_event r = e) (rsvps w)"

text \<open>The first loop: checks one answer and releases the place of a declined one.\<close>

definition check_response ::
  "wedding \<Rightarrow> attendee_row list \<Rightarrow> uuid \<Rightarrow> rsvp_response \<Rightarrow> int \<times> wedding \<Rightarrow> (int \<times> wedding) outcome" where
  "check_response w0 rows e r s =
     (case (s, List.find (\<lambda>a. attendee_id a = resp_attendee r) rows) of
        (_, None) \<Rightarrow> Inl (Domain_error 400 ''PARTY_ALLOCATION'')
      | ((count, w), Some a) \<Rightarrow>
        (let old = (case find_rsvp (attendee_id a) e w0 of Some x \<Rightarrow> rsvp_version x | None \<Rightarrow> 0);
             admitted = filter (\<lambda>x. admitted_attendee x = attendee_id a) (admissions w)
         in ensure (old = resp_version r \<and> attendee_version a = resp_attendee_version r)
              (Domain_error 409 ''VERSION_CONFLICT'')
           (ensure (\<not> (admitted \<noteq> [] \<and> (resp_name r \<noteq> attendee_name a \<or>
                (\<not> resp_attending r \<and> list_ex (\<lambda>x. admitted_event x = e) admitted))))
              (Domain_error 409 ''ALREADY_ADMITTED'')
           (ensure (\<not> (resp_attending r \<and> resp_name r = []))
              (Domain_error 400 ''ATTENDEE_NAME_REQUIRED'')
           (Inr (if resp_attending r then (count, w)
             else (if (attendee_id a, e) \<in> set (reservations w) then count - 1 else count,
                   revoke_where (\<lambda>p. entry_attendee p = attendee_id a \<and> entry_event p = e) ''RSVP declined''
                     (\<lambda>pid. pass_history pid ''revoked'' None (Some ''RSVP declined''))
                     (release (attendee_id a) e w))))))))"

definition answered_state :: "event_row \<Rightarrow> int \<Rightarrow> bool \<Rightarrow> rsvp_response \<Rightarrow> rsvp_state" where
  "answered_state ev count reserved r =
     (if \<not> resp_attending r then Declined
      else if reserved then Confirmed
      else if approval_policy ev = Approve_manual then Pending
      else (case capacity ev of
              Some c \<Rightarrow> if int c \<le> count then Waitlisted else Confirmed
            | None \<Rightarrow> Confirmed))"

definition upsert_rsvp :: "uuid \<Rightarrow> uuid \<Rightarrow> rsvp_state \<Rightarrow> answers \<Rightarrow> wedding \<Rightarrow> wedding" where
  "upsert_rsvp a e st ans w =
     (if find_rsvp a e w = None
      then w\<lparr>rsvps := rsvps w @ [\<lparr>rsvp_attendee = a, rsvp_event = e, rsvp_state = st, rsvp_answers = ans,
             rsvp_version = 1\<rparr>]\<rparr>
      else w\<lparr>rsvps := update_where (\<lambda>r. rsvp_attendee r = a \<and> rsvp_event r = e)
             (\<lambda>r. r\<lparr>rsvp_state := st, rsvp_answers := ans, rsvp_version := Suc (rsvp_version r)\<rparr>) (rsvps w)\<rparr>)"

definition rename :: "uuid \<Rightarrow> string \<Rightarrow> wedding \<Rightarrow> wedding" where
  "rename a name w =
     w\<lparr>attendees := update_where (\<lambda>x. attendee_id x = a)
         (\<lambda>x. x\<lparr>attendee_name := name, attendee_version := Suc (attendee_version x)\<rparr>) (attendees w)\<rparr>"

text \<open>The second loop: gives a place where there is one and writes the answer.\<close>

definition answer_response ::
  "wedding \<Rightarrow> event_row \<Rightarrow> questions \<Rightarrow> attendee_row \<Rightarrow> rsvp_response
     \<Rightarrow> int \<times> wedding \<times> (uuid \<times> rsvp_state \<times> nat) list \<Rightarrow> int \<times> wedding \<times> (uuid \<times> rsvp_state \<times> nat) list" where
  "answer_response w0 ev q a r s =
     (case s of (count, w, out) \<Rightarrow>
       (let i = attendee_id a; e = event_id ev;
            reserved = ((i, e) \<in> set (reservations w));
            st = answered_state ev count reserved r;
            taken = (st = Confirmed \<and> \<not> reserved);
            w1 = upsert_rsvp i e st (kept_answers q r) (if taken then reserve i e w else w);
            version = (case find_rsvp i e w1 of Some x \<Rightarrow> rsvp_version x | None \<Rightarrow> 0);
            w2 = (if resp_name r \<noteq> [] \<and> resp_name r \<noteq> attendee_name a
                  then refreshTickets i None (rename i (resp_name r) w1) else w1);
            was = (case find_rsvp i e w0 of Some x \<Rightarrow> rsvp_state x = Confirmed | None \<Rightarrow> False);
            w3 = (if st = Confirmed \<and> admission ev = Adm_automatic \<and> \<not> was
                  then add_issue_job (Issue_job ''pass-issue'' i e version) w2 else w2)
        in (if taken then count + 1 else count, w3, out @ [(i, st, version)])))"

fun answer_all ::
  "wedding \<Rightarrow> event_row \<Rightarrow> questions \<Rightarrow> attendee_row list \<Rightarrow> rsvp_response list
     \<Rightarrow> int \<times> wedding \<times> (uuid \<times> rsvp_state \<times> nat) list \<Rightarrow> int \<times> wedding \<times> (uuid \<times> rsvp_state \<times> nat) list" where
  "answer_all w0 ev q rows [] s = s"
| "answer_all w0 ev q rows (r # rs) s =
     (case List.find (\<lambda>a. attendee_id a = resp_attendee r) rows of
        None \<Rightarrow> answer_all w0 ev q rows rs s
      | Some a \<Rightarrow> answer_all w0 ev q rows rs (answer_response w0 ev q a r s))"

definition rsvp_mails :: "submit_env \<Rightarrow> guest_session \<Rightarrow> uuid \<Rightarrow> string \<Rightarrow> wedding \<Rightarrow> wedding" where
  "rsvp_mails env s e key w =
     (let live = filter (\<lambda>a. attendee_party a = session_party s \<and> \<not> attendee_deleted a) (attendees w);
          mails = remdups (List.map_filter attendee_email live)
      in w\<lparr>jobs := jobs w @ map (\<lambda>m. Mail_job (''rsvp-mail:'' @ show_nat (session_grant s) @ '':'' @ show_nat e @ '':'' @
            key @ '':'' @ mail_hash env m) m) mails\<rparr>)"

definition submit_answers ::
  "submit_env \<Rightarrow> guest_session \<Rightarrow> uuid \<Rightarrow> rsvp_response list \<Rightarrow> wedding \<Rightarrow> (op_result \<times> wedding) outcome" where
  "submit_answers env s e rs w =
     (case find_event e w of
        None \<Rightarrow> Inl notFound
      | Some ev \<Rightarrow>
        (let rows = allocated w (session_party s) e
         in ensure (case rsvp_cutoff ev of None \<Rightarrow> True | Some t \<Rightarrow> submit_now env < t) (Domain_error 409 ''RSVP_CLOSED'')
           (ensure (rows \<noteq> []) notFound
           (ensure (allocation_ok rows rs) (Domain_error 400 ''PARTY_ALLOCATION'')
           (case each (check_response w rows e) rs (confirmed_count ev, w) of
              Inl err \<Rightarrow> Inl err
            | Inr (count, w1) \<Rightarrow>
              (case answer_all w ev (open_questions (submit_now env) ev) rows rs (count, w1, []) of
                 (count', w2, out) \<Rightarrow> Inr (Rsvp_result out, set_count e (\<lambda>_. count') w2)))))))"

text \<open>\<open>session\<close> is \<open>None\<close> for a cookie without a live grant.\<close>

definition submit ::
  "submit_env \<Rightarrow> guest_session option \<Rightarrow> uuid \<Rightarrow> rsvp_response list \<Rightarrow> string \<Rightarrow> wedding \<Rightarrow> (op_result \<times> wedding) outcome" where
  "submit env session e rs key w =
     (case session of
        None \<Rightarrow> Inl (Domain_error 401 ''GUEST_ACCESS_REQUIRED'')
      | Some s \<Rightarrow>
        ensure (\<not> archived w) (Domain_error 409 ''WEDDING_ARCHIVED'')
          (once (''guest:'' @ show_nat (session_grant s)) (''rsvp:'' @ show_nat e) key (submit_hash env rs)
            (case submit_answers env s e rs w of
               Inl err \<Rightarrow> Inl err
             | Inr (r, w') \<Rightarrow> Inr (r, audit None ''rsvp.submitted'' (session_party s) (rsvp_mails env s e key w'))) w))"

section \<open>Approving, removing, correcting\<close>

definition approve :: "uuid \<Rightarrow> uuid \<Rightarrow> uuid \<Rightarrow> nat \<Rightarrow> wedding \<Rightarrow> wedding outcome" where
  "approve who e a version w = permitted w who Cap_publish None
     (case find_event e w of
        None \<Rightarrow> Inl notFound
      | Some ev \<Rightarrow>
        (case find_rsvp a e w of
           None \<Rightarrow> Inl (Domain_error 409 ''VERSION_CONFLICT'')
         | Some r \<Rightarrow>
           ensure (rsvp_state r \<in> {Pending, Waitlisted} \<and> rsvp_version r = version) (Domain_error 409 ''VERSION_CONFLICT'')
           (ensure (case capacity ev of Some c \<Rightarrow> confirmed_count ev < int c | None \<Rightarrow> True) (Domain_error 409 ''CAPACITY_FULL'')
           (let w1 = set_count e (\<lambda>n. n + 1) (reserve a e w);
                w2 = w1\<lparr>rsvps := update_where (\<lambda>x. rsvp_attendee x = a \<and> rsvp_event x = e)
                  (\<lambda>x. x\<lparr>rsvp_state := Confirmed, rsvp_version := Suc (rsvp_version x)\<rparr>) (rsvps w1)\<rparr>;
                w3 = (if admission ev = Adm_automatic
                  then add_issue_job (Issue_job ''pass-issue'' a e (Suc version)) w2 else w2)
            in Inr (audit (Some who) ''rsvp.approved'' a w3)))))"

definition no_answers :: answers where
  "no_answers = \<lparr>ans_meal = [], ans_dietary = [], ans_accessibility = [], ans_note = []\<rparr>"

text \<open>One removed row: its places, answers and passes go with it.\<close>

definition remove_row :: "uuid \<Rightarrow> uuid \<Rightarrow> wedding \<Rightarrow> wedding outcome" where
  "remove_row who i w =
     ensure (\<not> list_ex (\<lambda>x. admitted_attendee x = i) (admissions w)) (Domain_error 409 ''ADMITTED_GUEST'')
     (let held = filter (\<lambda>r. fst r = i) (reservations w);
          w1 = fold (\<lambda>r. set_count (snd r) (\<lambda>n. n - 1)) held
                 (w\<lparr>reservations := filter (\<lambda>r. fst r \<noteq> i) (reservations w)\<rparr>);
          w2 = w1\<lparr>rsvps := update_where (\<lambda>x. rsvp_attendee x = i)
                 (\<lambda>x. x\<lparr>rsvp_state := Declined, rsvp_answers := no_answers, rsvp_version := Suc (rsvp_version x)\<rparr>) (rsvps w1)\<rparr>;
          w3 = revoke_where (\<lambda>p. entry_attendee p = i) ''Guest removed''
                 (\<lambda>pid. pass_history pid ''revoked'' (Some who) (Some ''Guest removed'')) w2
      in Inr (w3\<lparr>attendees := update_where (\<lambda>x. attendee_id x = i)
           (\<lambda>x. x\<lparr>attendee_deleted := True, attendee_version := Suc (attendee_version x)\<rparr>) (attendees w3)\<rparr>))"

definition remove_guest :: "uuid \<Rightarrow> uuid \<Rightarrow> nat \<Rightarrow> wedding \<Rightarrow> wedding outcome" where
  "remove_guest who a version w = permitted w who Cap_edit None
     (case List.find (\<lambda>x. attendee_id x = a \<and> \<not> attendee_deleted x) (attendees w) of
        None \<Rightarrow> Inl notFound
      | Some row \<Rightarrow>
        ensure (attendee_version row = version) (Domain_error 409 ''VERSION_CONFLICT'')
        (case each (remove_row who) (map attendee_id
             (filter (\<lambda>x. attendee_id x = a \<or> plus_one_of x = Some a) (attendees w))) w of
           Inl err \<Rightarrow> Inl err
         | Inr w' \<Rightarrow> Inr (audit (Some who) ''guest.deleted'' a w')))"

end
