(* ===== verification/Admission.thy ===== *)
theory Admission
  imports Attendance
begin

text \<open>
  Entry passes: the handlers of \<^verbatim>\<open>packages/persistence/src/passes.ts\<close> with the admission
  ledger of \<^verbatim>\<open>packages/adapters/src/admission-ledger.ts\<close>, the event update of
  \<^verbatim>\<open>saveEvent\<close> and the replay of the ledger after a restore
  (\<^verbatim>\<open>admissionState\<close> in \<^verbatim>\<open>recovery.ts\<close>). The ledger is a store of its own: it
  keeps what was written when a transaction is rolled back. Hashes, random credentials and
  the health of the ledger are parameters.
\<close>

section \<open>Environment and ledger\<close>

datatype ledger_write = Write_ok | Write_lost | Write_unconfirmed

record door_env =
  door_now :: instant
  door_hash :: "string \<Rightarrow> string"
  door_candidates :: "string \<Rightarrow> string list"
  door_digest :: "string list \<Rightarrow> string"
  encryption_key :: bool
  fresh_token :: "uuid \<Rightarrow> string"
  fresh_manual :: "uuid \<Rightarrow> string"
  ledger_on :: bool
  ledger_readable :: bool
  intent_write :: ledger_write
  commit_write :: ledger_write

record ledger_record =
  committed :: bool
  ledger_event :: uuid
  ledger_attendee :: uuid
  ledger_admission :: uuid
  ledger_actor :: uuid
  ledger_key :: string
  ledger_version :: nat
  ledger_at :: instant

type_synonym ledger = "uuid \<Rightarrow> ledger_record option"

definition recorded :: "door_env \<Rightarrow> uuid \<Rightarrow> ledger \<Rightarrow> ledger_record option outcome" where
  "recorded env pid l =
     (if \<not> ledger_on env then Inr None
      else if \<not> ledger_readable env then Inl (Domain_error 503 ''ADMISSION_LEDGER_UNAVAILABLE'')
      else Inr (l pid))"

text \<open>A write may be refused, or be carried out although it was reported as failed.\<close>

definition ledger_put :: "ledger_write \<Rightarrow> uuid \<Rightarrow> ledger_record \<Rightarrow> ledger \<Rightarrow> bool \<times> ledger" where
  "ledger_put how pid r l =
     (case how of Write_ok \<Rightarrow> (True, l(pid \<mapsto> r)) | Write_lost \<Rightarrow> (False, l)
      | Write_unconfirmed \<Rightarrow> (False, l(pid \<mapsto> r)))"

definition discardIntent :: "uuid \<Rightarrow> ledger \<Rightarrow> ledger outcome" where
  "discardIntent pid l =
     (case l pid of
        None \<Rightarrow> Inr l
      | Some r \<Rightarrow> if committed r then Inl (Domain_error 500 ''ADMISSION_CONFIRMED'') else Inr (l(pid := None)))"

definition hour_ms :: int where "hour_ms = 3600000"

definition admissionWindow :: "event_row \<Rightarrow> (instant \<times> instant) option" where
  "admissionWindow e =
     (case (case admission_starts e of Some t \<Rightarrow> Some t | None \<Rightarrow> map_option (\<lambda>t. t - 2 * hour_ms) (starts_at e),
            case admission_ends e of Some t \<Rightarrow> Some t | None \<Rightarrow> map_option (\<lambda>t. t + 12 * hour_ms) (starts_at e)) of
        (Some s, Some t) \<Rightarrow> Some (s, t)
      | _ \<Rightarrow> None)"

definition manual_code :: "string \<Rightarrow> string" where
  "manual_code raw = ''ADM-'' @ js_join ''-'' (chunks 4 raw)"

definition without_dashes :: "string \<Rightarrow> string" where
  "without_dashes s = filter (\<lambda>c. c \<noteq> CHR ''-'') s"

section \<open>Issuing and revoking\<close>

definition legacyHold :: "wedding \<Rightarrow> 'a outcome \<Rightarrow> 'a outcome" where
  "legacyHold w k = ensure (\<not> legacy_held w) (Domain_error 503 ''LEGACY_TRANSFER_HELD'') k"

definition attendee_live :: "uuid \<Rightarrow> wedding \<Rightarrow> bool" where
  "attendee_live a w = list_ex (\<lambda>x. attendee_id x = a \<and> \<not> attendee_deleted x) (attendees w)"

definition is_confirmed :: "uuid \<Rightarrow> uuid \<Rightarrow> wedding \<Rightarrow> bool" where
  "is_confirmed a e w = list_ex (\<lambda>r. rsvp_attendee r = a \<and> rsvp_event r = e \<and> rsvp_state r = Confirmed) (rsvps w)"

definition entitled :: "uuid \<Rightarrow> uuid \<Rightarrow> wedding \<Rightarrow> bool" where
  "entitled a e w = (attendee_live a w \<and> is_confirmed a e w \<and> (a, e) \<in> set (reservations w))"

definition new_entry_pass :: "door_env \<Rightarrow> uuid \<Rightarrow> uuid \<Rightarrow> uuid \<Rightarrow> entry_pass" where
  "new_entry_pass env pid a e =
     \<lparr>entry_id = pid, entry_attendee = a, entry_event = e, entry_status = Pass_active,
      credential_hash = door_hash env (''admission:'' @ fresh_token env pid),
      manual_hash = door_hash env (''admission:'' @ without_dashes (manual_code (fresh_manual env pid))),
      sealed_payload = True, entry_version = 1, entry_used_at = None, entry_used_by = None,
      revoked_reason = None, issued_at = door_now env\<rparr>"

definition issueIn :: "door_env \<Rightarrow> uuid \<Rightarrow> event_row \<Rightarrow> uuid \<Rightarrow> wedding \<Rightarrow> (op_result \<times> wedding) outcome" where
  "issueIn env a ev who w = legacyHold w
     (ensure (encryption_key env) (Domain_error 503 ''ADMISSION_KEY_REQUIRED'')
     (ensure (admission ev \<noteq> Adm_disabled) (Domain_error 409 ''PASSES_DISABLED'')
     (ensure (entitled a (event_id ev) w) (Domain_error 409 ''NOT_CONFIRMED'')
     (case List.find (\<lambda>p. entry_attendee p = a \<and> entry_event p = event_id ev) (passes w) of
        Some p \<Rightarrow> ensure (entry_status p = Pass_active) (Domain_error 409 ''PASS_LINEAGE_EXISTS'')
          (Inr (Pass_result (entry_id p) (entry_version p), w))
      | None \<Rightarrow>
          (let pid = next_id w;
               w1 = w\<lparr>passes := passes w @ [new_entry_pass env pid a (event_id ev)], next_id := Suc pid\<rparr>;
               w2 = ticket_jobs ''pass-ticket'' pid 1 (pass_history pid ''issued'' (Some who) None w1)
           in Inr (Pass_result pid 1, w2))))))"

definition issue :: "door_env \<Rightarrow> uuid \<Rightarrow> uuid \<Rightarrow> uuid \<Rightarrow> string \<Rightarrow> wedding \<Rightarrow> (op_result \<times> wedding) outcome" where
  "issue env who a e key w = permitted w who Cap_publish None
     (case find_event e w of
        None \<Rightarrow> Inl notFound
      | Some ev \<Rightarrow> once (show_nat who) (''pass-issue:'' @ show_nat e) key (door_digest env [show_nat a, show_nat e])
          (issueIn env a ev who w) w)"

text \<open>The worker's automatic issue; \<open>leased\<close> says whether it still holds the job.\<close>

definition process_issue :: "door_env \<Rightarrow> bool \<Rightarrow> uuid \<Rightarrow> uuid \<Rightarrow> wedding \<Rightarrow> (op_result option \<times> wedding) outcome" where
  "process_issue env leased a e w =
     (case find_event e w of
        None \<Rightarrow> Inr (None, w)
      | Some ev \<Rightarrow>
        if admission ev \<noteq> Adm_automatic \<or> deleted w then Inr (None, w)
        else permitted w (primary_owner w) Cap_publish None
          (if \<not> is_confirmed a e w then Inr (None, w)
           else ensure leased (Domain_error 500 ''ADMISSION_LEASE_LOST'')
             (case issueIn env a ev (primary_owner w) w of
                Inl err \<Rightarrow> Inl err | Inr (r, w') \<Rightarrow> Inr (Some r, w'))))"

definition find_pass :: "uuid \<Rightarrow> wedding \<Rightarrow> entry_pass option" where
  "find_pass pid w = List.find (\<lambda>p. entry_id p = pid) (passes w)"

definition revoke :: "door_env \<Rightarrow> uuid \<Rightarrow> uuid \<Rightarrow> nat \<Rightarrow> string \<Rightarrow> string \<Rightarrow> wedding \<Rightarrow> (op_result \<times> wedding) outcome" where
  "revoke env who pid version reason key w = permitted w who Cap_publish None
     (case find_pass pid w of
        None \<Rightarrow> Inl notFound
      | Some p \<Rightarrow>
        once (show_nat who) (''pass-revoke:'' @ show_nat pid) key (door_digest env [show_nat version, reason])
          (ensure (entry_status p = Pass_active \<and> entry_version p = version) (Domain_error 409 ''PASS_STATE_CONFLICT'')
            (Inr (Pass_result pid (Suc version),
              pass_history pid ''revoked'' (Some who) (Some reason)
                (w\<lparr>passes := update_where (\<lambda>q. entry_id q = pid \<and> entry_status q = Pass_active \<and> entry_version q = version)
                     (revoked reason) (passes w)\<rparr>)))) w)"

definition reissued :: "door_env \<Rightarrow> entry_pass \<Rightarrow> entry_pass" where
  "reissued env p =
     p\<lparr>entry_status := Pass_active,
       credential_hash := door_hash env (''admission:'' @ fresh_token env (entry_id p)),
       manual_hash := door_hash env (''admission:'' @ without_dashes (manual_code (fresh_manual env (entry_id p)))),
       sealed_payload := True, entry_version := Suc (entry_version p), issued_at := door_now env, revoked_reason := None\<rparr>"

definition reissue_body ::
  "door_env \<Rightarrow> uuid \<Rightarrow> entry_pass \<Rightarrow> nat \<Rightarrow> string \<Rightarrow> ledger \<Rightarrow> wedding \<Rightarrow> (op_result \<times> wedding) outcome" where
  "reissue_body env who p version reason l w =
     (case recorded env (entry_id p) l of
        Inl e \<Rightarrow> Inl e
      | Inr (Some _) \<Rightarrow> Inl (Domain_error 409 ''ADMISSION_RECOVERY_HOLD'')
      | Inr None \<Rightarrow>
        ensure (entry_status p \<in> {Pass_active, Pass_revoked, Pass_expired} \<and> entry_version p = version)
          (Domain_error 409 ''PASS_STATE_CONFLICT'')
        (ensure ((case find_event (entry_event p) w of Some ev \<Rightarrow> admission ev \<noteq> Adm_disabled | None \<Rightarrow> False) \<and>
            entitled (entry_attendee p) (entry_event p) w) (Domain_error 409 ''NOT_CONFIRMED'')
        (ensure (encryption_key env) (Domain_error 503 ''ADMISSION_KEY_REQUIRED'')
          (Inr (Pass_result (entry_id p) (Suc version),
            ticket_jobs ''pass-ticket'' (entry_id p) (Suc version)
              (pass_history (entry_id p) ''reissued'' (Some who) (Some reason)
                (w\<lparr>passes := update_where (\<lambda>q. entry_id q = entry_id p) (reissued env) (passes w)\<rparr>)))))))"

definition reissue ::
  "door_env \<Rightarrow> uuid \<Rightarrow> uuid \<Rightarrow> nat \<Rightarrow> string \<Rightarrow> string \<Rightarrow> ledger \<Rightarrow> wedding \<Rightarrow> (op_result \<times> wedding) outcome" where
  "reissue env who pid version reason key l w = permitted w who Cap_publish None (legacyHold w
     (case find_pass pid w of
        None \<Rightarrow> Inl notFound
      | Some p \<Rightarrow> once (show_nat who) (''pass-reissue:'' @ show_nat pid) key (door_digest env [show_nat version, reason])
          (reissue_body env who p version reason l w) w))"

section \<open>The door\<close>

text \<open>What a scan decides before anything is written.\<close>

datatype door_decision = Refuse scan_outcome "uuid option" | Admit entry_pass

definition refusal :: "scan_state \<Rightarrow> scan_outcome" where
  "refusal s = \<lparr>scan_state = s, scan_name = None, scan_used_at = None\<rparr>"

definition lookup_value :: "string \<Rightarrow> string" where
  "lookup_value v = (if starts_with ''std-admission:v1:'' v then drop 17 v else without_dashes (js_upper v))"

definition name_of :: "uuid \<Rightarrow> wedding \<Rightarrow> string option" where
  "name_of a w = map_option attendee_name (List.find (\<lambda>x. attendee_id x = a) (attendees w))"

definition matching_passes :: "door_env \<Rightarrow> uuid \<Rightarrow> string \<Rightarrow> wedding \<Rightarrow> entry_pass list" where
  "matching_passes env e v w =
     (let hs = door_candidates env (''admission:'' @ lookup_value v)
      in filter (\<lambda>p. entry_event p = e \<and> (credential_hash p \<in> set hs \<or> manual_hash p \<in> set hs)) (passes w))"

definition already_used :: "entry_pass \<Rightarrow> wedding \<Rightarrow> door_decision" where
  "already_used p w = Refuse \<lparr>scan_state = Already_used, scan_name = name_of (entry_attendee p) w,
     scan_used_at = entry_used_at p\<rparr> (Some (entry_id p))"

definition decide :: "door_env \<Rightarrow> event_row \<Rightarrow> string \<Rightarrow> wedding \<Rightarrow> door_decision" where
  "decide env ev v w =
     (let found = matching_passes env (event_id ev) v w; now = door_now env
      in case List.find (\<lambda>p. entry_status p = Pass_used) found of
           Some p \<Rightarrow> already_used p w
         | None \<Rightarrow>
           if admission ev = Adm_disabled then Refuse (refusal Admission_off) None
           else (case admissionWindow ev of
               None \<Rightarrow> Refuse (refusal Window_required) None
             | Some (s, t) \<Rightarrow>
               if now < s \<or> t \<le> now then Refuse (refusal Outside_window) None
               else (case found of
                   [] \<Rightarrow> Refuse (refusal Unknown_pass) None
                 | p # _ \<Rightarrow>
                   if \<not> attendee_live (entry_attendee p) w then Refuse (refusal Unknown_pass) None
                   else if entry_status p = Pass_used then already_used p w
                   else if entry_status p \<noteq> Pass_active then Refuse (refusal Revoked_pass) (Some (entry_id p))
                   else if \<not> is_confirmed (entry_attendee p) (event_id ev) w
                   then Refuse (refusal Not_confirmed) (Some (entry_id p))
                   else Admit p)))"

text \<open>
  The reply of a scan. \<open>admitted_now\<close> is no part of the reply: it names the pass that this very
  request admitted, and is \<open>None\<close> for a refusal and for a repeated request.
\<close>

record door_reply =
  door_outcome :: scan_outcome
  admitted_now :: "uuid option"

definition scan_action :: "scan_state \<Rightarrow> string" where
  "scan_action s = (case s of Admitted \<Rightarrow> ''scan.admitted'' | Already_used \<Rightarrow> ''scan.already_used''
     | Admission_off \<Rightarrow> ''scan.disabled'' | Window_required \<Rightarrow> ''scan.window_required''
     | Outside_window \<Rightarrow> ''scan.outside_window'' | Unknown_pass \<Rightarrow> ''scan.invalid''
     | Revoked_pass \<Rightarrow> ''scan.revoked'' | Not_confirmed \<Rightarrow> ''scan.not_confirmed'')"

definition log_scan ::
  "door_env \<Rightarrow> uuid \<Rightarrow> uuid \<Rightarrow> string \<Rightarrow> string \<Rightarrow> scan_outcome \<Rightarrow> uuid option \<Rightarrow> wedding \<Rightarrow> wedding" where
  "log_scan env who e v key reply pid w =
     audit (Some who) (scan_action (scan_state reply)) (or_else pid e)
       (w\<lparr>scans := scans w @ [\<lparr>scan_event = e, scan_actor = who, scan_key = key,
           scan_hash = door_hash env (''scan-operation:'' @ v), scan_reply = reply, scan_pass = pid\<rparr>]\<rparr>)"

definition spend :: "door_env \<Rightarrow> uuid \<Rightarrow> entry_pass \<Rightarrow> entry_pass" where
  "spend env who p = p\<lparr>entry_status := Pass_used, entry_used_at := Some (door_now env), entry_used_by := Some who,
     sealed_payload := False, entry_version := Suc (entry_version p)\<rparr>"

definition intent_record :: "door_env \<Rightarrow> uuid \<Rightarrow> uuid \<Rightarrow> string \<Rightarrow> uuid \<Rightarrow> entry_pass \<Rightarrow> ledger_record" where
  "intent_record env who e key aid p =
     \<lparr>committed = False, ledger_event = e, ledger_attendee = entry_attendee p, ledger_admission = aid,
      ledger_actor = who, ledger_key = key, ledger_version = entry_version p, ledger_at = door_now env\<rparr>"

text \<open>The writes of an admission: the pass, the admission row, the history, the scan.\<close>

definition admit_writes ::
  "door_env \<Rightarrow> uuid \<Rightarrow> uuid \<Rightarrow> string \<Rightarrow> string \<Rightarrow> uuid \<Rightarrow> entry_pass \<Rightarrow> wedding \<Rightarrow> scan_outcome \<times> wedding" where
  "admit_writes env who e v key aid p w =
     (let reply = \<lparr>scan_state = Admitted, scan_name = name_of (entry_attendee p) w, scan_used_at = Some (door_now env)\<rparr>;
          w1 = w\<lparr>passes := update_where (\<lambda>q. entry_id q = entry_id p \<and> entry_status q = Pass_active) (spend env who) (passes w),
                 admissions := admissions w @ [\<lparr>admission_id = aid, admitted_pass = entry_id p, admitted_event = e,
                   admitted_attendee = entry_attendee p, admitted_by = Some who\<rparr>],
                 next_id := Suc (next_id w)\<rparr>
      in (reply, log_scan env who e v key reply (Some (entry_id p)) (pass_history (entry_id p) ''used'' (Some who) None w1)))"

text \<open>The transaction: an error, or the reply, the tables and the ledger record to confirm.\<close>

definition admit ::
  "door_env \<Rightarrow> uuid \<Rightarrow> uuid \<Rightarrow> string \<Rightarrow> string \<Rightarrow> entry_pass \<Rightarrow> ledger \<Rightarrow> wedding
     \<Rightarrow> (door_reply \<times> wedding \<times> (uuid \<times> ledger_record) option) outcome \<times> ledger" where
  "admit env who e v key p l w =
     (case recorded env (entry_id p) l of
        Inl err \<Rightarrow> (Inl err, l)
      | Inr previous \<Rightarrow>
        if (case previous of None \<Rightarrow> False | Some r \<Rightarrow> committed r \<or> ledger_key r \<noteq> key \<or> ledger_actor r \<noteq> who \<or>
              ledger_version r \<noteq> entry_version p)
        then (Inl (Domain_error 409 ''ADMISSION_RECOVERY_HOLD''), l)
        else (let aid = (case previous of Some r \<Rightarrow> ledger_admission r | None \<Rightarrow> next_id w);
                  r = intent_record env who e key aid p;
                  (ok, l') = (if ledger_on env then ledger_put (intent_write env) (entry_id p) r l else (True, l))
              in if \<not> ok then (Inl (Domain_error 503 ''ADMISSION_LEDGER_UNAVAILABLE''), l')
                 else (case admit_writes env who e v key aid p w of
                   (reply, w') \<Rightarrow> (Inr (\<lparr>door_outcome = reply, admitted_now = Some (entry_id p)\<rparr>, w',
                      Some (entry_id p, r)), l'))))"

definition repeated ::
  "door_env \<Rightarrow> uuid \<Rightarrow> string \<Rightarrow> string \<Rightarrow> scan_row \<Rightarrow> ledger \<Rightarrow> wedding
     \<Rightarrow> (door_reply \<times> wedding \<times> (uuid \<times> ledger_record) option) outcome" where
  "repeated env who v key sc l w =
     (let reply = \<lparr>door_outcome = scan_reply sc, admitted_now = None\<rparr>
      in ensure (scan_hash sc \<in> set (door_candidates env (''scan-operation:'' @ v))) (Domain_error 409 ''IDEMPOTENCY_CONFLICT'')
        (case (scan_state (scan_reply sc), scan_pass sc) of
           (Admitted, Some pid) \<Rightarrow>
             (case recorded env pid l of
                Inl err \<Rightarrow> Inl err
              | Inr (Some r) \<Rightarrow> Inr (reply, w,
                  if \<not> committed r \<and> ledger_key r = key \<and> ledger_actor r = who then Some (pid, r) else None)
              | Inr None \<Rightarrow> Inr (reply, w, None))
         | _ \<Rightarrow> Inr (reply, w, None)))"

definition redeem_transaction ::
  "door_env \<Rightarrow> uuid \<Rightarrow> uuid \<Rightarrow> string \<Rightarrow> string \<Rightarrow> ledger \<Rightarrow> wedding
     \<Rightarrow> (door_reply \<times> wedding \<times> (uuid \<times> ledger_record) option) outcome \<times> ledger" where
  "redeem_transaction env who e v key l w =
     (case permitted w who Cap_scan (Some e) (legacyHold w
           (ensure (\<not> recovery_open w) (Domain_error 503 ''ADMISSION_RECOVERY_HOLD'')
           (case find_event e w of None \<Rightarrow> Inl notFound | Some ev \<Rightarrow> Inr ev))) of
        Inl err \<Rightarrow> (Inl err, l)
      | Inr ev \<Rightarrow>
        (case List.find (\<lambda>x. scan_actor x = who \<and> scan_event x = e \<and> scan_key x = key) (scans w) of
           Some sc \<Rightarrow> (repeated env who v key sc l w, l)
         | None \<Rightarrow>
           (case decide env ev v w of
              Refuse reply pid \<Rightarrow> (Inr (\<lparr>door_outcome = reply, admitted_now = None\<rparr>,
                log_scan env who e v key reply pid w, None), l)
            | Admit p \<Rightarrow> admit env who e v key p l w)))"

text \<open>After the commit the ledger record is confirmed; only then is the admission acknowledged.\<close>

definition redeem ::
  "door_env \<Rightarrow> uuid \<Rightarrow> uuid \<Rightarrow> string \<Rightarrow> string \<Rightarrow> ledger \<Rightarrow> wedding \<Rightarrow> door_reply outcome \<times> ledger \<times> wedding" where
  "redeem env who e v key l w =
     (case redeem_transaction env who e v key l w of
        (Inl err, l') \<Rightarrow> (Inl err, l', w)
      | (Inr (reply, w', None), l') \<Rightarrow> (Inr reply, l', w')
      | (Inr (reply, w', Some (pid, r)), l') \<Rightarrow>
        if \<not> ledger_on env then (Inr reply, l', w')
        else (case ledger_put (commit_write env) pid (r\<lparr>committed := True\<rparr>) l' of
            (True, l'') \<Rightarrow> (Inr reply, l'', w')
          | (False, l'') \<Rightarrow> (Inl (Domain_error 503 ''ADMISSION_LEDGER_UNAVAILABLE''), l'', w')))"

end
