(* ===== verification/Reconcile.thy ===== *)
theory Reconcile
  imports Admission
begin

text \<open>
  What happens to entry passes outside the door: the owner's correction of an admitted guest
  and the expiry sweep of \<^verbatim>\<open>packages/persistence/src/passes.ts\<close>, the replay of the
  admission ledger and the quarantine after a restored backup
  (\<^verbatim>\<open>packages/persistence/src/recovery.ts\<close>), and the operator's release of a recovery
  hold (\<^verbatim>\<open>packages/persistence/src/operator.ts\<close>).
\<close>

section \<open>Corrections\<close>

record correction_input =
  correct_attendee :: uuid
  correct_event :: uuid
  correct_name :: "string option"
  correct_state :: "bool option"
  correct_reason :: string

text \<open>\<open>state\<close> is \<open>'confirmed'\<close> (true), \<open>'declined'\<close> or absent; an empty name is no name.\<close>

definition correction_text :: "correction_input \<Rightarrow> string list" where
  "correction_text c =
     [show_nat (correct_attendee c), show_nat (correct_event c)] @
     (case correct_name c of None \<Rightarrow> [] | Some n \<Rightarrow> [''name'', n]) @
     (case correct_state c of None \<Rightarrow> [] | Some s \<Rightarrow> [''state'', if s then ''confirmed'' else ''declined'']) @
     [''reason'', correct_reason c]"

definition to_state :: "bool \<Rightarrow> rsvp_state" where
  "to_state b = (if b then Confirmed else Declined)"

definition give_up_place :: "uuid \<Rightarrow> uuid \<Rightarrow> wedding \<Rightarrow> wedding" where
  "give_up_place a e w =
     (if (a, e) \<in> set (reservations w) then set_count e (\<lambda>n. n - 1) (release a e w) else w)"

definition take_place :: "uuid \<Rightarrow> event_row \<Rightarrow> wedding \<Rightarrow> wedding outcome" where
  "take_place a ev w =
     (if (a, event_id ev) \<in> set (reservations w) then Inr w
      else ensure (case capacity ev of Some c \<Rightarrow> confirmed_count ev < int c | None \<Rightarrow> True)
        (Domain_error 409 ''CAPACITY_FULL'')
        (Inr (set_count (event_id ev) (\<lambda>n. n + 1) (reserve a (event_id ev) w))))"

definition set_rsvp_state :: "uuid \<Rightarrow> uuid \<Rightarrow> rsvp_state \<Rightarrow> wedding \<Rightarrow> wedding" where
  "set_rsvp_state a e s w =
     w\<lparr>rsvps := update_where (\<lambda>r. rsvp_attendee r = a \<and> rsvp_event r = e)
         (\<lambda>r. r\<lparr>rsvp_state := s, rsvp_version := Suc (rsvp_version r)\<rparr>) (rsvps w)\<rparr>"

definition correct_name_in :: "correction_input \<Rightarrow> wedding \<Rightarrow> wedding" where
  "correct_name_in c w =
     (case correct_name c of None \<Rightarrow> w | Some n \<Rightarrow> if n = [] then w else rename (correct_attendee c) n w)"

definition correct_place :: "correction_input \<Rightarrow> event_row \<Rightarrow> wedding \<Rightarrow> wedding outcome" where
  "correct_place c ev w =
     (let a = correct_attendee c; e = correct_event c
      in case correct_state c of
           None \<Rightarrow> Inr w
         | Some False \<Rightarrow> Inr (set_rsvp_state a e Declined (give_up_place a e w))
         | Some True \<Rightarrow> (case take_place a ev w of Inl err \<Rightarrow> Inl err | Inr w' \<Rightarrow> Inr (set_rsvp_state a e Confirmed w')))"

definition correction_body :: "uuid \<Rightarrow> correction_input \<Rightarrow> event_row \<Rightarrow> wedding \<Rightarrow> (op_result \<times> wedding) outcome" where
  "correction_body who c ev w =
     (let a = correct_attendee c; e = correct_event c;
          row = \<lparr>corrected_event = e, corrected_attendee = a, corrected_by = who, correction_reason = correct_reason c,
            corrected_from = (or_else (name_of a w) [], map_option rsvp_state (find_rsvp a e w)),
            corrected_to = (correct_name c, map_option to_state (correct_state c))\<rparr>
      in ensure (list_ex (\<lambda>x. admitted_attendee x = a \<and> admitted_event x = e) (admissions w)) (Domain_error 409 ''NO_ADMISSION'')
        (case correct_place c ev (correct_name_in c w) of
           Inl err \<Rightarrow> Inl err
         | Inr w' \<Rightarrow> Inr (Correction_result,
             audit (Some who) ''admission.corrected'' a (w'\<lparr>corrections := corrections w' @ [row]\<rparr>))))"

definition correction ::
  "door_env \<Rightarrow> uuid \<Rightarrow> correction_input \<Rightarrow> string \<Rightarrow> wedding \<Rightarrow> (op_result \<times> wedding) outcome" where
  "correction env who c key w = permitted w who Cap_publish None
     (if List.find (\<lambda>x. attendee_id x = correct_attendee c) (attendees w) = None then Inl notFound
      else case find_event (correct_event c) w of
        None \<Rightarrow> Inl notFound
      | Some ev \<Rightarrow> once (show_nat who) (''admission-correction:'' @ show_nat (correct_event c)) key
          (door_digest env (correction_text c)) (correction_body who c ev w) w)"

section \<open>Expiry\<close>

text \<open>An event without a schedule never ends: \<open>coalesce(null, null) <= now()\<close> is not true.\<close>

definition admission_over :: "instant \<Rightarrow> wedding \<Rightarrow> uuid \<Rightarrow> bool" where
  "admission_over now w e =
     (case find_event e w of
        None \<Rightarrow> False
      | Some ev \<Rightarrow>
        (case (case admission_ends ev of Some t \<Rightarrow> Some t | None \<Rightarrow> map_option (\<lambda>t. t + 12 * hour_ms) (starts_at ev)) of
           None \<Rightarrow> False
         | Some t \<Rightarrow> t \<le> now))"

definition expired :: "entry_pass \<Rightarrow> entry_pass" where
  "expired p = p\<lparr>entry_status := Pass_expired, sealed_payload := False, entry_version := Suc (entry_version p)\<rparr>"

definition sweep :: "instant \<Rightarrow> wedding \<Rightarrow> wedding" where
  "sweep now w =
     (let hit = (\<lambda>p. entry_status p = Pass_active \<and> admission_over now w (entry_event p))
      in fold (\<lambda>p. pass_history (entry_id p) ''expired'' None (Some ''Admission window ended'')) (filter hit (passes w))
           (w\<lparr>passes := update_where hit expired (passes w)\<rparr>))"

section \<open>After a restored backup\<close>

definition add_hold :: "uuid \<Rightarrow> string \<Rightarrow> wedding \<Rightarrow> wedding" where
  "add_hold pid reason w =
     (if list_ex (\<lambda>h. held_pass h = pid) (holds w) then w
      else w\<lparr>holds := holds w @ [\<lparr>held_pass = pid, hold_reason = reason, hold_open = True\<rparr>]\<rparr>)"

definition replayed :: "(uuid \<Rightarrow> bool) \<Rightarrow> ledger_record \<Rightarrow> entry_pass \<Rightarrow> entry_pass" where
  "replayed known r p =
     p\<lparr>entry_status := Pass_used, entry_used_at := Some (ledger_at r),
       entry_used_by := (if known (ledger_actor r) then Some (ledger_actor r) else None), sealed_payload := False,
       entry_version := max (entry_version p) (Suc (ledger_version r)), revoked_reason := None\<rparr>"

definition replay_admission :: "(uuid \<Rightarrow> bool) \<Rightarrow> uuid \<Rightarrow> ledger_record \<Rightarrow> wedding \<Rightarrow> wedding" where
  "replay_admission known pid r w =
     (if list_ex (\<lambda>x. admitted_pass x = pid) (admissions w) then w
      else w\<lparr>admissions := admissions w @ [\<lparr>admission_id = ledger_admission r, admitted_pass = pid,
        admitted_event = ledger_event r, admitted_attendee = ledger_attendee r,
        admitted_by = (if known (ledger_actor r) then Some (ledger_actor r) else None)\<rparr>]\<rparr>)"

text \<open>One record of \<open>admissionState\<close>.\<close>

definition replay_record :: "(uuid \<Rightarrow> bool) \<Rightarrow> uuid \<times> ledger_record \<Rightarrow> wedding \<Rightarrow> wedding" where
  "replay_record known x w =
     (case x of (pid, r) \<Rightarrow>
       if deleted w then w
       else (case find_pass pid w of
           None \<Rightarrow> add_hold pid ''MISSING_LINEAGE'' w
         | Some p \<Rightarrow>
           if entry_attendee p \<noteq> ledger_attendee r \<or> entry_event p \<noteq> ledger_event r
           then add_hold pid ''LINEAGE_MISMATCH'' w
           else if entry_status p = Pass_used then w
           else if \<not> committed r then add_hold pid ''UNCERTAIN_ADMISSION'' w
           else audit None ''admission.replayed'' pid (replay_admission known pid r
             (w\<lparr>passes := update_where (\<lambda>q. entry_id q = pid) (replayed known r) (passes w)\<rparr>))))"

definition admissionState :: "(uuid \<Rightarrow> bool) \<Rightarrow> (uuid \<times> ledger_record) list \<Rightarrow> wedding \<Rightarrow> wedding" where
  "admissionState known records w = fold (replay_record known) records w"

text \<open>The part of \<open>quarantineRestoredAccess\<close> that concerns a wedding's tables.\<close>

definition quarantined :: "entry_pass \<Rightarrow> entry_pass" where
  "quarantined p = revoked ''Restore requires fresh unused credentials'' p"

definition quarantineRestoredAccess :: "wedding \<Rightarrow> wedding" where
  "quarantineRestoredAccess w =
     w\<lparr>passes := update_where (\<lambda>p. entry_status p = Pass_active) quarantined (passes w),
       ownership_hold := (ownership_hold w \<or> \<not> deleted w)\<rparr>"

section \<open>The operator\<close>

record operator_env =
  operator_allowed :: bool
  operator_recent :: bool
  operator_ledger :: bool

text \<open>\<open>allow(actor, true)\<close>, with the actor's standing as parameters.\<close>

definition sensitive_operator :: "operator_env \<Rightarrow> 'a outcome \<Rightarrow> 'a outcome" where
  "sensitive_operator env k =
     ensure (operator_allowed env) notFound (ensure (operator_recent env) (Domain_error 403 ''REAUTH_REQUIRED'') k)"

definition release_hold :: "uuid \<Rightarrow> wedding \<Rightarrow> wedding" where
  "release_hold pid w = w\<lparr>holds := update_where (\<lambda>h. held_pass h = pid) (\<lambda>h. h\<lparr>hold_open := False\<rparr>) (holds w)\<rparr>"

definition resolveAdmissionHold ::
  "operator_env \<Rightarrow> uuid \<Rightarrow> uuid \<Rightarrow> string \<Rightarrow> ledger \<Rightarrow> wedding \<Rightarrow> (ledger \<times> wedding) outcome" where
  "resolveAdmissionHold env who pid reason l w = sensitive_operator env
     (ensure (\<not> (length (js_trim reason) < 15 \<or> 1000 < length reason)) (Domain_error 400 ''AUDIT_REASON_REQUIRED'')
     (ensure (operator_ledger env) (Domain_error 503 ''ADMISSION_LEDGER_UNAVAILABLE'')
     (case List.find (\<lambda>h. held_pass h = pid \<and> hold_open h) (holds w) of
        None \<Rightarrow> Inl notFound
      | Some h \<Rightarrow>
        ensure (hold_reason h = ''UNCERTAIN_ADMISSION'') (Domain_error 409 ''RECOVERY_DATA_REQUIRED'')
        (case find_pass pid w of
           None \<Rightarrow> Inl notFound
         | Some p \<Rightarrow>
           ensure (entry_status p \<noteq> Pass_used \<and> \<not> list_ex (\<lambda>x. admitted_pass x = pid) (admissions w))
             (Domain_error 409 ''ADMISSION_CONFIRMED'')
           (ensure (case l pid of Some r \<Rightarrow> \<not> committed r | None \<Rightarrow> True) (Domain_error 409 ''ADMISSION_CONFIRMED'')
           (case discardIntent pid l of
              Inl err \<Rightarrow> Inl err
            | Inr l' \<Rightarrow> Inr (l', audit (Some who) ''operator.admission_hold_resolved'' pid (release_hold pid w))))))))"

end
