(* ===== verification/EventEdit.thy ===== *)
theory EventEdit
  imports Admission
begin

text \<open>
  \<^verbatim>\<open>saveEvent\<close> of \<^verbatim>\<open>packages/persistence/src/index.ts\<close>: creating and editing an event,
  the guards on its capacity and admission window, and what a changed policy or a changed
  detail does to the entry passes. Columns the handler only stores (type, directions, dress
  code, visibility, the text of an unknown date) are left out.
\<close>

section \<open>Instants as text\<close>

text \<open>\<open>toISOString()\<close> for the years 0 to 9999, by the civil calendar.\<close>

definition civil :: "int \<Rightarrow> int \<times> int \<times> int" where
  "civil days =
     (let z = days + 719468; era = z div 146097; doe = z mod 146097;
          yoe = (doe - doe div 1460 + doe div 36524 - doe div 146096) div 365;
          doy = doe - (365 * yoe + yoe div 4 - yoe div 100);
          mp = (5 * doy + 2) div 153;
          m = (if mp < 10 then mp + 3 else mp - 9)
      in (yoe + era * 400 + (if m \<le> 2 then 1 else 0), m, doy - (153 * mp + 2) div 5 + 1))"

definition pad_int :: "nat \<Rightarrow> int \<Rightarrow> string" where
  "pad_int n i = js_pad_start n (CHR ''0'') (show_nat (nat i))"

definition toISOString :: "instant \<Rightarrow> string" where
  "toISOString t =
     (case civil (t div 86400000) of (y, m, d) \<Rightarrow>
       (let r = t mod 86400000
        in pad_int 4 y @ ''-'' @ pad_int 2 m @ ''-'' @ pad_int 2 d @ ''T'' @
           pad_int 2 (r div 3600000) @ '':'' @ pad_int 2 (r div 60000 mod 60) @ '':'' @
           pad_int 2 (r div 1000 mod 60) @ ''.'' @ pad_int 3 (r mod 1000) @ ''Z''))"

text \<open>An instant of the request: its text and what \<open>Date.parse\<close> reads from it.\<close>

record stamp =
  stamp_text :: string
  stamp_at :: instant

definition stored_text :: "instant option \<Rightarrow> string" where
  "stored_text t = (case t of None \<Rightarrow> [] | Some x \<Rightarrow> toISOString x)"

definition input_text :: "stamp option \<Rightarrow> string" where
  "input_text s = (case s of None \<Rightarrow> [] | Some x \<Rightarrow> stamp_text x)"

section \<open>The request\<close>

record event_input =
  in_title :: string
  in_venue :: string
  in_timezone :: string
  in_starts :: "stamp option"
  in_ends :: "stamp option"
  in_cutoff :: "stamp option"
  in_capacity :: "nat option"
  in_approval :: approval
  in_admission :: admission_policy
  in_admission_starts :: "stamp option"
  in_admission_ends :: "stamp option"

definition at_of :: "stamp option \<Rightarrow> instant option" where
  "at_of s = map_option stamp_at s"

definition capacity_text :: "nat option \<Rightarrow> string" where
  "capacity_text c = (case c of None \<Rightarrow> [] | Some n \<Rightarrow> show_nat n)"

definition window_changed :: "event_row \<Rightarrow> event_input \<Rightarrow> bool" where
  "window_changed ev i =
     (admission ev \<noteq> in_admission i \<or> starts_at ev \<noteq> at_of (in_starts i) \<or>
      admission_starts ev \<noteq> at_of (in_admission_starts i) \<or> admission_ends ev \<noteq> at_of (in_admission_ends i))"

text \<open>A planner's policies are compared as text, the stored instants in their canonical form.\<close>

definition policies_changed :: "event_row \<Rightarrow> event_input \<Rightarrow> bool" where
  "policies_changed ev i =
     (capacity_text (capacity ev) \<noteq> capacity_text (in_capacity i) \<or> approval_policy ev \<noteq> in_approval i \<or>
      admission ev \<noteq> in_admission i \<or>
      stored_text (admission_starts ev) \<noteq> input_text (in_admission_starts i) \<or>
      stored_text (admission_ends ev) \<noteq> input_text (in_admission_ends i) \<or>
      stored_text (rsvp_cutoff ev) \<noteq> input_text (in_cutoff i))"

definition details_changed :: "event_row \<Rightarrow> event_input \<Rightarrow> bool" where
  "details_changed ev i =
     (event_title ev \<noteq> in_title i \<or> event_venue ev \<noteq> in_venue i \<or> event_timezone ev \<noteq> in_timezone i \<or>
      stored_text (starts_at ev) \<noteq> input_text (in_starts i))"

definition write_event :: "event_input \<Rightarrow> event_row \<Rightarrow> event_row" where
  "write_event i ev =
     ev\<lparr>event_title := in_title i, event_venue := in_venue i, event_timezone := in_timezone i,
        event_version := Suc (event_version ev), capacity := in_capacity i, approval_policy := in_approval i,
        admission := in_admission i, starts_at := at_of (in_starts i), ends_at := at_of (in_ends i),
        rsvp_cutoff := at_of (in_cutoff i), admission_starts := at_of (in_admission_starts i),
        admission_ends := at_of (in_admission_ends i)\<rparr>"

definition new_event :: "uuid \<Rightarrow> event_input \<Rightarrow> event_row" where
  "new_event e i =
     \<lparr>event_id = e, event_title = in_title i, event_venue = in_venue i, event_timezone = in_timezone i,
      event_version = 1, capacity = in_capacity i, confirmed_count = 0, approval_policy = in_approval i,
      admission = in_admission i, starts_at = at_of (in_starts i), ends_at = at_of (in_ends i),
      rsvp_cutoff = at_of (in_cutoff i), admission_starts = at_of (in_admission_starts i),
      admission_ends = at_of (in_admission_ends i),
      asked = \<lparr>ask_meal = False, ask_dietary = False, ask_accessibility = False, ask_note = False\<rparr>\<rparr>"

section \<open>The consequences for passes\<close>

definition queue_policy_passes :: "uuid \<Rightarrow> nat \<Rightarrow> wedding \<Rightarrow> wedding" where
  "queue_policy_passes e version w =
     fold (\<lambda>r. add_issue_job (Issue_job ''policy-pass'' (rsvp_attendee r) e version))
       (filter (\<lambda>r. rsvp_event r = e \<and> rsvp_state r = Confirmed \<and> attendee_live (rsvp_attendee r) w \<and>
           \<not> list_ex (\<lambda>p. entry_attendee p = rsvp_attendee r \<and> entry_event p = e) (passes w)) (rsvps w)) w"

definition disable_passes :: "uuid \<Rightarrow> uuid \<Rightarrow> wedding \<Rightarrow> wedding" where
  "disable_passes who e w =
     revoke_where (\<lambda>p. entry_event p = e) ''Event admission disabled''
       (\<lambda>pid. record_history pid ''revoked'' (Some who) (Some ''Event admission disabled'')) w"

definition apply_policy :: "uuid \<Rightarrow> uuid \<Rightarrow> nat \<Rightarrow> event_input \<Rightarrow> wedding \<Rightarrow> wedding" where
  "apply_policy who e version i w =
     (let w1 = (if in_admission i = Adm_automatic then queue_policy_passes e version w else w)
      in if in_admission i = Adm_disabled then disable_passes who e w1 else w1)"

section \<open>The handler\<close>

definition event_guards :: "role \<Rightarrow> event_input \<Rightarrow> event_row \<Rightarrow> nat \<Rightarrow> wedding \<Rightarrow> 'a outcome \<Rightarrow> 'a outcome" where
  "event_guards role i ev version w k =
     ensure (event_version ev = version) (Domain_error 409 ''VERSION_CONFLICT'')
     (ensure (case in_capacity i of Some c \<Rightarrow> confirmed_count ev \<le> int c | None \<Rightarrow> True)
        (Domain_error 409 ''CAPACITY_CONFLICT'')
     (ensure (\<not> (list_ex (\<lambda>x. admitted_event x = event_id ev) (admissions w) \<and> window_changed ev i))
        (Domain_error 409 ''ADMISSION_WINDOW_LOCKED'')
     (ensure (\<not> (role = Planner \<and> policies_changed ev i)) (Domain_error 403 ''OWNER_REQUIRED'') k)))"

definition update_event ::
  "role \<Rightarrow> uuid \<Rightarrow> event_input \<Rightarrow> uuid \<Rightarrow> nat \<Rightarrow> wedding \<Rightarrow> wedding outcome" where
  "update_event role who i e version w =
     (case find_event e w of
        None \<Rightarrow> Inl notFound
      | Some ev \<Rightarrow> event_guards role i ev version w
          (let w1 = w\<lparr>events := update_where (\<lambda>x. event_id x = e) (write_event i) (events w)\<rparr>;
               w2 = apply_policy who e (Suc version) i w1;
               w3 = (if details_changed ev i
                 then renew_tickets (\<lambda>p. entry_event p = e) ''event-ticket'' ''Event details changed'' (Some who) w2 else w2)
           in Inr (audit (Some who) ''event.updated'' e w3)))"

definition create_event :: "role \<Rightarrow> uuid \<Rightarrow> event_input \<Rightarrow> wedding \<Rightarrow> wedding outcome" where
  "create_event role who i w =
     ensure (\<not> (role = Planner \<and> (in_admission i \<noteq> Adm_disabled \<or> in_capacity i \<noteq> None)))
       (Domain_error 403 ''OWNER_REQUIRED'')
     (let e = next_id w;
          w1 = w\<lparr>events := events w @ [new_event e i], next_id := Suc e\<rparr>
      in Inr (audit (Some who) ''event.created'' e (apply_policy who e 1 i w1)))"

definition saveEvent ::
  "uuid \<Rightarrow> event_input \<Rightarrow> (uuid \<times> nat) option \<Rightarrow> wedding \<Rightarrow> wedding outcome" where
  "saveEvent who i target w =
     (case tenant (deleted w) (ownership_hold w) (members w) who of
        Inl err \<Rightarrow> Inl err
      | Inr t \<Rightarrow>
        (case requireCapability t Cap_edit None of
           Inl err \<Rightarrow> Inl err
         | Inr _ \<Rightarrow>
           (case target of
              Some (e, version) \<Rightarrow> update_event (tenant_role t) who i e version w
            | None \<Rightarrow> create_event (tenant_role t) who i w)))"

section \<open>An instant written another way\<close>

text \<open>
  A planner who sends the stored admission time back unchanged, but without milliseconds, is taken
  to change a policy; a start time written so is taken to change the printed details.
\<close>

lemma same_instant_other_text:
  "let ev = new_event 1 \<lparr>in_title = ''Supper'', in_venue = [], in_timezone = ''UTC'', in_starts = Some \<lparr>stamp_text = ''1970-01-01T00:00:00Z'', stamp_at = 0\<rparr>,
         in_ends = None, in_cutoff = None, in_capacity = None, in_approval = Approve_automatic, in_admission = Adm_owner,
         in_admission_starts = Some \<lparr>stamp_text = ''1970-01-01T00:00:00Z'', stamp_at = 0\<rparr>, in_admission_ends = None\<rparr>;
       i = \<lparr>in_title = ''Supper'', in_venue = [], in_timezone = ''UTC'', in_starts = Some \<lparr>stamp_text = ''1970-01-01T00:00:00Z'', stamp_at = 0\<rparr>,
         in_ends = None, in_cutoff = None, in_capacity = None, in_approval = Approve_automatic, in_admission = Adm_owner,
         in_admission_starts = Some \<lparr>stamp_text = ''1970-01-01T00:00:00Z'', stamp_at = 0\<rparr>, in_admission_ends = None\<rparr>
   in \<not> window_changed ev i \<and> policies_changed ev i \<and> details_changed ev i"
  by code_simp

end
