(* ===== verification/Platform.thy ===== *)
theory Platform
  imports Attendance Reconcile EventEdit SingleUse
begin

text \<open>
  The handlers of one wedding as operations on its tables and on the admission ledger, the
  independent record that a restored backup does not roll back. Every handler runs in one
  transaction under the event's row lock, so a history is a sequence of operations; an error
  leaves the tables as they were.
\<close>

type_synonym platform = "ledger \<times> wedding"

datatype platform_op =
    Submit_op submit_env "guest_session option" uuid "rsvp_response list" string
  | Approve_op uuid uuid uuid nat
  | Remove_op uuid uuid nat
  | Event_op uuid event_input "(uuid \<times> nat) option"
  | Issue_op door_env uuid uuid uuid string
  | Process_op door_env bool uuid uuid
  | Revoke_op door_env uuid uuid nat string string
  | Reissue_op door_env uuid uuid nat string string
  | Scan_op door_env uuid uuid string string
  | Correct_op door_env uuid correction_input string
  | Sweep_op instant
  | Replay_op "uuid \<Rightarrow> bool" "uuid list"
  | Quarantine_op
  | Resolve_op operator_env uuid uuid string

definition kept :: "wedding outcome \<Rightarrow> wedding \<Rightarrow> wedding" where
  "kept r w = (case r of Inl _ \<Rightarrow> w | Inr w' \<Rightarrow> w')"

definition kept_op :: "('a \<times> wedding) outcome \<Rightarrow> wedding \<Rightarrow> wedding" where
  "kept_op r w = (case r of Inl _ \<Rightarrow> w | Inr (_, w') \<Rightarrow> w')"

lemma kept_cases: "(\<And>w'. r = Inr w' \<Longrightarrow> P w') \<Longrightarrow> P w \<Longrightarrow> P (kept r w)"
  by (simp add: kept_def split: sum.splits)

lemma kept_op_cases: "(\<And>x w'. r = Inr (x, w') \<Longrightarrow> P w') \<Longrightarrow> P w \<Longrightarrow> P (kept_op r w)"
  by (auto simp: kept_op_def split: sum.splits)

definition ledger_records :: "ledger \<Rightarrow> uuid list \<Rightarrow> (uuid \<times> ledger_record) list" where
  "ledger_records l ids = List.map_filter (\<lambda>pid. map_option (Pair pid) (l pid)) ids"

text \<open>An operation that is not a scan replies \<open>None\<close>.\<close>

fun apply_op :: "platform_op \<Rightarrow> wedding \<Rightarrow> wedding" where
  "apply_op (Submit_op env s e rs key) w = kept_op (submit env s e rs key w) w"
| "apply_op (Approve_op who e a version) w = kept (approve who e a version w) w"
| "apply_op (Remove_op who a version) w = kept (remove_guest who a version w) w"
| "apply_op (Event_op who i target) w = kept (saveEvent who i target w) w"
| "apply_op (Issue_op env who a e key) w = kept_op (issue env who a e key w) w"
| "apply_op (Process_op env leased a e) w = kept_op (process_issue env leased a e w) w"
| "apply_op (Revoke_op env who pid version reason key) w = kept_op (revoke env who pid version reason key w) w"
| "apply_op (Correct_op env who c key) w = kept_op (correction env who c key w) w"
| "apply_op (Sweep_op now) w = sweep now w"
| "apply_op Quarantine_op w = quarantineRestoredAccess w"
| "apply_op _ w = w"

fun exec_op :: "platform_op \<Rightarrow> platform \<Rightarrow> door_reply outcome option \<times> platform" where
  "exec_op (Scan_op env who e v key) (l, w) = (case redeem env who e v key l w of (r, l', w') \<Rightarrow> (Some r, l', w'))"
| "exec_op (Reissue_op env who pid version reason key) (l, w) =
     (None, l, kept_op (reissue env who pid version reason key l w) w)"
| "exec_op (Replay_op known ids) (l, w) = (None, l, admissionState known (ledger_records l ids) w)"
| "exec_op (Resolve_op env who pid reason) (l, w) =
     (None, case resolveAdmissionHold env who pid reason l w of Inl _ \<Rightarrow> (l, w) | Inr s \<Rightarrow> s)"
| "exec_op op (l, w) = (None, l, apply_op op w)"

text \<open>Did this reply let a holder in, by writing the admission now?\<close>

definition lets_in :: "uuid \<Rightarrow> door_reply outcome option \<Rightarrow> bool" where
  "lets_in pid r = (case r of Some (Inr d) \<Rightarrow> admitted_now d = Some pid | _ \<Rightarrow> False)"

end
