(* ===== verification/StaffRows.thy ===== *)
theory StaffRows
  imports Platform
begin

text \<open>
  The handlers of guests, events and passes (\<^verbatim>\<open>Platform\<close>) never write who belongs to a wedding:
  its members, its primary owner and its deletion are the account handlers' alone. This is what lets
  both parts work on one directory.
\<close>

definition staff :: "wedding \<Rightarrow> bool \<times> uuid \<times> member_row list" where
  "staff w = (deleted w, primary_owner w, members w)"

named_theorems staff_frame "statements that write no member of a wedding"

lemma staff_fold:
  assumes "\<And>x w. staff (f x w) = staff w"
  shows "staff (fold f xs w) = staff w"
  using assms by (induction xs arbitrary: w) simp_all

lemma staff_statements [staff_frame]:
  "staff (audit who action r w) = staff w" "staff (record_history pid action who reason w) = staff w"
  "staff (pass_history pid action who reason w) = staff w" "staff (add_issue_job j w) = staff w"
  "staff (ticket_jobs prefix pid version w) = staff w" "staff (set_count e g w) = staff w"
  "staff (reserve a e w) = staff w" "staff (release a e w) = staff w" "staff (store_op n1 n2 n3 n4 r1 w) = staff w"
  "staff (rename a n w) = staff w" "staff (add_hold pid txt w) = staff w" "staff (release_hold pid w) = staff w"
  "staff (replay_admission known pid r2 w) = staff w" "staff (set_rsvp_state a e st w) = staff w"
  "staff (upsert_rsvp a e st ans w) = staff w" "staff (rsvp_mails env s e key w) = staff w"
  by (simp_all add: staff_def audit_def record_history_def pass_history_def add_issue_job_def ticket_jobs_def set_count_def
      reserve_def release_def store_op_def rename_def add_hold_def release_hold_def replay_admission_def
      set_rsvp_state_def upsert_rsvp_def rsvp_mails_def Let_def)

lemma staff_fields [simp]:
  "staff (w\<lparr>passes := ps\<rparr>) = staff w" "staff (w\<lparr>rsvps := rs\<rparr>) = staff w" "staff (w\<lparr>events := es\<rparr>) = staff w"
  "staff (w\<lparr>attendees := ats\<rparr>) = staff w" "staff (w\<lparr>reservations := rv\<rparr>) = staff w"
  "staff (w\<lparr>corrections := cs\<rparr>) = staff w" "staff (w\<lparr>next_id := n\<rparr>) = staff w" "staff (w\<lparr>admissions := ad\<rparr>) = staff w"
  "staff (w\<lparr>scans := sc\<rparr>) = staff w" "staff (w\<lparr>ownership_hold := b\<rparr>) = staff w"
  by (simp_all add: staff_def)

lemma staff_revoke_where [staff_frame]:
  assumes "\<And>pid w. staff (write pid w) = staff w"
  shows "staff (revoke_where P reason write w) = staff w"
  unfolding revoke_where_def Let_def by (subst staff_fold) (simp_all add: assms)

lemma staff_renewals [staff_frame]:
  "staff (renew_tickets P prefix reason who w) = staff w" "staff (refreshTickets a who w) = staff w"
  unfolding refreshTickets_def renew_tickets_def Let_def by (subst staff_fold, simp_all add: staff_frame)+

lemma staff_once:
  assumes "once who name key hash body w = Inr (r, w')" "\<And>r w'. body = Inr (r, w') \<Longrightarrow> staff w' = staff w"
  shows "staff w' = staff w"
  using assms by (auto simp: once_def staff_frame split: sum.splits option.splits)

lemma staff_each:
  assumes "each f xs s = Inr s'" "\<And>x s s'. f x s = Inr s' \<Longrightarrow> staff (g s') = staff (g s)"
  shows "staff (g s') = staff (g s)"
  using each_invariant [where P = "\<lambda>t. staff (g t) = staff (g s)", OF assms(1)] assms(2) by simp

section \<open>Answers, places and events\<close>

lemma staff_check: "check_response w0 rows e r s = Inr s' \<Longrightarrow> staff (snd s') = staff (snd s)"
  by (auto simp: check_response_def Let_def staff_frame split: option.splits prod.splits if_splits)

lemma staff_answer: "staff (fst (snd (answer_response w0 ev q a r s))) = staff (fst (snd s))"
  by (auto simp: answer_response_def Let_def staff_frame split: prod.splits)

lemma staff_answer_all: "staff (fst (snd (answer_all w0 ev q rows rs s))) = staff (fst (snd s))"
  by (induction rs arbitrary: s) (auto simp: staff_answer split: option.splits)

lemma staff_submit_answers:
  assumes "submit_answers env s e rs w = Inr (r, w')"
  shows "staff w' = staff w"
proof -
  obtain rows ev count w1 where c: "each (check_response w rows e) rs (confirmed_count ev, w) = Inr (count, w1)"
    and w': "w' = set_count e (\<lambda>_. fst (answer_all w ev (open_questions (submit_now env) ev) rows rs (count, w1, [])))
      (fst (snd (answer_all w ev (open_questions (submit_now env) ev) rows rs (count, w1, []))))"
    using assms by (auto simp: submit_answers_def Let_def split: option.splits sum.splits prod.splits)
  have "staff w1 = staff w" using staff_each [OF c, of snd] staff_check by simp
  then show ?thesis using w' staff_answer_all by (simp add: staff_frame)
qed

lemma staff_submit: "submit env s e rs key w = Inr (r, w') \<Longrightarrow> staff w' = staff w"
  by (auto simp: submit_def staff_frame split: option.splits sum.splits elim!: staff_once dest: staff_submit_answers)

lemma staff_approve: "approve who e a version w = Inr w' \<Longrightarrow> staff w' = staff w"
  by (auto simp: approve_def Let_def staff_frame split: option.splits)

lemma staff_remove_row: "remove_row who i w = Inr w' \<Longrightarrow> staff w' = staff w"
  by (auto simp: remove_row_def Let_def staff_frame staff_fold)

lemma staff_remove_guest: "remove_guest who a version w = Inr w' \<Longrightarrow> staff w' = staff w"
  by (auto simp: remove_guest_def staff_frame split: option.splits sum.splits
      dest!: staff_each [where g = "\<lambda>w. w"] intro: staff_remove_row)

lemma staff_policy [staff_frame]: "staff (apply_policy who e version i w) = staff w"
  by (simp add: apply_policy_def queue_policy_passes_def disable_passes_def Let_def staff_frame staff_fold)

lemma staff_saveEvent: "saveEvent who i target w = Inr w' \<Longrightarrow> staff w' = staff w"
  by (auto simp: saveEvent_def update_event_def create_event_def event_guards_def Let_def staff_frame
      split: option.splits sum.splits)

section \<open>Passes and the door\<close>

lemma staff_issueIn: "issueIn env a ev who w = Inr (r, w') \<Longrightarrow> staff w' = staff w"
  by (auto simp: issueIn_def legacyHold_def Let_def staff_frame split: option.splits)

lemma staff_passes:
  "issue env who a e key w = Inr (r, w') \<Longrightarrow> staff w' = staff w"
  "process_issue env leased a e w = Inr (x, w') \<Longrightarrow> staff w' = staff w"
  "revoke env who pid version reason key w = Inr (r, w') \<Longrightarrow> staff w' = staff w"
  "reissue env who pid version reason key l w = Inr (r, w') \<Longrightarrow> staff w' = staff w"
  by (auto simp: issue_def process_issue_def revoke_def reissue_def reissue_body_def legacyHold_def staff_frame
      split: option.splits sum.splits if_splits elim!: staff_once dest: staff_issueIn)

lemma staff_sweep: "staff (sweep now w) = staff w"
  by (simp add: sweep_def Let_def staff_frame staff_fold)

lemma staff_correction: "correction env who c key w = Inr (r, w') \<Longrightarrow> staff w' = staff w"
  by (auto simp: correction_def correction_body_def correct_place_def correct_name_in_def take_place_def give_up_place_def
      Let_def staff_frame split: option.splits sum.splits if_splits bool.splits elim!: staff_once)

lemma staff_restore:
  "staff (admissionState known records w) = staff w" "staff (quarantineRestoredAccess w) = staff w"
proof -
  have "staff (replay_record known x w) = staff w" for x w
    by (auto simp: replay_record_def staff_frame split: prod.splits option.splits)
  then show "staff (admissionState known records w) = staff w" by (simp add: admissionState_def staff_fold)
  show "staff (quarantineRestoredAccess w) = staff w" by (simp add: quarantineRestoredAccess_def)
qed

lemma staff_log_scan [staff_frame]: "staff (log_scan env who e v key reply pid w) = staff w"
  by (simp add: log_scan_def staff_frame)

lemma staff_repeated: "repeated env who v key sc l w = Inr (reply, w', x) \<Longrightarrow> w' = w"
  by (auto simp: repeated_def Let_def split: sum.splits option.splits scan_state.splits if_splits)

lemma staff_admit: "admit env who e v key p l w = (Inr (reply, w', x), l') \<Longrightarrow> staff w' = staff w"
  by (auto simp: admit_def admit_writes_def Let_def staff_frame split: sum.splits prod.splits if_splits)

lemma staff_transaction:
  "redeem_transaction env who e v key l w = (Inr (reply, w', x), l') \<Longrightarrow> staff w' = staff w"
  unfolding redeem_transaction_def
  by (auto simp: staff_frame split: sum.splits option.splits door_decision.splits dest: staff_repeated staff_admit)

lemma staff_redeem: "redeem env who e v key l w = (r, l', w') \<Longrightarrow> staff w' = staff w"
  by (auto simp: redeem_def split: sum.splits prod.splits option.splits if_splits bool.splits dest!: staff_transaction)

lemma staff_resolve: "resolveAdmissionHold env who pid reason l w = Inr (l', w') \<Longrightarrow> staff w' = staff w"
  by (auto simp: resolveAdmissionHold_def sensitive_operator_def staff_frame split: option.splits sum.splits)

lemma staff_apply: "staff (apply_op x w) = staff w"
  by (cases x) (auto simp: kept_def kept_op_def staff_sweep staff_restore split: sum.splits
      dest: staff_submit staff_approve staff_remove_guest staff_saveEvent staff_passes staff_correction)

lemma staff_exec: "staff (snd (snd (exec_op x (l, w)))) = staff w"
proof (cases x)
  case (Scan_op env who e v key)
  obtain r l' w' where q: "redeem env who e v key l w = (r, l', w')" by (cases "redeem env who e v key l w")
  then show ?thesis using Scan_op staff_redeem [OF q] by simp
qed (auto simp: kept_op_def staff_apply staff_restore simp del: apply_op.simps split: sum.splits
    dest: staff_passes staff_resolve)

end
