(* ===== verification/UploadSteps.thy ===== *)
theory UploadSteps
  imports UploadRules AccountRules StaffRows
begin

text \<open>
  The media operations, the account requests and the handlers of guests, events and passes as steps
  on one directory, and the rules of \<^verbatim>\<open>UploadRules\<close> for all of them: after any history
  the usage and the allowances are accounted for.
\<close>

section \<open>The operations as steps\<close>

datatype media_op =
    Create_grant actor uuid grant_input string string
  | Revoke_grant actor uuid uuid
  | Exchange_upload string "string list" "string list" string
  | Guest_upload uuid uuid uuid string
  | Close_upload "string list"
  | Save_album actor uuid album_input nat "uuid option"
  | Intent media_actor uuid upload_intent
  | Claim media_actor uuid uuid int
  | Commit media_actor uuid uuid uuid string
  | Abort uuid uuid
  | Edit_media actor uuid uuid media_edit
  | Remove_media bool actor uuid uuid nat bool
  | Erase_copies uuid uuid
  | Reject_orphan uuid uuid
  | Mark_processing uuid uuid
  | Finish bool media_actor uuid uuid uuid processed
  | Fail_processing bool uuid uuid string
  | Sweep
  | Set_limits "uuid list" actor uuid operator_controls string

definition quietly :: "'a handled \<Rightarrow> unit handled" where
  "quietly r = (case r of Inl e \<Rightarrow> Inl e | Inr (x, d) \<Rightarrow> Inr ((), d))"

lemma quietly_Inr [simp]: "quietly r = Inr (u, d) \<longleftrightarrow> (\<exists>x. r = Inr (x, d))"
  by (auto simp: quietly_def split: sum.splits)

definition refused :: domain_error where
  "refused = Domain_error 400 ''VALIDATION_ERROR''"

text \<open>\<open>limit\<close> is the deployment's storage limit for a wedding without one of its own.\<close>

fun handle_media :: "int \<Rightarrow> instant \<Rightarrow> media_op \<Rightarrow> directory \<Rightarrow> unit handled" where
  "handle_media limit now (Create_grant a i v tok code) d =
     ensure (grant_schema v) refused (quietly (create_grant now a i v tok code d))"
| "handle_media limit now (Revoke_grant a i g) d = revoke_grant a i g d"
| "handle_media limit now (Exchange_upload slug hs us h) d = exchange_upload now slug hs us h d"
| "handle_media limit now (Guest_upload i g l h) d = upload_from_guest now i g l h d"
| "handle_media limit now (Close_upload hs) d = Inr ((), close_upload now hs d)"
| "handle_media limit now (Save_album a i v version target) d = quietly (save_album a i v version target d)"
| "handle_media limit now (Intent u i v) d =
     ensure (intent_schema v) refused (quietly (media_intent now limit u i v d))"
| "handle_media limit now (Claim u i n n_bytes) d = media_claim now u i n n_bytes d"
| "handle_media limit now (Commit u i n b checksum) d = media_commit now u i n b checksum d"
| "handle_media limit now (Abort i n) d = Inr ((), media_abort i n d)"
| "handle_media limit now (Edit_media a i n v) d = media_edit_asset now a i n v d"
| "handle_media limit now (Remove_media referenced a i n version confirmed) d =
     media_remove now referenced a i n version confirmed d"
| "handle_media limit now (Erase_copies i n) d = Inr ((), media_release i n Expired None d)"
| "handle_media limit now (Reject_orphan i n) d =
     Inr ((), media_release i n Rejected (Some ''MEDIA_PERMISSION_REVOKED'') d)"
| "handle_media limit now (Mark_processing i n) d = Inr ((), media_mark i n d)"
| "handle_media limit now (Finish leased u i n b p) d = media_finish now leased u i n b p d"
| "handle_media limit now (Fail_processing leased i n code) d = Inr ((), media_fail leased i n code d)"
| "handle_media limit now Sweep d = Inr ((), media_sweep now d)"
| "handle_media limit now (Set_limits ids a i v reason) d = operator_limits ids now limit a i v reason d"

datatype step = Account_step request | Tables_step uuid platform_op | Media_step media_op

text \<open>The admission ledger of each wedding, and the directory.\<close>

type_synonym system = "(uuid \<Rightarrow> ledger) \<times> directory"

definition tables_step :: "uuid \<Rightarrow> platform_op \<Rightarrow> system \<Rightarrow> system" where
  "tables_step i x y =
     (case find_space i (snd y) of
        None \<Rightarrow> y
      | Some s \<Rightarrow> (case exec_op x (fst y i, tables s) of
          (_, l, w) \<Rightarrow> ((fst y)(i := l), set_space i (\<lambda>s. s\<lparr>tables := w\<rparr>) (snd y))))"

fun after_step :: "int \<Rightarrow> instant \<times> step \<Rightarrow> system \<Rightarrow> system" where
  "after_step limit (now, Account_step q) y = (fst y, snd (exec_request (now, q) (snd y)))"
| "after_step limit (now, Tables_step i x) y = tables_step i x y"
| "after_step limit (now, Media_step x) y = (fst y, snd (transaction (handle_media limit now x) (snd y)))"

definition system_history :: "int \<Rightarrow> (instant \<times> step) list \<Rightarrow> system" where
  "system_history limit steps = fold (after_step limit) steps (\<lambda>_ _. None, empty_directory)"

section \<open>Rules for the directory\<close>

named_theorems metered_intros "statements that keep the usage accounted for"

lemma metered_same: "same_rows e e' \<Longrightarrow> metered e \<Longrightarrow> metered e'"
  by (auto simp: same_rows_def metered_def list_all_iff intro: metered_space_mono)

lemmas [metered_intros] = metered_same [OF audit_frame] metered_same [OF email_frame] metered_same [OF mail_link_frame]
  metered_same [OF queue_work_frame] metered_same [OF cancel_work_frame] metered_same [OF metric_frame]

lemma metered_fields [simp]:
  "metered (e\<lparr>users := us\<rparr>) = metered e" "metered (e\<lparr>account_ledger := al\<rparr>) = metered e"
  "metered (e\<lparr>account_requests := ar\<rparr>) = metered e" "metered (e\<lparr>wedding_ledger := wl\<rparr>) = metered e"
  "metered (e\<lparr>tombstones := tb\<rparr>) = metered e" "metered (e\<lparr>erasure_ledger := el\<rparr>) = metered e"
  "metered (e\<lparr>identity_tokens := ts\<rparr>) = metered e" "metered (e\<lparr>logins := ls\<rparr>) = metered e"
  by (simp_all add: metered_def)

lemma metered_bump [metered_intros]: "metered e \<Longrightarrow> metered (bump e)"
  by (rule metered_same [OF bump_frame])

lemma metered_set_space:
  assumes "metered e" "\<And>s. s \<in> set (spaces e) \<Longrightarrow> space_id s = i \<Longrightarrow> metered_space (next_row e) s \<Longrightarrow>
    metered_space (next_row e) (f s)"
  shows "metered (set_space i f e)"
  using assms by (auto simp: metered_def list_all_iff set_update_where)

lemma metered_new_in_space:
  assumes "metered e" "\<And>s. s \<in> set (spaces e) \<Longrightarrow> space_id s = i \<Longrightarrow> metered_space (next_row e) s \<Longrightarrow>
    metered_space (Suc (next_row e)) (f s)"
  shows "metered (bump (set_space i f e))"
  using assms by (auto simp: metered_def list_all_iff set_update_where bump_def intro: metered_space_mono)

lemma metered_spaces:
  assumes "metered e" "\<And>s. meters (f s) = meters s"
  shows "metered (e\<lparr>spaces := update_where P f (spaces e)\<rparr>)"
  using assms by (auto simp: metered_def list_all_iff set_update_where metered_meters [OF assms(2)])

lemma metered_quiet_space [metered_intros]:
  "metered e \<Longrightarrow> (\<And>s. meters (f s) = meters s) \<Longrightarrow> metered (set_space i f e)"
  unfolding set_space_def by (rule metered_spaces)

lemma metered_fold:
  "(\<And>x e. metered e \<Longrightarrow> metered (f x e)) \<Longrightarrow> metered e \<Longrightarrow> metered (fold f xs e)"
  by (induction xs arbitrary: e) simp_all

section \<open>Media statements leave members and invitations alone\<close>

definition media_only :: "(space \<Rightarrow> space) \<Rightarrow> bool" where
  "media_only f = (\<forall>s. space_id (f s) = space_id s \<and> tables (f s) = tables s \<and> invites (f s) = invites s)"

named_theorems media_intros "statements on the media tables of a workspace"

lemma sound_media [media_intros]: "sound_directory e \<Longrightarrow> media_only f \<Longrightarrow> sound_directory (set_space i f e)"
  by (rule sound_set_space_quiet) (simp_all add: media_only_def)

lemmas [media_intros] = sound_same [OF audit_frame] sound_same [OF queue_work_frame] sound_same [OF bump_frame]
  sound_same [OF metric_frame]

lemma media_only_simps [simp]:
  "media_only (set_assets P f)" "media_only (settle_usage a b)" "media_only (add_reserved a)"
  "media_only (ensure_usage a)" "media_only (drop_upload c x)" "media_only (reserve_upload u v x)"
  "media_only (drop_cover n t)" "media_only (set_controls a w)"
  "media_only (\<lambda>s. s\<lparr>upload_grants := gs s\<rparr>)" "media_only (\<lambda>s. s\<lparr>upload_sessions := us s\<rparr>)"
  "media_only (\<lambda>s. s\<lparr>albums := al s\<rparr>)"
  by (simp_all add: media_only_def set_assets_def settle_usage_def add_reserved_def ensure_usage_def drop_upload_def
      reserve_upload_def drop_cover_def set_controls_def Let_def split: option.split)

lemma media_only_comp [media_intros]: "media_only f \<Longrightarrow> media_only g \<Longrightarrow> media_only (f \<circ> g)"
  by (simp add: media_only_def)
section \<open>Account requests keep the accounts\<close>

lemma metered_issue: "issue_token now u p h e = Inr (t, e') \<Longrightarrow> metered e \<Longrightarrow> metered e'"
  by (auto simp: issue_token_def intro!: metered_intros)

lemma metered_consume [simp]: "metered (consume_tokens P e) = metered e" "metered (revoke_logins Q e) = metered e"
  by (simp_all add: consume_tokens_def revoke_logins_def)

lemma metered_account:
  "register now address pw h l d = Inr (u, d') \<Longrightarrow> metered d \<Longrightarrow> metered d'"
  "resendVerification now address h link d = Inr (u, d') \<Longrightarrow> metered d \<Longrightarrow> metered d'"
  "recover now address h l d = Inr (u, d') \<Longrightarrow> metered d \<Longrightarrow> metered d'"
  "verify now hs d = Inr (ts, d') \<Longrightarrow> metered d \<Longrightarrow> metered d'"
  "sign_in now address check h d = Inr (r, d') \<Longrightarrow> metered d \<Longrightarrow> metered d'"
  "reauthenticate now a check d = Inr (u, d') \<Longrightarrow> metered d \<Longrightarrow> metered d'"
  "reset now hs pw d = Inr (ts, d') \<Longrightarrow> metered d \<Longrightarrow> metered d'"
  "recoverAccount ids now a i reason d = Inr (u, d') \<Longrightarrow> metered d \<Longrightarrow> metered d'"
  by (auto simp: register_def resendVerification_def recover_def verify_def sign_in_def reauthenticate_def
      reset_def recoverAccount_def Let_def split: option.splits sum.splits list.splits if_splits
      intro!: metered_intros elim!: metered_issue)

lemma meters_refresh [simp]: "meters (refresh_service c s) = meters s"
  by (simp add: meters_def refresh_service_def Let_def split: option.split)

lemma meters_patched: "meters (patched c p s) = meters s"
  by (simp add: patched_def set_lifecycle_def Let_def meters_def refresh_service_def split: option.split)

lemma metered_patch:
  assumes "patchWedding c a i p d = Inr (u, d')" "metered d"
  shows "metered d'"
  using assms unfolding patchWedding_def Let_def
  by (auto split: option.splits intro!: metered_intros metered_spaces meters_patched)

lemma meters_members [simp]:
  "meters (s\<lparr>tables := t\<rparr>) = meters s" "meters (s\<lparr>invites := v\<rparr>) = meters s" "meters (undelete s) = meters s"
  "meters (mark_deleted now s) = meters s" "meters (join_as w x s) = meters s" "meters (close_passes who c s) = meters s"
  "meters (close_sharing now nonce c s) = meters s" "meters (close_grants now c s) = meters s"
  "meters (hand_over u1 u2 s) = meters s" "meters (reconciled u1 s) = meters s"
  by (simp_all add: meters_def undelete_def mark_deleted_def join_as_def add_member_def close_passes_def close_sharing_def
      close_grants_def hand_over_def reconciled_def Let_def map_update_where session_core_def grant_core_def)

lemma metered_create:
  assumes "createWedding now c digest a w d = Inr (n, d')" "metered d"
  shows "metered d'"
proof -
  let ?s = "new_space now (next_row d) (actor_id a) w"
  have "metered_space m ?s" for m
    by (simp add: metered_space_def rows_ok_def within_quota_def within_allowance_def new_space_def)
  then have "metered_space m (refresh_service c ?s)" for m using metered_meters meters_refresh by blast
  then have "metered (bump (d\<lparr>spaces := spaces d @ [refresh_service c ?s]\<rparr>))"
    using assms(2) by (auto simp: metered_def bump_def list_all_iff intro: metered_space_mono)
  then show ?thesis using assms(1) by (auto simp: createWedding_def Let_def intro!: metered_intros)
qed

lemma metered_members:
  "transfer now a i m d = Inr (u, d') \<Longrightarrow> metered d \<Longrightarrow> metered d'"
  "resolveOwnership ids now a i m reason d = Inr (u, d') \<Longrightarrow> metered d \<Longrightarrow> metered d'"
  "recoverWedding now a i d = Inr (u, d') \<Longrightarrow> metered d \<Longrightarrow> metered d'"
  "revokeInvite a i k d = Inr (u, d') \<Longrightarrow> metered d \<Longrightarrow> metered d'"
  "invite now a i v h l d = Inr (n, d') \<Longrightarrow> metered d \<Longrightarrow> metered d'"
  "acceptInvite now a hs d = Inr (r, d') \<Longrightarrow> metered d \<Longrightarrow> metered d'"
  unfolding transfer_def resolveOwnership_def recoverWedding_def revokeInvite_def invite_def acceptInvite_def Let_def
  by (auto split: option.splits sum.splits list.splits intro!: metered_intros)

lemma metered_delete:
  assumes "deleteWedding now nonce a i d = Inr (u, d')" "metered d"
  shows "metered d'"
  using assms unfolding deleteWedding_def quarantineWedding_def Let_def
  by (auto split: sum.splits intro!: metered_intros)

lemma metered_closing:
  assumes "requestAccountDeletion now a d = Inr (u, d')" "metered d"
  shows "metered d'"
proof -
  have "metered (e\<lparr>spaces := map (\<lambda>s. s\<lparr>tables := f s\<rparr>) (spaces e)\<rparr>)" if "metered e" for e f
    using metered_spaces [OF that, of "\<lambda>s. s\<lparr>tables := f s\<rparr>" "\<lambda>_. True"] by (simp add: update_where_def)
  then show ?thesis using assms unfolding requestAccountDeletion_def Let_def
    by (auto split: sum.splits intro!: metered_intros)
qed

section \<open>Dropping unfinished uploads, one after another\<close>

definition drop_one :: "string \<Rightarrow> (asset_row \<Rightarrow> uuid option) \<Rightarrow> instant \<Rightarrow> uuid \<times> asset_row \<Rightarrow> directory \<Rightarrow> directory" where
  "drop_one code who now p d = queue_work now (fst p) (who (snd p)) (Media_delete_work (asset_id (snd p)))
     (set_space (fst p) (drop_upload code (snd p)) d)"

definition rows_in :: "directory \<Rightarrow> (uuid \<times> asset_row) list \<Rightarrow> bool" where
  "rows_in d ps = (distinct (map (\<lambda>p. (fst p, asset_id (snd p))) ps) \<and>
     (\<forall>p\<in>set ps. \<exists>s\<in>set (spaces d). space_id s = fst p \<and> snd p \<in> set (assets s)))"

lemma sound_unique: "sound_directory d \<Longrightarrow> s \<in> set (spaces d) \<Longrightarrow> t \<in> set (spaces d) \<Longrightarrow> space_id s = space_id t \<Longrightarrow> s = t"
  by (rule space_unique) (simp_all add: sound_directory_def)

lemma drop_one_sound: "sound_directory d \<Longrightarrow> sound_directory (drop_one code who now p d)"
  unfolding drop_one_def by (intro media_intros) simp_all

lemma drop_one_metered:
  assumes "sound_directory d" "metered d" "rows_in d (p # ps)"
  shows "metered (drop_one code who now p d)"
proof -
  obtain t where t: "t \<in> set (spaces d)" "space_id t = fst p" "snd p \<in> set (assets t)"
    using assms(3) by (auto simp: rows_in_def)
  have "metered (set_space (fst p) (drop_upload code (snd p)) d)"
    by (rule metered_set_space [OF assms(2)]) (use t sound_unique [OF assms(1)] metered_drop_upload in metis)
  then show ?thesis unfolding drop_one_def by (rule metered_same [OF queue_work_frame])
qed

lemma drop_one_rows:
  assumes "rows_in d (p # ps)"
  shows "rows_in (drop_one code who now p d) ps"
proof -
  have sp: "spaces (drop_one code who now p d) = update_where (\<lambda>s. space_id s = fst p) (drop_upload code (snd p)) (spaces d)"
    by (simp add: drop_one_def queue_work_def bump_def)
  have "\<exists>s\<in>set (spaces (drop_one code who now p d)). space_id s = fst q \<and> snd q \<in> set (assets s)" if q: "q \<in> set ps" for q
  proof -
    obtain s where s: "s \<in> set (spaces d)" "space_id s = fst q" "snd q \<in> set (assets s)"
      using assms q by (auto simp: rows_in_def)
    let ?s = "if space_id s = fst p then drop_upload code (snd p) s else s"
    have other: "space_id s = fst p \<longrightarrow> asset_id (snd q) \<noteq> asset_id (snd p)"
      using assms q s(2) by (force simp: rows_in_def)
    have "?s \<in> set (spaces (drop_one code who now p d))"
      unfolding sp using s(1) by (auto simp: update_where_def)
    moreover have "snd q \<in> set (assets ?s)"
      using s(3) other by (force simp: drop_upload_def update_where_def)
    moreover have "space_id ?s = fst q" using s(2) by simp
    ultimately show ?thesis by blast
  qed
  then show ?thesis using assms by (simp add: rows_in_def)
qed

lemma drop_all:
  "sound_directory d \<Longrightarrow> metered d \<Longrightarrow> rows_in d ps \<Longrightarrow>
    sound_directory (fold (drop_one code who now) ps d) \<and> metered (fold (drop_one code who now) ps d)"
  by (induction ps arbitrary: d) (simp_all add: drop_one_sound drop_one_metered drop_one_rows)
lemma drop_one_pair:
  "drop_one code who now (i, x) =
     (\<lambda>d. queue_work now i (who x) (Media_delete_work (asset_id x)) (set_space i (drop_upload code x) d))"
  by (simp add: drop_one_def fun_eq_iff)

lemma metered_remove:
  assumes "removeMember now a i m d = Inr (u, d')" "sound_directory d" "metered d"
  shows "metered d'"
proof -
  let ?gone = "\<lambda>x. member_user x = m \<and> member_role x \<noteq> Owner"
  let ?f = "\<lambda>s. s\<lparr>tables := (tables s)\<lparr>members := filter (\<lambda>x. \<not> ?gone x) (members (tables s))\<rparr>\<rparr>"
  obtain s where s: "find_space i d = Some s"
    using assms(1) by (auto simp: removeMember_def split: option.splits)
  let ?lost = "map (Pair i) (filter (unfinished m) (assets s))"
  let ?d1 = "set_space i ?f d"
  let ?d3 = "cancel_work (\<lambda>x. work_wedding x = Some i \<and> work_requester x = Some m)
    (?d1\<lparr>erasure_ledger := erasure_ledger ?d1 @ [(Erased_member, i, m)]\<rparr>)"
  have d': "d' = audit_event (Some i) (Some (actor_id a)) ''member.removed'' (Some m)
      (fold (drop_one ''MEDIA_PERMISSION_REVOKED'' (\<lambda>_. Some (actor_id a)) now) ?lost ?d3)"
    using assms(1) s by (simp add: removeMember_def Let_def drop_one_pair fold_map o_def)
  have sp: "spaces ?d3 = update_where (\<lambda>s. space_id s = i) ?f (spaces d)" by (simp add: cancel_work_def)
  have "keeps L ?f s" for L s using owned_remove [of L "tables s" m] by (simp add: keeps_def)
  then have "sound_directory ?d1" by (intro sound_set_space [OF assms(2)])
  then have sound: "sound_directory ?d3" by (simp add: sound_same [OF cancel_work_frame])
  have metered: "metered ?d3" by (intro metered_same [OF cancel_work_frame]) (simp add: metered_intros assms(3))
  have "metered_space (next_row d) s"
    using s assms(3) find_space_SomeD by (auto simp: metered_def list_all_iff)
  then have ids: "distinct (map asset_id (assets s))" by (simp add: metered_space_def rows_ok_def)
  have "\<exists>t\<in>set (spaces ?d3). space_id t = i \<and> x \<in> set (assets t)" if "x \<in> set (assets s)" for x
    using find_space_SomeD [OF s] that unfolding sp set_update_where
    by (intro bexI [of _ "?f s"]) auto
  then have "rows_in ?d3 ?lost"
    using ids by (auto simp: rows_in_def distinct_map inj_on_def)
  then show ?thesis unfolding d' using drop_all [OF sound metered] by (intro metered_intros) blast
qed

lemma metered_act:
  assumes "act now a x d = Inr (y, d')" "sound_directory d" "metered d"
  shows "metered d'"
proof (cases x)
  case (Invite_member i v h l)
  then show ?thesis using assms by (auto simp: reply_of_Inr split: if_splits dest: metered_members(5))
qed (use assms in \<open>auto simp: reply_of_Inr dest: metered_account metered_create metered_patch metered_members
    metered_delete metered_closing metered_remove\<close>)

lemma metered_handle:
  assumes "handle now q d = Inr (y, d')" "sound_directory d" "metered d"
  shows "metered d'"
proof (cases q)
  case (Act hs x)
  then show ?thesis using assms metered_act by (auto split: option.splits)
qed (use assms in \<open>auto simp: reply_of_Inr sign_out_def dest: metered_account\<close>)

lemma metered_exec: "sound_directory d \<Longrightarrow> metered d \<Longrightarrow> metered (snd (exec_request q d))"
  using metered_handle by (auto simp: exec_request_def transaction_def split: sum.splits)

section \<open>Media operations keep the rest\<close>

lemma sound_new_upload:
  "new_session now source h until files bytes i d = Inr (u, d') \<Longrightarrow> sound_directory d \<Longrightarrow> sound_directory d'"
  "create_grant now a i v tok code d = Inr (n, d') \<Longrightarrow> sound_directory d \<Longrightarrow> sound_directory d'"
  "revoke_grant a i g d = Inr (u, d') \<Longrightarrow> sound_directory d \<Longrightarrow> sound_directory d'"
  unfolding new_session_def create_grant_def revoke_grant_def Let_def
  by (auto intro!: media_intros)

lemma sound_exchange:
  "exchange_upload now slug hs us h d = Inr (u, d') \<Longrightarrow> sound_directory d \<Longrightarrow> sound_directory d'"
  "upload_from_guest now i g l h d = Inr (u, d') \<Longrightarrow> sound_directory d \<Longrightarrow> sound_directory d'"
  unfolding exchange_upload_def upload_from_guest_def
  by (auto split: list.splits intro: sound_new_upload)

lemma close_upload_space:
  "meters (s\<lparr>upload_sessions := update_where P (\<lambda>x. x\<lparr>upload_expires := now\<rparr>) (upload_sessions s)\<rparr>) = meters s"
  by (simp add: meters_def map_update_where session_core_def)

lemma sound_close_upload: "sound_directory d \<Longrightarrow> sound_directory (close_upload now hs d)"
  unfolding close_upload_def sound_directory_def keys_ok_def row_keys_def all_invites_def spaces_ok_def live_users_def
  by (simp add: o_def)

lemma sound_albums:
  assumes "save_album a i v version target d = Inr (n, d')" "sound_directory d"
  shows "sound_directory d'"
  using assms unfolding save_album_def Let_def
  by (auto split: option.splits if_splits intro!: media_intros)

lemma sound_transfers:
  "media_intent now limit u i v d = Inr (n, d') \<Longrightarrow> sound_directory d \<Longrightarrow> sound_directory d'"
  "media_claim now u i k nb d = Inr (x, d') \<Longrightarrow> sound_directory d \<Longrightarrow> sound_directory d'"
  "media_commit now u i k b checksum d = Inr (x, d') \<Longrightarrow> sound_directory d \<Longrightarrow> sound_directory d'"
  "media_finish now leased u i k b p d = Inr (x, d') \<Longrightarrow> sound_directory d \<Longrightarrow> sound_directory d'"
  unfolding media_intent_def media_claim_def media_commit_def media_finish_def Let_def
  by (auto split: option.splits sum.splits if_splits intro!: media_intros)

lemma sound_curation:
  "media_edit_asset now a i k e d = Inr (x, d') \<Longrightarrow> sound_directory d \<Longrightarrow> sound_directory d'"
  "media_remove now referenced a i k version confirmed d = Inr (x, d') \<Longrightarrow> sound_directory d \<Longrightarrow> sound_directory d'"
  "operator_limits ids now limit a i w reason d = Inr (x, d') \<Longrightarrow> sound_directory d \<Longrightarrow> sound_directory d'"
  unfolding media_edit_asset_def media_remove_def operator_limits_def Let_def
  by (auto split: option.splits sum.splits if_splits intro!: media_intros)

lemma media_release_settled:
  "media_release i n state error d = set_space i (\<lambda>s. case find_asset n s of None \<Rightarrow> s
     | Some x \<Rightarrow> settled n (- actual_bytes x) (- reserved_for x)
         (\<lambda>y. y\<lparr>asset_processing := state, reserved_for := 0, actual_bytes := 0, asset_error := error,
             asset_version := Suc (asset_version y)\<rparr>) s) d"
  unfolding media_release_def settled_def ..

lemma sound_release: "sound_directory d \<Longrightarrow> sound_directory (media_release i n state error d)"
  unfolding media_release_settled
  by (rule sound_media) (auto simp: media_only_def settled_def set_assets_def settle_usage_def split: option.split)

lemma sound_worker:
  "sound_directory d \<Longrightarrow> sound_directory (media_abort i n d)"
  "sound_directory d \<Longrightarrow> sound_directory (media_mark i n d)"
  "sound_directory d \<Longrightarrow> sound_directory (media_fail leased i n code d)"
  by (simp_all add: media_abort_def media_mark_def media_fail_def sound_release media_intros)
lemma metered_new_upload:
  "new_session now source h until files bytes i d = Inr (u, d') \<Longrightarrow> 0 \<le> files \<Longrightarrow> 0 \<le> bytes \<Longrightarrow> metered d \<Longrightarrow> metered d'"
  "create_grant now a i v tok code d = Inr (n, d') \<Longrightarrow> grant_schema v \<Longrightarrow> metered d \<Longrightarrow> metered d'"
  "revoke_grant a i g d = Inr (u, d') \<Longrightarrow> metered d \<Longrightarrow> metered d'"
proof -
  show "metered d'" if "new_session now source h until files bytes i d = Inr (u, d')" "0 \<le> files" "0 \<le> bytes" "metered d"
  proof -
    let ?l = "\<lparr>upload_id = next_row d, upload_hash = h, upload_source = source,
      upload_expires = min until (now + days 1), files_reserved = 0, bytes_reserved = 0,
      file_limit = files, byte_limit = bytes, upload_created = now\<rparr>"
    have "d' = bump (set_space i (\<lambda>s. s\<lparr>upload_sessions := upload_sessions s @ [?l]\<rparr>) d)"
      using that(1) by (simp add: new_session_def)
    then show ?thesis using that(2-) by (simp only:) (intro metered_new_in_space metered_new_session, simp_all)
  qed
  show "metered d'" if c: "create_grant now a i v tok code d = Inr (n, d')" "grant_schema v" "metered d"
  proof -
    let ?g = "\<lparr>grant_id = next_row d, grant_event = grant_for_event v, grant_album = grant_for_album v,
      grant_token = tok, grant_code = code, grant_expires = grant_until v, grant_revoked = False,
      grant_files = grant_file_limit v, grant_bytes = grant_byte_limit v, grant_created = now\<rparr>"
    have d': "d' = audit_event (Some i) (Some (actor_id a)) ''upload.grant_created'' (Some (next_row d))
         (bump (set_space i (\<lambda>s. s\<lparr>upload_grants := upload_grants s @ [?g]\<rparr>) d))"
      using c(1) by (auto simp: create_grant_def Let_def)
    have "metered (set_space i (\<lambda>s. s\<lparr>upload_grants := upload_grants s @ [?g]\<rparr>) d)"
      by (intro metered_set_space metered_new_grant) (use c(2,3) in \<open>simp_all add: grant_schema_def\<close>)
    then show ?thesis unfolding d' by (intro metered_same [OF audit_frame] metered_bump)
  qed
  show "metered d'" if "revoke_grant a i g d = Inr (u, d')" "metered d"
    using that unfolding revoke_grant_def
    by (auto intro!: metered_intros simp: meters_def map_update_where grant_core_def)
qed

lemma grant_limits:
  assumes "metered d" "s \<in> set (spaces d)" "g \<in> set (upload_grants s)"
  shows "0 \<le> grant_files g \<and> 0 \<le> grant_bytes g"
  using assms by (auto simp: metered_def metered_space_def rows_ok_def list_all_iff grant_core_def)

lemma metered_exchange:
  "exchange_upload now slug hs us h d = Inr (u, d') \<Longrightarrow> metered d \<Longrightarrow> metered d'"
  "upload_from_guest now i g l h d = Inr (u, d') \<Longrightarrow> metered d \<Longrightarrow> metered d'"
proof -
  show "metered d'" if e: "exchange_upload now slug hs us h d = Inr (u, d')" "metered d"
  proof -
    obtain k x rest where m: "matching_grants now slug hs us d = (k, x) # rest"
      "new_session now (By_upload_grant (grant_id x)) h (grant_expires x) (grant_files x) (grant_bytes x) k d = Inr (u, d')"
      using e(1) by (auto simp: exchange_upload_def split: list.splits)
    have "(k, x) \<in> set (matching_grants now slug hs us d)" by (simp add: m(1))
    then obtain s where "s \<in> set (spaces d)" "x \<in> set (upload_grants s)" by (auto simp: matching_grants_def)
    then show ?thesis using metered_new_upload(1) [OF m(2)] grant_limits [OF e(2)] e(2) by blast
  qed
  show "metered d'" if e: "upload_from_guest now i g l h d = Inr (u, d')" "metered d"
    using e by (auto simp: upload_from_guest_def split: list.splits elim!: metered_new_upload(1))
qed

lemma metered_close_upload: "metered d \<Longrightarrow> metered (close_upload now hs d)"
  using metered_spaces [of d "\<lambda>s. s\<lparr>upload_sessions := update_where (\<lambda>x. upload_hash x \<in> set hs)
     (\<lambda>x. x\<lparr>upload_expires := now\<rparr>) (upload_sessions s)\<rparr>" "\<lambda>_. True"]
  by (simp add: close_upload_def update_where_def [where f = "\<lambda>s. s\<lparr>upload_sessions := us s\<rparr>" for us] close_upload_space)

lemma meters_albums [simp]: "meters (s\<lparr>albums := al\<rparr>) = meters s" "meters (drop_cover n t s) = meters s"
  by (simp_all add: meters_def drop_cover_def split: option.split)

lemma metered_albums:
  assumes "save_album a i v version target d = Inr (n, d')" "metered d"
  shows "metered d'"
  using assms unfolding save_album_def Let_def
  by (auto split: option.splits if_splits intro!: metered_intros)

lemma meters_edited [simp]:
  "meters (set_assets P (\<lambda>x. x\<lparr>asset_processing := st\<rparr>) s) = meters s"
  "meters (set_assets P (\<lambda>x. x\<lparr>asset_processing := st, asset_checksum := c, asset_version := w x\<rparr>) s) = meters s"
  "meters (set_assets P (\<lambda>x. x\<lparr>asset_deleted := b, asset_version := w x\<rparr>) s) = meters s"
  "meters (set_assets P (edited e) s) = meters s"
  by (intro meters_set_assets; simp add: amounts_def edited_def)+

lemma metered_transfers:
  "media_claim now u i k nb d = Inr (x, d') \<Longrightarrow> metered d \<Longrightarrow> metered d'"
  "media_commit now u i k b checksum d = Inr (x, d') \<Longrightarrow> metered d \<Longrightarrow> metered d'"
  "media_edit_asset now a i k e d = Inr (x, d') \<Longrightarrow> metered d \<Longrightarrow> metered d'"
  "media_remove now referenced a i k version confirmed d = Inr (x, d') \<Longrightarrow> metered d \<Longrightarrow> metered d'"
  "metered d \<Longrightarrow> metered (media_abort i k d)"
  "metered d \<Longrightarrow> metered (media_mark i k d)"
  unfolding media_claim_def media_commit_def media_edit_asset_def media_remove_def media_abort_def media_mark_def Let_def
  by (auto split: option.splits sum.splits if_splits intro!: metered_intros)

lemma new_asset_amounts [simp]:
  "asset_id (new_asset now n u ok v) = n" "reserved_for (new_asset now n u ok v) = reservation (intent_bytes v)"
  "actual_bytes (new_asset now n u ok v) = 0" "expected_bytes (new_asset now n u ok v) = intent_bytes v"
  "asset_session (new_asset now n u ok v) = (case u of Staff _ \<Rightarrow> None | Visitor l \<Rightarrow> Some l)"
  "upload_sessions (ensure_usage m s) = upload_sessions s"
  by (simp_all add: new_asset_def ensure_usage_def)

lemma metered_intent:
  assumes "media_intent now limit u i v d = Inr (n, d')" "intent_schema v" "0 \<le> limit" "sound_directory d" "metered d"
  shows "metered d'"
proof -
  obtain role s0 where r: "scope now u i (Some (intent_album v)) d = Inr role" and g: "find_space i d = Some s0"
    using assms(1) by (auto simp: media_intent_def split: sum.splits option.splits)
  let ?x = "new_asset now (next_row d) u (case role of None \<Rightarrow> False | Some r \<Rightarrow> owner_side r) v"
  have fit: "fits (reservation (intent_bytes v)) (ensure_usage limit s0)"
    and room: "case u of Staff _ \<Rightarrow> True | Visitor l \<Rightarrow> list_ex (session_has_room (intent_bytes v) l)
      (upload_sessions (ensure_usage limit s0))"
    and d': "d' = bump (set_space i (reserve_upload u v ?x \<circ> ensure_usage limit) d)"
    using assms(1) by (auto simp add: media_intent_def Let_def r g)
  show ?thesis unfolding d'
  proof (rule metered_new_in_space [OF assms(5)])
    fix s
    assume s: "s \<in> set (spaces d)" "space_id s = i" "metered_space (next_row d) s"
    have eq: "s0 = s" using sound_unique [OF assms(4)] find_space_SomeD [OF g] s by blast
    obtain q where q: "usage (ensure_usage limit s) = Some q"
      "stored_bytes q + reserved_bytes q + reservation (intent_bytes v) \<le> limit_bytes q"
      using fit eq by (auto simp: fits_def split: option.splits)
    have pos: "0 \<le> reservation (intent_bytes v)" using assms(2) by (simp add: intent_schema_def reservation_def)
    show "metered_space (Suc (next_row d)) ((reserve_upload u v ?x \<circ> ensure_usage limit) s)"
      unfolding o_def
      by (rule metered_reserve [OF metered_new_usage [OF s(3) assms(3)] q(1)])
        (use q(2) pos room [unfolded eq] in \<open>simp_all\<close>)
  qed
qed
lemma metered_space_at: "metered d \<Longrightarrow> find_space i d = Some s \<Longrightarrow> metered_space (next_row d) s"
  using find_space_SomeD by (auto simp: metered_def list_all_iff)

lemma find_asset_SomeD: "find_asset k s = Some x \<Longrightarrow> x \<in> set (assets s) \<and> asset_id x = k"
  unfolding find_asset_def by (drule find_SomeD)

lemma metered_release:
  assumes "metered d"
  shows "metered (media_release i k state error d)"
  unfolding media_release_settled
proof (rule metered_set_space [OF assms])
  fix s
  assume s: "metered_space (next_row d) s"
  let ?f = "\<lambda>y. y\<lparr>asset_processing := state, reserved_for := 0, actual_bytes := 0, asset_error := error,
             asset_version := Suc (asset_version y)\<rparr>"
  show "metered_space (next_row d) (case find_asset k s of None \<Rightarrow> s
     | Some x \<Rightarrow> settled k (- actual_bytes x) (- reserved_for x) ?f s)"
  proof (cases "find_asset k s")
    case (Some x)
    then have x: "x \<in> set (assets s)" "asset_id x = k" using find_asset_SomeD by auto
    obtain q where q: "usage s = Some q" using metered_usage [OF s x(1)] by blast
    have "metered_space (next_row d) (settled (asset_id x) (- actual_bytes x) (- reserved_for x) ?f s)"
      by (rule metered_settled [OF s x(1), where q = q])
        (use q row_nonneg [OF s x(1)] metered_quota [OF s q] in auto)
    then show ?thesis using Some x(2) by simp
  qed (use s in simp)
qed

lemma metered_fail: "metered d \<Longrightarrow> metered (media_fail leased i k code d)"
  by (simp add: media_fail_def metered_release)

lemma metered_finish:
  assumes "media_finish now leased u i k b p d = Inr (x, d')" "sound_directory d" "metered d"
  shows "metered d'"
proof -
  obtain s y q where s: "find_space i d = Some s" "find_asset k s = Some y" and q: "usage s = Some q"
    "stored_bytes q + reserved_bytes q - reserved_for y + total_size p \<le> limit_bytes q"
    and d': "d' = set_space i (set_assets (\<lambda>y. asset_id y = k) (finished p) \<circ> settle_usage (total_size p) (- reserved_for y)) d \<or>
      d' = metric i ''approved_upload'' (Metric_of ''approved_upload'' i k)
        (set_space i (set_assets (\<lambda>y. asset_id y = k) (finished p) \<circ> settle_usage (total_size p) (- reserved_for y)) d)"
    using assms(1) unfolding media_finish_def Let_def by (auto split: sum.splits option.splits if_splits)
  have y: "y \<in> set (assets s)" "asset_id y = k" using find_asset_SomeD [OF s(2)] by auto
  have "metered_space (next_row d) (settled (asset_id y) (total_size p) (- reserved_for y) (finished p) s)"
    by (rule metered_settled [OF metered_space_at [OF assms(3) s(1)] y(1), where q = q])
      (use q row_nonneg [OF metered_space_at [OF assms(3) s(1)] y(1)] in \<open>auto simp: finished_def total_size_def\<close>)
  then have "metered (set_space i (set_assets (\<lambda>y. asset_id y = k) (finished p) \<circ> settle_usage (total_size p) (- reserved_for y)) d)"
    using sound_unique [OF assms(2)] find_space_SomeD [OF s(1)] y(2) unfolding settled_def
    by (intro metered_set_space [OF assms(3)]) (metis comp_apply)
  then show ?thesis using d' by (auto intro: metered_same [OF metric_frame])
qed

lemma metered_limits:
  assumes "operator_limits ids now limit a i w reason d = Inr (x, d')" "0 \<le> limit" "sound_directory d" "metered d"
  shows "metered d'"
proof -
  obtain s q where s: "List.find (\<lambda>s. space_id s = i \<and> \<not> deleted (tables s)) (spaces d) = Some s"
    and q: "usage (ensure_usage limit s) = Some q" "stored_bytes q + reserved_bytes q \<le> controls_limit w"
    and d': "d' = audit_event (Some i) (Some (actor_id a)) ''operator.controls_changed'' (Some i)
      (set_space i (set_controls limit w) d)"
    using assms(1) unfolding operator_limits_def by (auto split: sum.splits option.splits)
  have m: "s \<in> set (spaces d)" "space_id s = i" using find_SomeD [OF s] by auto
  have "metered (set_space i (set_controls limit w) d)"
  proof (rule metered_set_space [OF assms(4)])
    fix t
    assume t: "t \<in> set (spaces d)" "space_id t = i" "metered_space (next_row d) t"
    have eq: "s = t" using sound_unique [OF assms(3)] m t by blast
    show "metered_space (next_row d) (set_controls limit w t)"
      by (rule metered_limit [OF metered_new_usage [OF t(3) assms(2)] q [unfolded eq], where b = "controls_uploads w"])
        (use q [unfolded eq] in \<open>simp_all add: set_controls_def Let_def\<close>)
  qed
  then show ?thesis unfolding d' by (rule metered_same [OF audit_frame])
qed

text \<open>The batch of the sweep is made of rows of the tables, each once.\<close>

lemma overdue_rows_in:
  assumes "sound_directory d" "metered d"
  shows "rows_in d (overdue_rows now d)"
proof -
  have space_ids: "distinct (map space_id (spaces d))" using assms(1) by (simp add: sound_directory_def keys_ok_def)
  have "distinct (map (\<lambda>p. (fst p, asset_id (snd p))) (concat (map (\<lambda>s. map (Pair (space_id s)) (filter (overdue now) (assets s))) ss)))"
    if "distinct (map space_id ss)" "list_all (metered_space (next_row d)) ss" for ss
    using that
  proof (induction ss)
    case (Cons s ss)
    have "distinct (map asset_id (assets s))" using Cons.prems(2) by (simp add: metered_space_def rows_ok_def)
    then have "distinct (map (\<lambda>x. (space_id s, asset_id x)) (filter (overdue now) (assets s)))"
      by (auto simp: distinct_map inj_on_def)
    then show ?case using Cons by (auto simp: o_def image_iff)
  qed simp
  from this [OF space_ids] assms(2) show ?thesis
    by (auto simp: rows_in_def overdue_rows_def metered_def)
qed

lemma sweep_keeps:
  assumes "sound_directory d" "metered d"
  shows "sound_directory (media_sweep now d) \<and> metered (media_sweep now d)"
proof -
  let ?ps = "take 100 (sort_key (\<lambda>(i, x). asset_expires x) (sort_key (\<lambda>(i, x). asset_id x) (overdue_rows now d)))"
  have "(\<lambda>(i, x). expire_upload now i x) = drop_one ''UPLOAD_EXPIRED'' asset_creator now"
    by (simp add: fun_eq_iff expire_upload_def drop_one_def)
  then have sweep: "media_sweep now d = fold (drop_one ''UPLOAD_EXPIRED'' asset_creator now) ?ps d"
    by (simp add: media_sweep_def)
  let ?k = "\<lambda>p. (fst p, asset_id (snd p))"
  let ?qs = "sort_key (\<lambda>(i, x). asset_expires x) (sort_key (\<lambda>(i, x). asset_id x) (overdue_rows now d))"
  have "mset (map ?k ?qs) = mset (map ?k (overdue_rows now d))" by simp
  then have "distinct (map ?k ?qs) = distinct (map ?k (overdue_rows now d))" by (rule mset_eq_imp_distinct_iff)
  then have "distinct (map ?k ?ps)" using overdue_rows_in [OF assms] by (simp add: rows_in_def take_map [symmetric])
  moreover have "set ?ps \<subseteq> set (overdue_rows now d)" using set_take_subset by fastforce
  ultimately have "rows_in d ?ps" using overdue_rows_in [OF assms] unfolding rows_in_def by blast
  then show ?thesis unfolding sweep by (rule drop_all [OF assms])
qed

section \<open>Every step keeps the accounts\<close>

lemma handle_media_keeps:
  assumes "handle_media limit now x d = Inr (u, d')" "0 \<le> limit" "sound_directory d" "metered d"
  shows "sound_directory d' \<and> metered d'"
proof (cases x)
  case Sweep
  then show ?thesis using assms sweep_keeps by auto
next
  case (Intent u i v)
  then show ?thesis using assms metered_intent by (auto dest: sound_transfers)
next
  case (Finish leased u i k b p)
  then show ?thesis using assms metered_finish by (auto dest: sound_transfers)
next
  case (Set_limits ids a i v reason)
  then show ?thesis using assms metered_limits by (auto dest: sound_curation)
next
  case (Create_grant a i v tok code)
  then show ?thesis using assms metered_new_upload(2) by (auto dest: sound_new_upload)
qed (use assms in \<open>auto simp: sound_close_upload metered_close_upload sound_worker sound_release metered_release
    metered_fail metered_transfers
    dest: sound_new_upload sound_exchange sound_albums sound_transfers sound_curation
      metered_new_upload(3) metered_exchange metered_albums metered_transfers\<close>)

lemma tables_step_keeps:
  assumes "sound_directory (snd y)" "metered (snd y)"
  shows "sound_directory (snd (tables_step i x y)) \<and> metered (snd (tables_step i x y))"
proof (cases "find_space i (snd y)")
  case (Some s)
  obtain r l w where e: "exec_op x (fst y i, tables s) = (r, l, w)" by (cases "exec_op x (fst y i, tables s)")
  then have "staff w = staff (tables s)" using staff_exec [of x "fst y i" "tables s"] by simp
  then have "owned L (tables s) \<longrightarrow> owned L w" for L by (simp add: staff_def owned_def)
  then have "keeps L (\<lambda>s. s\<lparr>tables := w\<rparr>) t" if "t \<in> set (spaces (snd y))" "space_id t = i" for t L
    using sound_unique [OF assms(1)] find_space_SomeD [OF Some] that unfolding keeps_def by fastforce
  then have "sound_directory (set_space i (\<lambda>s. s\<lparr>tables := w\<rparr>) (snd y))" by (intro sound_set_space [OF assms(1)])
  moreover have "metered (set_space i (\<lambda>s. s\<lparr>tables := w\<rparr>) (snd y))"
    by (intro metered_quiet_space assms(2)) simp
  ultimately show ?thesis using Some e by (simp add: tables_step_def)
qed (use assms in \<open>simp add: tables_step_def\<close>)

lemma after_step_keeps:
  assumes "0 \<le> limit" "sound_directory (snd y)" "metered (snd y)"
  shows "sound_directory (snd (after_step limit q y)) \<and> metered (snd (after_step limit q y))"
proof (cases q)
  case (Pair now st)
  then show ?thesis
  proof (cases st)
    case (Account_step r)
    then show ?thesis using Pair assms metered_exec sound_exec by simp
  next
    case (Tables_step i x)
    then show ?thesis using Pair assms tables_step_keeps by simp
  next
    case (Media_step x)
    then show ?thesis using Pair assms handle_media_keeps [of limit now x "snd y"]
      by (auto simp: transaction_def split: sum.splits)
  qed
qed

lemma history_keeps:
  assumes "0 \<le> limit"
  shows "sound_directory (snd (system_history limit steps)) \<and> metered (snd (system_history limit steps))"
proof -
  have "sound_directory (snd (fold (after_step limit) steps y)) \<and> metered (snd (fold (after_step limit) steps y))"
    if "sound_directory (snd y)" "metered (snd y)" for y
    using that by (induction steps arbitrary: y) (simp_all add: after_step_keeps [OF assms])
  moreover have "metered empty_directory" by (simp add: metered_def empty_directory_def)
  ultimately show ?thesis using sound_empty by (simp add: system_history_def)
qed

end
