(* ===== verification/AssetViews.thy ===== *)
theory AssetViews
  imports UploadSteps AccountProgress
begin

text \<open>
  Views of the media rows that most statements can only narrow: the approved rows and the rows that
  are not deleted. A locale states what such a view looks at; what it proves of the operations is
  used for both.
\<close>

definition viewed :: "(asset_row \<Rightarrow> uuid set) \<Rightarrow> directory \<Rightarrow> (uuid \<times> uuid) set" where
  "viewed view d = (\<Union>s\<in>set (spaces d). \<Union>x\<in>set (assets s). Pair (space_id s) ` view x)"

lemma in_viewed: "(i, k) \<in> viewed view d \<longleftrightarrow> (\<exists>s\<in>set (spaces d). space_id s = i \<and> (\<exists>x\<in>set (assets s). k \<in> view x))"
  by (auto simp: viewed_def)

definition approved_view :: "asset_row \<Rightarrow> uuid set" where
  "approved_view x = (if asset_moderation x = Mod_approved then {asset_id x} else {})"

definition live_view :: "asset_row \<Rightarrow> uuid set" where
  "live_view x = (if asset_deleted x then {} else {asset_id x})"

definition narrower :: "(asset_row \<Rightarrow> uuid set) \<Rightarrow> (space \<Rightarrow> space) \<Rightarrow> bool" where
  "narrower view f = (\<forall>s. space_id (f s) = space_id s \<and> (\<Union>x\<in>set (assets (f s)). view x) \<subseteq> (\<Union>x\<in>set (assets s). view x))"

lemma narrower_same: "(\<And>s. space_id (f s) = space_id s \<and> assets (f s) = assets s) \<Longrightarrow> narrower view f"
  by (simp add: narrower_def)

lemma narrower_comp: "narrower view f \<Longrightarrow> narrower view g \<Longrightarrow> narrower view (f \<circ> g)"
  by (fastforce simp: narrower_def)

lemma viewed_same: "same_rows e e' \<Longrightarrow> viewed view e \<subseteq> R \<Longrightarrow> viewed view e' \<subseteq> R"
  by (simp add: viewed_def same_rows_def)

lemma viewed_fields [simp]:
  "viewed view (e\<lparr>users := us\<rparr>) = viewed view e" "viewed view (e\<lparr>account_ledger := al\<rparr>) = viewed view e"
  "viewed view (e\<lparr>account_requests := ar\<rparr>) = viewed view e" "viewed view (e\<lparr>wedding_ledger := wl\<rparr>) = viewed view e"
  "viewed view (e\<lparr>tombstones := tb\<rparr>) = viewed view e" "viewed view (e\<lparr>erasure_ledger := el\<rparr>) = viewed view e"
  "viewed view (e\<lparr>identity_tokens := ts\<rparr>) = viewed view e" "viewed view (e\<lparr>logins := ls\<rparr>) = viewed view e"
  "viewed view (consume_tokens P e) = viewed view e" "viewed view (revoke_logins Q e) = viewed view e"
  "viewed view (bump e) = viewed view e"
  by (simp_all add: viewed_def consume_tokens_def revoke_logins_def bump_def)

lemma viewed_spaces:
  assumes "narrower view f" "viewed view e \<subseteq> R"
  shows "viewed view (e\<lparr>spaces := update_where P f (spaces e)\<rparr>) \<subseteq> R"
proof (rule subset_trans [OF _ assms(2)], rule subrelI)
  fix i k
  assume "(i, k) \<in> viewed view (e\<lparr>spaces := update_where P f (spaces e)\<rparr>)"
  then obtain t where t: "t \<in> set (update_where P f (spaces e))" "space_id t = i" "\<exists>x\<in>set (assets t). k \<in> view x"
    by (auto simp: in_viewed)
  then obtain s where s: "s \<in> set (spaces e)" "t = s \<or> t = f s" by (auto simp: update_where_def)
  have "space_id (f s) = space_id s" "(\<Union>x\<in>set (assets (f s)). view x) \<subseteq> (\<Union>x\<in>set (assets s). view x)"
    using assms(1) by (simp_all add: narrower_def)
  then have "space_id s = i" "\<exists>x\<in>set (assets s). k \<in> view x" using t s(2) by auto
  then show "(i, k) \<in> viewed view e" using s(1) by (auto simp: in_viewed)
qed

named_theorems viewed_intros "statements that show no more"

lemma viewed_set_space [viewed_intros]: "viewed view e \<subseteq> R \<Longrightarrow> narrower view f \<Longrightarrow> viewed view (set_space i f e) \<subseteq> R"
  unfolding set_space_def by (rule viewed_spaces)

lemmas [viewed_intros] = viewed_same [OF audit_frame] viewed_same [OF email_frame] viewed_same [OF mail_link_frame]
  viewed_same [OF queue_work_frame] viewed_same [OF cancel_work_frame] viewed_same [OF metric_frame]

lemma viewed_fold:
  "(\<And>x e. viewed view e \<subseteq> R \<Longrightarrow> viewed view (f x e) \<subseteq> R) \<Longrightarrow> viewed view e \<subseteq> R \<Longrightarrow> viewed view (fold f xs e) \<subseteq> R"
  by (induction xs arbitrary: e) simp_all

section \<open>Statements that leave the media rows alone\<close>

lemma narrower_members [simp]:
  "narrower view (\<lambda>s. s\<lparr>tables := t s\<rparr>)" "narrower view (\<lambda>s. s\<lparr>invites := v s\<rparr>)" "narrower view undelete"
  "narrower view (mark_deleted now)" "narrower view (join_as w z)" "narrower view (close_passes who c)"
  "narrower view (close_sharing now nonce c)" "narrower view (close_grants now c)"
  "narrower view (hand_over u1 u2)" "narrower view (reconciled u1)" "narrower view (patched cal p)"
  "narrower view (\<lambda>s. s\<lparr>upload_grants := gs s\<rparr>)" "narrower view (\<lambda>s. s\<lparr>upload_sessions := us s\<rparr>)"
  "narrower view (\<lambda>s. s\<lparr>albums := al s\<rparr>)" "narrower view (ensure_usage m)" "narrower view (set_controls m o1)"
  "narrower view (drop_cover n b)" "narrower view (settle_usage a b1)"
  by (rule narrower_same; simp add: undelete_def mark_deleted_def join_as_def add_member_def close_passes_def
      close_sharing_def close_grants_def hand_over_def reconciled_def patched_def set_lifecycle_def refresh_service_def
      ensure_usage_def set_controls_def drop_cover_def settle_usage_def Let_def split: option.split)+

lemma viewed_issue: "issue_token now u p h e = Inr (t, e') \<Longrightarrow> viewed view e \<subseteq> R \<Longrightarrow> viewed view e' \<subseteq> R"
  by (auto simp: issue_token_def intro!: viewed_intros del: subsetI)

lemma viewed_account:
  "register now address pw h l d = Inr (u, d') \<Longrightarrow> viewed view d' \<subseteq> viewed view d"
  "resendVerification now address h link d = Inr (u, d') \<Longrightarrow> viewed view d' \<subseteq> viewed view d"
  "recover now address h l d = Inr (u, d') \<Longrightarrow> viewed view d' \<subseteq> viewed view d"
  "verify now hs d = Inr (ts, d') \<Longrightarrow> viewed view d' \<subseteq> viewed view d"
  "sign_in now address check h d = Inr (r, d') \<Longrightarrow> viewed view d' \<subseteq> viewed view d"
  "reauthenticate now a check d = Inr (u, d') \<Longrightarrow> viewed view d' \<subseteq> viewed view d"
  "reset now hs pw d = Inr (ts, d') \<Longrightarrow> viewed view d' \<subseteq> viewed view d"
  "recoverAccount ids now a i reason d = Inr (u, d') \<Longrightarrow> viewed view d' \<subseteq> viewed view d"
  by (auto simp: register_def resendVerification_def recover_def verify_def sign_in_def reauthenticate_def
      reset_def recoverAccount_def Let_def split: option.splits sum.splits list.splits if_splits
      intro!: viewed_intros elim!: viewed_issue del: subsetI)

lemma viewed_members:
  "patchWedding cal a i p d = Inr (u, d') \<Longrightarrow> viewed view d' \<subseteq> viewed view d"
  "transfer now a i m d = Inr (u, d') \<Longrightarrow> viewed view d' \<subseteq> viewed view d"
  "resolveOwnership ids now a i m reason d = Inr (u, d') \<Longrightarrow> viewed view d' \<subseteq> viewed view d"
  "recoverWedding now a i d = Inr (u, d') \<Longrightarrow> viewed view d' \<subseteq> viewed view d"
  "revokeInvite a i k d = Inr (u, d') \<Longrightarrow> viewed view d' \<subseteq> viewed view d"
  "invite now a i v h l d = Inr (n, d') \<Longrightarrow> viewed view d' \<subseteq> viewed view d"
  "acceptInvite now a hs d = Inr (r, d') \<Longrightarrow> viewed view d' \<subseteq> viewed view d"
  "deleteWedding now nonce a i d = Inr (u, d') \<Longrightarrow> viewed view d' \<subseteq> viewed view d"
  unfolding patchWedding_def transfer_def resolveOwnership_def recoverWedding_def revokeInvite_def invite_def acceptInvite_def
    deleteWedding_def quarantineWedding_def Let_def
  by (auto split: option.splits sum.splits list.splits intro!: viewed_intros viewed_spaces narrower_comp del: subsetI)

lemma viewed_create:
  assumes "createWedding now c digest a w d = Inr (n, d')"
  shows "viewed view d' \<subseteq> viewed view d"
proof -
  let ?s = "refresh_service c (new_space now (next_row d) (actor_id a) w)"
  have "assets ?s = []" by (simp add: refresh_service_def new_space_def Let_def split: option.split)
  then have "viewed view (d\<lparr>spaces := spaces d @ [?s]\<rparr>) \<subseteq> viewed view d" by (simp add: viewed_def)
  then have "viewed view (bump (d\<lparr>spaces := spaces d @ [?s]\<rparr>)) \<subseteq> viewed view d" by (simp only: viewed_fields)
  then show ?thesis using assms by (auto simp: createWedding_def Let_def intro!: viewed_intros del: subsetI)
qed

lemma viewed_closing:
  assumes "requestAccountDeletion now a d = Inr (u, d')"
  shows "viewed view d' \<subseteq> viewed view d"
proof -
  have "viewed view (e\<lparr>spaces := map (\<lambda>s. s\<lparr>tables := f s\<rparr>) (spaces e)\<rparr>) = viewed view e" for e f
    by (simp add: viewed_def)
  then show ?thesis using assms unfolding requestAccountDeletion_def Let_def
    by (auto split: sum.splits intro!: viewed_intros del: subsetI)
qed
section \<open>What a view looks at\<close>

text \<open>
  The key and the moderation of a row, and whether it is deleted: rows that agree in these show the
  same, and a deleted row shows no more than before.
\<close>

locale asset_view =
  fixes view :: "asset_row \<Rightarrow> uuid set"
  assumes view_frame: "asset_id y = asset_id x \<Longrightarrow> asset_moderation y = asset_moderation x \<Longrightarrow>
    (asset_deleted x \<longrightarrow> asset_deleted y) \<Longrightarrow> view y \<subseteq> view x"
begin

lemma narrower_set_assets:
  assumes "\<And>x. P x \<Longrightarrow> view (f x) \<subseteq> view x"
  shows "narrower view (set_assets P f)"
  using assms by (fastforce simp: narrower_def set_assets_def update_where_def)

lemma view_statements [simp]:
  "narrower view (set_assets P (\<lambda>x. x\<lparr>asset_processing := st\<rparr>))"
  "narrower view (set_assets P (\<lambda>x. x\<lparr>asset_processing := st, asset_checksum := c, asset_version := w x\<rparr>))"
  "narrower view (set_assets P (\<lambda>x. x\<lparr>asset_deleted := True, asset_version := w x\<rparr>))"
  "narrower view (set_assets P (finished p))" "narrower view (drop_upload code x)"
proof -
  show "narrower view (drop_upload code x)"
  proof -
    have "view (expire_asset code y) \<subseteq> view y" for y by (rule view_frame) (simp_all add: expire_asset_def)
    then have "narrower view (\<lambda>s. set_assets (\<lambda>y. asset_id y = asset_id x) (expire_asset code) (add_reserved (- reserved_for x) s))"
      using narrower_comp [OF narrower_set_assets narrower_same, of "\<lambda>y. asset_id y = asset_id x" "expire_asset code"
          "add_reserved (- reserved_for x)"] by (simp add: o_def add_reserved_def)
    then show ?thesis by (simp add: drop_upload_def [abs_def] set_assets_def add_reserved_def)
  qed
qed (rule narrower_set_assets, rule view_frame; simp add: finished_def)+

lemma view_settled:
  "narrower view (\<lambda>s. case find_asset n s of None \<Rightarrow> s
     | Some x \<Rightarrow> settled n (a x) (b x) (\<lambda>y. y\<lparr>asset_processing := state, reserved_for := 0, actual_bytes := 0,
         asset_error := error, asset_version := Suc (asset_version y)\<rparr>) s)"
proof -
  let ?f = "\<lambda>y. y\<lparr>asset_processing := state, reserved_for := 0, actual_bytes := 0, asset_error := error,
    asset_version := Suc (asset_version y)\<rparr>"
  have "view (?f y) \<subseteq> view y" for y by (rule view_frame) simp_all
  then have "narrower view (set_assets (\<lambda>y. asset_id y = n) ?f \<circ> settle_usage p q)" for p q
    by (intro narrower_comp narrower_set_assets) simp_all
  then show ?thesis unfolding narrower_def settled_def by (simp split: option.split)
qed

lemma viewed_release: "viewed view (media_release i n state error d) \<subseteq> viewed view d"
  unfolding media_release_settled by (intro viewed_intros view_settled subset_refl)

lemma viewed_remove_member:
  assumes "removeMember now a i m d = Inr (u, d')"
  shows "viewed view d' \<subseteq> viewed view d"
  using assms unfolding removeMember_def Let_def
  by (auto split: option.splits intro!: viewed_intros viewed_fold del: subsetI)

lemma viewed_request:
  assumes "handle now q d = Inr (y, d')"
  shows "viewed view d' \<subseteq> viewed view d"
proof (cases q)
  case (Act hs x)
  then obtain a where a: "act now a x d = Inr (y, d')" using assms by (auto split: option.splits)
  show ?thesis
  proof (cases x)
    case (Invite_member i v h l)
    then obtain n where "invite now a i v h l d = Inr (n, d')" using a by (auto simp: reply_of_Inr split: if_splits)
    then show ?thesis by (rule viewed_members)
  qed (use a in \<open>auto simp: reply_of_Inr del: subsetI
      intro: viewed_account viewed_members viewed_create viewed_closing viewed_remove_member\<close>)
qed (use assms in \<open>auto simp: reply_of_Inr sign_out_def del: subsetI intro: viewed_account\<close>)

lemma viewed_exec: "viewed view (snd (exec_request q d)) \<subseteq> viewed view d"
  by (auto simp: exec_request_def transaction_def split: sum.splits del: subsetI intro: viewed_request)

lemma viewed_tables: "viewed view (snd (tables_step i x y)) \<subseteq> viewed view (snd y)"
  by (auto simp: tables_step_def split: option.split prod.split intro!: viewed_intros del: subsetI)

lemma viewed_uploads:
  "new_session now source h until files bytes i d = Inr (u, d') \<Longrightarrow> viewed view d' \<subseteq> viewed view d"
  "create_grant now a i v tok code d = Inr (n, d') \<Longrightarrow> viewed view d' \<subseteq> viewed view d"
  "revoke_grant a i g d = Inr (u, d') \<Longrightarrow> viewed view d' \<subseteq> viewed view d"
  "save_album a i b version target d = Inr (n, d') \<Longrightarrow> viewed view d' \<subseteq> viewed view d"
  "media_claim now u1 i k nb d = Inr (x, d') \<Longrightarrow> viewed view d' \<subseteq> viewed view d"
  "media_commit now u1 i k b1 checksum d = Inr (x, d') \<Longrightarrow> viewed view d' \<subseteq> viewed view d"
  "media_finish now leased u1 i k b1 p d = Inr (x, d') \<Longrightarrow> viewed view d' \<subseteq> viewed view d"
  "media_remove now referenced a i k version confirmed d = Inr (x, d') \<Longrightarrow> viewed view d' \<subseteq> viewed view d"
  "operator_limits ids now limit a i w reason d = Inr (x, d') \<Longrightarrow> viewed view d' \<subseteq> viewed view d"
  unfolding new_session_def create_grant_def revoke_grant_def save_album_def media_claim_def media_commit_def
    media_finish_def media_remove_def operator_limits_def Let_def
  by (auto split: option.splits sum.splits if_splits intro!: viewed_intros narrower_comp del: subsetI)

lemma viewed_edit:
  assumes "media_edit_asset now a i k e d = Inr (x, d')" "\<And>x. view (edited e x) \<subseteq> view x"
  shows "viewed view d' \<subseteq> viewed view d"
  using assms(1) narrower_set_assets [OF assms(2)] unfolding media_edit_asset_def Let_def
  by (auto split: option.splits sum.splits if_splits intro!: viewed_intros narrower_comp del: subsetI)

lemma viewed_exchange:
  "exchange_upload now slug hs us h d = Inr (u, d') \<Longrightarrow> viewed view d' \<subseteq> viewed view d"
  "upload_from_guest now i g l h d = Inr (u, d') \<Longrightarrow> viewed view d' \<subseteq> viewed view d"
  unfolding exchange_upload_def upload_from_guest_def
  by (auto split: list.splits del: subsetI intro: viewed_uploads(1))

lemma viewed_worker:
  "viewed view (media_abort i n d) \<subseteq> viewed view d" "viewed view (media_mark i n d) \<subseteq> viewed view d"
  "viewed view (media_fail leased i n code d) \<subseteq> viewed view d" "viewed view (media_sweep now d) \<subseteq> viewed view d"
  "viewed view (close_upload now hs d) \<subseteq> viewed view d"
proof -
  show "viewed view (media_sweep now d) \<subseteq> viewed view d"
    unfolding media_sweep_def expire_upload_def
    by (rule viewed_fold) (auto split: prod.split intro!: viewed_intros del: subsetI)
  show "viewed view (close_upload now hs d) \<subseteq> viewed view d"
    by (auto simp: close_upload_def viewed_def)
qed (auto simp: media_abort_def media_mark_def media_fail_def intro!: viewed_intros viewed_release del: subsetI)

end

end
