(* ===== verification/UploadTheorems.thy ===== *)
theory UploadTheorems
  imports AssetViews AccountTheorems
begin

text \<open>
  The properties of uploads: the storage limit, a visitor's allowance, who can approve what is shown,
  and that a removed photo is gone for good.
\<close>

section \<open>Views of the operations\<close>

lemma viewed_set_space_plus:
  assumes "\<And>s. space_id (f s) = space_id s"
    "\<And>s. (\<Union>x\<in>set (assets (f s)). view x) \<subseteq> (\<Union>x\<in>set (assets s). view x) \<union> K"
  shows "viewed view (set_space i f d) \<subseteq> viewed view d \<union> Pair i ` K"
proof (rule subrelI)
  fix j k
  assume "(j, k) \<in> viewed view (set_space i f d)"
  then obtain t where t: "t \<in> set (spaces (set_space i f d))" "space_id t = j" "k \<in> (\<Union>x\<in>set (assets t). view x)"
    by (auto simp: in_viewed)
  then obtain s where s: "s \<in> set (spaces d)" "space_id s = i \<and> t = f s \<or> t = s" by (auto simp: set_update_where)
  show "(j, k) \<in> viewed view d \<union> Pair i ` K"
  proof (cases "t = s")
    case False
    then have e: "space_id s = i" "t = f s" using s(2) by auto
    then have "k \<in> (\<Union>x\<in>set (assets s). view x) \<union> K" "j = i" using t(2,3) assms(1) [of s] assms(2) [of s] by blast+
    then show ?thesis using s(1) e(1) by (auto simp: in_viewed)
  qed (use s(1) t in \<open>auto simp: in_viewed\<close>)
qed

definition approves :: "media_actor \<Rightarrow> role option \<Rightarrow> bool" where
  "approves u role = (case role of None \<Rightarrow> False | Some r \<Rightarrow> owner_side r)"

lemma viewed_intent:
  assumes "media_intent now limit u i v d = Inr (n, d')"
  obtains role where "scope now u i (Some (intent_album v)) d = Inr role"
    "viewed view d' \<subseteq> viewed view d \<union> Pair i ` view (new_asset now (next_row d) u (approves u role) v)"
proof -
  obtain role s0 where r: "scope now u i (Some (intent_album v)) d = Inr role" and g: "find_space i d = Some s0"
    using assms by (auto simp: media_intent_def split: sum.splits option.splits)
  let ?x = "new_asset now (next_row d) u (approves u role) v"
  have d': "d' = bump (set_space i (reserve_upload u v ?x \<circ> ensure_usage limit) d)"
    using assms by (auto simp: media_intent_def Let_def r g approves_def)
  have "viewed view (set_space i (reserve_upload u v ?x \<circ> ensure_usage limit) d) \<subseteq> viewed view d \<union> Pair i ` view ?x"
    by (rule viewed_set_space_plus) (auto simp: reserve_upload_def add_reserved_def ensure_usage_def)
  then show thesis using that r d' by simp
qed

context asset_view begin

lemma viewed_handle:
  assumes "handle_media limit now x d = Inr (w, d')" "\<And>u i v. x \<noteq> Intent u i v"
    "\<And>a i k e y. x = Edit_media a i k e \<Longrightarrow> view (edited e y) \<subseteq> view y"
  shows "viewed view d' \<subseteq> viewed view d"
proof (cases x)
  case (Edit_media a i k e)
  then show ?thesis using assms(1) viewed_edit assms(3) by simp
qed (use assms(1,2) in \<open>auto simp: viewed_worker viewed_release del: subsetI intro: viewed_uploads viewed_exchange\<close>)

end

interpretation approved: asset_view approved_view
  by unfold_locales (auto simp: approved_view_def)

interpretation live: asset_view live_view
  by unfold_locales (auto simp: live_view_def)

lemma scope_staff:
  "scope now (Staff a) i b d = Inr role \<Longrightarrow> \<exists>t. tenant_of d i (actor_id a) = Inr t \<and> role = Some (tenant_role t)"
  by (auto simp: scope_def split: sum.splits)

lemma scope_visitor: "scope now (Visitor l) i b d = Inr role \<Longrightarrow> role = None"
  by (auto simp: scope_def split: sum.splits prod.splits)

lemma edit_approves:
  assumes "media_edit_asset now a i k e d = Inr (x, d')" "edit_moderation e = Some Mod_approved"
  shows "(\<exists>t. tenant_of d i (actor_id a) = Inr t \<and> requireCapability t Cap_publish None = Inr ()) \<and>
    viewed approved_view d' \<subseteq> viewed approved_view d \<union> {(i, k)}"
proof
  show "\<exists>t. tenant_of d i (actor_id a) = Inr t \<and> requireCapability t Cap_publish None = Inr ()"
    using assms by (auto simp: media_edit_asset_def Let_def split: option.splits sum.splits)
  let ?f = "drop_cover k (edit_album e) \<circ> set_assets (\<lambda>x. asset_id x = k \<and> asset_version x = edit_version e) (edited e)"
  have "viewed approved_view (set_space i ?f d) \<subseteq> viewed approved_view d \<union> Pair i ` {k}"
    by (rule viewed_set_space_plus)
      (auto simp: drop_cover_def set_assets_def update_where_def approved_view_def edited_def split: option.splits if_splits)
  then have audited: "viewed approved_view (audit_event n1 n2 n3 n4 (set_space i ?f d)) \<subseteq> viewed approved_view d \<union> {(i, k)}"
    for n1 n2 n3 n4 by (intro viewed_same [OF audit_frame]) simp
  then have "viewed approved_view (metric w m1 m2 (audit_event n1 n2 n3 n4 (set_space i ?f d))) \<subseteq>
      viewed approved_view d \<union> {(i, k)}" for w m1 m2 n1 n2 n3 n4
    by (rule viewed_same [OF metric_frame])
  note plus = audited this
  show "viewed approved_view d' \<subseteq> viewed approved_view d \<union> {(i, k)}"
    using assms plus by (auto simp: media_edit_asset_def Let_def split: option.splits sum.splits if_splits del: subsetI)
qed

lemma approval_source:
  assumes "handle_media limit now x d = Inr (w, d')" "(i, k) \<in> viewed approved_view d'" "(i, k) \<notin> viewed approved_view d"
  shows "\<exists>a t. tenant_of d i (actor_id a) = Inr t \<and>
    ((\<exists>v. x = Intent (Staff a) i v \<and> k = next_row d \<and> owner_side (tenant_role t)) \<or>
     (\<exists>e. x = Edit_media a i k e \<and> edit_moderation e = Some Mod_approved \<and> requireCapability t Cap_publish None = Inr ()))"
proof (cases x)
  case (Intent u j v)
  then obtain n where m: "media_intent now limit u j v d = Inr (n, d')" using assms(1) by auto
  obtain role where r: "scope now u j (Some (intent_album v)) d = Inr role"
    and v: "viewed approved_view d' \<subseteq> viewed approved_view d \<union> Pair j ` approved_view (new_asset now (next_row d) u (approves u role) v)"
    using viewed_intent [OF m, where view = approved_view] by blast
  have "j = i" "k \<in> approved_view (new_asset now (next_row d) u (approves u role) v)"
    using v assms(2,3) by auto
  then have k: "j = i" "k = next_row d" "approves u role"
    by (auto simp: approved_view_def new_asset_def split: if_splits)
  obtain a where u: "u = Staff a"
  proof (cases u)
    case (Visitor l)
    then have "role = None" using scope_visitor r by blast
    then show thesis using k(3) by (simp add: approves_def)
  qed
  then obtain t where "tenant_of d i (actor_id a) = Inr t" "role = Some (tenant_role t)"
    using scope_staff r k(1) by blast
  then show ?thesis using Intent k u by (auto simp: approves_def)
next
  case (Edit_media a j l e)
  then have m: "media_edit_asset now a j l e d = Inr (w, d')" using assms(1) by simp
  show ?thesis
  proof (cases "edit_moderation e = Some Mod_approved")
    case True
    have "(i, k) = (j, l)" using edit_approves [OF m True] assms(2,3) by blast
    then show ?thesis using edit_approves [OF m True] Edit_media True by auto
  next
    case False
    have "approved_view (edited e y) \<subseteq> approved_view y" for y
      using False by (cases "edit_moderation e") (auto simp: approved_view_def edited_def split: option.splits if_splits)
    then show ?thesis using approved.viewed_edit [OF m] assms(2,3) by blast
  qed
qed (use approved.viewed_handle [OF assms(1)] assms(2,3) in blast)+

section \<open>Keys are only ever taken\<close>

lemma keys_grow: "same_rows e e' \<Longrightarrow> n \<le> next_row e \<Longrightarrow> n \<le> next_row e'"
  by (simp add: same_rows_def)

lemmas key_intros = keys_grow [OF audit_frame] keys_grow [OF email_frame] keys_grow [OF mail_link_frame]
  keys_grow [OF queue_work_frame] keys_grow [OF cancel_work_frame] keys_grow [OF metric_frame] keys_grow [OF bump_frame]

lemma key_fold: "(\<And>x e. n \<le> next_row e \<Longrightarrow> n \<le> next_row (f x e)) \<Longrightarrow> n \<le> next_row e \<Longrightarrow> n \<le> next_row (fold f xs e)"
  by (induction xs arbitrary: e) simp_all

lemma key_tokens [simp]: "next_row (consume_tokens P e) = next_row e" "next_row (revoke_logins Q e) = next_row e"
  by (simp_all add: consume_tokens_def revoke_logins_def)

lemma key_issue: "issue_token now u p h e = Inr (t, e') \<Longrightarrow> n \<le> next_row e \<Longrightarrow> n \<le> next_row e'"
  by (auto simp: issue_token_def intro!: key_intros)

lemma key_account:
  "register now address pw h l d = Inr (u, d') \<Longrightarrow> next_row d \<le> next_row d'"
  "resendVerification now address h link d = Inr (u, d') \<Longrightarrow> next_row d \<le> next_row d'"
  "recover now address h l d = Inr (u, d') \<Longrightarrow> next_row d \<le> next_row d'"
  "verify now hs d = Inr (ts, d') \<Longrightarrow> next_row d \<le> next_row d'"
  "sign_in now address check h d = Inr (r, d') \<Longrightarrow> next_row d \<le> next_row d'"
  "reauthenticate now a check d = Inr (u, d') \<Longrightarrow> next_row d \<le> next_row d'"
  "reset now hs pw d = Inr (ts, d') \<Longrightarrow> next_row d \<le> next_row d'"
  "recoverAccount ids now a i reason d = Inr (u, d') \<Longrightarrow> next_row d \<le> next_row d'"
  by (auto simp: register_def resendVerification_def recover_def verify_def sign_in_def reauthenticate_def
      reset_def recoverAccount_def Let_def split: option.splits sum.splits list.splits if_splits
      intro!: key_intros elim!: key_issue)

lemma key_members:
  "patchWedding cal a i p d = Inr (u, d') \<Longrightarrow> next_row d \<le> next_row d'"
  "transfer now a i m d = Inr (u, d') \<Longrightarrow> next_row d \<le> next_row d'"
  "resolveOwnership ids now a i m reason d = Inr (u, d') \<Longrightarrow> next_row d \<le> next_row d'"
  "recoverWedding now a i d = Inr (u, d') \<Longrightarrow> next_row d \<le> next_row d'"
  "revokeInvite a i k d = Inr (u, d') \<Longrightarrow> next_row d \<le> next_row d'"
  "invite now a i v h l d = Inr (n, d') \<Longrightarrow> next_row d \<le> next_row d'"
  "acceptInvite now a hs d = Inr (r, d') \<Longrightarrow> next_row d \<le> next_row d'"
  "deleteWedding now nonce a i d = Inr (u, d') \<Longrightarrow> next_row d \<le> next_row d'"
  "createWedding now cal digest a w d = Inr (n, d') \<Longrightarrow> next_row d \<le> next_row d'"
  "requestAccountDeletion now a d = Inr (u, d') \<Longrightarrow> next_row d \<le> next_row d'"
  "removeMember now a i m d = Inr (u, d') \<Longrightarrow> next_row d \<le> next_row d'"
  unfolding patchWedding_def transfer_def resolveOwnership_def recoverWedding_def revokeInvite_def invite_def acceptInvite_def
    deleteWedding_def quarantineWedding_def createWedding_def requestAccountDeletion_def removeMember_def Let_def
  by (auto split: option.splits sum.splits list.splits intro!: key_intros key_fold)

lemma key_exec: "next_row d \<le> next_row (snd (exec_request q d))"
proof -
  have "next_row d \<le> next_row d'" if h: "handle now r d = Inr (y, d')" for now r y d'
  proof (cases r)
    case (Act hs x)
    then obtain a where a: "act now a x d = Inr (y, d')" using h by (auto split: option.splits)
    show ?thesis
    proof (cases x)
      case (Invite_member i v h l)
      then obtain n where "invite now a i v h l d = Inr (n, d')" using a by (auto simp: reply_of_Inr split: if_splits)
      then show ?thesis by (rule key_members)
    qed (use a in \<open>auto simp: reply_of_Inr intro: key_account key_members\<close>)
  qed (use h in \<open>auto simp: reply_of_Inr sign_out_def intro: key_account\<close>)
  then show ?thesis by (auto simp: exec_request_def transaction_def split: sum.splits)
qed

lemma key_media: "handle_media limit now x d = Inr (u, d') \<Longrightarrow> next_row d \<le> next_row d'"
  by (cases x)
    (auto simp: create_grant_def revoke_grant_def exchange_upload_def upload_from_guest_def new_session_def close_upload_def
      save_album_def media_intent_def media_claim_def media_commit_def media_abort_def media_edit_asset_def media_remove_def
      media_release_def media_mark_def media_finish_def media_fail_def media_sweep_def expire_upload_def operator_limits_def
      Let_def split: list.splits option.splits sum.splits if_splits prod.splits intro!: key_intros key_fold)

lemma key_step: "next_row (snd y) \<le> next_row (snd (after_step limit q y))"
proof (cases q)
  case (Pair now st)
  then show ?thesis using key_exec key_media
    by (cases st) (auto simp: tables_step_def transaction_def split: option.splits sum.splits prod.splits)
qed

section \<open>Rows once removed\<close>

lemma live_step:
  assumes "k < next_row (snd y)" "(i, k) \<notin> viewed live_view (snd y)"
  shows "(i, k) \<notin> viewed live_view (snd (after_step limit q y))"
proof (cases q)
  case (Pair now st)
  show ?thesis
  proof (cases st)
    case (Account_step r)
    then show ?thesis using Pair assms(2) live.viewed_exec by auto
  next
    case (Tables_step j x)
    then show ?thesis using Pair assms(2) live.viewed_tables [of j x y] by auto
  next
    case (Media_step x)
    have "(i, k) \<notin> viewed live_view d'" if h: "handle_media limit now x (snd y) = Inr (w, d')" for w d'
    proof (cases "\<exists>u j v. x = Intent u j v")
      case True
      then obtain u j v n where "media_intent now limit u j v (snd y) = Inr (n, d')" using h by auto
      then obtain role where "viewed live_view d' \<subseteq> viewed live_view (snd y) \<union>
          Pair j ` live_view (new_asset now (next_row (snd y)) u (approves u role) v)"
        using viewed_intent by blast
      then show ?thesis using assms by (auto simp: live_view_def split: if_splits)
    next
      case False
      have "live_view (edited e z) \<subseteq> live_view z" for e z by (simp add: live_view_def edited_def)
      then show ?thesis using live.viewed_handle [OF h] False assms(2) by blast
    qed
    then show ?thesis using Pair Media_step assms(2) by (auto simp: transaction_def split: sum.splits)
  qed
qed

lemma live_run:
  "k < next_row (snd y) \<Longrightarrow> (i, k) \<notin> viewed live_view (snd y) \<Longrightarrow>
    (i, k) \<notin> viewed live_view (snd (fold (after_step limit) qs y))"
  by (induction qs arbitrary: y) (simp_all add: live_step order_less_le_trans [OF _ key_step])

lemma not_live_unreadable:
  assumes "(i, k) \<notin> viewed live_view d"
  shows "media_read now a i k original d = Inl notFound"
    "case find_space i d of None \<Rightarrow> True | Some s \<Rightarrow> filter (public_row k s) (assets s) = []"
proof -
  have "\<not> (asset_id x = k \<and> \<not> asset_deleted x)" if "find_space i d = Some s" "x \<in> set (assets s)" for s x
    using assms that find_space_SomeD by (fastforce simp: in_viewed live_view_def)
  then show "media_read now a i k original d = Inl notFound"
    "case find_space i d of None \<Rightarrow> True | Some s \<Rightarrow> filter (public_row k s) (assets s) = []"
    by (auto simp: media_read_def own_asset_def public_row_def filter_empty_conv split: option.splits dest!: find_SomeD)
qed

section \<open>The properties\<close>

text \<open>
  C14. After any history of requests and steps of the workers, a wedding's media never exceed its
  storage limit: the reserved bytes are those its rows reserve, the rows' own bytes are within
  the stored ones, and both together are within the limit; no counter is negative.
\<close>

theorem media_stay_within_the_limit:
  assumes "0 \<le> limit" "s \<in> set (spaces (snd (system_history limit steps)))" "usage s = Some q"
  shows "0 \<le> reserved_bytes q \<and> reserved_bytes q = sum_of reserved_for (assets s) \<and>
    0 \<le> stored_bytes q \<and> sum_of actual_bytes (assets s) \<le> stored_bytes q \<and>
    stored_bytes q + reserved_bytes q \<le> limit_bytes q"
proof -
  have m: "metered_space (next_row (snd (system_history limit steps))) s"
    using history_keeps [OF assms(1)] assms(2) by (simp add: metered_def list_all_iff)
  have "0 \<le> sum_of reserved_for (assets s)" "0 \<le> sum_of actual_bytes (assets s)"
    using row_nonneg [OF m] unfolding sum_of_def by (auto intro!: sum_list_nonneg)
  then show ?thesis using metered_quota [OF m assms(3)] by simp
qed

text \<open>
  C15. A visitor's session never sends more files or bytes than it was granted, whatever happens in
  between, and its counters are those of the rows it sent.
\<close>

theorem visitors_stay_within_their_allowance:
  assumes "0 \<le> limit" "s \<in> set (spaces (snd (system_history limit steps)))" "l \<in> set (upload_sessions s)"
  shows "let sent = filter (sent_by (upload_id l)) (assets s) in
    files_reserved l = int (length sent) \<and> int (length sent) \<le> file_limit l \<and>
    bytes_reserved l = sum_of expected_bytes sent \<and> sum_of expected_bytes sent \<le> byte_limit l"
proof -
  have "within_allowance s"
    using history_keeps [OF assms(1), of steps] assms(2) by (auto simp: metered_def list_all_iff metered_space_def)
  then have "allowance_ok (assets s) (session_core l)" using assms(3) by (simp add: within_allowance_def list_all_iff)
  then show ?thesis by (simp add: session_core_def Let_def)
qed

text \<open>
  C16. A photo becomes approved in two ways only: an owner or co-owner announces the own upload, or
  a member who may publish approves it. No visitor, contributor or worker approves one, and no other
  request of the whole system does.
\<close>

theorem approval_needs_a_publisher:
  assumes "(i, k) \<in> viewed approved_view (snd (after_step limit (now, st) y))" "(i, k) \<notin> viewed approved_view (snd y)"
  shows "\<exists>x a t. st = Media_step x \<and> tenant_of (snd y) i (actor_id a) = Inr t \<and>
    ((\<exists>v. x = Intent (Staff a) i v \<and> k = next_row (snd y) \<and> owner_side (tenant_role t)) \<or>
     (\<exists>e. x = Edit_media a i k e \<and> edit_moderation e = Some Mod_approved \<and> requireCapability t Cap_publish None = Inr ()))"
proof (cases st)
  case (Account_step q)
  then show ?thesis using assms approved.viewed_exec by auto
next
  case (Tables_step j x)
  then show ?thesis using assms approved.viewed_tables [of j x y] by auto
next
  case (Media_step x)
  then obtain d' where "handle_media limit now x (snd y) = Inr ((), d')" "(i, k) \<in> viewed approved_view d'"
    using assms by (auto simp: transaction_def split: sum.splits)
  from approval_source [OF this assms(2)] obtain a t where "tenant_of (snd y) i (actor_id a) = Inr t \<and>
    ((\<exists>v. x = Intent (Staff a) i v \<and> k = next_row (snd y) \<and> owner_side (tenant_role t)) \<or>
     (\<exists>e. x = Edit_media a i k e \<and> edit_moderation e = Some Mod_approved \<and> requireCapability t Cap_publish None = Inr ()))"
    by (elim exE)
  then show ?thesis using Media_step by (intro exI [of _ x] exI [of _ a] exI [of _ t] conjI) simp_all
qed

text \<open>
  C17. A removed photo is gone for good: after any further history it can neither be read by a member
  nor be shown to the public.
\<close>

theorem removed_media_stays_gone:
  assumes "0 \<le> limit" "s \<in> set (spaces (snd (system_history limit steps)))" "x \<in> set (assets s)" "asset_deleted x"
  shows "let d = snd (fold (after_step limit) next_steps (system_history limit steps)) in
    media_read now a (space_id s) (asset_id x) original d = Inl notFound \<and>
    (case find_space (space_id s) d of None \<Rightarrow> True | Some t \<Rightarrow> filter (public_row (asset_id x) t) (assets t) = [])"
proof -
  let ?y = "system_history limit steps"
  have m: "metered (snd ?y)" "sound_directory (snd ?y)" using history_keeps [OF assms(1)] by auto
  then have r: "rows_ok (next_row (snd ?y)) s" using assms(2) by (auto simp: metered_def list_all_iff metered_space_def)
  then have "asset_id x < next_row (snd ?y)" using assms(3) by (simp add: rows_ok_def list_all_iff row_ok_def)
  moreover have "(space_id s, asset_id x) \<notin> viewed live_view (snd ?y)"
  proof
    assume "(space_id s, asset_id x) \<in> viewed live_view (snd ?y)"
    then obtain t z where t: "t \<in> set (spaces (snd ?y))" "space_id t = space_id s" "z \<in> set (assets t)"
      "asset_id z = asset_id x" "\<not> asset_deleted z"
      by (auto simp: in_viewed live_view_def split: if_splits)
    have "t = s" using sound_unique [OF m(2) t(1) assms(2) t(2)] .
    moreover have "z = x" using r t(3,4) assms(3) \<open>t = s\<close> by (auto simp: rows_ok_def distinct_map inj_on_def)
    ultimately show False using t(5) assms(4) by simp
  qed
  ultimately have "(space_id s, asset_id x) \<notin> viewed live_view (snd (fold (after_step limit) next_steps ?y))"
    by (rule live_run)
  then show ?thesis using not_live_unreadable by (simp add: Let_def)
qed

section \<open>A history\<close>

text \<open>
  The owner of the demonstration wedding sets up an event and an album and hands out an upload code
  for one file; a visitor uses it for a photo, which the worker processes; a second photo is refused.
\<close>

definition demo_owner :: actor where
  "demo_owner = \<lparr>actor_id = 0, session_of = 2, actor_email = ''a@x'', actor_verified = True, reauthenticated_at = 3\<rparr>"

definition demo_event_input :: event_input where
  "demo_event_input = \<lparr>in_title = ''Supper'', in_venue = [], in_timezone = ''UTC'', in_starts = None, in_ends = None,
     in_cutoff = None, in_capacity = None, in_approval = Approve_automatic, in_admission = Adm_disabled,
     in_admission_starts = None, in_admission_ends = None\<rparr>"

definition demo_album_input :: album_input where
  "demo_album_input = \<lparr>album_in_title = ''Day'', album_in_description = [], album_in_position = 0,
     album_in_visibility = Album_inherit, album_in_published = True, album_in_guests = True, album_in_cover = None\<rparr>"

definition demo_intent :: upload_intent where
  "demo_intent = \<lparr>intent_album = 11, intent_type = ''image/jpeg'', intent_bytes = 1000, intent_alt = [], intent_caption = []\<rparr>"

definition demo_processed :: processed where
  "demo_processed = \<lparr>original_size = 20, display_size = 10, poster_size = 0, display_type = ''image/webp''\<rparr>"

definition demo_grant :: grant_input where
  "demo_grant = \<lparr>grant_for_event = 0, grant_for_album = 11, grant_until = 1000000, grant_file_limit = 1, grant_byte_limit = 5000\<rparr>"

definition demo_setup :: "(instant \<times> step) list" where
  "demo_setup = map (\<lambda>(t, q). (t, Account_step q)) account_demo @
     [(10, Tables_step 6 (Event_op 0 demo_event_input None)),
      (11, Media_step (Save_album demo_owner 6 demo_album_input 0 None)),
      (12, Media_step (Create_grant demo_owner 6 demo_grant ''tok'' ''code'')),
      (13, Media_step (Exchange_upload ''ab'' [''tok''] [] ''vs''))]"

definition demo_uploads :: "(instant \<times> step) list" where
  "demo_uploads = demo_setup @
     [(14, Media_step (Intent (Visitor 13) 6 demo_intent)),
      (15, Media_step (Claim (Visitor 13) 6 14 1000)),
      (16, Media_step (Commit (Visitor 13) 6 14 11 ''sum'')),
      (17, Media_step (Mark_processing 6 14)),
      (18, Media_step (Finish True (Visitor 13) 6 14 11 demo_processed)),
      (19, Media_step (Intent (Visitor 13) 6 demo_intent))]"

definition demo_limit :: int where
  "demo_limit = 10000000"

definition demo_space :: space where
  "demo_space = hd (spaces (snd (system_history demo_limit demo_uploads)))"

definition demo_approval :: media_edit where
  "demo_approval = \<lparr>edit_version = 3, edit_album = None, edit_caption = None, edit_alt = None,
     edit_moderation = Some Mod_approved, edit_position = None\<rparr>"

definition demo_approved :: directory where
  "demo_approved = snd (after_step demo_limit (20, Media_step (Edit_media demo_owner 6 14 demo_approval))
     (system_history demo_limit demo_uploads))"

definition demo_removal :: "(instant \<times> step) list" where
  "demo_removal = demo_uploads @ [(20, Media_step (Remove_media False demo_owner 6 14 3 False))]"

definition demo_removed_space :: space where
  "demo_removed_space = hd (spaces (snd (system_history demo_limit demo_removal)))"

lemma demo_limit_pos: "0 \<le> demo_limit"
  by (simp add: demo_limit_def)

text \<open>The histories evaluated.\<close>

lemma demo_facts:
  "spaces (snd (system_history demo_limit demo_uploads)) \<noteq> [] \<and> usage demo_space \<noteq> None \<and>
   stored_bytes (the (usage demo_space)) = 30 \<and> reserved_bytes (the (usage demo_space)) = 0 \<and>
   upload_sessions demo_space \<noteq> [] \<and> files_reserved (hd (upload_sessions demo_space)) = 1 \<and>
   file_limit (hd (upload_sessions demo_space)) = 1 \<and> upload_id (hd (upload_sessions demo_space)) = 13 \<and>
   (6, 14) \<in> viewed approved_view demo_approved \<and>
   (6, 14) \<notin> viewed approved_view (snd (system_history demo_limit demo_uploads)) \<and>
   spaces (snd (system_history demo_limit demo_removal)) \<noteq> [] \<and> assets demo_removed_space \<noteq> [] \<and>
   asset_deleted (hd (assets demo_removed_space)) \<and> space_id demo_removed_space = 6 \<and>
   asset_id (hd (assets demo_removed_space)) = 14"
  by code_simp

lemma demo_space_in: "demo_space \<in> set (spaces (snd (system_history demo_limit demo_uploads)))"
  unfolding demo_space_def using demo_facts by (intro hd_in_set) (elim conjE)

text \<open>Thirty bytes are stored; what was reserved for the photo is free again.\<close>

theorem media_stay_within_the_limit_witness:
  "stored_bytes (the (usage demo_space)) = 30 \<and> reserved_bytes (the (usage demo_space)) = 0 \<and>
   sum_of actual_bytes (assets demo_space) \<le> stored_bytes (the (usage demo_space))"
proof -
  have u: "usage demo_space = Some (the (usage demo_space))" using demo_facts by simp
  show ?thesis using media_stay_within_the_limit [OF demo_limit_pos demo_space_in u] demo_facts by simp
qed

text \<open>The visitor's one file is counted, and the second is refused.\<close>

theorem visitors_stay_within_their_allowance_witness:
  "files_reserved (hd (upload_sessions demo_space)) = 1 \<and> file_limit (hd (upload_sessions demo_space)) = 1 \<and>
   int (length (filter (sent_by 13) (assets demo_space))) \<le> 1"
proof -
  have l: "hd (upload_sessions demo_space) \<in> set (upload_sessions demo_space)" using demo_facts by (intro hd_in_set) simp
  show ?thesis
    using visitors_stay_within_their_allowance [OF demo_limit_pos demo_space_in l] demo_facts by (simp add: Let_def)
qed

text \<open>The owner approves the visitor's photo.\<close>

theorem approval_needs_a_publisher_witness:
  "(6, 14) \<in> viewed approved_view demo_approved \<and>
   (\<exists>t. tenant_of (snd (system_history demo_limit demo_uploads)) 6 (actor_id demo_owner) = Inr t \<and>
      requireCapability t Cap_publish None = Inr ())"
proof -
  have i: "(6, 14) \<in> viewed approved_view (snd (after_step demo_limit (20, Media_step (Edit_media demo_owner 6 14 demo_approval))
     (system_history demo_limit demo_uploads)))" using demo_facts by (simp only: demo_approved_def)
  have o: "(6, 14) \<notin> viewed approved_view (snd (system_history demo_limit demo_uploads))" using demo_facts by (elim conjE)
  from approval_needs_a_publisher [OF i o]
  have "\<exists>t. tenant_of (snd (system_history demo_limit demo_uploads)) 6 (actor_id demo_owner) = Inr t \<and>
    requireCapability t Cap_publish None = Inr ()" by auto
  with i show ?thesis unfolding demo_approved_def by (rule conjI)
qed

text \<open>The owner removes the photo; the worker's erasure of the copies changes nothing for readers.\<close>

theorem removed_media_stays_gone_witness:
  "asset_deleted (hd (assets demo_removed_space)) \<and>
   media_read 30 demo_owner 6 14 False (snd (fold (after_step demo_limit) [(21, Media_step (Erase_copies 6 14))]
     (system_history demo_limit demo_removal))) = Inl notFound"
proof -
  have s: "demo_removed_space \<in> set (spaces (snd (system_history demo_limit demo_removal)))"
    unfolding demo_removed_space_def using demo_facts by (intro hd_in_set) (elim conjE)
  have x: "hd (assets demo_removed_space) \<in> set (assets demo_removed_space)" using demo_facts by (intro hd_in_set) (elim conjE)
  have v: "asset_deleted (hd (assets demo_removed_space))" using demo_facts by (elim conjE)
  show ?thesis
    using removed_media_stays_gone [OF demo_limit_pos s x v, where now = 30 and a = demo_owner and original = False
      and next_steps = "[(21, Media_step (Erase_copies 6 14))]"] demo_facts
    by (simp only: Let_def)
qed

end
