(* ===== verification/HallPasses.thy ===== *)
theory HallPasses
  imports HallTypes SingleUse
begin

text \<open>
  The pass registry: one definition per exported function of
  \<^verbatim>\<open>apps/web/src/lib/hallPasses.ts\<close>, with the SQL each function sends written as
  updates and selections of the rows, and the database function \<open>redeem_hall_pass\<close> of
  \<^verbatim>\<open>db/migrations/008_add_ticket_numbers.sql\<close>. A statement that writes goes through
  the write fence. Randomness is a function \<open>rnd\<close> from the number of the draw to its
  bytes; \<open>now\<close> is the statement's clock.
\<close>

section \<open>Tokens\<close>

definition token_alphabet :: string where
  "token_alphabet = ''ABCDEFGHJKLMNPQRSTUVWXYZ23456789''"

definition token_char :: "byte \<Rightarrow> char" where
  "token_char b = token_alphabet ! (unat b mod length token_alphabet)"

definition createReadableToken :: "byte list \<Rightarrow> string" where
  "createReadableToken bytes =
     (let characters = map token_char (take 8 bytes)
      in ''HP-'' @ take 4 characters @ ''-'' @ take 4 (drop 4 characters))"

section \<open>Redeeming and scan attempts\<close>

definition redeemable :: "string \<Rightarrow> hall_pass \<Rightarrow> bool" where
  "redeemable tok p = (token p = tok \<and> used_at p = None \<and> invalidated_at p = None)"

definition mark_used :: "instant \<Rightarrow> string option \<Rightarrow> hall_pass \<Rightarrow> hall_pass" where
  "mark_used now scanner p = p\<lparr>used_at := Some now, used_by := scanner\<rparr>"

definition redeem_row :: "redeem_status \<Rightarrow> hall_pass \<Rightarrow> redeem_result" where
  "redeem_row st p = \<lparr>result_id = Some (pass_id p), result_ticket_number = Some (ticket_number p),
     result_guest_name = guest_name p, result_status = st, result_used_at = used_at p\<rparr>"

definition no_pass_result :: redeem_result where
  "no_pass_result = \<lparr>result_id = None, result_ticket_number = None, result_guest_name = None,
     result_status = Invalid, result_used_at = None\<rparr>"

definition refused_status :: "hall_pass \<Rightarrow> redeem_status" where
  "refused_status p = (if invalidated_at p \<noteq> None then Invalid
                       else if used_at p \<noteq> None then Used else Invalid)"

text \<open>The plpgsql function: the rows it returns and the table it leaves.\<close>

definition redeem_hall_pass ::
  "string \<Rightarrow> string option \<Rightarrow> instant \<Rightarrow> hall_db \<Rightarrow> redeem_result list \<times> hall_db" where
  "redeem_hall_pass tok scanner now db =
     (let hit = returning (redeemable tok) (mark_used now scanner) (hall_passes db);
          db' = db\<lparr>hall_passes :=
            update_where (redeemable tok) (mark_used now scanner) (hall_passes db)\<rparr>
      in if hit \<noteq> [] then (map (redeem_row Valid) hit, db')
         else let known = filter (\<lambda>p. token p = tok) (hall_passes db')
              in if known \<noteq> [] then (map (\<lambda>p. redeem_row (refused_status p) p) known, db')
                 else ([no_pass_result], db'))"

definition redeemHallPass ::
  "string \<Rightarrow> string option \<Rightarrow> instant \<Rightarrow> hall_db \<Rightarrow> (db_error, redeem_result) result \<times> hall_db" where
  "redeemHallPass value scannerName now db =
     fenced db
       (let (rows, db') = redeem_hall_pass (js_upper value) scannerName now db
        in ((case rows of [] \<Rightarrow> no_pass_result | r # _ \<Rightarrow> r), db'))"

definition logScanAttempt ::
  "string \<Rightarrow> string option \<Rightarrow> redeem_result \<Rightarrow> instant \<Rightarrow> hall_db \<Rightarrow> (db_error, unit) result \<times> hall_db" where
  "logScanAttempt value scannerEmail r now db =
     fenced db ((), db\<lparr>scan_attempts := scan_attempts db @
         [\<lparr>attempt_id = next_uuid db, attempt_pass_id = result_id r, attempt_token = js_upper value,
           scanner_email = scannerEmail, attempt_result = result_status r, scanned_at = now\<rparr>],
       next_uuid := Suc (next_uuid db)\<rparr>)"

definition listRecentScanAttempts :: "nat \<Rightarrow> hall_db \<Rightarrow> scan_attempt list" where
  "listRecentScanAttempts limit db = take limit (sort_key (\<lambda>a. - scanned_at a) (scan_attempts db))"

section \<open>Creating passes\<close>

definition active :: "hall_pass \<Rightarrow> bool" where
  "active p = (invalidated_at p = None)"

definition active_count :: "hall_db \<Rightarrow> nat" where
  "active_count db = length (filter active (hall_passes db))"

definition configured_limit :: "hall_db \<Rightarrow> nat option" where
  "configured_limit db = (case ticket_settings db of None \<Rightarrow> None | Some s \<Rightarrow> ticket_limit s)"

definition new_pass ::
  "hall_db \<Rightarrow> instant \<Rightarrow> string \<Rightarrow> string option \<Rightarrow> string option \<Rightarrow> string \<Rightarrow> hall_pass" where
  "new_pass db now tok name from by =
     \<lparr>pass_id = next_uuid db, ticket_number = Suc (ticket_seq db), token = tok,
      guest_name = name, invite_from = from, created_by = Some by, created_at = now,
      used_at = None, used_by = None, invalidated_at = None, invalidated_by = None,
      email_recipient = None, email_status = Not_sent, email_sent_at = None, email_error = None\<rparr>"

text \<open>
  \<open>insert ... on conflict (token) do nothing returning ...\<close>: no row is returned when the
  token exists. The column defaults are evaluated before the conflict is found, so the
  ticket sequence advances either way.
\<close>

definition insert_pass ::
  "instant \<Rightarrow> string \<Rightarrow> string option \<Rightarrow> string option \<Rightarrow> string \<Rightarrow> hall_db
     \<Rightarrow> (db_error, hall_pass option) result \<times> hall_db" where
  "insert_pass now tok name from by db =
     fenced db
       (let p = new_pass db now tok name from by;
            db' = db\<lparr>ticket_seq := Suc (ticket_seq db), next_uuid := Suc (next_uuid db)\<rparr>
        in if tok \<in> token ` set (hall_passes db) then (None, db')
           else (Some p, db'\<lparr>hall_passes := hall_passes db @ [p]\<rparr>))"

text \<open>
  The retry loop of one pass: at most \<open>n\<close> further attempts, one draw each. The result
  carries the number of the next draw.
\<close>

fun insert_attempts ::
  "nat \<Rightarrow> (nat \<Rightarrow> byte list) \<Rightarrow> nat \<Rightarrow> instant \<Rightarrow> string option \<Rightarrow> string option \<Rightarrow> string \<Rightarrow> hall_db
     \<Rightarrow> (db_error, hall_pass option) result \<times> nat \<times> hall_db" where
  "insert_attempts 0 rnd k now name from by db = (Inr None, k, db)"
| "insert_attempts (Suc n) rnd k now name from by db =
     (case insert_pass now (js_upper (createReadableToken (rnd k))) name from by db of
        (Inl e, db') \<Rightarrow> (Inl e, Suc k, db')
      | (Inr (Some p), db') \<Rightarrow> (Inr (Some p), Suc k, db')
      | (Inr None, db') \<Rightarrow> insert_attempts n rnd (Suc k) now name from by db')"

fun create_each ::
  "(nat \<Rightarrow> byte list) \<Rightarrow> nat \<Rightarrow> instant \<Rightarrow> string list \<Rightarrow> string option \<Rightarrow> string \<Rightarrow> hall_db
     \<Rightarrow> (db_error, hall_pass list) result \<times> nat \<times> hall_db" where
  "create_each rnd k now [] from by db = (Inr [], k, db)"
| "create_each rnd k now (g # gs) from by db =
     (case insert_attempts 5 rnd k now (non_empty g) from by db of
        (Inl e, k', db') \<Rightarrow> (Inl e, k', db')
      | (Inr None, k', db') \<Rightarrow> (Inl Token_not_unique, k', db')
      | (Inr (Some p), k', db') \<Rightarrow>
          (case create_each rnd k' now gs from by db' of
             (Inl e, k'', db'') \<Rightarrow> (Inl e, k'', db'')
           | (Inr ps, k'', db'') \<Rightarrow> (Inr (p # ps), k'', db'')))"

text \<open>\<open>rollback\<close> restores every table; sequences keep their value.\<close>

definition rollback :: "hall_db \<Rightarrow> hall_db \<Rightarrow> hall_db" where
  "rollback db db' = db\<lparr>ticket_seq := ticket_seq db', next_uuid := next_uuid db'\<rparr>"

definition trimmed_inviter :: "string option \<Rightarrow> string option" where
  "trimmed_inviter from = (case from of None \<Rightarrow> None | Some s \<Rightarrow> non_empty (js_trim s))"

definition over_limit :: "hall_db \<Rightarrow> nat \<Rightarrow> bool" where
  "over_limit db n = (case configured_limit db of None \<Rightarrow> False | Some l \<Rightarrow> l < active_count db + n)"

definition createHallPasses ::
  "(nat \<Rightarrow> byte list) \<Rightarrow> nat \<Rightarrow> instant \<Rightarrow> string list \<Rightarrow> string option \<Rightarrow> string \<Rightarrow> hall_db
     \<Rightarrow> (db_error, hall_pass list) result \<times> nat \<times> hall_db" where
  "createHallPasses rnd k now guestNames inviteFrom createdBy db =
     (let names = map js_trim guestNames
      in if names = [] then (Inr [], k, db)
         else if over_limit db (length names) then (Inr [], k, db)
         else case create_each rnd k now names (trimmed_inviter inviteFrom) createdBy db of
                (Inr ps, k', db') \<Rightarrow> (Inr ps, k', db')
              | (Inl e, k', db') \<Rightarrow> (Inl e, k', rollback db db'))"

definition createHallPass ::
  "(nat \<Rightarrow> byte list) \<Rightarrow> nat \<Rightarrow> instant \<Rightarrow> string \<Rightarrow> string option \<Rightarrow> string \<Rightarrow> hall_db
     \<Rightarrow> (db_error, hall_pass option) result \<times> nat \<times> hall_db" where
  "createHallPass rnd k now guestName inviteFrom createdBy db =
     (case createHallPasses rnd k now [guestName] inviteFrom createdBy db of
        (Inl e, k', db') \<Rightarrow> (Inl e, k', db')
      | (Inr ps, k', db') \<Rightarrow> (Inr (case ps of [] \<Rightarrow> None | p # _ \<Rightarrow> Some p), k', db'))"

section \<open>Ticket availability and the limit\<close>

definition getTicketAvailability :: "hall_db \<Rightarrow> ticket_availability" where
  "getTicketAvailability db =
     (case ticket_settings db of
        None \<Rightarrow> \<lparr>available_limit = None, issued_count = 0, remaining_count = None\<rparr>
      | Some s \<Rightarrow>
          \<lparr>available_limit = ticket_limit s,
           issued_count = active_count db,
           remaining_count =
             (case ticket_limit s of None \<Rightarrow> None
              | Some l \<Rightarrow> Some (max (int l - int (active_count db)) 0))\<rparr>)"

text \<open>The column is a 32-bit integer: a larger limit is refused by the database.\<close>

definition updateTicketLimit ::
  "nat option \<Rightarrow> string \<Rightarrow> instant \<Rightarrow> hall_db \<Rightarrow> (db_error, ticket_availability) result \<times> hall_db" where
  "updateTicketLimit limit by now db =
     (if (case limit of None \<Rightarrow> False | Some l \<Rightarrow> 2147483647 < int l) then (Inl Integer_out_of_range, db)
      else fenced db
        (let db' = db\<lparr>ticket_settings := map_option (\<lambda>s. \<lparr>ticket_limit = limit,
               settings_updated_by = Some by, settings_updated_at = now\<rparr>) (ticket_settings db)\<rparr>
         in (getTicketAvailability db', db')))"

section \<open>Invalidation, lookup and email status\<close>

definition mark_invalid :: "instant \<Rightarrow> string \<Rightarrow> hall_pass \<Rightarrow> hall_pass" where
  "mark_invalid now by p =
     p\<lparr>invalidated_at := Some (or_else (invalidated_at p) now),
       invalidated_by := Some (or_else (invalidated_by p) by)\<rparr>"

definition invalidateHallPass ::
  "uuid \<Rightarrow> string \<Rightarrow> instant \<Rightarrow> hall_db \<Rightarrow> (db_error, hall_pass option) result \<times> hall_db" where
  "invalidateHallPass pid by now db =
     (let P = (\<lambda>p. pass_id p = pid)
      in fenced db
        ((case returning P (mark_invalid now by) (hall_passes db) of [] \<Rightarrow> None | p # _ \<Rightarrow> Some p),
         db\<lparr>hall_passes := update_where P (mark_invalid now by) (hall_passes db)\<rparr>))"

definition invalidateAllHallPasses ::
  "string \<Rightarrow> instant \<Rightarrow> hall_db \<Rightarrow> (db_error, hall_pass list) result \<times> hall_db" where
  "invalidateAllHallPasses by now db =
     fenced db
       (returning active (mark_invalid now by) (hall_passes db),
        db\<lparr>hall_passes := update_where active (mark_invalid now by) (hall_passes db)\<rparr>)"

definition getHallPassById :: "uuid \<Rightarrow> hall_db \<Rightarrow> hall_pass option" where
  "getHallPassById pid db = List.find (\<lambda>p. pass_id p = pid) (hall_passes db)"

definition mark_delivery ::
  "instant \<Rightarrow> string \<Rightarrow> email_delivery \<Rightarrow> string option \<Rightarrow> hall_pass \<Rightarrow> hall_pass" where
  "mark_delivery now recipient st err p =
     p\<lparr>email_recipient := Some recipient, email_status := st,
       email_sent_at := (if st = Sent then Some now else email_sent_at p), email_error := err\<rparr>"

definition updatePassEmailDelivery ::
  "uuid list \<Rightarrow> string \<Rightarrow> email_delivery \<Rightarrow> string option \<Rightarrow> instant \<Rightarrow> hall_db
     \<Rightarrow> (db_error, hall_pass list) result \<times> hall_db" where
  "updatePassEmailDelivery ids recipient st err now db =
     (if ids = [] then (Inr [], db)
      else let P = (\<lambda>p. pass_id p \<in> set ids); f = mark_delivery now recipient st err
           in fenced db (returning P f (hall_passes db),
                db\<lparr>hall_passes := update_where P f (hall_passes db)\<rparr>))"

end
