(* ===== verification/HallRegistry.thy ===== *)
theory HallRegistry
  imports HallPasses
begin

text \<open>
  The registry of hall passes as one store: its operations as a datatype, the
  well-formedness invariant every operation keeps, and the facts about the single
  operations that the properties rest on. The single-use contract is interpreted here on
  the registry's own operations.
\<close>

datatype hall_op =
    Create_op "nat \<Rightarrow> byte list" nat instant "string list" "string option" string
  | Redeem_op string "string option" instant
  | Log_op string "string option" redeem_result instant
  | Limit_op "nat option" string instant
  | Invalidate_op uuid string instant
  | Invalidate_all_op string instant
  | Delivery_op "uuid list" string email_delivery "string option" instant

datatype hall_outcome =
    Created "(db_error, hall_pass list) result"
  | Redeemed "(db_error, redeem_result) result"
  | Logged "(db_error, unit) result"
  | Limited "(db_error, ticket_availability) result"
  | Invalidated "(db_error, hall_pass option) result"
  | Invalidated_all "(db_error, hall_pass list) result"
  | Delivered "(db_error, hall_pass list) result"

fun hall_exec :: "hall_op \<Rightarrow> hall_db \<Rightarrow> hall_outcome \<times> hall_db" where
  "hall_exec (Create_op rnd k now names from by) db =
     (case createHallPasses rnd k now names from by db of (r, k', db') \<Rightarrow> (Created r, db'))"
| "hall_exec (Redeem_op tok scanner now) db =
     (case redeemHallPass tok scanner now db of (r, db') \<Rightarrow> (Redeemed r, db'))"
| "hall_exec (Log_op tok scanner res now) db =
     (case logScanAttempt tok scanner res now db of (r, db') \<Rightarrow> (Logged r, db'))"
| "hall_exec (Limit_op l by now) db =
     (case updateTicketLimit l by now db of (r, db') \<Rightarrow> (Limited r, db'))"
| "hall_exec (Invalidate_op pid by now) db =
     (case invalidateHallPass pid by now db of (r, db') \<Rightarrow> (Invalidated r, db'))"
| "hall_exec (Invalidate_all_op by now) db =
     (case invalidateAllHallPasses by now db of (r, db') \<Rightarrow> (Invalidated_all r, db'))"
| "hall_exec (Delivery_op ids rec st err now) db =
     (case updatePassEmailDelivery ids rec st err now db of (r, db') \<Rightarrow> (Delivered r, db'))"

definition hall_inv :: "hall_db \<Rightarrow> bool" where
  "hall_inv db =
     (distinct (map token (hall_passes db)) \<and> distinct (map pass_id (hall_passes db)) \<and>
      distinct (map ticket_number (hall_passes db)) \<and>
      (\<forall>p\<in>set (hall_passes db). pass_id p < next_uuid db \<and> ticket_number p \<le> ticket_seq db))"

definition empty_hall_db :: hall_db where
  "empty_hall_db = \<lparr>hall_passes = [],
     ticket_settings = Some \<lparr>ticket_limit = None, settings_updated_by = None, settings_updated_at = 0\<rparr>,
     scan_attempts = [], ticket_seq = 0, next_uuid = 0, fence = Some (Some False)\<rparr>"

lemma hall_inv_empty: "hall_inv empty_hall_db"
  by (simp add: hall_inv_def empty_hall_db_def)

section \<open>Row updates\<close>

lemma mark_used_keys [simp]:
  "token (mark_used now s p) = token p" "pass_id (mark_used now s p) = pass_id p"
  "ticket_number (mark_used now s p) = ticket_number p"
  "used_at (mark_used now s p) = Some now" "invalidated_at (mark_used now s p) = invalidated_at p"
  by (simp_all add: mark_used_def)

lemma mark_invalid_keys [simp]:
  "token (mark_invalid now by p) = token p" "pass_id (mark_invalid now by p) = pass_id p"
  "ticket_number (mark_invalid now by p) = ticket_number p"
  "used_at (mark_invalid now by p) = used_at p"
  "invalidated_at (mark_invalid now by p) = Some (or_else (invalidated_at p) now)"
  by (simp_all add: mark_invalid_def)

lemma mark_delivery_keys [simp]:
  "token (mark_delivery now rec st err p) = token p"
  "pass_id (mark_delivery now rec st err p) = pass_id p"
  "ticket_number (mark_delivery now rec st err p) = ticket_number p"
  "used_at (mark_delivery now rec st err p) = used_at p"
  "invalidated_at (mark_delivery now rec st err p) = invalidated_at p"
  by (simp_all add: mark_delivery_def)

text \<open>An update of the rows that keeps the three keys keeps the invariant.\<close>

lemma hall_inv_update_rows:
  assumes "hall_inv db"
    and "\<And>p. token (f p) = token p" "\<And>p. pass_id (f p) = pass_id p"
    and "\<And>p. ticket_number (f p) = ticket_number p"
  shows "hall_inv (db\<lparr>hall_passes := update_where P f (hall_passes db)\<rparr>)"
  using assms by (auto simp: hall_inv_def map_update_where set_update_where)

lemma hall_inv_other_tables:
  "hall_inv (db\<lparr>ticket_settings := t\<rparr>) = hall_inv db"
  "hall_inv (db\<lparr>scan_attempts := a\<rparr>) = hall_inv db"
  by (simp_all add: hall_inv_def)

lemma snd_fenced: "snd (fenced db w) = (if writes_frozen db then db else snd w)"
  by (simp add: fenced_def)

lemma fst_fenced: "fst (fenced db w) = (if writes_frozen db then Inl Legacy_writes_frozen else Inr (fst w))"
  by (simp add: fenced_def)

section \<open>Creating passes\<close>

text \<open>
  What a batch adds: rows appended behind the existing ones, counters moved forward and
  nothing else touched.
\<close>

definition extends :: "hall_db \<Rightarrow> hall_pass list \<Rightarrow> hall_db \<Rightarrow> bool" where
  "extends db ps db' =
     (hall_passes db' = hall_passes db @ ps \<and> ticket_settings db' = ticket_settings db \<and>
      scan_attempts db' = scan_attempts db \<and> fence db' = fence db \<and>
      ticket_seq db \<le> ticket_seq db' \<and> next_uuid db \<le> next_uuid db' \<and>
      (\<forall>p\<in>set ps. next_uuid db \<le> pass_id p))"

lemma extends_refl: "extends db [] db"
  by (simp add: extends_def)

lemma extends_counters:
  "extends db [] (db\<lparr>ticket_seq := Suc (ticket_seq db), next_uuid := Suc (next_uuid db)\<rparr>)"
  by (simp add: extends_def)

lemma extends_trans:
  "extends db ps db' \<Longrightarrow> extends db' qs db'' \<Longrightarrow> extends db (ps @ qs) db''"
  by (force simp: extends_def)

lemma extends_frozen: "extends db ps db' \<Longrightarrow> writes_frozen db' = writes_frozen db"
  by (simp add: extends_def writes_frozen_def)

definition issued_as :: "instant \<Rightarrow> string option \<Rightarrow> string option \<Rightarrow> string \<Rightarrow> hall_pass \<Rightarrow> bool" where
  "issued_as now name from by p =
     (guest_name p = name \<and> invite_from p = from \<and> created_by p = Some by \<and> created_at p = now \<and>
      used_at p = None \<and> invalidated_at p = None \<and> email_status p = Not_sent)"

lemma insert_pass_frozen:
  "writes_frozen db \<Longrightarrow> insert_pass now tok name from by db = (Inl Legacy_writes_frozen, db)"
  by (simp add: insert_pass_def fenced_def)

lemma insert_pass_conflict:
  assumes "\<not> writes_frozen db" "tok \<in> token ` set (hall_passes db)"
  shows "insert_pass now tok name from by db =
    (Inr None, db\<lparr>ticket_seq := Suc (ticket_seq db), next_uuid := Suc (next_uuid db)\<rparr>)"
  using assms by (simp add: insert_pass_def fenced_def Let_def)

lemma insert_pass_new:
  assumes "\<not> writes_frozen db" "tok \<notin> token ` set (hall_passes db)"
  shows "insert_pass now tok name from by db =
    (Inr (Some (new_pass db now tok name from by)),
     db\<lparr>ticket_seq := Suc (ticket_seq db), next_uuid := Suc (next_uuid db),
        hall_passes := hall_passes db @ [new_pass db now tok name from by]\<rparr>)"
  using assms by (simp add: insert_pass_def fenced_def Let_def)

lemma new_pass_fields:
  "token (new_pass db now tok name from by) = tok"
  "pass_id (new_pass db now tok name from by) = next_uuid db"
  "ticket_number (new_pass db now tok name from by) = Suc (ticket_seq db)"
  "issued_as now name from by (new_pass db now tok name from by)"
  by (simp_all add: new_pass_def issued_as_def)

lemma insert_pass_cases:
  assumes "insert_pass now tok name from by db = (r, db')"
  obtains "r = Inl Legacy_writes_frozen" "db' = db" "writes_frozen db"
    | "r = Inr None" "extends db [] db'"
    | p where "r = Inr (Some p)" "extends db [p] db'" "token p = tok" "issued_as now name from by p"
        "tok \<notin> token ` set (hall_passes db)"
proof (cases "writes_frozen db")
  case True
  then show thesis using assms that(1) by (simp add: insert_pass_frozen)
next
  case F: False
  show thesis
  proof (cases "tok \<in> token ` set (hall_passes db)")
    case True
    have "extends db [] db'" "r = Inr None"
      using assms unfolding insert_pass_conflict [OF F True] by (auto simp: extends_def)
    then show thesis using that(2) by blast
  next
    case False
    have "extends db [new_pass db now tok name from by] db'"
      "r = Inr (Some (new_pass db now tok name from by))"
      using assms unfolding insert_pass_new [OF F False] by (auto simp: extends_def new_pass_fields)
    moreover have "token (new_pass db now tok name from by) = tok"
      "issued_as now name from by (new_pass db now tok name from by)"
      by (rule new_pass_fields)+
    ultimately show thesis using that(3) False by blast
  qed
qed

lemma hall_inv_insert_pass:
  assumes "hall_inv db" "insert_pass now tok name from by db = (r, db')"
  shows "hall_inv db'"
proof (cases "writes_frozen db")
  case True
  then show ?thesis using assms by (simp add: insert_pass_frozen)
next
  case F: False
  show ?thesis
  proof (cases "tok \<in> token ` set (hall_passes db)")
    case True
    have "db' = db\<lparr>ticket_seq := Suc (ticket_seq db), next_uuid := Suc (next_uuid db)\<rparr>"
      using assms(2) unfolding insert_pass_conflict [OF F True] by simp
    then show ?thesis using assms(1) by (auto simp: hall_inv_def less_Suc_eq le_Suc_eq)
  next
    case False
    have "db' = db\<lparr>ticket_seq := Suc (ticket_seq db), next_uuid := Suc (next_uuid db),
        hall_passes := hall_passes db @ [new_pass db now tok name from by]\<rparr>"
      using assms(2) unfolding insert_pass_new [OF F False] by simp
    then show ?thesis using assms(1) False
      by (fastforce simp: hall_inv_def new_pass_fields less_Suc_eq le_Suc_eq)
  qed
qed

definition attempt_post ::
  "(nat \<Rightarrow> byte list) \<Rightarrow> nat \<Rightarrow> nat \<Rightarrow> instant \<Rightarrow> string option \<Rightarrow> string option \<Rightarrow> string \<Rightarrow> hall_db
     \<Rightarrow> hall_db \<Rightarrow> (db_error, hall_pass option) result \<Rightarrow> bool" where
  "attempt_post rnd k k' now name from by db db' r =
     (case r of Inl e \<Rightarrow> e = Legacy_writes_frozen \<and> writes_frozen db \<and> extends db [] db'
      | Inr None \<Rightarrow> extends db [] db'
      | Inr (Some p) \<Rightarrow> extends db [p] db' \<and> issued_as now name from by p \<and>
          (\<exists>j. k \<le> j \<and> j < k' \<and> token p = js_upper (createReadableToken (rnd j))))"

lemma insert_attempts_result:
  assumes "insert_attempts n rnd k now name from by db = (r, k', db')" "hall_inv db"
  shows "hall_inv db' \<and> k \<le> k' \<and> k' \<le> k + n \<and> attempt_post rnd k k' now name from by db db' r"
  using assms
proof (induction n arbitrary: k db)
  case 0
  then show ?case by (auto simp: extends_refl attempt_post_def)
next
  case (Suc n)
  let ?tok = "js_upper (createReadableToken (rnd k))"
  obtain r1 db1 where ins: "insert_pass now ?tok name from by db = (r1, db1)" by force
  have inv1: "hall_inv db1" using hall_inv_insert_pass [OF Suc.prems(2) ins] .
  from ins show ?case
  proof (cases rule: insert_pass_cases)
    case 1
    then show ?thesis using Suc.prems ins by (auto simp: attempt_post_def extends_refl)
  next
    case 2
    then have rec: "insert_attempts n rnd (Suc k) now name from by db1 = (r, k', db')"
      using Suc.prems(1) ins by simp
    have post: "attempt_post rnd (Suc k) k' now name from by db1 db' r"
      and b: "hall_inv db'" "Suc k \<le> k'" "k' \<le> Suc k + n"
      using Suc.IH [OF rec inv1] by auto
    have "attempt_post rnd k k' now name from by db db' r"
      using post extends_trans [OF 2(2), of _ db'] extends_frozen [OF 2(2)]
      by (auto simp: attempt_post_def split: sum.splits option.splits) (metis Suc_leD)+
    then show ?thesis using b by simp
  next
    case (3 p)
    then show ?thesis using Suc.prems(1) ins inv1 by (auto simp: attempt_post_def)
  qed
qed


definition batch_post ::
  "instant \<Rightarrow> string list \<Rightarrow> string option \<Rightarrow> string \<Rightarrow> hall_db \<Rightarrow> hall_db
     \<Rightarrow> (db_error, hall_pass list) result \<Rightarrow> bool" where
  "batch_post now gs from by db db' r =
     (case r of Inl e \<Rightarrow> (e = Token_not_unique \<or> e = Legacy_writes_frozen \<and> writes_frozen db)
         \<and> (\<exists>qs. extends db qs db')
      | Inr ps \<Rightarrow> extends db ps db' \<and> list_all2 (\<lambda>g p. issued_as now (non_empty g) from by p) gs ps)"

lemma batch_post_Inl:
  "extends db [] db' \<Longrightarrow> e = Token_not_unique \<or> e = Legacy_writes_frozen \<and> writes_frozen db \<Longrightarrow>
    batch_post now gs from by db db' (Inl e)"
  by (auto simp: batch_post_def)

lemma batch_post_Cons:
  assumes "extends db [p] db1" "issued_as now (non_empty g) from by p"
    and "batch_post now gs from by db1 db' r"
  shows "batch_post now (g # gs) from by db db' (map_sum id ((#) p) r)"
proof (cases r)
  case (Inl e)
  then show ?thesis
    using assms extends_frozen [OF assms(1)] by (auto simp: batch_post_def dest: extends_trans)
next
  case (Inr ps)
  then show ?thesis
    using assms extends_trans [OF assms(1), of ps db'] by (auto simp: batch_post_def)
qed

lemma create_each_result:
  assumes "create_each rnd k now gs from by db = (r, k', db')" "hall_inv db"
  shows "hall_inv db' \<and> k \<le> k' \<and> k' \<le> k + 5 * length gs \<and> batch_post now gs from by db db' r"
  using assms
proof (induction gs arbitrary: k db r k' db')
  case Nil
  then show ?case by (auto simp: extends_refl batch_post_def)
next
  case (Cons g gs)
  obtain r1 k1 db1 where att: "insert_attempts 5 rnd k now (non_empty g) from by db = (r1, k1, db1)"
    by (metis prod_cases3)
  note post = insert_attempts_result [OF att Cons.prems(2)]
  consider (failed) e where "r1 = Inl e" | (no_row) "r1 = Inr None" | (row) p where "r1 = Inr (Some p)"
    by (metis not_Some_eq sum.exhaust)
  then show ?case
  proof cases
    case failed
    then show ?thesis using post Cons.prems(1) att by (auto simp: attempt_post_def intro!: batch_post_Inl)
  next
    case no_row
    then show ?thesis using post Cons.prems(1) att by (auto simp: attempt_post_def intro!: batch_post_Inl)
  next
    case (row p)
    obtain r2 k2 db2 where rest: "create_each rnd k1 now gs from by db1 = (r2, k2, db2)"
      by (metis prod_cases3)
    have res: "r = map_sum id ((#) p) r2" "k' = k2" "db' = db2"
      using Cons.prems(1) att row rest by (auto split: sum.splits)
    have "extends db [p] db1" "issued_as now (non_empty g) from by p" "hall_inv db1"
      "k \<le> k1" "k1 \<le> k + 5"
      using post row by (auto simp: attempt_post_def)
    then show ?thesis
      using Cons.IH [OF rest] batch_post_Cons [of db p db1 now g "from" "by" gs db2 r2] by (auto simp: res)
  qed
qed

lemma rollback_extends: "extends db qs db' \<Longrightarrow> extends db [] (rollback db db')"
  by (simp add: extends_def rollback_def)

lemma hall_inv_extends_Nil: "hall_inv db \<Longrightarrow> extends db [] db' \<Longrightarrow> hall_inv db'"
  by (fastforce simp: hall_inv_def extends_def)

text \<open>
  The three ways a batch ends: nothing happened, everything was issued, or an error
  after which every table is as before.
\<close>

lemma createHallPasses_cases:
  assumes "createHallPasses rnd k now gs from by db = (r, k', db')" "hall_inv db"
  obtains "r = Inr []" "db' = db" "gs = [] \<or> over_limit db (length gs)"
    | ps where "r = Inr ps" "extends db ps db'" "gs \<noteq> []" "\<not> over_limit db (length gs)" "hall_inv db'"
        "list_all2 (\<lambda>g p. issued_as now (non_empty (js_trim g)) (trimmed_inviter from) by p) gs ps"
    | e where "r = Inl e" "extends db [] db'" "e = Token_not_unique \<or> writes_frozen db" "hall_inv db'"
proof (cases "gs = [] \<or> over_limit db (length gs)")
  case True
  then show thesis using assms(1) that(1) by (auto simp: createHallPasses_def Let_def split: if_splits)
next
  case False
  obtain r1 k1 db1 where each:
    "create_each rnd k now (map js_trim gs) (trimmed_inviter from) by db = (r1, k1, db1)"
    by (metis prod_cases3)
  note post = create_each_result [OF each assms(2)]
  show thesis
  proof (cases r1)
    case (Inl e)
    then have "r = Inl e" "db' = rollback db db1"
      using False assms(1) each by (auto simp: createHallPasses_def Let_def)
    moreover have "extends db [] db'" "e = Token_not_unique \<or> writes_frozen db"
      using post Inl calculation(2) by (auto simp: batch_post_def dest: rollback_extends)
    ultimately show thesis using that(3) assms(2) by (metis hall_inv_extends_Nil)
  next
    case (Inr ps)
    then have "r = Inr ps" "db' = db1"
      using False assms(1) each by (auto simp: createHallPasses_def Let_def)
    then show thesis using that(2) post Inr False
      by (auto simp: batch_post_def list_all2_map1)
  qed
qed

section \<open>Every operation keeps the invariant\<close>

lemma hall_inv_redeem: "hall_inv db \<Longrightarrow> hall_inv (snd (redeemHallPass tok s now db))"
  by (simp add: redeemHallPass_def redeem_hall_pass_def Let_def snd_fenced split_beta
      hall_inv_update_rows)

lemma hall_inv_log: "hall_inv db \<Longrightarrow> hall_inv (snd (logScanAttempt tok s r now db))"
  by (auto simp: logScanAttempt_def snd_fenced hall_inv_def less_Suc_eq)

lemma hall_inv_limit: "hall_inv db \<Longrightarrow> hall_inv (snd (updateTicketLimit l who now db))"
  by (simp add: updateTicketLimit_def snd_fenced Let_def hall_inv_other_tables)

lemma hall_inv_invalidate: "hall_inv db \<Longrightarrow> hall_inv (snd (invalidateHallPass pid who now db))"
  by (simp add: invalidateHallPass_def snd_fenced Let_def hall_inv_update_rows)

lemma hall_inv_invalidate_all: "hall_inv db \<Longrightarrow> hall_inv (snd (invalidateAllHallPasses who now db))"
  by (simp add: invalidateAllHallPasses_def snd_fenced hall_inv_update_rows)

lemma hall_inv_delivery: "hall_inv db \<Longrightarrow> hall_inv (snd (updatePassEmailDelivery ids rec st err now db))"
  by (simp add: updatePassEmailDelivery_def snd_fenced Let_def hall_inv_update_rows)

lemma hall_inv_create:
  "hall_inv db \<Longrightarrow> hall_inv (snd (snd (createHallPasses rnd k now gs src who db)))"
  by (metis createHallPasses_cases prod.collapse)

lemmas hall_inv_ops = hall_inv_redeem hall_inv_log hall_inv_limit hall_inv_invalidate
  hall_inv_invalidate_all hall_inv_delivery hall_inv_create

lemma hall_exec_inv: "hall_inv db \<Longrightarrow> hall_inv (snd (hall_exec op db))"
  by (cases op) (simp_all add: split_beta hall_inv_ops)

section \<open>Single use\<close>

text \<open>
  A pass is closed when its row carries a time of use or of invalidation; no later row
  can reuse its identifier.
\<close>

definition closed_row :: "hall_pass \<Rightarrow> bool" where
  "closed_row p = (used_at p \<noteq> None \<or> invalidated_at p \<noteq> None)"

lemma closed_row_marks [simp]:
  "closed_row (mark_used now s p)" "closed_row (mark_invalid now who p)"
  "closed_row (mark_delivery now rec st err p) = closed_row p"
  by (simp_all add: closed_row_def)

definition pass_closed :: "uuid \<Rightarrow> hall_db \<Rightarrow> bool" where
  "pass_closed pid db =
     (pid < next_uuid db \<and> (\<forall>p\<in>set (hall_passes db). pass_id p = pid \<longrightarrow> closed_row p))"

fun admits_pass :: "uuid \<Rightarrow> hall_outcome \<Rightarrow> bool" where
  "admits_pass pid (Redeemed (Inr r)) = (result_status r = Valid \<and> result_id r = Some pid)"
| "admits_pass pid _ = False"

lemma pass_closed_extends: "pass_closed pid db \<Longrightarrow> extends db ps db' \<Longrightarrow> pass_closed pid db'"
  by (fastforce simp: pass_closed_def extends_def)

lemma pass_closed_update:
  assumes "pass_closed pid db" "\<And>p. pass_id (f p) = pass_id p"
    and "\<And>p. closed_row p \<Longrightarrow> closed_row (f p)"
  shows "pass_closed pid (db\<lparr>hall_passes := update_where P f (hall_passes db)\<rparr>)"
  using assms by (auto simp: pass_closed_def set_update_where)

lemma pass_closed_create:
  assumes "hall_inv db" "pass_closed pid db"
  shows "pass_closed pid (snd (snd (createHallPasses rnd k now gs src who db)))"
proof -
  obtain r k' db' where c: "createHallPasses rnd k now gs src who db = (r, k', db')"
    by (metis prod_cases3)
  from createHallPasses_cases [OF c assms(1)] have "pass_closed pid db'"
    by cases (use assms(2) in \<open>auto dest: pass_closed_extends\<close>)
  then show ?thesis by (simp add: c)
qed

lemma pass_closed_log: "pass_closed pid db \<Longrightarrow> pass_closed pid (snd (logScanAttempt v s r now db))"
  by (simp add: logScanAttempt_def snd_fenced pass_closed_def)

lemma pass_closed_limit: "pass_closed pid db \<Longrightarrow> pass_closed pid (snd (updateTicketLimit l who now db))"
  by (simp add: updateTicketLimit_def snd_fenced Let_def pass_closed_def)

lemma pass_closed_redeem: "pass_closed pid db \<Longrightarrow> pass_closed pid (snd (redeemHallPass v s now db))"
  by (simp add: redeemHallPass_def redeem_hall_pass_def Let_def snd_fenced split_beta pass_closed_update)

lemma pass_closed_invalidate: "pass_closed pid db \<Longrightarrow> pass_closed pid (snd (invalidateHallPass i who now db))"
  by (simp add: invalidateHallPass_def Let_def snd_fenced pass_closed_update)

lemma pass_closed_invalidate_all:
  "pass_closed pid db \<Longrightarrow> pass_closed pid (snd (invalidateAllHallPasses who now db))"
  by (simp add: invalidateAllHallPasses_def snd_fenced pass_closed_update)

lemma pass_closed_delivery:
  "pass_closed pid db \<Longrightarrow> pass_closed pid (snd (updatePassEmailDelivery ids rec st err now db))"
  by (simp add: updatePassEmailDelivery_def Let_def snd_fenced pass_closed_update)

lemma pass_closed_mono: "hall_inv db \<Longrightarrow> pass_closed pid db \<Longrightarrow> pass_closed pid (snd (hall_exec op db))"
  by (cases op) (simp_all add: split_beta pass_closed_create pass_closed_log pass_closed_limit
      pass_closed_redeem pass_closed_invalidate pass_closed_invalidate_all pass_closed_delivery)

lemma unique_token:
  "hall_inv db \<Longrightarrow> p \<in> set (hall_passes db) \<Longrightarrow> q \<in> set (hall_passes db) \<Longrightarrow> token p = token q \<Longrightarrow> p = q"
  by (auto simp: hall_inv_def distinct_map inj_on_def)

lemma unique_pass_id:
  "hall_inv db \<Longrightarrow> p \<in> set (hall_passes db) \<Longrightarrow> q \<in> set (hall_passes db) \<Longrightarrow> pass_id p = pass_id q \<Longrightarrow> p = q"
  by (auto simp: hall_inv_def distinct_map inj_on_def)

text \<open>What a redemption answers, on each branch.\<close>

lemma redeem_valid:
  assumes "\<not> writes_frozen db" "hall_inv db" "p \<in> set (hall_passes db)" "redeemable (js_upper v) p"
  shows "redeemHallPass v s now db =
    (Inr (redeem_row Valid (mark_used now s p)),
     db\<lparr>hall_passes := update_where (redeemable (js_upper v)) (mark_used now s) (hall_passes db)\<rparr>)"
proof -
  have "filter (redeemable (js_upper v)) (hall_passes db) = filter (\<lambda>q. token q = token p)
     (filter (redeemable (js_upper v)) (hall_passes db))"
    using assms(4) by (auto simp: redeemable_def intro!: filter_cong)
  also have "\<dots> = filter (redeemable (js_upper v)) (filter (\<lambda>q. token q = token p) (hall_passes db))"
    by (simp add: conj_commute)
  also have "filter (\<lambda>q. token q = token p) (hall_passes db) = [p]"
    using distinct_map_filter_one [of token "hall_passes db" p] assms(2,3) by (simp add: hall_inv_def)
  finally have "filter (redeemable (js_upper v)) (hall_passes db) = [p]"
    using assms(4) by simp
  then show ?thesis
    using assms(1) by (simp add: redeemHallPass_def redeem_hall_pass_def fenced_def returning_def Let_def)
qed

lemma redeem_refused:
  assumes "\<not> writes_frozen db" "hall_inv db" "p \<in> set (hall_passes db)"
    and "token p = js_upper v" "\<not> redeemable (js_upper v) p"
  shows "redeemHallPass v s now db = (Inr (redeem_row (refused_status p) p), db)"
proof -
  have one: "filter (\<lambda>q. token q = js_upper v) (hall_passes db) = [p]"
    using distinct_map_filter_one [of token "hall_passes db" p] assms(2-4) by (simp add: hall_inv_def)
  have none: "\<not> redeemable (js_upper v) q" if "q \<in> set (hall_passes db)" for q
    using unique_token [OF assms(2,3) that] assms(4,5) by (auto simp: redeemable_def)
  then have "filter (redeemable (js_upper v)) (hall_passes db) = []" by (simp add: filter_empty_conv)
  then show ?thesis
    using assms(1) one none
    by (simp add: redeemHallPass_def redeem_hall_pass_def fenced_def returning_def Let_def
        update_where_none)
qed

lemma redeem_unknown:
  assumes "\<not> writes_frozen db" "js_upper v \<notin> token ` set (hall_passes db)"
  shows "redeemHallPass v s now db = (Inr no_pass_result, db)"
proof -
  have no: "token q \<noteq> js_upper v" if "q \<in> set (hall_passes db)" for q
    using assms(2) that by (metis image_eqI)
  then have "\<And>q. q \<in> set (hall_passes db) \<Longrightarrow> \<not> redeemable (js_upper v) q"
    by (simp add: redeemable_def)
  moreover have "filter (redeemable (js_upper v)) (hall_passes db) = []"
    "filter (\<lambda>q. token q = js_upper v) (hall_passes db) = []"
    using no by (simp_all add: filter_empty_conv redeemable_def)
  ultimately show ?thesis
    using assms(1) by (simp add: redeemHallPass_def redeem_hall_pass_def fenced_def returning_def
        Let_def update_where_none)
qed

lemma redeem_frozen: "writes_frozen db \<Longrightarrow> redeemHallPass v s now db = (Inl Legacy_writes_frozen, db)"
  by (simp add: redeemHallPass_def fenced_def)

lemma refused_status_not_Valid [simp]: "refused_status p \<noteq> Valid"
  by (simp add: refused_status_def)

lemma redeem_admits:
  assumes "hall_inv db" "redeemHallPass v s now db = (Inr r, db')" "result_status r = Valid"
  obtains p where "p \<in> set (hall_passes db)" "redeemable (js_upper v) p"
    "r = redeem_row Valid (mark_used now s p)"
    "db' = db\<lparr>hall_passes := update_where (redeemable (js_upper v)) (mark_used now s) (hall_passes db)\<rparr>"
    "\<not> writes_frozen db"
proof -
  have nf: "\<not> writes_frozen db" using assms(2) by (auto simp: redeem_frozen)
  show thesis
  proof (cases "js_upper v \<in> token ` set (hall_passes db)")
    case True
    then obtain p where p: "p \<in> set (hall_passes db)" "token p = js_upper v" by force
    have "redeemable (js_upper v) p"
    proof (rule ccontr)
      assume "\<not> redeemable (js_upper v) p"
      then have "r = redeem_row (refused_status p) p"
        using redeem_refused [OF nf assms(1) p, of s now] assms(2) by simp
      then show False using assms(3) by (simp add: redeem_row_def)
    qed
    then show thesis using that p redeem_valid [OF nf assms(1) p(1)] assms(2) nf by auto
  next
    case False
    then show thesis using redeem_unknown [OF nf] assms(2,3) by (auto simp: no_pass_result_def)
  qed
qed

lemma admits_redeem_op:
  assumes "admits_pass pid (fst (hall_exec op db))"
  obtains v s now r db' where "redeemHallPass v s now db = (Inr r, db')" "result_status r = Valid"
    "result_id r = Some pid" "snd (hall_exec op db) = db'"
  using assms by (cases op) (auto split: prod.splits elim!: admits_pass.elims)

lemma admits_open:
  assumes "hall_inv db" "admits_pass pid (fst (hall_exec op db))"
  shows "\<not> pass_closed pid db" "pass_closed pid (snd (hall_exec op db))"
proof -
  obtain v s now r db' where r: "redeemHallPass v s now db = (Inr r, db')" "result_status r = Valid"
    "result_id r = Some pid" "snd (hall_exec op db) = db'"
    using admits_redeem_op [OF assms(2)] .
  obtain p where p: "p \<in> set (hall_passes db)" "redeemable (js_upper v) p"
    "r = redeem_row Valid (mark_used now s p)"
    "db' = db\<lparr>hall_passes := update_where (redeemable (js_upper v)) (mark_used now s) (hall_passes db)\<rparr>"
    using redeem_admits [OF assms(1) r(1,2)] by metis
  have pid: "pass_id p = pid" using r(3) p(3) by (simp add: redeem_row_def)
  then show "\<not> pass_closed pid db" using p(1,2) by (auto simp: pass_closed_def redeemable_def closed_row_def)
  have same: "q = p" if "q \<in> set (hall_passes db)" "pass_id q = pid" for q
    using unique_pass_id [OF assms(1) that(1) p(1)] that(2) pid by simp
  have lt: "pid < next_uuid db" using assms(1) p(1) pid by (auto simp: hall_inv_def)
  have "closed_row q" if q: "q \<in> set (hall_passes db')" "pass_id q = pid" for q
  proof -
    have "q \<in> set (update_where (redeemable (js_upper v)) (mark_used now s) (hall_passes db))"
      using q(1) p(4) by simp
    then show ?thesis
    proof (cases rule: in_update_where_cases)
      case (1 x)
      then show ?thesis by simp
    next
      case 2
      then show ?thesis using same [of q] q(2) p(2) by simp
    qed
  qed
  then show "pass_closed pid (snd (hall_exec op db))"
    using lt r(4) p(4) by (simp add: pass_closed_def)
qed

interpretation hall: single_use hall_exec hall_inv pass_closed admits_pass
  by unfold_locales (simp_all add: hall_exec_inv pass_closed_mono admits_open)

end
