(* ===== verification/HallListing.thy ===== *)
theory HallListing
  imports HallRegistry "HOL-Library.List_Lexorder" "HOL-Library.Char_ord"
begin

text \<open>
  Reading the registry: the filters, the inviter statistics and the paginated listing of
  \<^verbatim>\<open>hallPasses.ts\<close> and the page sizes of \<^verbatim>\<open>hallPassPaging.ts\<close>. The SQL
  operator \<open>ilike\<close> is modelled with its wildcards, because the search text reaches the
  pattern unescaped. Rows with equal sort keys keep their insertion order.
\<close>

section \<open>SQL pattern matching\<close>

function sql_like :: "string \<Rightarrow> string \<Rightarrow> bool" where
  "sql_like [] s = (s = [])"
| "sql_like (c # ps) s =
     (if c = CHR ''%'' then sql_like ps s \<or> (case s of [] \<Rightarrow> False | x # t \<Rightarrow> sql_like (c # ps) t)
      else if c = CHR ''_'' then (case s of [] \<Rightarrow> False | x # t \<Rightarrow> sql_like ps t)
      else if c = CHR 0x5C then
        (case ps of [] \<Rightarrow> False
         | q # qs \<Rightarrow> (case s of [] \<Rightarrow> False | x # t \<Rightarrow> x = q \<and> sql_like qs t))
      else (case s of [] \<Rightarrow> False | x # t \<Rightarrow> x = c \<and> sql_like ps t))"
  by pat_completeness auto
termination
  by (relation "measure (\<lambda>(p, s). length p + length s)") auto

declare sql_like.simps(2) [simp del]

definition sql_ilike :: "string \<Rightarrow> string \<Rightarrow> bool" where
  "sql_ilike text pattern = sql_like (js_lower pattern) (js_lower text)"

section \<open>Page sizes and filters\<close>

definition HALL_PASS_PAGE_SIZES :: "nat list" where
  "HALL_PASS_PAGE_SIZES = [25, 50, 100, 200]"

definition normalizeHallPassPageSize :: "js_number option \<Rightarrow> nat" where
  "normalizeHallPassPageSize limit =
     (case List.find (\<lambda>n. or_else limit (Finite 50) = Finite (of_nat n)) HALL_PASS_PAGE_SIZES of
        Some n \<Rightarrow> n | None \<Rightarrow> 50)"

datatype list_tab = Active_tab | Invalidated_tab

datatype status_filter = All_statuses | Unused_only | Used_only

text \<open>The \<open>where\<close> clause and its parameter, as the condition a row must meet.\<close>

definition buildHallPassFilters :: "list_tab \<Rightarrow> status_filter \<Rightarrow> string \<Rightarrow> hall_pass \<Rightarrow> bool" where
  "buildHallPassFilters tab status search p =
     ((case tab of
         Active_tab \<Rightarrow> invalidated_at p = None \<and>
           (case status of Unused_only \<Rightarrow> used_at p = None
            | Used_only \<Rightarrow> used_at p \<noteq> None | All_statuses \<Rightarrow> True)
       | Invalidated_tab \<Rightarrow> invalidated_at p \<noteq> None) \<and>
      (search = [] \<or> sql_ilike (or_else (guest_name p) []) (''%'' @ search @ ''%'')))"

section \<open>Inviter statistics\<close>

definition sql_trim :: "string \<Rightarrow> string" where
  "sql_trim s = rev (dropWhile (\<lambda>c. c = CHR '' '') (rev (dropWhile (\<lambda>c. c = CHR '' '') s)))"

definition inviter_label :: "hall_pass \<Rightarrow> string" where
  "inviter_label p = (case invite_from p of None \<Rightarrow> ''Unassigned''
     | Some s \<Rightarrow> or_else (non_empty (sql_trim s)) ''Unassigned'')"

definition getInviteFromStats :: "hall_db \<Rightarrow> (string \<times> nat) list" where
  "getInviteFromStats db =
     (let labels = map inviter_label (filter active (hall_passes db));
          rows = map (\<lambda>l. (l, count_list labels l)) (remdups labels)
      in sort_key (\<lambda>r. - int (snd r)) (sort_key fst rows))"

section \<open>Listing\<close>

record list_params =
  lp_page :: "js_number option"
  lp_limit :: "js_number option"
  lp_tab :: "list_tab option"
  lp_status :: "status_filter option"
  lp_search :: "string option"

record list_result =
  listed_passes :: "hall_pass list"
  listed_total :: nat
  listed_page :: int
  listed_limit :: nat
  listed_total_pages :: nat
  listed_active :: nat
  listed_invalidated :: nat

definition ordered_passes :: "list_tab \<Rightarrow> status_filter \<Rightarrow> string \<Rightarrow> hall_db \<Rightarrow> hall_pass list" where
  "ordered_passes tab status search db =
     sort_key (\<lambda>p. - created_at p) (filter (buildHallPassFilters tab status search) (hall_passes db))"

definition page_rows :: "'a list \<Rightarrow> nat \<Rightarrow> nat \<Rightarrow> 'a list" where
  "page_rows rows limit offset = take limit (drop offset rows)"

text \<open>\<open>Math.max(1, Math.ceil(total / limit))\<close> on counts.\<close>

definition total_pages :: "nat \<Rightarrow> nat \<Rightarrow> nat" where
  "total_pages n limit = max 1 ((n + limit - 1) div limit)"

text \<open>
  A page number that is not finite reaches the query as a bad \<open>offset\<close> parameter, and the
  database refuses it.
\<close>

definition listHallPasses :: "list_params \<Rightarrow> hall_db \<Rightarrow> (db_error, list_result) result" where
  "listHallPasses params db =
     (let limit = normalizeHallPassPageSize (lp_limit params);
          tab = or_else (lp_tab params) Active_tab;
          status = or_else (lp_status params) All_statuses;
          search = js_trim (or_else (lp_search params) [])
      in case js_max_one (js_floor (or_else (lp_page params) (Finite 1))) of
           Finite q \<Rightarrow>
             (let page = \<lfloor>q\<rfloor>;
                  rows = ordered_passes tab status search db;
                  n = length (filter (buildHallPassFilters tab status search) (hall_passes db));
                  totalPages = total_pages n limit
              in Inr \<lparr>listed_passes = page_rows rows limit (nat ((page - 1) * int limit)),
                      listed_total = n, listed_page = min page (int totalPages),
                      listed_limit = limit, listed_total_pages = totalPages,
                      listed_active = length (filter active (hall_passes db)),
                      listed_invalidated = length (filter (\<lambda>p. \<not> active p) (hall_passes db))\<rparr>)
         | _ \<Rightarrow> Inl Invalid_number_parameter)"

section \<open>Facts about matching, sizes and pages\<close>

lemma sql_like_percent: "sql_like (CHR ''%'' # ps) s = (\<exists>u v. s = u @ v \<and> sql_like ps v)"
proof (induction s)
  case Nil
  show ?case by (subst sql_like.simps(2)) simp
next
  case (Cons x s)
  have "sql_like (CHR ''%'' # ps) (x # s) = (sql_like ps (x # s) \<or> sql_like (CHR ''%'' # ps) s)"
    by (subst sql_like.simps(2)) simp
  also have "\<dots> = (\<exists>u v. x # s = u @ v \<and> sql_like ps v)"
    unfolding Cons.IH by (auto simp: Cons_eq_append_conv)
  finally show ?case .
qed

definition plain_text :: "string \<Rightarrow> bool" where
  "plain_text s = (CHR ''%'' \<notin> set s \<and> CHR ''_'' \<notin> set s \<and> CHR 0x5C \<notin> set s)"

lemma sql_like_plain: "plain_text p \<Longrightarrow> sql_like (p @ ps) s = (\<exists>v. s = p @ v \<and> sql_like ps v)"
proof (induction p arbitrary: s)
  case Nil
  then show ?case by simp
next
  case (Cons c p)
  then have "plain_text p" "c \<noteq> CHR ''%''" "c \<noteq> CHR ''_''" "c \<noteq> CHR 0x5C"
    by (auto simp: plain_text_def)
  then show ?case
    using Cons.IH by (cases s) (simp_all add: sql_like.simps(2))
qed

lemma sql_like_contains:
  "plain_text p \<Longrightarrow> sql_like (''%'' @ p @ ''%'') s = (\<exists>u v. s = u @ p @ v)"
  by (auto simp: sql_like_percent sql_like_plain)

lemma plain_text_lower: "plain_text p \<Longrightarrow> plain_text (js_lower p)"
proof -
  have low: "lower_char c = d \<Longrightarrow> code_of d < 97 \<or> 122 < code_of d \<Longrightarrow> c = d" for c d
    by (auto simp: lower_char_def is_upper_def code_of_char_of split: if_splits)
  have "(CHR ''%'' = lower_char c) = (c = CHR ''%'')" "(CHR ''_'' = lower_char c) = (c = CHR ''_'')"
    "(CHR 0x5C = lower_char c) = (c = CHR 0x5C)" for c
    using low [of c "CHR ''%''"] low [of c "CHR ''_''"] low [of c "CHR 0x5C"]
    by (auto simp: code_of_def lower_char_def is_upper_def)
  then show "plain_text p \<Longrightarrow> plain_text (js_lower p)"
    by (simp add: plain_text_def js_lower_def image_iff)
qed

lemma concat_page_rows:
  "concat (map (\<lambda>i. page_rows rows limit (i * limit)) [0..<k]) = take (k * limit) rows"
proof (induction k)
  case 0
  then show ?case by simp
next
  case (Suc k)
  have "take (k * limit) rows @ page_rows rows limit (k * limit) = take (k * limit + limit) rows"
    by (simp only: page_rows_def take_add)
  then show ?case using Suc by (simp add: add.commute)
qed

lemma total_pages_cover: "0 < limit \<Longrightarrow> n \<le> total_pages n limit * limit"
proof -
  assume l: "0 < limit"
  have "n + limit - 1 < (n + limit - 1) div limit * limit + limit"
    using l div_mult_mod_eq [of "n + limit - 1" limit] mod_less_divisor [OF l, of "n + limit - 1"]
    by linarith
  then have "n \<le> (n + limit - 1) div limit * limit" using l by linarith
  also have "\<dots> \<le> total_pages n limit * limit" by (simp add: total_pages_def)
  finally show ?thesis .
qed

lemma normalize_page_size_cases: "normalizeHallPassPageSize l \<in> set HALL_PASS_PAGE_SIZES"
  by (auto simp: normalizeHallPassPageSize_def HALL_PASS_PAGE_SIZES_def)

lemma normalize_page_size_pos: "0 < normalizeHallPassPageSize l"
  using normalize_page_size_cases [of l] by (auto simp: HALL_PASS_PAGE_SIZES_def)

definition listed_rows :: "(db_error, list_result) result \<Rightarrow> hall_pass list" where
  "listed_rows r = (case r of Inl _ \<Rightarrow> [] | Inr l \<Rightarrow> listed_passes l)"

lemma listHallPasses_page:
  assumes "lp_page params = Some (Finite (of_nat (Suc i)))"
  shows "listed_rows (listHallPasses params db) =
    page_rows (ordered_passes (or_else (lp_tab params) Active_tab)
        (or_else (lp_status params) All_statuses) (js_trim (or_else (lp_search params) [])) db)
      (normalizeHallPassPageSize (lp_limit params)) (i * normalizeHallPassPageSize (lp_limit params))"
proof -
  have "max 1 (of_int \<lfloor>rat_of_nat (Suc i)\<rfloor>) = rat_of_nat (Suc i)" by simp
  moreover have "nat ((int (Suc i) - 1) * int l) = i * l" for l by (simp add: nat_mult_distrib)
  ultimately show ?thesis
    using assms by (simp add: listHallPasses_def listed_rows_def Let_def del: of_nat_Suc)
qed

end
