(* ===== verification/HallTheorems.thy ===== *)
theory HallTheorems
  imports HallListing
begin

text \<open>
  The properties of the hall-pass registry: single use, the verdict of a scan, ticket
  limits, batches, keys, invalidation, the write fence, tokens and listings.
\<close>

text \<open>A small registry for the witnesses: one batch of two passes.\<close>

definition demo_rnd :: "nat \<Rightarrow> byte list" where
  "demo_rnd k = replicate 8 (of_nat k)"

definition demo_create :: hall_op where
  "demo_create = Create_op demo_rnd 0 1000 [''Ada'', '' Bola ''] (Some ''Anu'') ''admin@x.io''"

text \<open>
  C1. No sequence of operations on the registry - creations, scans, limit changes,
  invalidations, email updates, in any order and number - admits one pass twice.
\<close>

theorem hall_pass_admitted_once:
  "hall_inv db \<Longrightarrow> length (filter (admits_pass pid) (fst (run_ops hall_exec ops db))) \<le> 1"
  by (rule hall.at_most_once)

lemma demo_token0: "createReadableToken (demo_rnd 0) = ''HP-AAAA-AAAA''"
  by code_simp

theorem hall_pass_admitted_once_witness:
  "hall_inv empty_hall_db \<and>
   map (admits_pass 0) (fst (run_ops hall_exec
     [demo_create, Redeem_op ''hp-aaaa-aaaa'' None 5, Redeem_op ''HP-AAAA-AAAA'' None 6] empty_hall_db))
     = [False, True, False] \<and>
   length (filter (admits_pass 0) (fst (run_ops hall_exec
     [demo_create, Redeem_op ''hp-aaaa-aaaa'' None 5, Redeem_op ''HP-AAAA-AAAA'' None 6] empty_hall_db))) \<le> 1"
proof (intro conjI)
  show "hall_inv empty_hall_db" by (rule hall_inv_empty)
  then show "length (filter (admits_pass 0) (fst (run_ops hall_exec
     [demo_create, Redeem_op ''hp-aaaa-aaaa'' None 5, Redeem_op ''HP-AAAA-AAAA'' None 6] empty_hall_db))) \<le> 1"
    by (rule hall_pass_admitted_once)
  show "map (admits_pass 0) (fst (run_ops hall_exec
     [demo_create, Redeem_op ''hp-aaaa-aaaa'' None 5, Redeem_op ''HP-AAAA-AAAA'' None 6] empty_hall_db))
     = [False, True, False]"
    by code_simp
qed

section \<open>The verdict of a scan\<close>

definition scan_verdict ::
  "string \<Rightarrow> string option \<Rightarrow> instant \<Rightarrow> hall_db \<Rightarrow> (db_error, redeem_result) result \<times> hall_db" where
  "scan_verdict v scanner now db =
     (case List.find (\<lambda>p. token p = js_upper v) (hall_passes db) of
        None \<Rightarrow> (Inr no_pass_result, db)
      | Some p \<Rightarrow>
          if invalidated_at p \<noteq> None then (Inr (redeem_row Invalid p), db)
          else if used_at p \<noteq> None then (Inr (redeem_row Used p), db)
          else (Inr (redeem_row Valid (mark_used now scanner p)),
                db\<lparr>hall_passes := update_where (\<lambda>q. pass_id q = pass_id p) (mark_used now scanner)
                     (hall_passes db)\<rparr>))"

lemma redeemable_by_id:
  assumes "hall_inv db" "p \<in> set (hall_passes db)" "redeemable tok p"
  shows "update_where (redeemable tok) f (hall_passes db) =
    update_where (\<lambda>q. pass_id q = pass_id p) f (hall_passes db)"
proof -
  have "redeemable tok q = (pass_id q = pass_id p)" if "q \<in> set (hall_passes db)" for q
    using unique_token [OF assms(1) that assms(2)] unique_pass_id [OF assms(1) that assms(2)] assms(3)
    by (auto simp: redeemable_def)
  then show ?thesis by (simp add: update_where_def)
qed

text \<open>
  C2. What a scan answers and does. On a writable registry the token is compared in upper
  case; an unknown token is invalid, an invalidated pass is invalid even if it was used,
  a used pass reports its first use, and only an open pass is accepted: then, and only
  then, the registry changes, and it changes the row of that pass alone, recording the
  time and the scanner.
\<close>

theorem scan_verdict_correct:
  assumes "hall_inv db" "\<not> writes_frozen db"
  shows "redeemHallPass v scanner now db = scan_verdict v scanner now db"
proof (cases "List.find (\<lambda>p. token p = js_upper v) (hall_passes db)")
  case None
  then have "js_upper v \<notin> token ` set (hall_passes db)" by (auto simp: find_None_iff')
  then show ?thesis using None redeem_unknown [OF assms(2)] by (simp add: scan_verdict_def)
next
  case (Some p)
  then have p: "p \<in> set (hall_passes db)" "token p = js_upper v" by (auto dest: find_SomeD)
  show ?thesis
  proof (cases "redeemable (js_upper v) p")
    case True
    then show ?thesis
      using Some redeem_valid [OF assms(2,1) p(1) True] redeemable_by_id [OF assms(1) p(1) True]
      by (simp add: scan_verdict_def redeemable_def)
  next
    case False
    then show ?thesis
      using Some redeem_refused [OF assms(2,1) p False] p(2)
      by (auto simp: scan_verdict_def redeemable_def refused_status_def)
  qed
qed

definition demo_db :: hall_db where
  "demo_db = snd (hall_exec demo_create empty_hall_db)"

lemma hall_inv_demo: "hall_inv demo_db"
  unfolding demo_db_def by (rule hall_exec_inv [OF hall_inv_empty])

lemma demo_writable: "\<not> writes_frozen demo_db"
  by code_simp

theorem scan_verdict_correct_witness:
  "hall_inv demo_db \<and> \<not> writes_frozen demo_db \<and>
   redeemHallPass ''hp-bbbb-bbbb'' (Some ''door'') 7 demo_db = scan_verdict ''hp-bbbb-bbbb'' (Some ''door'') 7 demo_db
   \<and> fst (scan_verdict ''hp-bbbb-bbbb'' (Some ''door'') 7 demo_db) =
     Inr \<lparr>result_id = Some 1, result_ticket_number = Some 2, result_guest_name = Some ''Bola'',
          result_status = Valid, result_used_at = Some 7\<rparr>"
proof -
  have "fst (scan_verdict ''hp-bbbb-bbbb'' (Some ''door'') 7 demo_db) =
     Inr \<lparr>result_id = Some 1, result_ticket_number = Some 2, result_guest_name = Some ''Bola'',
          result_status = Valid, result_used_at = Some 7\<rparr>"
    by code_simp
  then show ?thesis
    using scan_verdict_correct [OF hall_inv_demo demo_writable, of "''hp-bbbb-bbbb''" "Some ''door''" 7]
      hall_inv_demo demo_writable by blast
qed

section \<open>Batches and the ticket limit\<close>

definition batch_outcome ::
  "instant \<Rightarrow> string list \<Rightarrow> string option \<Rightarrow> string \<Rightarrow> hall_db
     \<Rightarrow> (db_error, hall_pass list) result \<Rightarrow> hall_db \<Rightarrow> bool" where
  "batch_outcome now names src who db r db' =
     (ticket_settings db' = ticket_settings db \<and> scan_attempts db' = scan_attempts db \<and>
      fence db' = fence db \<and>
      (case r of
         Inl e \<Rightarrow> hall_passes db' = hall_passes db \<and> (e = Token_not_unique \<or> writes_frozen db)
       | Inr ps \<Rightarrow>
           hall_passes db' = hall_passes db @ ps \<and>
           (ps = [] \<longleftrightarrow> names = [] \<or> over_limit db (length names)) \<and>
           (ps \<noteq> [] \<longrightarrow>
              map guest_name ps = map (\<lambda>g. non_empty (js_trim g)) names \<and>
              (\<forall>p\<in>set ps. invite_from p = trimmed_inviter src \<and> created_by p = Some who \<and>
                 created_at p = now \<and> used_at p = None \<and> active p) \<and>
              (\<forall>l. configured_limit db = Some l \<longrightarrow> active_count db' \<le> l))))"

lemma list_all2_issued:
  assumes "list_all2 (\<lambda>g p. issued_as now (non_empty (js_trim g)) from who p) names ps"
  shows "map guest_name ps = map (\<lambda>g. non_empty (js_trim g)) names"
    and "\<forall>p\<in>set ps. invite_from p = from \<and> created_by p = Some who \<and> created_at p = now \<and>
           used_at p = None \<and> active p"
  using assms
  by (induction rule: list_all2_induct) (auto simp: issued_as_def active_def)

text \<open>
  C3. A request for passes issues the whole batch or nothing. If it returns passes, there
  is one new row per requested name, in order, with the trimmed name and inviter, and the
  configured limit is not exceeded. If it returns an error, every table is as before, and
  the error is the exhausted token retry or the write fence. If it returns no passes, the
  registry is untouched and either nothing was asked for or the limit has no room.
\<close>

theorem batch_all_or_nothing:
  assumes "hall_inv db" "createHallPasses rnd k now names src who db = (r, k', db')"
  shows "batch_outcome now names src who db r db'"
  using createHallPasses_cases [OF assms(2,1)]
proof cases
  case 1
  then show ?thesis by (auto simp: batch_outcome_def)
next
  case (2 ps)
  have len: "length ps = length names" using 2(6) by (simp add: list_all2_lengthD)
  have act: "filter active ps = ps" using list_all2_issued(2) [OF 2(6)] by simp
  have "active_count db' \<le> l" if "configured_limit db = Some l" for l
    using 2(2,4) that len act by (simp add: active_count_def extends_def over_limit_def)
  moreover have "ps \<noteq> []" using 2(3) len by auto
  ultimately show ?thesis
    using 2(1-4) list_all2_issued [OF 2(6)] by (auto simp: batch_outcome_def extends_def)
next
  case (3 e)
  then show ?thesis by (auto simp: batch_outcome_def extends_def)
qed

theorem batch_all_or_nothing_witness:
  "hall_inv empty_hall_db \<and>
   (case createHallPasses demo_rnd 0 1000 [''Ada'', '' Bola ''] (Some ''Anu'') ''admin@x.io'' empty_hall_db of
      (r, k', db') \<Rightarrow> r \<noteq> Inr [] \<and> (\<exists>ps. r = Inr ps) \<and>
        batch_outcome 1000 [''Ada'', '' Bola ''] (Some ''Anu'') ''admin@x.io'' empty_hall_db r db')"
proof -
  obtain r k' db' where c: "createHallPasses demo_rnd 0 1000 [''Ada'', '' Bola ''] (Some ''Anu'')
      ''admin@x.io'' empty_hall_db = (r, k', db')"
    by (metis prod_cases3)
  have "(case fst (createHallPasses demo_rnd 0 1000 [''Ada'', '' Bola ''] (Some ''Anu'')
      ''admin@x.io'' empty_hall_db) of Inl _ \<Rightarrow> 0 | Inr ps \<Rightarrow> length ps) = 2"
    by code_simp
  then have "r \<noteq> Inr [] \<and> (\<exists>ps. r = Inr ps)" by (auto simp: c split: sum.splits)
  then show ?thesis
    using batch_all_or_nothing [OF hall_inv_empty c] hall_inv_empty c by simp
qed

lemma room_left: "0 < n \<Longrightarrow> l < a + n \<longleftrightarrow> max (int l - int a) 0 < int n"
  by (cases "l \<le> a") auto

text \<open>
  C4. The availability shown to the administrator is the one the batch check uses: a
  non-empty batch is refused for lack of room exactly when it is larger than the reported
  remaining count, and the remaining count is never negative.
\<close>

theorem availability_decides_batches:
  "(0 < n \<longrightarrow> (over_limit db n \<longleftrightarrow>
      (case remaining_count (getTicketAvailability db) of None \<Rightarrow> False | Some r \<Rightarrow> r < int n))) \<and>
   (case remaining_count (getTicketAvailability db) of None \<Rightarrow> True | Some r \<Rightarrow> 0 \<le> r)"
proof (cases "ticket_settings db")
  case None
  then show ?thesis by (simp add: over_limit_def configured_limit_def getTicketAvailability_def)
next
  case settings: (Some s)
  show ?thesis
  proof (cases "ticket_limit s")
    case None
    then show ?thesis using settings
      by (simp add: over_limit_def configured_limit_def getTicketAvailability_def)
  next
    case (Some l)
    have "over_limit db n \<longleftrightarrow> l < active_count db + n"
      "remaining_count (getTicketAvailability db) = Some (max (int l - int (active_count db)) 0)"
      using settings Some by (simp_all add: over_limit_def configured_limit_def getTicketAvailability_def)
    then show ?thesis using room_left [of n l "active_count db"] by simp
  qed
qed

theorem availability_decides_batches_witness:
  "(0::nat) < 2 \<and>
   (let db = snd (hall_exec (Limit_op (Some 3) ''admin@x.io'' 5) demo_db)
    in over_limit db 2 \<and> \<not> over_limit db 1 \<and> remaining_count (getTicketAvailability db) = Some 1)"
proof -
  define db where "db = snd (hall_exec (Limit_op (Some 3) ''admin@x.io'' 5) demo_db)"
  have "remaining_count (getTicketAvailability db) = Some 1" unfolding db_def by code_simp
  then have "over_limit db 2 \<and> \<not> over_limit db 1 \<and> remaining_count (getTicketAvailability db) = Some 1"
    using availability_decides_batches [of 2 db] availability_decides_batches [of 1 db] by simp
  then show ?thesis by (simp only: Let_def db_def [symmetric]) simp
qed

section \<open>Keys\<close>

text \<open>
  C5. Whatever operations run on a new registry, tokens, pass identifiers and ticket
  numbers stay pairwise distinct, and no ticket number runs ahead of the sequence.
\<close>

theorem registry_keys_unique:
  "let db = snd (run_ops hall_exec ops empty_hall_db)
   in distinct (map token (hall_passes db)) \<and> distinct (map pass_id (hall_passes db)) \<and>
      distinct (map ticket_number (hall_passes db)) \<and>
      list_all (\<lambda>p. ticket_number p \<le> ticket_seq db) (hall_passes db)"
  using hall.run_inv [OF hall_inv_empty, of ops] by (simp add: hall_inv_def Let_def list_all_iff)

section \<open>Invalidation\<close>

lemma invalidate_closes:
  assumes "hall_inv db" "\<not> writes_frozen db" "p \<in> set (hall_passes db)"
  shows "pass_closed (pass_id p) (snd (invalidateHallPass (pass_id p) who now db))"
  using assms
  by (auto simp: invalidateHallPass_def Let_def snd_fenced pass_closed_def hall_inv_def set_update_where)

lemma mark_invalid_idem: "mark_invalid t2 w2 (mark_invalid t1 w1 p) = mark_invalid t1 w1 p"
  by (simp add: mark_invalid_def)

text \<open>
  Invalidating a pass of a writable registry is final: the row keeps the first time
  and author of invalidation if it is invalidated again, and no later run of operations
  admits the pass.
\<close>

theorem invalidation_final:
  assumes "hall_inv db" "\<not> writes_frozen db" "p \<in> set (hall_passes db)"
  shows "let db' = snd (invalidateHallPass (pass_id p) who now db)
         in filter (admits_pass (pass_id p)) (fst (run_ops hall_exec ops db')) = [] \<and>
            snd (invalidateHallPass (pass_id p) who2 now2 db') = db'"
proof -
  let ?db' = "snd (invalidateHallPass (pass_id p) who now db)"
  have "update_where (\<lambda>q. pass_id q = pass_id p) (mark_invalid now2 who2)
      (update_where (\<lambda>q. pass_id q = pass_id p) (mark_invalid now who) (hall_passes db)) =
    update_where (\<lambda>q. pass_id q = pass_id p) (mark_invalid now who) (hall_passes db)"
    by (simp add: update_where_def mark_invalid_idem)
  then have "snd (invalidateHallPass (pass_id p) who2 now2 ?db') = ?db'"
    using assms(2) by (simp add: invalidateHallPass_def Let_def snd_fenced writes_frozen_def)
  moreover have "filter (admits_pass (pass_id p)) (fst (run_ops hall_exec ops ?db')) = []"
    using hall.spent_never_admits invalidate_closes [OF assms] hall_inv_invalidate [OF assms(1)] by blast
  ultimately show ?thesis by (simp add: Let_def)
qed

theorem invalidation_final_witness:
  "hall_inv demo_db \<and> \<not> writes_frozen demo_db \<and>
   (\<exists>p\<in>set (hall_passes demo_db). pass_id p = 1 \<and>
     filter (admits_pass 1) (fst (run_ops hall_exec [Redeem_op ''HP-BBBB-BBBB'' None 9]
       (snd (invalidateHallPass 1 ''admin@x.io'' 8 demo_db)))) = [])"
proof -
  have "map pass_id (hall_passes demo_db) = [0, 1]" by code_simp
  then have "1 \<in> pass_id ` set (hall_passes demo_db)" unfolding set_map [symmetric] by simp
  then obtain p where p: "p \<in> set (hall_passes demo_db)" "pass_id p = 1" by auto
  then show ?thesis
    using invalidation_final [OF hall_inv_demo demo_writable p(1), where ops = "[Redeem_op ''HP-BBBB-BBBB'' None 9]"]
      hall_inv_demo demo_writable by (auto simp: Let_def)
qed

section \<open>The write fence\<close>

lemma insert_attempts_frozen:
  "writes_frozen db \<Longrightarrow> insert_attempts (Suc n) rnd k now name src who db = (Inl Legacy_writes_frozen, Suc k, db)"
  by (simp add: insert_pass_def fenced_def)

lemma rollback_self [simp]: "rollback db db = db"
  by (simp add: rollback_def)

lemma createHallPasses_frozen:
  assumes "writes_frozen db"
  shows "snd (snd (createHallPasses rnd k now gs src who db)) = db"
proof (cases gs)
  case Nil
  then show ?thesis by (simp add: createHallPasses_def)
next
  case (Cons g hs)
  have "create_each rnd k now (map js_trim gs) from who db = (Inl Legacy_writes_frozen, Suc k, db)" for "from"
    using insert_attempts_frozen [OF assms, of 4] Cons by (simp add: numeral_eq_Suc)
  then show ?thesis by (simp add: createHallPasses_def Let_def)
qed

lemma fenced_frozen [simp]: "writes_frozen db \<Longrightarrow> fenced db w = (Inl Legacy_writes_frozen, db)"
  by (simp add: fenced_def)

lemma hall_exec_frozen: "writes_frozen db \<Longrightarrow> snd (hall_exec op db) = db"
  by (cases op) (simp_all add: split_beta createHallPasses_frozen redeemHallPass_def logScanAttempt_def
      updateTicketLimit_def invalidateHallPass_def invalidateAllHallPasses_def updatePassEmailDelivery_def
      Let_def)

text \<open>
  C6. Once legacy writes are frozen, no sequence of registry operations changes anything:
  not a row, not a setting, not even a sequence; and no scan is answered with an admission.
\<close>

theorem frozen_registry_unchanged:
  assumes "writes_frozen db"
  shows "snd (run_ops hall_exec ops db) = db \<and>
    filter (admits_pass pid) (fst (run_ops hall_exec ops db)) = []"
proof (induction ops)
  case Nil
  then show ?case by simp
next
  case (Cons op ops)
  have "\<not> admits_pass pid (fst (hall_exec op db))"
    using assms by (cases op) (simp_all add: redeemHallPass_def split_beta)
  then show ?case using Cons hall_exec_frozen [OF assms, of op] by (simp add: split_beta)
qed

definition frozen_demo_db :: hall_db where
  "frozen_demo_db = demo_db\<lparr>fence := Some (Some True)\<rparr>"

theorem frozen_registry_unchanged_witness:
  "writes_frozen frozen_demo_db \<and>
   snd (run_ops hall_exec [demo_create, Redeem_op ''HP-AAAA-AAAA'' None 9, Invalidate_all_op ''x'' 9]
     frozen_demo_db) = frozen_demo_db"
proof -
  have w: "writes_frozen frozen_demo_db" by code_simp
  show ?thesis using w frozen_registry_unchanged [OF w] by (intro conjI) blast+
qed

section \<open>Tokens\<close>

lemma token_alphabet_length: "length token_alphabet = 32"
  by (simp add: token_alphabet_def)

lemma token_char_alphabet: "token_char b \<in> set token_alphabet"
  unfolding token_char_def by (rule nth_mem) (simp add: token_alphabet_length)

lemma alphabet_upper: "c \<in> set token_alphabet \<Longrightarrow> upper_char c = c"
  by (auto simp: token_alphabet_def upper_char_def is_lower_def code_of_def)

definition token_count :: "char \<Rightarrow> nat" where
  "token_count c = length (filter (\<lambda>n. token_char (of_nat n) = c) [0..<256])"

lemma filter_eq_upt: "i < n \<Longrightarrow> length (filter (\<lambda>j. j = i) [0..<n]) = 1"
  by (induction n) (auto simp: less_Suc_eq filter_empty_conv)

lemma residue_count: "i < m \<Longrightarrow> length (filter (\<lambda>n. n mod m = i) [0..<k * m]) = k"
proof (induction k)
  case 0
  then show ?case by simp
next
  case (Suc k)
  have split: "[0..<Suc k * m] = [0..<k * m] @ map (\<lambda>j. j + k * m) [0..<m]"
    using upt_add_eq_append [of 0 "k * m" m] by (simp add: map_add_upt add.commute)
  have "filter (\<lambda>j. (j + k * m) mod m = i) [0..<m] = filter (\<lambda>j. j = i) [0..<m]"
    by (rule filter_cong) simp_all
  then have "length (filter (\<lambda>n. n mod m = i) (map (\<lambda>j. j + k * m) [0..<m])) = 1"
    using filter_eq_upt [OF Suc.prems] by (simp add: filter_map comp_def)
  then show ?case using Suc unfolding split filter_append length_append by simp
qed

lemma token_alphabet_distinct: "distinct token_alphabet"
  by (simp add: token_alphabet_def)

lemma token_char_nat: "n < 256 \<Longrightarrow> token_char (of_nat n) = token_alphabet ! (n mod 32)"
  by (simp add: token_char_def token_alphabet_length unat_of_nat [where 'a = 8, simplified])

lemma token_count_eight: "c \<in> set token_alphabet \<Longrightarrow> token_count c = 8"
proof -
  assume "c \<in> set token_alphabet"
  then obtain i where i: "i < 32" "c = token_alphabet ! i"
    by (auto simp: in_set_conv_nth token_alphabet_length)
  have "filter (\<lambda>n. token_char (of_nat n) = c) [0..<256] = filter (\<lambda>n. n mod 32 = i) [0..<8 * 32]"
    by (rule filter_cong)
      (simp_all add: token_char_nat i nth_eq_iff_index_eq [OF token_alphabet_distinct] token_alphabet_length)
  then show ?thesis using residue_count [OF i(1), of 8] by (simp only: token_count_def)
qed

text \<open>
  C7. A token drawn from at least eight bytes reads \<open>HP-XXXX-XXXX\<close> over the alphabet
  without look-alikes, is its own upper case (so a scan finds it whatever case is typed),
  and the choice of a letter is unbiased: each of the 32 letters comes from exactly 8 of
  the 256 bytes.
\<close>

theorem token_shape_and_fairness:
  assumes "8 \<le> length bs"
  shows "length (createReadableToken bs) = 12 \<and>
    (\<exists>a b. createReadableToken bs = ''HP-'' @ a @ ''-'' @ b \<and> length a = 4 \<and> length b = 4 \<and>
       set (a @ b) \<subseteq> set token_alphabet) \<and>
    js_upper (createReadableToken bs) = createReadableToken bs \<and>
    list_all (\<lambda>c. token_count c = 8) token_alphabet \<and> distinct token_alphabet \<and>
    list_all (\<lambda>c. c \<notin> set token_alphabet) ''01IO''"
proof -
  define cs where "cs = map token_char (take 8 bs)"
  have cs: "length cs = 8" "set cs \<subseteq> set token_alphabet"
    using assms token_char_alphabet by (auto simp: cs_def)
  have t: "createReadableToken bs = ''HP-'' @ take 4 cs @ ''-'' @ take 4 (drop 4 cs)"
    by (simp add: createReadableToken_def Let_def cs_def)
  have parts: "set (take 4 cs @ take 4 (drop 4 cs)) \<subseteq> set token_alphabet"
    using cs(2) by (auto dest!: in_set_takeD in_set_dropD)
  have up: "map upper_char xs = xs" if "set xs \<subseteq> set token_alphabet" for xs
    using that alphabet_upper by (intro map_idI) auto
  have "map upper_char (take 4 cs) = take 4 cs" "map upper_char (take 4 (drop 4 cs)) = take 4 (drop 4 cs)"
    using parts by (auto intro!: up)
  moreover have "map upper_char ''HP-'' = ''HP-''" "map upper_char ''-'' = ''-''" by code_simp+
  ultimately have "js_upper (createReadableToken bs) = createReadableToken bs"
    by (simp only: t js_upper_def map_append)
  moreover have "list_all (\<lambda>c. token_count c = 8) token_alphabet"
    using token_count_eight by (simp add: list_all_iff)
  moreover have "distinct token_alphabet" "list_all (\<lambda>c. c \<notin> set token_alphabet) ''01IO''"
    by (simp_all add: token_alphabet_def)
  moreover have "\<exists>a b. createReadableToken bs = ''HP-'' @ a @ ''-'' @ b \<and> length a = 4 \<and> length b = 4 \<and>
       set (a @ b) \<subseteq> set token_alphabet"
    using t parts cs(1) by (intro exI [of _ "take 4 cs"] exI [of _ "take 4 (drop 4 cs)"]) simp
  moreover have "length (createReadableToken bs) = 12" using cs(1) by (simp add: t)
  ultimately show ?thesis by blast
qed

theorem token_shape_and_fairness_witness:
  "8 \<le> length (demo_rnd 3) \<and> createReadableToken (demo_rnd 3) = ''HP-DDDD-DDDD'' \<and>
   js_upper (createReadableToken (demo_rnd 3)) = createReadableToken (demo_rnd 3)"
proof -
  have l: "8 \<le> length (demo_rnd 3)" by (simp add: demo_rnd_def)
  have "createReadableToken (demo_rnd 3) = ''HP-DDDD-DDDD''" by code_simp
  then show ?thesis using token_shape_and_fairness [OF l] l by blast
qed

end
