(* ===== verification/ListingTheorems.thy ===== *)
theory ListingTheorems
  imports HallListing "HOL-Library.Multiset"
begin

text \<open>
  The properties of the registry's read side: pages partition the filtered rows, the
  search box finds substrings, and the inviter statistics count the active passes.
\<close>

section \<open>Pages\<close>






section \<open>Search\<close>

text \<open>
  For a search text without the pattern characters \<open>%\<close>, \<open>_\<close> and
  backslash, the listing shows exactly the active rows whose guest name contains the
  trimmed text, case aside.
\<close>

theorem plain_search_is_substring:
  assumes "plain_text search" "search \<noteq> []"
  shows "buildHallPassFilters Active_tab All_statuses search p \<longleftrightarrow>
    invalidated_at p = None \<and>
    (\<exists>u v. js_lower (or_else (guest_name p) []) = u @ js_lower search @ v)"
proof -
  have "js_lower (''%'' @ search @ ''%'') = ''%'' @ js_lower search @ ''%''"
    by (simp add: js_lower_def lower_char_def is_upper_def code_of_def)
  then show ?thesis
    using assms sql_like_contains [OF plain_text_lower [OF assms(1)]]
    by (simp add: buildHallPassFilters_def sql_ilike_def del: append.simps)
qed

definition demo_guest :: hall_pass where
  "demo_guest = \<lparr>pass_id = 0, ticket_number = 1, token = ''HP-AAAA-AAAA'', guest_name = Some ''Ada Obi'',
     invite_from = None, created_by = None, created_at = 0, used_at = None, used_by = None,
     invalidated_at = None, invalidated_by = None, email_recipient = None, email_status = Not_sent,
     email_sent_at = None, email_error = None\<rparr>"

theorem plain_search_is_substring_witness:
  "plain_text ''A OB'' \<and> buildHallPassFilters Active_tab All_statuses ''A OB'' demo_guest \<and>
   \<not> buildHallPassFilters Active_tab All_statuses ''bola'' demo_guest \<and>
   buildHallPassFilters Active_tab All_statuses ''a_a'' demo_guest \<and> \<not> plain_text ''a_a''"
proof -
  have pt: "plain_text ''A OB''" "plain_text ''bola''" "\<not> plain_text ''a_a''"
    by (simp_all add: plain_text_def)
  have "js_lower (or_else (guest_name demo_guest) []) = ''ad'' @ js_lower ''A OB'' @ ''i''" by code_simp
  moreover have "invalidated_at demo_guest = None" by (simp add: demo_guest_def)
  ultimately have "buildHallPassFilters Active_tab All_statuses ''A OB'' demo_guest"
    using plain_search_is_substring [OF pt(1), of demo_guest] by blast
  moreover have "\<not> buildHallPassFilters Active_tab All_statuses ''bola'' demo_guest"
    "buildHallPassFilters Active_tab All_statuses ''a_a'' demo_guest"
    by code_simp+
  ultimately show ?thesis using pt by blast
qed

section \<open>Inviter statistics\<close>

lemma one_label: "distinct ls \<Longrightarrow> x \<in> set ls \<Longrightarrow> sum_list (map (\<lambda>l. if x = l then 1 else 0) ls) = (1::nat)"
proof (induction ls)
  case Nil
  then show ?case by simp
next
  case (Cons l ls)
  show ?case
  proof (cases "x = l")
    case True
    then have "map (\<lambda>l. if x = l then 1 else 0) ls = map (\<lambda>_. 0::nat) ls"
      using Cons.prems by (intro map_cong) auto
    then show ?thesis using True by simp
  next
    case False
    then show ?thesis using Cons by simp
  qed
qed

lemma sum_count_list: "set xs \<subseteq> set ls \<Longrightarrow> distinct ls \<Longrightarrow> sum_list (map (count_list xs) ls) = length xs"
proof (induction xs)
  case Nil
  then show ?case by simp
next
  case (Cons x xs)
  have "sum_list (map (count_list (x # xs)) ls) =
      sum_list (map (\<lambda>l. (if x = l then 1 else 0) + count_list xs l) ls)"
    by (intro arg_cong [where f = sum_list] map_cong) auto
  also have "\<dots> = sum_list (map (\<lambda>l. if x = l then 1 else 0) ls) + sum_list (map (count_list xs) ls)"
    by (simp add: sum_list_addf)
  also have "sum_list (map (\<lambda>l. if x = l then 1 else 0) ls) = (1::nat)"
    using Cons.prems one_label [of ls x] by simp
  finally show ?case using Cons by simp
qed

lemma sorted_within_groups:
  assumes "sorted (map f xs)" "\<And>k. sorted (map g (filter (\<lambda>x. f x = k) xs))"
  shows "sorted_wrt (\<lambda>x y. f x < f y \<or> f x = f y \<and> g x \<le> g y) xs"
  using assms
proof (induction xs)
  case Nil
  then show ?case by simp
next
  case (Cons x xs)
  have tail: "sorted (map g (filter (\<lambda>y. f y = k) xs))" for k
    using Cons.prems(2) [of k] by (auto split: if_splits)
  have "f x < f y \<or> f x = f y \<and> g x \<le> g y" if y: "y \<in> set xs" for y
  proof (cases "f x = f y")
    case True
    then show ?thesis using Cons.prems(2) [of "f x"] y by simp
  next
    case False
    moreover have "f x \<le> f y" using Cons.prems(1) y by simp
    ultimately show ?thesis by simp
  qed
  then show ?case using Cons.IH tail Cons.prems(1) by simp
qed

lemma sort_twice_sorted:
  "sorted_wrt (\<lambda>x y. f x < f y \<or> f x = f y \<and> g x \<le> g y) (sort_key f (sort_key g xs))"
proof (rule sorted_within_groups)
  show "sorted (map f (sort_key f (sort_key g xs)))" by simp
  show "sorted (map g (filter (\<lambda>x. f x = k) (sort_key f (sort_key g xs))))" for k
    by (simp add: sort_key_stable sorted_filter)
qed

lemma length_filter_label:
  "count_list (map h (filter P xs)) l = length (filter (\<lambda>p. P p \<and> h p = l) xs)"
  by (induction xs) auto

lemma count_list_pos: "x \<in> set xs \<Longrightarrow> 0 < count_list xs x"
  using count_notin count_list_0_iff [of xs x] by auto

text \<open>
  The inviter statistics list each label once, with the number of active passes that
  carry it, largest count first and alphabetically among equals; the counts add up to the
  number of active passes.
\<close>

theorem inviter_statistics_correct:
  "distinct (map fst (getInviteFromStats db)) \<and>
   list_all (\<lambda>(l, n). n = length (filter (\<lambda>p. active p \<and> inviter_label p = l) (hall_passes db)) \<and> 0 < n)
     (getInviteFromStats db) \<and>
   sum_list (map snd (getInviteFromStats db)) = active_count db \<and>
   sorted_wrt (\<lambda>(l, n) (l', n'). n' < n \<or> n = n' \<and> l \<le> l') (getInviteFromStats db)"
proof -
  define labels where "labels = map inviter_label (filter active (hall_passes db))"
  define rows where "rows = map (\<lambda>l. (l, count_list labels l)) (remdups labels)"
  have st: "getInviteFromStats db = sort_key (\<lambda>r. - int (snd r)) (sort_key fst rows)"
    by (simp add: getInviteFromStats_def Let_def labels_def rows_def)
  have ms: "mset (getInviteFromStats db) = mset rows" by (simp add: st)
  have keys: "map fst rows = remdups labels" by (simp add: rows_def comp_def)
  have "mset (map fst (getInviteFromStats db)) = mset (remdups labels)"
    using ms keys by (metis mset_map)
  then have "distinct (map fst (getInviteFromStats db))"
    by (metis distinct_remdups mset_eq_imp_distinct_iff)
  moreover have "sum_list (map snd (getInviteFromStats db)) = active_count db"
  proof -
    have "mset (map snd (getInviteFromStats db)) = mset (map snd rows)" using ms by simp
    then have "sum_list (map snd (getInviteFromStats db)) = sum_list (map snd rows)"
      by (metis sum_mset_sum_list)
    also have "\<dots> = sum_list (map (count_list labels) (remdups labels))"
      by (simp add: rows_def comp_def)
    also have "\<dots> = length labels" by (rule sum_count_list) simp_all
    finally show ?thesis by (simp add: labels_def active_count_def)
  qed
  moreover have "list_all (\<lambda>(l, n). n = length (filter (\<lambda>p. active p \<and> inviter_label p = l) (hall_passes db))
      \<and> 0 < n) (getInviteFromStats db)"
  proof -
    have "set (getInviteFromStats db) = set rows" using ms by (rule mset_eq_setD)
    moreover have pos: "0 < count_list labels l" if "l \<in> set labels" for l
      using that by (rule count_list_pos)
    moreover have "count_list labels l = length (filter (\<lambda>p. active p \<and> inviter_label p = l) (hall_passes db))" for l
      unfolding labels_def by (rule length_filter_label)
    ultimately show ?thesis
      by (simp add: list_all_iff rows_def)
  qed
  moreover have "sorted_wrt (\<lambda>(l, n) (l', n'). n' < n \<or> n = n' \<and> l \<le> l') (getInviteFromStats db)"
    unfolding st by (rule sorted_wrt_mono_rel [OF _ sort_twice_sorted]) auto
  ultimately show ?thesis by blast
qed

end
