(* ===== verification/SessionTheorems.thy ===== *)
theory SessionTheorems
  imports Session
begin

text \<open>The properties of sessions: lifetime, authenticity and login.\<close>

definition demo_hmac :: "string \<Rightarrow> string" where
  "demo_hmac p = ''sig'' @ show_nat (length p)"

definition session_of :: "string \<Rightarrow> string \<Rightarrow> app_role \<Rightarrow> int \<Rightarrow> auth_session" where
  "session_of uid email role t = \<lparr>session_user_id = uid, session_email = email, session_role = role,
     session_issued_at = of_int t\<rparr>"

lemma checked_session_expired:
  assumes "sessionTtlMs < now' - now"
  shows "checked_session (JObj (session_members uid email role now)) now' = None"
proof -
  have "\<not> (of_int now' - of_int now :: rat) \<le> of_int sessionTtlMs"
    using assms by (metis of_int_diff of_int_le_iff not_le)
  then show ?thesis
    by (cases role) (simp_all add: checked_session_def session_members_def json_str_def
      json_get_def role_of_text_def role_text_def)
qed

lemma own_session:
  assumes "\<And>p. hmac p \<noteq> [] \<and> CHR ''.'' \<notin> set (hmac p)" "uid \<noteq> []" "email \<noteq> []" "0 \<le> now"
  shows "verifySessionToken hmac (Some (createSessionToken hmac uid email role now)) now' =
    (if now' - now \<le> sessionTtlMs then Some (session_of uid email role now) else None)"
proof -
  have v: "verifySessionToken hmac (Some (createSessionToken hmac uid email role now)) now' =
    checked_session (JObj (session_members uid email role now)) now'"
    using assms(1,4) by (intro verify_created) simp_all
  show ?thesis
    using v checked_session_own [OF assms(2,3), of now' now role] checked_session_expired [of now' now uid email role]
    by (auto simp: session_of_def)
qed

text \<open>
  C33. A session token handed out at login is read back as the same user, address and role
  for exactly twelve hours, whatever characters the address holds, and not a millisecond
  longer. The signature is a base64url digest: it is not empty and has no dot.
\<close>

theorem session_lifetime:
  assumes "\<And>p. hmac p \<noteq> [] \<and> CHR ''.'' \<notin> set (hmac p)" "uid \<noteq> []" "email \<noteq> []" "0 \<le> now"
  shows "verifySessionToken hmac (Some (createSessionToken hmac uid email role now)) now' =
    (if now' - now \<le> 12 * 60 * 60 * 1000 then Some (session_of uid email role now) else None)"
  using own_session [OF assms] by (simp add: sessionTtlMs_def)

lemma demo_hmac_ok: "demo_hmac p \<noteq> [] \<and> CHR ''.'' \<notin> set (demo_hmac p)"
  using show_nat_digits [of "CHR ''.''" "length p"] by (auto simp: demo_hmac_def is_digit_def code_of_def)

theorem session_lifetime_witness:
  "(\<forall>p. demo_hmac p \<noteq> [] \<and> CHR ''.'' \<notin> set (demo_hmac p)) \<and>
   verifySessionToken demo_hmac (Some (createSessionToken demo_hmac ''u1'' ''a@b.io'' Bouncer 1000)) 2000 =
     Some (session_of ''u1'' ''a@b.io'' Bouncer 1000) \<and>
   verifySessionToken demo_hmac (Some (createSessionToken demo_hmac ''u1'' ''a@b.io'' Bouncer 1000)) 43201001 = None"
  using session_lifetime [where hmac = demo_hmac and uid = "''u1''" and email = "''a@b.io''" and now = 1000 and now' = 2000, OF demo_hmac_ok]
    session_lifetime [where hmac = demo_hmac and uid = "''u1''" and email = "''a@b.io''" and now = 1000 and now' = 43201001, OF demo_hmac_ok] demo_hmac_ok
  by simp

text \<open>
  C34. Every token that is accepted carries, after its first dot, the signature of what
  stands before it, and gives a user with an identity and one of the two roles, issued at
  most twelve hours ago; a session has no access to a route that does not list its role.
\<close>

theorem accepted_token_is_signed:
  assumes "verifySessionToken hmac (Some t) now = Some s"
  shows "(\<exists>payload rest. js_split (CHR ''.'') t = payload # hmac payload # rest \<and> payload \<noteq> []) \<and>
    session_user_id s \<noteq> [] \<and> session_email s \<noteq> [] \<and>
    of_int now - session_issued_at s \<le> 12 * 60 * 60 * 1000 \<and>
    (canAccessRole (Some s) allowed \<longleftrightarrow> session_role s \<in> set allowed) \<and>
    \<not> canAccessRole (verifySessionToken hmac None now) allowed"
proof -
  obtain payload rest j where p: "js_split (CHR ''.'') t = payload # hmac payload # rest" "payload \<noteq> []"
    "checked_session j now = Some s"
    using verify_cases [OF assms] by metis
  have "of_int now - session_issued_at s \<le> of_int sessionTtlMs" using checked_session_Some(3) [OF p(3)] .
  then show ?thesis
    using p checked_session_Some(1,2) [OF p(3)]
    by (simp add: canAccessRole_def verifySessionToken_def sessionTtlMs_def)
qed

theorem accepted_token_is_signed_witness:
  "(\<exists>s t. verifySessionToken demo_hmac (Some t) 2000 = Some s \<and>
     (\<exists>payload rest. js_split (CHR ''.'') t = payload # demo_hmac payload # rest \<and> payload \<noteq> []) \<and>
     canAccessRole (Some s) [Super_admin, Bouncer] \<and> \<not> canAccessRole (Some s) [Super_admin])"
proof -
  let ?t = "createSessionToken demo_hmac ''u1'' ''a@b.io'' Bouncer 1000"
  have v: "verifySessionToken demo_hmac (Some ?t) 2000 = Some (session_of ''u1'' ''a@b.io'' Bouncer 1000)"
    using own_session [where hmac = demo_hmac and uid = "''u1''" and email = "''a@b.io''" and now = 1000 and now' = 2000, OF demo_hmac_ok] by (simp add: sessionTtlMs_def)
  show ?thesis
    using accepted_token_is_signed [OF v, of "[Super_admin, Bouncer]"]
      accepted_token_is_signed [OF v, of "[Super_admin]"] v
    by (auto simp: session_of_def)
qed

text \<open>
  Login sets a session cookie exactly when a registered user with that address, letter
  case and surrounding blanks aside, gives a password that matches the stored hash; the
  cookie expires with the session and is read back as that user's session.
\<close>

theorem login_issues_session:
  assumes "\<And>p. hmac p \<noteq> [] \<and> CHR ''.'' \<notin> set (hmac p)" "0 \<le> now"
    and "list_all (\<lambda>u. user_id u \<noteq> [] \<and> user_email u \<noteq> []) users"
    and "login_POST hmac bcrypt production users b now = Inr r" "set_cookie r = Some c"
  shows "status r = 200 \<and> int (cookie_max_age c) * 1000 = 12 * 60 * 60 * 1000 \<and>
    (\<exists>u pw e. u \<in> set users \<and> json_get ''password'' b = Some (JStr pw) \<and> bcrypt pw (password_hash u) \<and>
       json_get ''email'' b = Some (JStr e) \<and> js_lower (user_email u) = js_lower (js_trim e) \<and>
       verifySessionToken hmac (Some (cookie_value c)) now =
         Some (session_of (user_id u) (user_email u) (user_role u) now))"
proof -
  obtain email where e: "optional_trim ''email'' b = Inr email"
    using assms(4) by (auto simp: login_POST_def split: sum.splits)
  then obtain u pw where u: "findUserByEmail (or_else email []) users = Some u" "or_else email [] \<noteq> []"
    "or_else (json_get ''password'' b) JNull = JStr pw" "bcrypt pw (password_hash u)"
    "c = \<lparr>cookie_value = createSessionToken hmac (user_id u) (user_email u) (user_role u) now,
          cookie_secure = production, cookie_max_age = getSessionMaxAgeSeconds\<rparr>" "status r = 200"
    using assms(4,5) by (auto simp: login_POST_def Let_def split: if_splits option.splits json.splits)
  have m: "u \<in> set users" "js_lower (user_email u) = js_lower (or_else email [])"
    using u(1) by (auto simp: findUserByEmail_def dest: find_SomeD)
  have "json_get ''password'' b = Some (JStr pw)"
    using u(3) by (cases "json_get ''password'' b") (auto simp: or_else_def)
  moreover obtain s where "json_get ''email'' b = Some (JStr s)" "or_else email [] = js_trim s"
    using e u(2) by (auto simp: optional_trim_def or_else_def split: option.splits json.splits)
  moreover have "verifySessionToken hmac (Some (cookie_value c)) now =
      Some (session_of (user_id u) (user_email u) (user_role u) now)"
    using own_session [where hmac = hmac and uid = "user_id u" and email = "user_email u" and now' = now, OF assms(1) _ _ assms(2)]
      assms(3) m(1) u(5) by (simp add: list_all_iff sessionTtlMs_def)
  moreover have "int (cookie_max_age c) * 1000 = 12 * 60 * 60 * 1000"
    by (simp add: u(5) getSessionMaxAgeSeconds_def sessionTtlMs_def)
  ultimately show ?thesis using m u by auto
qed

definition demo_users :: "app_user list" where
  "demo_users = [\<lparr>user_id = ''u1'', user_email = ''Ada@x.io'', password_hash = ''#pw'', user_role = Super_admin\<rparr>]"

definition demo_login :: json where
  "demo_login = JObj [(''email'', JStr '' ada@X.io ''), (''password'', JStr ''pw'')]"

definition demo_bcrypt :: "string \<Rightarrow> string \<Rightarrow> bool" where
  "demo_bcrypt pw h = (h = ''#'' @ pw)"

lemma login_chars: "char_of (97::nat) = CHR ''a''" "char_of (120::nat) = CHR ''x''"
  by code_simp+

theorem login_issues_session_witness:
  "\<exists>r c. login_POST demo_hmac demo_bcrypt True demo_users demo_login 1000 = Inr r \<and> set_cookie r = Some c \<and>
     status r = 200 \<and> int (cookie_max_age c) * 1000 = 12 * 60 * 60 * 1000"
proof -
  define res where "res = login_POST demo_hmac demo_bcrypt True demo_users demo_login 1000"
  have "(case res of Inl _ \<Rightarrow> False | Inr r \<Rightarrow> set_cookie r \<noteq> None)" 
    unfolding res_def demo_users_def demo_login_def
    by (simp add: login_POST_def optional_trim_def json_get_def or_else_def js_trim_def is_space_def
        code_of_def findUserByEmail_def js_lower_def lower_char_def login_chars is_upper_def demo_bcrypt_def)
  then obtain r c where r: "res = Inr r" "set_cookie r = Some c" by (auto split: sum.splits)
  have "list_all (\<lambda>u. user_id u \<noteq> [] \<and> user_email u \<noteq> []) demo_users" by (simp add: demo_users_def)
  then show ?thesis
    using login_issues_session [OF demo_hmac_ok _ _ r(1) [unfolded res_def] r(2)] r res_def by auto
qed

end
