(* ===== verification/PassEmail.thy ===== *)
theory PassEmail
  imports HallTypes Codec
begin

text \<open>
  Pass delivery by mail: \<^verbatim>\<open>apps/web/src/lib/maileroo.ts\<close>,
  \<^verbatim>\<open>passEmail.ts\<close> and the file name of \<^verbatim>\<open>passPdf.ts\<close>. The
  mail service is a parameter \<open>provider\<close> from the requests it received before and the
  request at hand to its reply; the requests posted are kept as an outbox. The PDF bytes of a
  pass come from a parameter \<open>render\<close>, which may fail with a message.
\<close>

section \<open>The mail service\<close>

record mail_config =
  api_key :: string
  from_address :: string
  from_name :: string

record attachment =
  file_name :: string
  content :: string

record email =
  mail_from :: "string \<times> string"
  mail_to :: string
  subject :: string
  plain :: string
  html :: string
  attachments :: "attachment list"

text \<open>
  A reply: the request failed, or a response with its \<open>ok\<close> flag, its status and the
  \<open>success\<close> and \<open>message\<close> fields of its body, when the body is a JSON object.
\<close>

datatype mail_reply = Network_failure string | Reply bool nat "(bool option \<times> string option) option"

type_synonym mail_provider = "email list \<Rightarrow> email \<Rightarrow> mail_reply"

definition getMailerooConfig :: "string option \<Rightarrow> string option \<Rightarrow> string option \<Rightarrow> (string, mail_config) result" where
  "getMailerooConfig key address name =
     (if or_else key [] = [] \<or> or_else address [] = []
      then Inl ''Missing MAILEROO_API_KEY or MAILEROO_FROM_EMAIL.''
      else Inr \<lparr>api_key = or_else key [], from_address = or_else address [],
                from_name = (if or_else name [] = [] then ''Adeola & Joshua'' else or_else name [])\<rparr>)"

definition email_char :: "char \<Rightarrow> bool" where
  "email_char c = (\<not> is_space c \<and> c \<noteq> CHR ''@'')"

text \<open>A match of \<open>^[^\s@]+@[^\s@]+\.[^\s@]+$\<close>: one at sign, a dot inside the domain.\<close>

definition inner_dot :: "string \<Rightarrow> bool" where
  "inner_dot d = (CHR ''.'' \<in> set (tl (butlast d)))"

definition isLikelyEmail :: "string \<Rightarrow> bool" where
  "isLikelyEmail v =
     (case js_split (CHR ''@'') (js_trim v) of
        [l, d] \<Rightarrow> l \<noteq> [] \<and> list_all email_char l \<and> list_all email_char d \<and> inner_dot d
      | _ \<Rightarrow> False)"

definition reply_error :: "bool \<Rightarrow> nat \<Rightarrow> (bool option \<times> string option) option \<Rightarrow> string option" where
  "reply_error ok st data =
     (if \<not> ok \<or> (case data of None \<Rightarrow> False | Some (success, _) \<Rightarrow> success = Some False)
      then Some (case data of
          Some (_, Some m) \<Rightarrow> or_else (non_empty m) (''Maileroo request failed with status '' @ show_nat st @ ''.'')
        | _ \<Rightarrow> ''Maileroo request failed with status '' @ show_nat st @ ''.'')
      else None)"

definition sendMailerooEmail ::
  "(string, mail_config) result \<Rightarrow> mail_provider \<Rightarrow> (string \<times> string \<Rightarrow> email) \<Rightarrow> email list
     \<Rightarrow> (string, unit) result \<times> email list" where
  "sendMailerooEmail config provider input outbox =
     (case config of
        Inl e \<Rightarrow> (Inl e, outbox)
      | Inr c \<Rightarrow>
        (let request = input (from_address c, from_name c)
         in (case provider outbox request of
               Network_failure m \<Rightarrow> Inl m
             | Reply ok st data \<Rightarrow> (case reply_error ok st data of Some m \<Rightarrow> Inl m | None \<Rightarrow> Inr ()),
             outbox @ [request])))"

section \<open>Message texts\<close>

definition PASS_EMAIL_BATCH_SIZE :: nat where
  "PASS_EMAIL_BATCH_SIZE = 10"

definition escapeHtml :: "string \<Rightarrow> string" where
  "escapeHtml v =
     js_replace_all (CHR 0x27) ''&#039;''
       (js_replace_all (CHR 0x22) ''&quot;''
         (js_replace_all (CHR ''>'') ''&gt;''
           (js_replace_all (CHR ''<'') ''&lt;''
             (js_replace_all (CHR ''&'') ''&amp;'' v))))"

definition formatTicketNumber :: "nat \<Rightarrow> string" where
  "formatTicketNumber n = ''Ticket #'' @ js_pad_start 3 (CHR ''0'') (show_nat n)"

definition formatGuestName :: "hall_pass \<Rightarrow> string" where
  "formatGuestName p =
     (case guest_name p of None \<Rightarrow> ''Guest'' | Some g \<Rightarrow> or_else (non_empty (js_trim g)) ''Guest'')"

definition buildGuestNameLines :: "hall_pass list \<Rightarrow> string" where
  "buildGuestNameLines ps =
     (case ps of
        [p] \<Rightarrow> ''This ticket pass is generated for '' @ formatGuestName p @ ''.''
      | _ \<Rightarrow> ''This ticket pass is generated for '' @ js_join '', '' (map formatGuestName ps) @ ''.'')"

definition buildSubject :: "hall_pass list \<Rightarrow> string option \<Rightarrow> string" where
  "buildSubject ps label =
     (let prefix = (if or_else label [] = [] then [] else '' ('' @ or_else label [] @ '')'')
      in case ps of
           [p] \<Rightarrow> ''Your Hall Pass - '' @ formatTicketNumber (ticket_number p) @ prefix
         | _ \<Rightarrow> ''Hall Pass Tickets'' @ prefix @ '' - '' @ show_nat (length ps) @ '' PDF Attachments'')"

definition message_intro :: "string \<Rightarrow> string" where
  "message_intro m = or_else (non_empty (js_trim m)) ''Please find the attached hall pass ticket PDF.''"

definition buildPlainMessage :: "string \<Rightarrow> hall_pass list \<Rightarrow> string" where
  "buildPlainMessage m ps =
     message_intro m @ [CHR 0x0A, CHR 0x0A] @ buildGuestNameLines ps @ [CHR 0x0A, CHR 0x0A] @
     ''Attached tickets:'' @ [CHR 0x0A] @
     js_join [CHR 0x0A] (map (\<lambda>p. formatTicketNumber (ticket_number p) @ '' - '' @ formatGuestName p @
       '' - '' @ token p) ps)"

definition list_item :: "hall_pass \<Rightarrow> string" where
  "list_item p = ''<li><strong>'' @ escapeHtml (formatTicketNumber (ticket_number p)) @ ''</strong> - '' @
     escapeHtml (formatGuestName p) @ '' - <code>'' @ escapeHtml (token p) @ ''</code></li>''"

definition buildHtmlMessage :: "string \<Rightarrow> hall_pass list \<Rightarrow> string" where
  "buildHtmlMessage m ps =
     ''<p>'' @ js_replace_all (CHR 0x0A) ''<br />'' (escapeHtml (message_intro m)) @ ''</p><p>'' @
     escapeHtml (buildGuestNameLines ps) @ ''</p><p>Attached tickets:</p><ul>'' @
     concat (map list_item ps) @ ''</ul>''"

section \<open>File names\<close>

definition slug_char :: "char \<Rightarrow> bool" where
  "slug_char c = (is_lower c \<or> is_digit c)"

text \<open>\<open>replace(/[^a-z0-9]+/g, "-")\<close>: each maximal run of other characters is one dash.\<close>

fun dash_runs :: "bool \<Rightarrow> string \<Rightarrow> string" where
  "dash_runs inside [] = []"
| "dash_runs inside (c # cs) =
     (if slug_char c then c # dash_runs False cs
      else if inside then dash_runs True cs else CHR ''-'' # dash_runs True cs)"

text \<open>\<open>replace(/(^-|-$)/g, "")\<close>.\<close>

definition strip_dashes :: "string \<Rightarrow> string" where
  "strip_dashes s =
     (let t = (case s of [] \<Rightarrow> [] | c # cs \<Rightarrow> if c = CHR ''-'' then cs else s)
      in if t \<noteq> [] \<and> last t = CHR ''-'' then butlast t else t)"

definition safe_name :: "hall_pass \<Rightarrow> string" where
  "safe_name p = strip_dashes (dash_runs False (js_lower (or_else (guest_name p) ''guest'')))"

definition getPassPdfFileName :: "hall_pass \<Rightarrow> string" where
  "getPassPdfFileName p = ''hall-pass-ticket-'' @ js_pad_start 3 (CHR ''0'') (show_nat (ticket_number p)) @
     ''-'' @ (if safe_name p = [] then ''guest'' else safe_name p) @ ''.pdf''"

section \<open>Sending\<close>

fun render_all :: "(hall_pass \<Rightarrow> (string, string) result) \<Rightarrow> hall_pass list \<Rightarrow> (string, attachment list) result" where
  "render_all render [] = Inr []"
| "render_all render (p # ps) =
     (case render p of
        Inl e \<Rightarrow> Inl e
      | Inr bytes \<Rightarrow>
        map_sum id ((#) \<lparr>file_name = getPassPdfFileName p, content = base64_encode bytes\<rparr>) (render_all render ps))"

record mail_env =
  mail_settings :: "(string, mail_config) result"
  mail_service :: mail_provider
  pdf_render :: "hall_pass \<Rightarrow> (string, string) result"

definition sendPassPdfEmail ::
  "mail_env \<Rightarrow> hall_pass list \<Rightarrow> string \<Rightarrow> string \<Rightarrow> string option \<Rightarrow> email list
     \<Rightarrow> (string, unit) result \<times> email list" where
  "sendPassPdfEmail env ps recipient message label outbox =
     (case render_all (pdf_render env) ps of
        Inl e \<Rightarrow> (Inl e, outbox)
      | Inr files \<Rightarrow>
        sendMailerooEmail (mail_settings env) (mail_service env)
          (\<lambda>src. \<lparr>mail_from = src, mail_to = recipient, subject = buildSubject ps label,
             plain = buildPlainMessage message ps, html = buildHtmlMessage message ps,
             attachments = files\<rparr>) outbox)"

record batch_result =
  sent_pass_ids :: "uuid list"
  failed_pass_ids :: "uuid list"
  batch_errors :: "string list"

definition chunkPasses :: "'a list \<Rightarrow> nat \<Rightarrow> 'a list list" where
  "chunkPasses items n = chunks n items"

text \<open>The loop over the batches; \<open>i\<close> is the index, \<open>n\<close> the number of batches.\<close>

fun send_batches ::
  "mail_env \<Rightarrow> string \<Rightarrow> string \<Rightarrow> nat \<Rightarrow> nat \<Rightarrow> hall_pass list list \<Rightarrow> batch_result \<Rightarrow> email list
     \<Rightarrow> batch_result \<times> email list" where
  "send_batches env recipient message n i [] acc outbox = (acc, outbox)"
| "send_batches env recipient message n i (b # bs) acc outbox =
     (let label = (if 1 < n then Some (show_nat (Suc i) @ ''/'' @ show_nat n) else None)
      in case sendPassPdfEmail env b recipient message label outbox of
           (Inr _, outbox') \<Rightarrow>
             send_batches env recipient message n (Suc i) bs
               (acc\<lparr>sent_pass_ids := sent_pass_ids acc @ map pass_id b\<rparr>) outbox'
         | (Inl e, outbox') \<Rightarrow>
             send_batches env recipient message n (Suc i) bs
               (acc\<lparr>failed_pass_ids := failed_pass_ids acc @ map pass_id b,
                    batch_errors := batch_errors acc @ [''Batch '' @ show_nat (Suc i) @ '': '' @ e]\<rparr>) outbox')"

definition sendPassPdfEmailsBatched ::
  "mail_env \<Rightarrow> hall_pass list \<Rightarrow> string \<Rightarrow> string \<Rightarrow> email list \<Rightarrow> batch_result \<times> email list" where
  "sendPassPdfEmailsBatched env ps recipient message outbox =
     (let batches = chunkPasses ps PASS_EMAIL_BATCH_SIZE
      in send_batches env recipient message (length batches) 0 batches
           \<lparr>sent_pass_ids = [], failed_pass_ids = [], batch_errors = []\<rparr> outbox)"

end
