(* ===== verification/PassPdf.thy ===== *)
theory PassPdf
  imports PassEmail
begin

text \<open>
  The printed pass: the drawing of \<^verbatim>\<open>createPassPdfBuffer\<close> in
  \<^verbatim>\<open>apps/web/src/lib/passPdf.ts\<close> as the list of the drawing calls it makes, in
  page units. The width of a text in a font is a parameter: it belongs to the PDF library.
\<close>

datatype font = Times_roman | Times_italic | Times_bold | Helvetica_bold | Courier_bold

datatype colour = Cream | Burgundy | Rose_wine | Rose_gold | Deep_brown | Text_secondary | Alert_red

datatype draw_op =
    Filled_rect rat rat rat rat colour
  | Framed_rect rat rat rat rat colour rat
  | Picture string rat rat rat rat
  | Rule_line rat rat rat rat colour
  | Text_run string rat rat rat font colour
  | Stamp string rat rat rat font colour

definition PAGE_W :: rat where "PAGE_W = 850"
definition PAGE_H :: rat where "PAGE_H = 400"

type_synonym text_width = "font \<Rightarrow> string \<Rightarrow> rat \<Rightarrow> rat"

section \<open>Centred text\<close>

definition shown_text :: "string \<Rightarrow> string \<Rightarrow> string" where
  "shown_text text display = (if display = text then text else display @ ''...'')"

text \<open>The loop that drops a last character while the text is too wide.\<close>

function shrink_text :: "(string \<Rightarrow> rat) \<Rightarrow> rat \<Rightarrow> string \<Rightarrow> string \<Rightarrow> string" where
  "shrink_text width max_width text display =
     (if 3 < length display \<and> max_width < width (shown_text text display)
      then shrink_text width max_width text (butlast display)
      else display)"
  by pat_completeness auto
termination
  by (relation "measure (\<lambda>(w, m, t, d). length d)") auto

declare shrink_text.simps [simp del]

definition drawCentered ::
  "text_width \<Rightarrow> string \<Rightarrow> rat \<Rightarrow> rat \<Rightarrow> rat \<Rightarrow> font \<Rightarrow> colour \<Rightarrow> rat \<Rightarrow> draw_op" where
  "drawCentered width text centerX y fsize font colour maxWidth =
     (let finalText = shown_text text (shrink_text (\<lambda>s. width font s fsize) maxWidth text text);
          textWidth = width font finalText fsize
      in Text_run finalText (centerX - textWidth / 2) y fsize font colour)"

section \<open>The page\<close>

definition js_round :: "rat \<Rightarrow> rat" where
  "js_round x = of_int \<lfloor>x + 1 / 2\<rfloor>"

definition imgH :: rat where "imgH = PAGE_H - 76"
definition imgW :: rat where "imgW = js_round (imgH * (720 / 1019))"
definition imgX :: rat where "imgX = 40"
definition imgY :: rat where "imgY = 38"
definition qrSize :: rat where "qrSize = 178"
definition qrX :: rat where "qrX = PAGE_W - 40 - qrSize"
definition qrY :: rat where "qrY = (PAGE_H - qrSize) / 2 - 6"
definition detailsLeft :: rat where "detailsLeft = imgX + imgW + 24"
definition detailsRight :: rat where "detailsRight = qrX - 24"
definition detailsCenter :: rat where "detailsCenter = (detailsLeft + detailsRight) / 2"
definition detailsWidth :: rat where "detailsWidth = detailsRight - detailsLeft"
definition qrCenter :: rat where "qrCenter = qrX + qrSize / 2"

definition invitation_panel :: "text_width \<Rightarrow> bool \<Rightarrow> draw_op list" where
  "invitation_panel width has_invitation =
     (if has_invitation
      then [Framed_rect (imgX - 4) (imgY - 4) (imgW + 8) (imgH + 8) Rose_gold 2,
            Picture ''invitation'' imgX imgY imgW imgH]
      else [Filled_rect imgX imgY imgW imgH Burgundy,
            drawCentered width ''Adeola & Joshua'' (imgX + imgW / 2) (imgY + imgH / 2) 16 Times_italic Cream
              (imgW - 20)])"

definition details_panel :: "text_width \<Rightarrow> hall_pass \<Rightarrow> draw_op list" where
  "details_panel width p =
     [drawCentered width ''ADEOLA & JOSHUA'' detailsCenter (PAGE_H - 78) 12 Times_bold Rose_wine detailsWidth,
      drawCentered width ''Hall Pass'' detailsCenter (PAGE_H - 128) 34 Times_roman Burgundy detailsWidth,
      drawCentered width (js_upper (formatTicketNumber (ticket_number p))) detailsCenter (PAGE_H - 156) 12
        Helvetica_bold Deep_brown detailsWidth,
      Rule_line (detailsCenter - 70) (PAGE_H - 172) (detailsCenter + 70) (PAGE_H - 172) Rose_gold,
      drawCentered width (or_else (guest_name p) ''Guest'') detailsCenter (PAGE_H - 214) 24 Times_bold
        Deep_brown detailsWidth,
      drawCentered width ''Saturday 1st August 2026'' detailsCenter (PAGE_H - 240) 13 Times_italic
        Text_secondary detailsWidth,
      drawCentered width (token p) detailsCenter (PAGE_H - 286) 17 Courier_bold Deep_brown detailsWidth,
      drawCentered width ''Present this code at entry.'' detailsCenter (PAGE_H - 312) 11 Times_roman
        Text_secondary detailsWidth]"

definition qr_panel :: "text_width \<Rightarrow> hall_pass \<Rightarrow> draw_op list" where
  "qr_panel width p =
     [drawCentered width ''SCAN TO VERIFY'' qrCenter (qrY + qrSize + 14) 10 Helvetica_bold Text_secondary
        (qrSize + 20),
      Picture (''qr:'' @ token p) qrX qrY qrSize qrSize]"

definition createPassPdf :: "text_width \<Rightarrow> bool \<Rightarrow> hall_pass \<Rightarrow> draw_op list" where
  "createPassPdf width has_invitation p =
     [Filled_rect 0 0 PAGE_W PAGE_H Cream,
      Framed_rect 16 16 (PAGE_W - 32) (PAGE_H - 32) Rose_gold 3,
      Framed_rect 24 24 (PAGE_W - 48) (PAGE_H - 48) Rose_wine 1] @
     invitation_panel width has_invitation @
     [Rule_line (qrX - 20) 70 (qrX - 20) (PAGE_H - 70) Rose_gold] @
     details_panel width p @ qr_panel width p @
     (if invalidated_at p \<noteq> None
      then [Stamp ''INVALIDATED'' (PAGE_W / 2 - 220) (PAGE_H / 2 - 30) 90 Helvetica_bold Alert_red]
      else [])"

section \<open>What is drawn\<close>

lemma floor_panel_width: "\<lfloor>467579 / 2038 :: rat\<rfloor> = 229"
  by (rule floor_unique) simp_all

lemma layout_values:
  "imgW = 229" "imgH = 324" "detailsLeft = 293" "detailsRight = 608" "detailsCenter = 901 / 2"
  "detailsWidth = 315" "qrX = 632" "qrY = 105" "qrCenter = 721"
  by (simp_all add: imgW_def imgH_def imgX_def imgY_def PAGE_W_def PAGE_H_def qrSize_def qrX_def qrY_def
      detailsLeft_def detailsRight_def detailsCenter_def detailsWidth_def qrCenter_def js_round_def floor_panel_width)

lemma shrink_text_result:
  assumes "\<exists>r. text = d @ r"
  shows "(\<exists>r. text = shrink_text w m text d @ r) \<and>
    (length (shrink_text w m text d) \<le> 3 \<or> w (shown_text text (shrink_text w m text d)) \<le> m)"
  using assms
proof (induction w m "text" d rule: shrink_text.induct)
  case (1 w m t d)
  show ?case
  proof (cases "3 < length d \<and> m < w (shown_text t d)")
    case False
    then have "shrink_text w m t d = d" by (auto simp: shrink_text.simps [of w m t d])
    then show ?thesis using 1(2) False by auto
  next
    case True
    then have s: "shrink_text w m t d = shrink_text w m t (butlast d)"
      by (subst shrink_text.simps) simp
    obtain r where "t = d @ r" using 1(2) by blast
    moreover have "d = butlast d @ [last d]" using True by (cases d) simp_all
    ultimately have "t = butlast d @ ([last d] @ r)" by (metis append.assoc)
    then show ?thesis using 1(1) True s by auto
  qed
qed

text \<open>Every text of the page is the whole text or a cut of it, and fits unless it is very short.\<close>

definition fitted :: "text_width \<Rightarrow> string \<Rightarrow> rat \<Rightarrow> rat \<Rightarrow> font \<Rightarrow> rat \<Rightarrow> draw_op \<Rightarrow> bool" where
  "fitted width text centre fsize font max_width op =
     (case op of
        Text_run s x y z f c \<Rightarrow>
          z = fsize \<and> f = font \<and> x + width font s fsize / 2 = centre \<and>
          (width font s fsize \<le> max_width \<or> length s \<le> 6 \<or> s = text \<and> length text \<le> 3) \<and>
          (s = text \<or> (\<exists>front back. text = front @ back \<and> s = front @ ''...''))
      | _ \<Rightarrow> False)"

lemma drawCentered_fitted:
  "fitted width text centre fsize font m (drawCentered width text centre y fsize font col m)"
proof -
  define w where "w = (\<lambda>s. width font s fsize)"
  define d where "d = shrink_text w m text text"
  have d: "\<exists>r. text = d @ r" "length d \<le> 3 \<or> w (shown_text text d) \<le> m"
    using shrink_text_result [of "text" "text" w m] by (simp_all add: d_def)
  have "drawCentered width text centre y fsize font col m =
      Text_run (shown_text text d) (centre - w (shown_text text d) / 2) y fsize font col"
    by (simp add: drawCentered_def Let_def d_def w_def)
  moreover have "length (shown_text text d) \<le> 6 \<or> width font (shown_text text d) fsize \<le> m"
    using d(2) by (auto simp: shown_text_def w_def)
  moreover have "shown_text text d = text \<or> (\<exists>front back. text = front @ back \<and> shown_text text d = front @ ''...'')"
    using d(1) by (auto simp: shown_text_def)
  ultimately show ?thesis by (auto simp: fitted_def w_def)
qed

text \<open>Shapes stay on the page; a stamp is rotated text and is left out.\<close>

fun inside_page :: "draw_op \<Rightarrow> bool" where
  "inside_page (Filled_rect x y w h c) = (0 \<le> x \<and> 0 \<le> y \<and> 0 < w \<and> 0 < h \<and> x + w \<le> PAGE_W \<and> y + h \<le> PAGE_H)"
| "inside_page (Framed_rect x y w h c b) = (0 \<le> x \<and> 0 \<le> y \<and> 0 < w \<and> 0 < h \<and> x + w \<le> PAGE_W \<and> y + h \<le> PAGE_H)"
| "inside_page (Picture n x y w h) = (0 \<le> x \<and> 0 \<le> y \<and> 0 < w \<and> 0 < h \<and> x + w \<le> PAGE_W \<and> y + h \<le> PAGE_H)"
| "inside_page (Rule_line x1 y1 x2 y2 c) = (0 \<le> x1 \<and> x1 \<le> x2 \<and> x2 \<le> PAGE_W \<and> 0 \<le> y1 \<and> y1 \<le> y2 \<and> y2 \<le> PAGE_H)"
| "inside_page (Text_run s x y z f c) = (0 \<le> y \<and> y + z \<le> PAGE_H)"
| "inside_page (Stamp s x y z f c) = (0 \<le> x \<and> 0 \<le> y \<and> x \<le> PAGE_W \<and> y + z \<le> PAGE_H)"

lemmas page_values = PAGE_W_def PAGE_H_def layout_values imgX_def imgY_def qrSize_def

lemma drawCentered_inside: "inside_page (drawCentered width t cx y z f c m) = (0 \<le> y \<and> y + z \<le> PAGE_H)"
  by (simp add: drawCentered_def Let_def)

lemma page_ops_inside: "list_all inside_page (createPassPdf width has_inv p)"
  by (simp add: createPassPdf_def invitation_panel_def details_panel_def qr_panel_def drawCentered_inside page_values)

text \<open>The three panels do not overlap: image, details column, divider, code.\<close>

lemma panels_apart:
  "imgX + imgW < detailsLeft" "detailsLeft < detailsRight" "detailsRight < qrX - 20" "qrX - 20 < qrX"
  "detailsCenter - detailsWidth / 2 = detailsLeft" "detailsCenter + detailsWidth / 2 = detailsRight"
  by (simp_all add: page_values)

definition is_stamp :: "draw_op \<Rightarrow> bool" where
  "is_stamp op = (case op of Stamp _ _ _ _ _ _ \<Rightarrow> True | _ \<Rightarrow> False)"

lemma drawCentered_not_stamp: "\<not> is_stamp (drawCentered width t cx y z f c m)"
  by (simp add: drawCentered_def Let_def is_stamp_def)

lemma stamp_iff_invalidated: "list_ex is_stamp (createPassPdf width has_inv p) \<longleftrightarrow> invalidated_at p \<noteq> None"
  by (simp add: createPassPdf_def invitation_panel_def details_panel_def qr_panel_def drawCentered_not_stamp)
    (simp add: is_stamp_def)

text \<open>A fitted text of the details column stays between the image and the divider.\<close>

lemma details_text_in_column:
  assumes "fitted width t detailsCenter z f detailsWidth (Text_run s x y z' f' c)" "6 < length s"
  shows "imgX + imgW < x \<and> x + width f s z < qrX - 20"
proof -
  have "x + width f s z / 2 = detailsCenter" "width f s z \<le> detailsWidth"
    using assms by (auto simp: fitted_def)
  then show ?thesis using panels_apart by (simp add: page_values)
qed

end
