(* ===== verification/PassEmailTheorems.thy ===== *)
theory PassEmailTheorems
  imports PassPdf "HOL-Library.Multiset"
begin

text \<open>
  The properties of pass mail: the address test is its regular expression, texts cannot
  inject markup, attachment names are safe, and every pass of a batch is accounted for.
\<close>

section \<open>The address test\<close>

lemma inner_dot_iff: "inner_dot d \<longleftrightarrow> (\<exists>b c. d = b @ CHR ''.'' # c \<and> b \<noteq> [] \<and> c \<noteq> [])"
proof
  assume d: "inner_dot d"
  then obtain x t where t: "butlast d = x # t" "CHR ''.'' \<in> set t"
    by (cases "butlast d") (auto simp: inner_dot_def)
  then obtain u v where uv: "t = u @ CHR ''.'' # v" by (metis split_list)
  have "d \<noteq> []" using t(1) by auto
  then have "d = butlast d @ [last d]" by simp
  then have "d = (x # u) @ CHR ''.'' # (v @ [last d])" by (simp add: t(1) uv)
  then show "\<exists>b c. d = b @ CHR ''.'' # c \<and> b \<noteq> [] \<and> c \<noteq> []"
    by (metis list.distinct(1) snoc_eq_iff_butlast)
next
  assume "\<exists>b c. d = b @ CHR ''.'' # c \<and> b \<noteq> [] \<and> c \<noteq> []"
  then obtain b c where d: "d = b @ CHR ''.'' # c" "b \<noteq> []" "c \<noteq> []" by blast
  then have "butlast d = b @ CHR ''.'' # butlast c" by (simp add: butlast_append)
  then show "inner_dot d" using d(2) by (cases b) (auto simp: inner_dot_def)
qed

lemma js_split_two:
  "js_split c s = [l, d] \<longleftrightarrow> s = l @ c # d \<and> c \<notin> set l \<and> c \<notin> set d"
proof
  assume split: "js_split c s = [l, d]"
  have none: "\<forall>p\<in>set (js_split c s). c \<notin> set p"
    by (induction s) (auto split: list.splits)
  have "s = js_join [c] (js_split c s)" by (simp add: js_join_split)
  then show "s = l @ c # d \<and> c \<notin> set l \<and> c \<notin> set d" using split none by simp
next
  assume "s = l @ c # d \<and> c \<notin> set l \<and> c \<notin> set d"
  then show "js_split c s = [l, d]" by (simp add: js_split_append js_split_no_sep)
qed

definition word_of_email :: "string \<Rightarrow> bool" where
  "word_of_email w = (w \<noteq> [] \<and> list_all email_char w)"

text \<open>
  The address test accepts exactly the texts that, trimmed, match the regular
  expression: three non-empty words without blanks and at signs, joined by an at sign and
  a dot.
\<close>

theorem likely_email_is_regex:
  "isLikelyEmail v \<longleftrightarrow>
    (\<exists>a b c. js_trim v = a @ ''@'' @ b @ ''.'' @ c \<and> word_of_email a \<and> word_of_email b \<and> word_of_email c)"
proof -
  have at: "CHR ''@'' \<notin> set w" if "list_all email_char w" for w
    using that by (auto simp: list_all_iff email_char_def)
  have dot: "email_char CHR ''.''" by (simp add: email_char_def is_space_def code_of_def)
  have "isLikelyEmail v \<longleftrightarrow> (\<exists>l d. js_split (CHR ''@'') (js_trim v) = [l, d] \<and> l \<noteq> [] \<and>
      list_all email_char l \<and> list_all email_char d \<and> inner_dot d)"
    by (auto simp: isLikelyEmail_def split: list.splits)
  also have "\<dots> \<longleftrightarrow> (\<exists>l d. js_trim v = l @ CHR ''@'' # d \<and> l \<noteq> [] \<and>
      list_all email_char l \<and> list_all email_char d \<and> inner_dot d)"
    using at by (auto simp: js_split_two)
  also have "\<dots> \<longleftrightarrow> (\<exists>a b c. js_trim v = a @ ''@'' @ b @ ''.'' @ c \<and> word_of_email a \<and> word_of_email b \<and> word_of_email c)"
  proof
    assume "\<exists>l d. js_trim v = l @ CHR ''@'' # d \<and> l \<noteq> [] \<and> list_all email_char l \<and> list_all email_char d \<and> inner_dot d"
    then obtain l d b c where "js_trim v = l @ CHR ''@'' # d" "l \<noteq> []" "list_all email_char l"
      "list_all email_char d" "d = b @ CHR ''.'' # c" "b \<noteq> []" "c \<noteq> []"
      unfolding inner_dot_iff by blast
    then show "\<exists>a b c. js_trim v = a @ ''@'' @ b @ ''.'' @ c \<and> word_of_email a \<and> word_of_email b \<and> word_of_email c"
      by (intro exI [of _ l] exI [of _ b] exI [of _ c]) (simp add: word_of_email_def)
  next
    assume "\<exists>a b c. js_trim v = a @ ''@'' @ b @ ''.'' @ c \<and> word_of_email a \<and> word_of_email b \<and> word_of_email c"
    then obtain a b c where abc: "js_trim v = a @ CHR ''@'' # b @ CHR ''.'' # c"
      "word_of_email a" "word_of_email b" "word_of_email c" by auto
    then have "inner_dot (b @ CHR ''.'' # c)" unfolding inner_dot_iff word_of_email_def by blast
    then show "\<exists>l d. js_trim v = l @ CHR ''@'' # d \<and> l \<noteq> [] \<and> list_all email_char l \<and> list_all email_char d \<and> inner_dot d"
      using abc dot by (intro exI [of _ a] exI [of _ "b @ CHR ''.'' # c"]) (simp add: word_of_email_def)
  qed
  finally show ?thesis .
qed

section \<open>Escaping\<close>

definition html_entity :: "char \<Rightarrow> string" where
  "html_entity c = (if c = CHR ''&'' then ''&amp;'' else if c = CHR ''<'' then ''&lt;''
     else if c = CHR ''>'' then ''&gt;'' else if c = CHR 0x22 then ''&quot;''
     else if c = CHR 0x27 then ''&#039;'' else [c])"

lemma escapeHtml_single_pass: "escapeHtml s = concat (map html_entity s)"
  by (induction s) (auto simp: escapeHtml_def html_entity_def)

lemma escaped_chars: "c \<in> {CHR ''<'', CHR ''>'', CHR 0x22, CHR 0x27} \<Longrightarrow> c \<notin> set (escapeHtml s)"
  by (auto simp: escapeHtml_single_pass html_entity_def split: if_splits)

lemma escape_newlines: "count_list (escapeHtml s) (CHR 0x0A) = count_list s (CHR 0x0A)"
  by (induction s) (auto simp: escapeHtml_single_pass html_entity_def)

lemma count_replace:
  "c \<notin> set s \<Longrightarrow> count_list (js_replace_all d r s) c = count_list s d * count_list r c"
  by (induction s) auto

lemma count_escaped [simp]: "count_list (escapeHtml s) (CHR ''<'') = 0"
  using escaped_chars [of "CHR ''<''" s] by (simp add: count_list_0_iff)

lemma count_list_concat_map: "count_list (concat (map f xs)) c = sum_list (map (\<lambda>x. count_list (f x) c) xs)"
  by (induction xs) simp_all

text \<open>
  C35. The markup of the mail is fixed by the program: whatever the message, the guest
  names and the tokens are, the HTML text has the tags of its template, one line break per
  newline of the message and no others; escaped text contributes no markup character.
\<close>

theorem html_message_markup_fixed:
  "count_list (buildHtmlMessage m ps) (CHR ''<'') =
     8 + 6 * length ps + count_list (message_intro m) (CHR 0x0A) \<and>
   list_all (\<lambda>c. c \<notin> set (escapeHtml t)) [CHR ''<'', CHR ''>'', CHR 0x22, CHR 0x27]"
proof -
  have item: "count_list (list_item p) (CHR ''<'') = 6" for p by (simp add: list_item_def)
  have "count_list (js_replace_all (CHR 0x0A) ''<br />'' (escapeHtml (message_intro m))) (CHR ''<'') =
      count_list (message_intro m) (CHR 0x0A)"
    using escaped_chars [of "CHR ''<''"] by (simp add: count_replace escape_newlines)
  then have "count_list (buildHtmlMessage m ps) (CHR ''<'') =
     8 + 6 * length ps + count_list (message_intro m) (CHR 0x0A)"
    by (simp add: buildHtmlMessage_def count_list_concat_map item sum_list_triv)
  then show ?thesis using escaped_chars by simp
qed

section \<open>Attachment names\<close>

lemma dash_runs_chars: "c \<in> set (dash_runs inside s) \<Longrightarrow> slug_char c \<or> c = CHR ''-''"
  by (induction inside s rule: dash_runs.induct) (auto split: if_splits)

lemma dash_runs_inside: "dash_runs True s = [] \<or> hd (dash_runs True s) \<noteq> CHR ''-''"
  by (induction s) (auto simp: slug_char_def is_lower_def is_digit_def code_of_def)

lemma dash_runs_shape:
  "successively (\<lambda>c d. c \<noteq> CHR ''-'' \<or> d \<noteq> CHR ''-'') (dash_runs inside s)"
proof (induction inside s rule: dash_runs.induct)
  case (2 inside c cs)
  have "slug_char c \<Longrightarrow> c \<noteq> CHR ''-''" by (auto simp: slug_char_def is_lower_def is_digit_def code_of_def)
  then show ?case
    using 2 dash_runs_inside [of cs] by (auto simp: successively_Cons)
qed simp

abbreviation dashed :: "string \<Rightarrow> bool" where
  "dashed \<equiv> successively (\<lambda>c d. c \<noteq> CHR ''-'' \<or> d \<noteq> CHR ''-'')"

lemma drop_front_dash:
  assumes "dashed s" "t = (case s of [] \<Rightarrow> [] | c # cs \<Rightarrow> if c = CHR ''-'' then cs else s)" "t \<noteq> []"
  shows "dashed t \<and> hd t \<noteq> CHR ''-''"
  using assms by (cases s) (auto simp: successively_Cons split: if_splits)

lemma drop_back_dash:
  assumes "dashed t" "hd t \<noteq> CHR ''-''" "last t = CHR ''-''" "butlast t \<noteq> []"
  shows "hd (butlast t) \<noteq> CHR ''-'' \<and> last (butlast t) \<noteq> CHR ''-''"
proof -
  have t: "t = butlast t @ [CHR ''-'']" using assms(3,4) by (metis append_butlast_last_id butlast.simps(1))
  have "hd (butlast t) = hd t" using assms(4) by (metis t hd_append2)
  moreover have "last (butlast t) \<noteq> CHR ''-''"
    using assms(1,4) by (subst (asm) t) (auto simp: successively_append_iff)
  ultimately show ?thesis using assms(2) by simp
qed

lemma strip_dashes_ends:
  assumes "dashed s" "strip_dashes s \<noteq> []"
  shows "hd (strip_dashes s) \<noteq> CHR ''-'' \<and> last (strip_dashes s) \<noteq> CHR ''-''"
proof -
  define t where "t = (case s of [] \<Rightarrow> [] | c # cs \<Rightarrow> if c = CHR ''-'' then cs else s)"
  have st: "strip_dashes s = (if t \<noteq> [] \<and> last t = CHR ''-'' then butlast t else t)"
    by (simp add: strip_dashes_def t_def Let_def)
  then have "t \<noteq> []" using assms(2) by (auto split: if_splits)
  then have front: "dashed t" "hd t \<noteq> CHR ''-''" using drop_front_dash [OF assms(1) t_def] by simp_all
  show ?thesis
  proof (cases "last t = CHR ''-''")
    case True
    then show ?thesis using st assms(2) \<open>t \<noteq> []\<close> drop_back_dash [OF front True] by simp
  next
    case False
    then show ?thesis using st front(2) by simp
  qed
qed

lemma strip_dashes_chars: "set (strip_dashes s) \<subseteq> set s"
proof -
  define t where "t = (case s of [] \<Rightarrow> [] | c # cs \<Rightarrow> if c = CHR ''-'' then cs else s)"
  have "set t \<subseteq> set s" by (auto simp: t_def split: list.splits)
  moreover have "strip_dashes s = (if t \<noteq> [] \<and> last t = CHR ''-'' then butlast t else t)"
    by (simp add: strip_dashes_def t_def Let_def)
  ultimately show ?thesis by (auto dest: in_set_butlastD)
qed

lemma padded_digits: "list_all is_digit (js_pad_start 3 (CHR ''0'') (show_nat n))"
  using show_nat_digits [of _ n] by (auto simp: js_pad_start_def list_all_iff is_digit_def code_of_def)

text \<open>
  An attachment's name is a fixed prefix, the ticket number in at least three digits
  and a part made of lower-case letters, digits and single inner dashes only, whatever the
  guest is called: it cannot contain a path separator, a dot or a quote.
\<close>

theorem attachment_name_safe:
  "\<exists>num part. getPassPdfFileName p = ''hall-pass-ticket-'' @ num @ ''-'' @ part @ ''.pdf'' \<and>
     3 \<le> length num \<and> list_all is_digit num \<and> part \<noteq> [] \<and>
     list_all (\<lambda>c. is_lower c \<or> is_digit c \<or> c = CHR ''-'') part \<and>
     hd part \<noteq> CHR ''-'' \<and> last part \<noteq> CHR ''-''"
proof -
  define part where "part = (if safe_name p = [] then ''guest'' else safe_name p)"
  define raw where "raw = dash_runs False (js_lower (or_else (guest_name p) ''guest''))"
  have sn: "safe_name p = strip_dashes raw" by (simp add: safe_name_def raw_def)
  have "list_all (\<lambda>c. is_lower c \<or> is_digit c \<or> c = CHR ''-'') part"
    using strip_dashes_chars [of raw] dash_runs_chars [of _ False]
    by (auto simp: part_def sn raw_def list_all_iff slug_char_def is_lower_def code_of_def)
  moreover have "part \<noteq> [] \<and> hd part \<noteq> CHR ''-'' \<and> last part \<noteq> CHR ''-''"
    using strip_dashes_ends [of raw] dash_runs_shape by (auto simp: part_def sn raw_def)
  moreover have "getPassPdfFileName p = ''hall-pass-ticket-'' @ js_pad_start 3 (CHR ''0'') (show_nat (ticket_number p)) @
      ''-'' @ part @ ''.pdf''"
    by (simp add: getPassPdfFileName_def part_def)
  moreover have "3 \<le> length (js_pad_start 3 (CHR ''0'') (show_nat (ticket_number p)))"
    by (simp add: length_js_pad_start)
  ultimately show ?thesis using padded_digits by blast
qed

section \<open>Batches\<close>

lemma send_batches_ids:
  assumes "send_batches env recipient m n i bs acc outbox = (r, outbox')"
  shows "mset (sent_pass_ids r @ failed_pass_ids r) =
      mset (sent_pass_ids acc @ failed_pass_ids acc) + mset (map pass_id (concat bs)) \<and>
    length (batch_errors r) \<le> length (batch_errors acc) + length bs \<and>
    length outbox' \<le> length outbox + length bs"
  using assms
proof (induction bs arbitrary: i acc outbox)
  case Nil
  then show ?case by simp
next
  case (Cons b bs)
  define label where "label = (if 1 < n then Some (show_nat (Suc i) @ ''/'' @ show_nat n) else None)"
  obtain res outbox1 where send: "sendPassPdfEmail env b recipient m label outbox = (res, outbox1)"
    by (metis surj_pair)
  have one: "length outbox1 \<le> Suc (length outbox)"
    using send by (auto simp: sendPassPdfEmail_def sendMailerooEmail_def Let_def split: sum.splits)
  show ?case
  proof (cases res)
    case (Inr u)
    then have "send_batches env recipient m n (Suc i) bs
        (acc\<lparr>sent_pass_ids := sent_pass_ids acc @ map pass_id b\<rparr>) outbox1 = (r, outbox')"
      using Cons.prems send by (simp add: label_def)
    then show ?thesis using Cons.IH one by fastforce
  next
    case (Inl e)
    then have "send_batches env recipient m n (Suc i) bs
        (acc\<lparr>failed_pass_ids := failed_pass_ids acc @ map pass_id b,
             batch_errors := batch_errors acc @ [''Batch '' @ show_nat (Suc i) @ '': '' @ e]\<rparr>) outbox1 = (r, outbox')"
      using Cons.prems send by (simp add: label_def)
    then show ?thesis using Cons.IH one by fastforce
  qed
qed

text \<open>
  When a batch of passes is mailed, every pass is reported exactly once, as sent or as
  failed, whatever the mail service answers; at most one request is posted for each ten
  passes, and there is at most one error line per request.
\<close>

theorem batched_mail_accounts_for_all:
  "case sendPassPdfEmailsBatched env ps recipient m [] of (r, outbox) \<Rightarrow>
     mset (sent_pass_ids r @ failed_pass_ids r) = mset (map pass_id ps) \<and>
     length outbox \<le> (length ps + 9) div 10 \<and> length (batch_errors r) \<le> (length ps + 9) div 10"
proof -
  obtain r outbox where res: "sendPassPdfEmailsBatched env ps recipient m [] = (r, outbox)"
    by (metis surj_pair)
  have n: "length (chunkPasses ps PASS_EMAIL_BATCH_SIZE) = (length ps + 9) div 10"
    "concat (chunkPasses ps PASS_EMAIL_BATCH_SIZE) = ps"
    using length_chunks [of 10 ps] concat_chunks [of 10 ps]
    by (simp_all add: chunkPasses_def PASS_EMAIL_BATCH_SIZE_def)
  show ?thesis
    using send_batches_ids [OF res [unfolded sendPassPdfEmailsBatched_def Let_def]] n by (simp add: res)
qed

section \<open>The printed pass\<close>

text \<open>
  Every pass prints within its page: all frames, pictures and lines stay on the sheet,
  the code drawn is the token's, the guest's name is centred in its column and shortened
  until it fits (or is too short to cut), the three columns do not overlap, and the
  cancellation stamp appears exactly on invalidated passes.
\<close>

theorem printed_pass_layout:
  "list_all inside_page (createPassPdf width has_inv p) \<and>
   Picture (''qr:'' @ token p) qrX qrY qrSize qrSize \<in> set (createPassPdf width has_inv p) \<and>
   (\<exists>op. op \<in> set (createPassPdf width has_inv p) \<and>
      fitted width (or_else (guest_name p) ''Guest'') detailsCenter 24 Times_bold detailsWidth op) \<and>
   imgX + imgW < detailsCenter - detailsWidth / 2 \<and> detailsCenter + detailsWidth / 2 < qrX - 20 \<and>
   (list_ex is_stamp (createPassPdf width has_inv p) \<longleftrightarrow> invalidated_at p \<noteq> None)"
proof -
  have "drawCentered width (or_else (guest_name p) ''Guest'') detailsCenter (PAGE_H - 214) 24 Times_bold
      Deep_brown detailsWidth \<in> set (createPassPdf width has_inv p)"
    by (simp add: createPassPdf_def details_panel_def)
  then have "\<exists>op. op \<in> set (createPassPdf width has_inv p) \<and>
      fitted width (or_else (guest_name p) ''Guest'') detailsCenter 24 Times_bold detailsWidth op"
    using drawCentered_fitted by blast
  moreover have "Picture (''qr:'' @ token p) qrX qrY qrSize qrSize \<in> set (createPassPdf width has_inv p)"
    by (simp add: createPassPdf_def qr_panel_def)
  moreover have "imgX + imgW < detailsCenter - detailsWidth / 2" "detailsCenter + detailsWidth / 2 < qrX - 20"
    using panels_apart by (simp_all only:)
  ultimately show ?thesis using page_ops_inside stamp_iff_invalidated by blast
qed

end
