(* ===== verification/Uri.thy ===== *)
theory Uri
  imports Codec Json
begin

text \<open>
  \<open>encodeURIComponent\<close> and \<open>decodeURIComponent\<close> of the standard library, on the
  model's strings, and the fact that the second undoes the first.
\<close>

section \<open>Decoding\<close>

text \<open>
  \<open>decodeURIComponent\<close>: \<open>None\<close> is its \<open>URIError\<close>. A sequence that denotes
  a code unit above 255 is outside the model's strings and decodes to \<open>?\<close>.
\<close>

definition percent_octet :: "string \<Rightarrow> nat option" where
  "percent_octet s =
     (case s of
        p # a # b # _ \<Rightarrow>
          if p = CHR ''%''
          then (case (hex_value a, hex_value b) of (Some x, Some y) \<Rightarrow> Some (x * 16 + y) | _ \<Rightarrow> None)
          else None
      | _ \<Rightarrow> None)"

definition continuation :: "string \<Rightarrow> bool" where
  "continuation s = (case percent_octet s of None \<Rightarrow> False | Some x \<Rightarrow> 128 \<le> x \<and> x < 192)"

text \<open>The second octet of a long sequence excludes overlong forms, surrogates and large points.\<close>

definition second_octet_ok :: "nat \<Rightarrow> string \<Rightarrow> bool" where
  "second_octet_ok x s =
     (let y = or_else (percent_octet s) 0
      in (x = 224 \<longrightarrow> 160 \<le> y) \<and> (x = 237 \<longrightarrow> y < 160) \<and> (x = 240 \<longrightarrow> 144 \<le> y) \<and> (x = 244 \<longrightarrow> y < 144))"

function decodeURIComponent :: "string \<Rightarrow> string option" where
  "decodeURIComponent [] = Some []"
| "decodeURIComponent (c # cs) =
     (if c \<noteq> CHR ''%'' then map_option ((#) c) (decodeURIComponent cs)
      else (case percent_octet (c # cs) of
        None \<Rightarrow> None
      | Some x \<Rightarrow>
        if x < 128 then map_option ((#) (char_of x)) (decodeURIComponent (drop 2 cs))
        else if 194 \<le> x \<and> x < 224 \<and> continuation (drop 2 cs)
        then map_option ((#) (if x < 196 then char_of ((x - 192) * 64 + (or_else (percent_octet (drop 2 cs)) 128 - 128))
               else CHR ''?'')) (decodeURIComponent (drop 5 cs))
        else if 224 \<le> x \<and> x < 240 \<and> second_octet_ok x (drop 2 cs) \<and> continuation (drop 2 cs) \<and> continuation (drop 5 cs)
        then map_option ((#) (CHR ''?'')) (decodeURIComponent (drop 8 cs))
        else if 240 \<le> x \<and> x < 245 \<and> second_octet_ok x (drop 2 cs) \<and> continuation (drop 2 cs) \<and> continuation (drop 5 cs) \<and> continuation (drop 8 cs)
        then map_option ((#) (CHR ''?'')) (decodeURIComponent (drop 11 cs))
        else None))"
  by pat_completeness auto
termination
  by (relation "measure length") auto

declare decodeURIComponent.simps(2) [simp del]

section \<open>Encoding\<close>

definition uri_unreserved :: "char \<Rightarrow> bool" where
  "uri_unreserved c = (is_upper c \<or> is_lower c \<or> is_digit c \<or> c \<in> set (CHR 0x27 # ''-_.!~*()''))"

definition upper_hex :: "nat \<Rightarrow> char" where
  "upper_hex n = (''0123456789ABCDEF'' ! n)"

definition percent_char :: "char \<Rightarrow> string" where
  "percent_char c = [CHR ''%'', upper_hex (code_of c div 16), upper_hex (code_of c mod 16)]"

definition uri_escape :: "char \<Rightarrow> string" where
  "uri_escape c = (if uri_unreserved c then [c] else concat (map percent_char (utf8_char c)))"

definition encodeURIComponent :: "string \<Rightarrow> string" where
  "encodeURIComponent s = concat (map uri_escape s)"

section \<open>Round trip\<close>

lemma upper_hex_value: "n < 16 \<Longrightarrow> hex_value (upper_hex n) = Some n"
proof -
  assume "n < 16"
  moreover have "list_all (\<lambda>n. hex_value (upper_hex n) = Some n) [0..<16]" by code_simp
  ultimately show ?thesis by (simp add: list_all_iff)
qed

lemma code_halves: "code_of c div 16 < 16" "code_of c mod 16 < 16"
  using code_of_less [of c] by (linarith, simp)

lemma percent_octet_char: "percent_octet (percent_char c @ s) = Some (code_of c)"
proof -
  have "code_of c div 16 < 16" "code_of c mod 16 < 16" by (rule code_halves)+
  then show ?thesis by (simp add: percent_octet_def percent_char_def upper_hex_value)
qed

lemma percent_not_unreserved: "\<not> uri_unreserved CHR ''%''"
  by (simp add: uri_unreserved_def is_upper_def is_lower_def is_digit_def code_of_def)

lemma decode_percent:
  "decodeURIComponent (percent_char c @ s) =
    (if code_of c < 128 then map_option ((#) c) (decodeURIComponent s)
     else decodeURIComponent (percent_char c @ s))"
  using percent_octet_char [of c s] by (simp add: percent_char_def decodeURIComponent.simps(2))

lemma decode_two_octets:
  assumes "194 \<le> code_of a" "code_of a < 196" "128 \<le> code_of b" "code_of b < 192"
  shows "decodeURIComponent (percent_char a @ percent_char b @ s) =
    map_option ((#) (char_of ((code_of a - 192) * 64 + (code_of b - 128)))) (decodeURIComponent s)"
proof -
  have o: "percent_octet (percent_char a @ percent_char b @ s) = Some (code_of a)"
    "percent_octet (percent_char b @ s) = Some (code_of b)"
    by (rule percent_octet_char)+
  then have "continuation (percent_char b @ s)" using assms by (simp add: continuation_def)
  then show ?thesis
    using o assms by (simp add: percent_char_def decodeURIComponent.simps(2) or_else_def)
qed

lemma decode_escape: "decodeURIComponent (uri_escape c @ s) = map_option ((#) c) (decodeURIComponent s)"
proof (cases "uri_unreserved c")
  case True
  then have "c \<noteq> CHR ''%''" using percent_not_unreserved by auto
  then show ?thesis using True by (simp add: uri_escape_def decodeURIComponent.simps(2))
next
  case reserved: False
  show ?thesis
  proof (cases "code_of c < 128")
    case True
    then show ?thesis using reserved decode_percent [of c s] by (simp add: uri_escape_def utf8_char_def)
  next
    case False
    define n where "n = code_of c"
    have n: "128 \<le> n" "n < 256" using False code_of_less [of c] by (simp_all add: n_def)
    define a b where "a = (char_of (192 + n div 64) :: char)" and "b = (char_of (128 + n mod 64) :: char)"
    have q: "2 \<le> n div 64" "n div 64 < 4" "n mod 64 < 64" using n by (linarith, linarith, simp)
    have ca: "code_of a = 192 + n div 64" unfolding a_def using q by (intro code_of_char_of) simp
    have cb: "code_of b = 128 + n mod 64" unfolding b_def using q by (intro code_of_char_of) simp
    have "char_of ((code_of a - 192) * 64 + (code_of b - 128)) = c"
      using div_mult_mod_eq [of n 64] by (simp add: ca cb n_def)
    moreover have "uri_escape c = percent_char a @ percent_char b"
      using reserved False by (simp add: uri_escape_def utf8_char_def a_def b_def n_def)
    moreover have "194 \<le> code_of a" "code_of a < 196" "128 \<le> code_of b" "code_of b < 192"
      using q by (simp_all add: ca cb)
    ultimately show ?thesis using decode_two_octets [of a b s] by simp
  qed
qed

lemma uri_round_trip: "decodeURIComponent (encodeURIComponent s) = Some s"
  by (induction s) (simp_all add: encodeURIComponent_def decode_escape)

lemma encoded_no_slash: "CHR ''/'' \<notin> set (encodeURIComponent s)"
proof -
  have hex: "upper_hex n \<noteq> CHR ''/''" if "n < 16" for n
    using upper_hex_value [OF that] by (auto simp: hex_value_def code_of_def)
  have "CHR ''/'' \<notin> set (uri_escape c)" for c
  proof (cases "uri_unreserved c")
    case True
    then show ?thesis by (auto simp: uri_escape_def uri_unreserved_def is_upper_def is_lower_def is_digit_def code_of_def)
  next
    case False
    have "CHR ''/'' \<notin> set (percent_char d)" for d
      using hex [OF code_halves(1) [of d]] hex [OF code_halves(2) [of d]] by (simp add: percent_char_def eq_commute)
    then show ?thesis using False by (auto simp: uri_escape_def)
  qed
  then show ?thesis by (simp add: encodeURIComponent_def)
qed

end
