(* ===== verification/HallRoutes.thy ===== *)
theory HallRoutes
  imports HallListing PassEmail Session Uri
begin

text \<open>
  The HTTP handlers over the registry: \<^verbatim>\<open>apps/web/app/api/ticket-settings\<close>,
  \<^verbatim>\<open>passes\<close>, \<^verbatim>\<open>passes/redeem\<close>, \<^verbatim>\<open>passes/invalidate-all\<close>,
  \<^verbatim>\<open>passes/[id]/invalidate\<close> and \<^verbatim>\<open>passes/[id]/email\<close>, with the legacy write
  fence of \<^verbatim>\<open>legacy-write-fence.ts\<close>. A handler takes the verified session, the body
  as JSON and the clock, and returns its response, or the exception that escapes it, with the
  new state. The URL parser, the texts of database errors and the mail environment are
  parameters.
\<close>

datatype route_failure = Thrown failure | Database db_error

record web_state =
  registry :: hall_db
  outbox :: "email list"
  draws :: nat

record web_env =
  web_mail :: mail_env
  random_bytes :: "nat \<Rightarrow> byte list"
  url_path :: "string \<Rightarrow> string option"
  error_text :: "db_error \<Rightarrow> string"

record delivery_report =
  report_success :: bool
  report_recipient :: string
  report_error :: "string option"

datatype hall_body =
    Api_error string
  | Fence_body
  | Availability_body ticket_availability
  | Redeem_body redeem_result
  | Listing_body list_result ticket_availability "(string \<times> nat) list"
  | Limit_body string ticket_availability
  | Created_body hall_pass "hall_pass list" string ticket_availability "delivery_report option"
  | Invalidated_body hall_pass ticket_availability
  | Invalidated_all_body nat "hall_pass list" ticket_availability
  | Emailed_body "hall_pass option"
  | Email_error_body string "hall_pass option"

type_synonym reply = "(route_failure, hall_body response) result"

section \<open>Guards\<close>

definition assertLegacyWritable :: "hall_db \<Rightarrow> (db_error, unit) result" where
  "assertLegacyWritable db =
     (case fence db of
        None \<Rightarrow> Inr ()
      | Some row \<Rightarrow> if row = Some True then Inl Legacy_writes_frozen else Inr ())"

definition withLegacyWriteFence :: "reply \<times> web_state \<Rightarrow> reply \<times> web_state" where
  "withLegacyWriteFence r =
     (case r of
        (Inl (Database Legacy_writes_frozen), w) \<Rightarrow>
          (Inr ((respond 503 Fence_body)\<lparr>retry_after := Some 60\<rparr>), w)
      | _ \<Rightarrow> r)"

definition unauthorized :: reply where
  "unauthorized = Inr (respond 401 (Api_error ''Unauthorized.''))"

text \<open>The two checks every writing handler starts with.\<close>

definition guarded ::
  "auth_session option \<Rightarrow> app_role list \<Rightarrow> web_state \<Rightarrow> (auth_session \<Rightarrow> reply \<times> web_state) \<Rightarrow> reply \<times> web_state" where
  "guarded session roles w k =
     (case session of
        None \<Rightarrow> (unauthorized, w)
      | Some s \<Rightarrow>
        if \<not> canAccessRole (Some s) roles then (unauthorized, w)
        else (case assertLegacyWritable (registry w) of
                Inl e \<Rightarrow> (Inl (Database e), w)
              | Inr _ \<Rightarrow> k s))"

section \<open>Ticket settings\<close>

definition ticket_settings_GET :: "auth_session option \<Rightarrow> web_state \<Rightarrow> reply" where
  "ticket_settings_GET session w =
     (if \<not> canAccessRole session [Super_admin] then unauthorized
      else Inr (respond 200 (Availability_body (getTicketAvailability (registry w)))))"

definition requested_limit :: "json \<Rightarrow> nat option option" where
  "requested_limit b =
     (case or_else (json_get ''ticketLimit'' b) JNull of
        JNull \<Rightarrow> Some None
      | JNum q \<Rightarrow> if q = of_int \<lfloor>q\<rfloor> \<and> 0 \<le> q then Some (Some (nat \<lfloor>q\<rfloor>)) else None
      | _ \<Rightarrow> None)"

definition ticket_settings_PUT ::
  "auth_session option \<Rightarrow> json \<Rightarrow> instant \<Rightarrow> web_state \<Rightarrow> reply \<times> web_state" where
  "ticket_settings_PUT session b now w = withLegacyWriteFence
     (guarded session [Super_admin] w (\<lambda>s.
        case requested_limit b of
          None \<Rightarrow> (Inr (respond 400 (Api_error ''Ticket limit must be a non-negative integer.'')), w)
        | Some limit \<Rightarrow>
          (case updateTicketLimit limit (session_email s) now (registry w) of
             (Inl e, db') \<Rightarrow> (Inl (Database e), w\<lparr>registry := db'\<rparr>)
           | (Inr a, db') \<Rightarrow> (Inr (respond 200 (Availability_body a)), w\<lparr>registry := db'\<rparr>))))"

section \<open>Listing\<close>

text \<open>\<open>Number(s)\<close>: decimal and prefixed literals, \<open>Infinity\<close>, blanks as zero.\<close>

definition decimal_literal :: "string \<Rightarrow> rat option" where
  "decimal_literal t =
     (let ip = takeWhile is_digit t; rest = dropWhile is_digit t;
          dotted = (take 1 rest = ''.'');
          fp = (if dotted then takeWhile is_digit (tl rest) else []);
          rest' = (if dotted then dropWhile is_digit (tl rest) else rest)
      in if ip = [] \<and> fp = [] then None
         else (case json_exp rest' of
                 Some (e, []) \<Rightarrow> Some ((of_nat (digits_value ip) + of_nat (digits_value fp) / 10 ^ length fp) * e)
               | _ \<Rightarrow> None))"

definition radix_literal :: "nat \<Rightarrow> string \<Rightarrow> rat option" where
  "radix_literal base t =
     (if t \<noteq> [] \<and> list_all (\<lambda>c. case hex_value c of Some d \<Rightarrow> d < base | None \<Rightarrow> False) t
      then Some (of_nat (foldl (\<lambda>n c. n * base + or_else (hex_value c) 0) 0 t)) else None)"

definition js_Number :: "string \<Rightarrow> js_number" where
  "js_Number s =
     (let t = js_trim s;
          prefix = js_lower (take 2 t);
          number = (\<lambda>r. case r of None \<Rightarrow> NaN | Some q \<Rightarrow> Finite q);
          signed = (take 1 t = ''+'' \<or> take 1 t = ''-'');
          minus = (take 1 t = ''-'');
          u = (if signed then tl t else t)
      in if t = [] then Finite 0
         else if prefix = ''0x'' then number (radix_literal 16 (drop 2 t))
         else if prefix = ''0o'' then number (radix_literal 8 (drop 2 t))
         else if prefix = ''0b'' then number (radix_literal 2 (drop 2 t))
         else if u = ''Infinity'' then (if minus then Neg_infinity else Pos_infinity)
         else number (map_option (\<lambda>q. if minus then - q else q) (decimal_literal u)))"

definition passes_query :: "(string \<times> string) list \<Rightarrow> list_params" where
  "passes_query query =
     (let get = map_of query
      in \<lparr>lp_page = Some (js_Number (or_else (get ''page'') ''1'')),
          lp_limit = Some (js_Number (or_else (get ''limit'') ''50'')),
          lp_tab = Some (if get ''tab'' = Some ''invalidated'' then Invalidated_tab else Active_tab),
          lp_status = Some (if get ''status'' = Some ''unused'' then Unused_only
            else if get ''status'' = Some ''used'' then Used_only else All_statuses),
          lp_search = Some (js_trim (or_else (get ''search'') []))\<rparr>)"

definition passes_GET :: "auth_session option \<Rightarrow> (string \<times> string) list \<Rightarrow> web_state \<Rightarrow> reply" where
  "passes_GET session query w =
     (if \<not> canAccessRole session [Super_admin] then unauthorized
      else (case listHallPasses (passes_query query) (registry w) of
              Inl e \<Rightarrow> Inl (Database e)
            | Inr l \<Rightarrow> Inr (respond 200 (Listing_body l (getTicketAvailability (registry w))
                (getInviteFromStats (registry w))))))"

section \<open>Creating passes\<close>

definition MAX_BATCH_SIZE :: nat where
  "MAX_BATCH_SIZE = 100"

definition json_name :: "json \<Rightarrow> string" where
  "json_name v = (case v of JStr s \<Rightarrow> js_trim s | _ \<Rightarrow> [])"

definition requested_names :: "json \<Rightarrow> string list" where
  "requested_names b =
     (case json_get ''guestNames'' b of
        Some (JArr (n # ns)) \<Rightarrow> map (js_trim \<circ> json_name) (n # ns)
      | _ \<Rightarrow> [json_name (or_else (json_get ''guestName'' b) (JStr []))])"

text \<open>The rows to show: the last version of each pass.\<close>

definition latest_rows :: "hall_pass list \<Rightarrow> hall_pass list \<Rightarrow> hall_pass list" where
  "latest_rows updates ps =
     map (\<lambda>p. or_else (List.find (\<lambda>q. pass_id q = pass_id p) (rev updates)) p) ps"

definition record_delivery ::
  "uuid list \<Rightarrow> string \<Rightarrow> email_delivery \<Rightarrow> string option \<Rightarrow> instant \<Rightarrow> web_state
     \<Rightarrow> (route_failure, hall_pass list) result \<times> web_state" where
  "record_delivery ids recipient st err now w =
     (if ids = [] then (Inr [], w)
      else (case updatePassEmailDelivery ids recipient st err now (registry w) of
              (Inl e, db') \<Rightarrow> (Inl (Database e), w\<lparr>registry := db'\<rparr>)
            | (Inr rows, db') \<Rightarrow> (Inr rows, w\<lparr>registry := db'\<rparr>)))"

definition deliver_created ::
  "web_env \<Rightarrow> hall_pass list \<Rightarrow> string \<Rightarrow> string \<Rightarrow> instant \<Rightarrow> web_state
     \<Rightarrow> (route_failure, hall_pass list \<times> delivery_report) result \<times> web_state" where
  "deliver_created env ps recipient message now w =
     (let (er, outbox') = sendPassPdfEmailsBatched (web_mail env) ps recipient message (outbox w);
          w' = w\<lparr>outbox := outbox'\<rparr>;
          errs = js_join '' '' (batch_errors er)
      in case record_delivery (sent_pass_ids er) recipient Sent None now w' of
           (Inl e, w1) \<Rightarrow> (Inl e, w1)
         | (Inr sent, w1) \<Rightarrow>
           (case record_delivery (failed_pass_ids er) recipient Failed (Some errs) now w1 of
              (Inl e, w2) \<Rightarrow> (Inl e, w2)
            | (Inr failed, w2) \<Rightarrow>
              (Inr (latest_rows (sent @ failed) ps,
                    \<lparr>report_success = (failed_pass_ids er = []), report_recipient = recipient,
                     report_error = (if batch_errors er = [] then None else Some errs)\<rparr>), w2)))"

definition created_reply :: "hall_pass list \<Rightarrow> ticket_availability \<Rightarrow> delivery_report option \<Rightarrow> reply" where
  "created_reply ps a report = Inr (respond 200 (Created_body (hd ps) ps (token (hd ps)) a report))"

definition create_and_deliver ::
  "web_env \<Rightarrow> bool \<Rightarrow> string \<Rightarrow> string \<Rightarrow> string list \<Rightarrow> string \<Rightarrow> string \<Rightarrow> instant \<Rightarrow> web_state
     \<Rightarrow> reply \<times> web_state" where
  "create_and_deliver env send recipient message names inviter who now w =
     (case createHallPasses (random_bytes env) (draws w) now names (Some inviter) who (registry w) of
        (r, k', db') \<Rightarrow>
          (let w1 = w\<lparr>registry := db', draws := k'\<rparr>; a = getTicketAvailability db'
           in case r of
                Inl e \<Rightarrow> (Inl (Database e), w1)
              | Inr [] \<Rightarrow>
                (Inr (respond 409 (Limit_body (if length names = 1 then ''Ticket limit reached.''
                   else ''Ticket limit does not have enough remaining passes for this batch.'') a)), w1)
              | Inr ps \<Rightarrow>
                if \<not> send then (created_reply ps a None, w1)
                else (case deliver_created env ps recipient message now w1 of
                        (Inl e, w2) \<Rightarrow> (Inl e, w2)
                      | (Inr (rows, report), w2) \<Rightarrow> (created_reply rows a (Some report), w2))))"

definition passes_POST ::
  "web_env \<Rightarrow> auth_session option \<Rightarrow> json \<Rightarrow> instant \<Rightarrow> web_state \<Rightarrow> reply \<times> web_state" where
  "passes_POST env session b now w = withLegacyWriteFence
     (guarded session [Super_admin] w (\<lambda>s.
        let delivery = or_else (json_get ''delivery'' b) JNull;
            send = json_truthy (or_else (json_get ''sendEmail'' delivery) JNull)
        in case optional_trim ''recipientEmail'' delivery of
             Inl e \<Rightarrow> (Inl (Thrown e), w)
           | Inr recipient \<Rightarrow>
        (case optional_trim ''message'' delivery of
             Inl e \<Rightarrow> (Inl (Thrown e), w)
           | Inr message \<Rightarrow>
          if send \<and> \<not> isLikelyEmail (or_else recipient [])
          then (Inr (respond 400 (Api_error ''Enter a valid recipient email address.'')), w)
          else (case optional_trim ''inviteFrom'' b of
             Inl e \<Rightarrow> (Inl (Thrown e), w)
           | Inr inviter \<Rightarrow>
             if or_else inviter [] = []
             then (Inr (respond 400 (Api_error ''Select who the invite is from.'')), w)
             else if MAX_BATCH_SIZE < length (requested_names b)
             then (Inr (respond 400 (Api_error ''You can generate up to 100 passes at once.'')), w)
             else create_and_deliver env send (or_else recipient []) (or_else message [])
               (requested_names b) (or_else inviter []) (session_email s) now w))))"

section \<open>Invalidation\<close>

definition invalidate_POST ::
  "auth_session option \<Rightarrow> uuid option \<Rightarrow> instant \<Rightarrow> web_state \<Rightarrow> reply \<times> web_state" where
  "invalidate_POST session pid now w = withLegacyWriteFence
     (guarded session [Super_admin] w (\<lambda>s.
        case pid of
          None \<Rightarrow> (Inl (Database Invalid_uuid), w)
        | Some i \<Rightarrow>
          (case invalidateHallPass i (session_email s) now (registry w) of
             (Inl e, db') \<Rightarrow> (Inl (Database e), w\<lparr>registry := db'\<rparr>)
           | (Inr None, db') \<Rightarrow> (Inr (respond 404 (Api_error ''Pass not found.'')), w\<lparr>registry := db'\<rparr>)
           | (Inr (Some p), db') \<Rightarrow>
             (Inr (respond 200 (Invalidated_body p (getTicketAvailability db'))), w\<lparr>registry := db'\<rparr>))))"

definition invalidate_all_POST ::
  "auth_session option \<Rightarrow> instant \<Rightarrow> web_state \<Rightarrow> reply \<times> web_state" where
  "invalidate_all_POST session now w = withLegacyWriteFence
     (guarded session [Super_admin] w (\<lambda>s.
        case invalidateAllHallPasses (session_email s) now (registry w) of
          (Inl e, db') \<Rightarrow> (Inr (respond 500 (Api_error ''Could not invalidate all passes.'')), w\<lparr>registry := db'\<rparr>)
        | (Inr ps, db') \<Rightarrow>
          (Inr (respond 200 (Invalidated_all_body (length ps) ps (getTicketAvailability db'))),
           w\<lparr>registry := db'\<rparr>)))"

section \<open>Mailing one pass\<close>

definition default_pass_message :: string where
  "default_pass_message = ''Please find the attached hall pass ticket PDF. Present the QR code at entry.''"

definition first_row :: "hall_pass list \<Rightarrow> hall_pass option" where
  "first_row ps = (case ps of [] \<Rightarrow> None | p # _ \<Rightarrow> Some p)"

text \<open>The catch block: the failure is recorded, and answered with 502.\<close>

definition email_failed ::
  "uuid \<Rightarrow> string \<Rightarrow> string \<Rightarrow> instant \<Rightarrow> web_state \<Rightarrow> reply \<times> web_state" where
  "email_failed pid recipient message now w =
     (case updatePassEmailDelivery [pid] recipient Failed (Some message) now (registry w) of
        (Inl e, db') \<Rightarrow> (Inl (Database e), w\<lparr>registry := db'\<rparr>)
      | (Inr rows, db') \<Rightarrow> (Inr (respond 502 (Email_error_body message (first_row rows))), w\<lparr>registry := db'\<rparr>))"

definition email_pass ::
  "web_env \<Rightarrow> hall_pass \<Rightarrow> string \<Rightarrow> string \<Rightarrow> instant \<Rightarrow> web_state \<Rightarrow> reply \<times> web_state" where
  "email_pass env p recipient message now w =
     (case sendPassPdfEmail (web_mail env) [p] recipient message None (outbox w) of
        (Inl m, o') \<Rightarrow> email_failed (pass_id p) recipient m now (w\<lparr>outbox := o'\<rparr>)
      | (Inr _, o') \<Rightarrow>
        (let w1 = w\<lparr>outbox := o'\<rparr>
         in case updatePassEmailDelivery [pass_id p] recipient Sent None now (registry w1) of
              (Inl e, db') \<Rightarrow> email_failed (pass_id p) recipient (error_text env e) now (w1\<lparr>registry := db'\<rparr>)
            | (Inr rows, db') \<Rightarrow> (Inr (respond 200 (Emailed_body (first_row rows))), w1\<lparr>registry := db'\<rparr>)))"

definition email_POST ::
  "web_env \<Rightarrow> auth_session option \<Rightarrow> uuid option \<Rightarrow> json \<Rightarrow> instant \<Rightarrow> web_state \<Rightarrow> reply \<times> web_state" where
  "email_POST env session pid b now w = withLegacyWriteFence
     (guarded session [Super_admin] w (\<lambda>s.
        case pid of
          None \<Rightarrow> (Inl (Database Invalid_uuid), w)
        | Some i \<Rightarrow>
        (case getHallPassById i (registry w) of
           None \<Rightarrow> (Inr (respond 404 (Api_error ''Pass not found.'')), w)
         | Some p \<Rightarrow>
        (case optional_trim ''recipientEmail'' b of
           Inl e \<Rightarrow> (Inl (Thrown e), w)
         | Inr given \<Rightarrow>
        (case optional_trim ''message'' b of
           Inl e \<Rightarrow> (Inl (Thrown e), w)
         | Inr message \<Rightarrow>
          (let recipient = or_else (non_empty (or_else given [])) (or_else (email_recipient p) []);
               text = or_else (non_empty (or_else message [])) default_pass_message
           in if \<not> isLikelyEmail recipient
              then (Inr (respond 400 (Api_error ''Enter a valid recipient email address.'')), w)
              else email_pass env p recipient text now w))))))"

section \<open>Redeeming\<close>

definition url_pathname :: "web_env \<Rightarrow> string \<Rightarrow> string option" where
  "url_pathname env s = (if CHR '':'' \<in> set s then url_path env s else None)"

definition segments_of :: "string \<Rightarrow> string list" where
  "segments_of s = filter (\<lambda>x. x \<noteq> []) (js_split (CHR ''/'') s)"

fun after_verify :: "string list \<Rightarrow> string option" where
  "after_verify [] = None"
| "after_verify (x # xs) =
     (if x = ''verify'' then (case xs of [] \<Rightarrow> None | y # _ \<Rightarrow> Some y) else after_verify xs)"

definition verify_link_token :: "web_env \<Rightarrow> string \<Rightarrow> string option" where
  "verify_link_token env trimmed =
     (case url_pathname env trimmed of
        None \<Rightarrow> None
      | Some path \<Rightarrow>
        (case after_verify (segments_of path) of None \<Rightarrow> None | Some t \<Rightarrow> decodeURIComponent t))"

definition extractToken :: "web_env \<Rightarrow> string \<Rightarrow> (failure, string) result" where
  "extractToken env v =
     (let trimmed = js_trim v
      in if trimmed = [] then Inr []
         else (case verify_link_token env trimmed of
                 Some t \<Rightarrow> Inr t
               | None \<Rightarrow>
                 (let segments = segments_of trimmed
                  in case decodeURIComponent (if segments = [] then trimmed else last segments) of
                       None \<Rightarrow> Inl Uri_error
                     | Some t \<Rightarrow> Inr t)))"

definition log_and_reply ::
  "string \<Rightarrow> string \<Rightarrow> redeem_result \<Rightarrow> instant \<Rightarrow> web_state \<Rightarrow> reply \<times> web_state" where
  "log_and_reply tok who r now w =
     (case logScanAttempt tok (Some who) r now (registry w) of
        (Inl e, db') \<Rightarrow> (Inl (Database e), w\<lparr>registry := db'\<rparr>)
      | (Inr _, db') \<Rightarrow> (Inr (respond 200 (Redeem_body r)), w\<lparr>registry := db'\<rparr>))"

definition scanned_value :: "web_env \<Rightarrow> json \<Rightarrow> (failure, string) result" where
  "scanned_value env b =
     (case or_else (json_get ''value'' b) JNull of
        JNull \<Rightarrow> Inr []
      | JStr v \<Rightarrow> extractToken env v
      | _ \<Rightarrow> Inl Type_error)"

definition redeem_scan ::
  "web_env \<Rightarrow> json \<Rightarrow> instant \<Rightarrow> web_state \<Rightarrow> auth_session \<Rightarrow> reply \<times> web_state" where
  "redeem_scan env b now w s =
     (case scanned_value env b of
        Inl e \<Rightarrow> (Inl (Thrown e), w)
      | Inr tok \<Rightarrow>
        if tok = [] then log_and_reply ''EMPTY'' (session_email s) no_pass_result now w
        else (case redeemHallPass tok (Some (session_email s)) now (registry w) of
                (Inl e, db') \<Rightarrow> (Inl (Database e), w\<lparr>registry := db'\<rparr>)
              | (Inr r, db') \<Rightarrow> log_and_reply tok (session_email s) r now (w\<lparr>registry := db'\<rparr>)))"

definition redeem_POST ::
  "web_env \<Rightarrow> auth_session option \<Rightarrow> json \<Rightarrow> instant \<Rightarrow> web_state \<Rightarrow> reply \<times> web_state" where
  "redeem_POST env session b now w = withLegacyWriteFence
     (guarded session [Super_admin, Bouncer] w (redeem_scan env b now w))"

text \<open>The ways a scan goes on, for case analysis.\<close>

lemma redeem_scan_cases:
  obtains e where "redeem_scan env b now w s = (Inl (Thrown e), w)"
    | "redeem_scan env b now w s = log_and_reply ''EMPTY'' (session_email s) no_pass_result now w"
    | tok e db' where "redeemHallPass tok (Some (session_email s)) now (registry w) = (Inl e, db')"
        "redeem_scan env b now w s = (Inl (Database e), w\<lparr>registry := db'\<rparr>)"
    | tok r db' where "redeemHallPass tok (Some (session_email s)) now (registry w) = (Inr r, db')"
        "redeem_scan env b now w s = log_and_reply tok (session_email s) r now (w\<lparr>registry := db'\<rparr>)"
proof (cases "scanned_value env b")
  case (Inl e)
  then show thesis using that(1) [of e] by (simp add: redeem_scan_def)
next
  case (Inr tok)
  obtain x db' where x: "redeemHallPass tok (Some (session_email s)) now (registry w) = (x, db')"
    by (metis surj_pair)
  then show thesis
    using that(2) that(3) [of tok _ db'] that(4) [of tok _ db'] Inr by (cases x; cases "tok = []") (simp_all add: redeem_scan_def)
qed

end
