(* ===== verification/WebRegistry.thy ===== *)
theory WebRegistry
  imports HallRoutes
begin

text \<open>
  The HTTP surface as a refinement of the registry: every request leaves the registry as
  some run of registry operations does, so the registry's guarantees hold for any sequence
  of requests. The single-use contract is interpreted on the requests.
\<close>

datatype web_request =
    Settings_put "auth_session option" json instant
  | Passes_post "auth_session option" json instant
  | Invalidate_post "auth_session option" "uuid option" instant
  | Invalidate_all_post "auth_session option" instant
  | Email_post "auth_session option" "uuid option" json instant
  | Redeem_post "auth_session option" json instant

fun web_exec :: "web_env \<Rightarrow> web_request \<Rightarrow> web_state \<Rightarrow> reply \<times> web_state" where
  "web_exec env (Settings_put s b now) w = ticket_settings_PUT s b now w"
| "web_exec env (Passes_post s b now) w = passes_POST env s b now w"
| "web_exec env (Invalidate_post s i now) w = invalidate_POST s i now w"
| "web_exec env (Invalidate_all_post s now) w = invalidate_all_POST s now w"
| "web_exec env (Email_post s i b now) w = email_POST env s i b now w"
| "web_exec env (Redeem_post s b now) w = redeem_POST env s b now w"

fun request_session :: "web_request \<Rightarrow> auth_session option" where
  "request_session (Settings_put s b now) = s"
| "request_session (Passes_post s b now) = s"
| "request_session (Invalidate_post s i now) = s"
| "request_session (Invalidate_all_post s now) = s"
| "request_session (Email_post s i b now) = s"
| "request_session (Redeem_post s b now) = s"

definition request_roles :: "web_request \<Rightarrow> app_role list" where
  "request_roles r = (case r of Redeem_post _ _ _ \<Rightarrow> [Super_admin, Bouncer] | _ \<Rightarrow> [Super_admin])"

section \<open>Runs of registry operations\<close>

definition reached :: "hall_db \<Rightarrow> hall_db \<Rightarrow> bool" where
  "reached db db' = (\<exists>ops. db' = snd (run_ops hall_exec ops db))"

lemma reached_refl [simp, intro]: "reached db db"
  unfolding reached_def by (rule exI [of _ "[]"]) simp

lemma reached_op: "db' = snd (hall_exec op db) \<Longrightarrow> reached db db'"
  unfolding reached_def by (rule exI [of _ "[op]"]) (simp add: split_beta)

lemma run_ops_append:
  "snd (run_ops f (xs @ ys) s) = snd (run_ops f ys (snd (run_ops f xs s)))"
  by (induction xs arbitrary: s) (simp_all add: split_beta)

lemma reached_trans [trans]: "reached a b \<Longrightarrow> reached b c \<Longrightarrow> reached a c"
  unfolding reached_def using run_ops_append by metis

lemma reached_limit: "updateTicketLimit l who now db = (r, db') \<Longrightarrow> reached db db'"
  by (rule reached_op [of _ "Limit_op l who now"]) simp

lemma reached_create: "createHallPasses rnd k now gs src who db = (r, k', db') \<Longrightarrow> reached db db'"
  by (rule reached_op [of _ "Create_op rnd k now gs src who"]) simp

lemma reached_invalidate: "invalidateHallPass i who now db = (r, db') \<Longrightarrow> reached db db'"
  by (rule reached_op [of _ "Invalidate_op i who now"]) simp

lemma reached_invalidate_all: "invalidateAllHallPasses who now db = (r, db') \<Longrightarrow> reached db db'"
  by (rule reached_op [of _ "Invalidate_all_op who now"]) simp

lemma reached_delivery: "updatePassEmailDelivery ids rec st err now db = (r, db') \<Longrightarrow> reached db db'"
  by (rule reached_op [of _ "Delivery_op ids rec st err now"]) simp

lemma reached_log: "logScanAttempt v s res now db = (r, db') \<Longrightarrow> reached db db'"
  by (rule reached_op [of _ "Log_op v s res now"]) simp

lemma reached_redeem: "redeemHallPass v s now db = (r, db') \<Longrightarrow> reached db db'"
  by (rule reached_op [of _ "Redeem_op v s now"]) simp

lemmas reached_ops = reached_limit reached_create reached_invalidate reached_invalidate_all
  reached_delivery reached_log reached_redeem

section \<open>Handlers\<close>

lemma fence_state [simp]: "snd (withLegacyWriteFence r) = snd r"
  by (cases r) (auto simp: withLegacyWriteFence_def split: sum.splits route_failure.splits db_error.splits)

lemma guarded_reached:
  assumes "\<And>s. reached (registry w) (registry (snd (k s)))"
  shows "reached (registry w) (registry (snd (guarded session roles w k)))"
  using assms by (auto simp: guarded_def split: option.splits sum.splits)

lemma record_delivery_reached:
  "record_delivery ids rec st err now w = (r, w') \<Longrightarrow> reached (registry w) (registry w')"
  by (auto simp: record_delivery_def split: if_splits prod.splits sum.splits dest!: reached_delivery)

lemma deliver_created_reached:
  assumes "deliver_created env ps rec m now w = (r, w')"
  shows "reached (registry w) (registry w')"
proof -
  obtain er o' where b: "sendPassPdfEmailsBatched (web_mail env) ps rec m (outbox w) = (er, o')" by (metis surj_pair)
  obtain r1 w1 where 1: "record_delivery (sent_pass_ids er) rec Sent None now (w\<lparr>outbox := o'\<rparr>) = (r1, w1)"
    by (metis surj_pair)
  have first: "reached (registry w) (registry w1)" using record_delivery_reached [OF 1] by simp
  show ?thesis
  proof (cases r1)
    case (Inl e)
    then show ?thesis using assms b 1 first by (simp add: deliver_created_def)
  next
    case (Inr sent)
    obtain r2 w2 where 2: "record_delivery (failed_pass_ids er) rec Failed
        (Some (js_join '' '' (batch_errors er))) now w1 = (r2, w2)"
      by (metis surj_pair)
    have "w' = w2" using assms b 1 2 Inr by (cases r2) (simp_all add: deliver_created_def)
    then show ?thesis using first record_delivery_reached [OF 2] reached_trans by blast
  qed
qed

lemma create_and_deliver_reached:
  "reached (registry w) (registry (snd (create_and_deliver env send rec m names src who now w)))"
proof -
  obtain r k' db' where c: "createHallPasses (random_bytes env) (draws w) now names (Some src) who (registry w) = (r, k', db')"
    by (metis prod_cases3)
  have first: "reached (registry w) db'" using reached_create [OF c] .
  show ?thesis
  proof (cases r)
    case (Inl e)
    then show ?thesis using c first by (simp add: create_and_deliver_def Let_def)
  next
    case (Inr ps)
    show ?thesis
    proof (cases "ps = [] \<or> \<not> send")
      case True
      then show ?thesis using c first Inr by (cases ps) (auto simp: create_and_deliver_def Let_def)
    next
      case False
      obtain d w2 where d: "deliver_created env ps rec m now (w\<lparr>registry := db', draws := k'\<rparr>) = (d, w2)"
        by (metis surj_pair)
      then have "snd (create_and_deliver env send rec m names src who now w) = w2"
        using c Inr False by (cases ps; cases d) (auto simp: create_and_deliver_def Let_def)
      then show ?thesis using first deliver_created_reached [OF d] reached_trans by fastforce
    qed
  qed
qed

lemma email_failed_reached: "reached (registry w) (registry (snd (email_failed i rec m now w)))"
  by (auto simp: email_failed_def split: prod.splits sum.splits dest!: reached_delivery)

lemma email_pass_reached: "reached (registry w) (registry (snd (email_pass env p rec m now w)))"
proof -
  obtain r o' where s: "sendPassPdfEmail (web_mail env) [p] rec m None (outbox w) = (r, o')" by (metis surj_pair)
  obtain u db' where u: "updatePassEmailDelivery [pass_id p] rec Sent None now (registry w) = (u, db')"
    by (metis surj_pair)
  have step: "reached (registry w) db'" using reached_delivery [OF u] .
  show ?thesis
  proof (cases r)
    case (Inl m')
    then show ?thesis using s email_failed_reached [of "w\<lparr>outbox := o'\<rparr>"] by (simp add: email_pass_def)
  next
    case (Inr x)
    then show ?thesis
      using s u step email_failed_reached [of "w\<lparr>outbox := o', registry := db'\<rparr>"]
      by (cases u) (auto simp: email_pass_def Let_def intro: reached_trans)
  qed
qed

lemma log_and_reply_reached: "reached (registry w) (registry (snd (log_and_reply v who r now w)))"
  by (auto simp: log_and_reply_def split: prod.splits sum.splits dest!: reached_log)

lemma settings_PUT_reached: "reached (registry w) (registry (snd (ticket_settings_PUT s b now w)))"
  unfolding ticket_settings_PUT_def fence_state
  by (rule guarded_reached) (auto split: option.splits prod.splits sum.splits dest!: reached_limit)

lemma passes_POST_reached: "reached (registry w) (registry (snd (passes_POST env s b now w)))"
  unfolding passes_POST_def fence_state
  by (rule guarded_reached)
    (auto simp: Let_def create_and_deliver_reached split: sum.splits)

lemma invalidate_POST_reached: "reached (registry w) (registry (snd (invalidate_POST s i now w)))"
  unfolding invalidate_POST_def fence_state
  by (rule guarded_reached) (auto split: option.splits prod.splits sum.splits dest!: reached_invalidate)

lemma invalidate_all_POST_reached: "reached (registry w) (registry (snd (invalidate_all_POST s now w)))"
  unfolding invalidate_all_POST_def fence_state
  by (rule guarded_reached) (auto split: prod.splits sum.splits dest!: reached_invalidate_all)

lemma email_POST_reached: "reached (registry w) (registry (snd (email_POST env s i b now w)))"
  unfolding email_POST_def fence_state
  by (rule guarded_reached) (auto simp: Let_def email_pass_reached split: option.splits sum.splits)

lemma redeem_scan_reached: "reached (registry w) (registry (snd (redeem_scan env b now w s)))"
proof (cases rule: redeem_scan_cases [of env b now w s])
  case (3 tok e db')
  then show ?thesis using reached_redeem by fastforce
next
  case (4 tok r db')
  then show ?thesis
    using reached_trans [OF reached_redeem [OF 4(1)]] log_and_reply_reached [of "w\<lparr>registry := db'\<rparr>"] by simp
qed (simp_all add: log_and_reply_reached)

lemma redeem_POST_reached: "reached (registry w) (registry (snd (redeem_POST env s b now w)))"
  unfolding redeem_POST_def fence_state by (rule guarded_reached) (rule redeem_scan_reached)

lemma web_exec_reached: "reached (registry w) (registry (snd (web_exec env req w)))"
  by (cases req) (simp_all add: settings_PUT_reached passes_POST_reached invalidate_POST_reached
      invalidate_all_POST_reached email_POST_reached redeem_POST_reached)

end
