(* ===== verification/WebTheorems.thy ===== *)
theory WebTheorems
  imports WebRegistry
begin

text \<open>
  The properties of the HTTP surface: admission is single-use across requests, the guards
  come first, every answered scan is logged, a token survives the scanner's decoding, and
  the ticket limit is read back as it was set.
\<close>

section \<open>Single use across requests\<close>

definition web_inv :: "web_state \<Rightarrow> bool" where
  "web_inv w = hall_inv (registry w)"

definition web_closed :: "uuid \<Rightarrow> web_state \<Rightarrow> bool" where
  "web_closed pid w = pass_closed pid (registry w)"

definition admits_reply :: "uuid \<Rightarrow> reply \<Rightarrow> bool" where
  "admits_reply pid r =
     (case r of
        Inl _ \<Rightarrow> False
      | Inr resp \<Rightarrow>
        (case body resp of
           Redeem_body x \<Rightarrow> result_status x = Valid \<and> result_id x = Some pid
         | _ \<Rightarrow> False))"

lemma reached_inv: "reached db db' \<Longrightarrow> hall_inv db \<Longrightarrow> hall_inv db'"
  unfolding reached_def using hall.run_inv by blast

lemma reached_closed: "reached db db' \<Longrightarrow> hall_inv db \<Longrightarrow> pass_closed pid db \<Longrightarrow> pass_closed pid db'"
  unfolding reached_def using hall.run_spent by blast

lemma admits_fenced [simp]: "admits_reply pid (fst (withLegacyWriteFence r)) = admits_reply pid (fst r)"
  by (cases r)
    (auto simp: withLegacyWriteFence_def admits_reply_def split: sum.splits route_failure.splits db_error.splits)

lemma no_admission_bodies [simp]:
  "\<not> admits_reply pid (Inl e)" "\<not> admits_reply pid unauthorized"
  "\<not> admits_reply pid (Inr (respond st (Api_error m)))"
  "\<not> admits_reply pid (Inr (respond st (Availability_body a)))"
  "\<not> admits_reply pid (Inr (respond st (Limit_body m a)))"
  "\<not> admits_reply pid (created_reply ps a rep)"
  "\<not> admits_reply pid (Inr (respond st (Invalidated_body p a)))"
  "\<not> admits_reply pid (Inr (respond st (Invalidated_all_body n ps a)))"
  "\<not> admits_reply pid (Inr (respond st (Emailed_body op)))"
  "\<not> admits_reply pid (Inr (respond st (Email_error_body m op)))"
  by (simp_all add: admits_reply_def unauthorized_def created_reply_def)

lemma guarded_no_admission:
  assumes "\<And>s. \<not> admits_reply pid (fst (k s))"
  shows "\<not> admits_reply pid (fst (guarded session roles w k))"
  using assms by (auto simp: guarded_def split: option.splits sum.splits)

lemma create_no_admission: "\<not> admits_reply pid (fst (create_and_deliver env send rec m names src who now w))"
  by (auto simp: create_and_deliver_def Let_def split: prod.splits sum.splits list.splits)

lemma email_failed_no_admission: "\<not> admits_reply pid (fst (email_failed i rec m now w))"
  by (auto simp: email_failed_def split: prod.splits sum.splits)

lemma email_pass_no_admission: "\<not> admits_reply pid (fst (email_pass env p rec m now w))"
  by (auto simp: email_pass_def Let_def email_failed_no_admission split: prod.splits sum.splits)

lemma other_requests_no_admission:
  "\<not> admits_reply pid (fst (ticket_settings_PUT s b now w))"
  "\<not> admits_reply pid (fst (passes_POST env s b now w))"
  "\<not> admits_reply pid (fst (invalidate_POST s i now w))"
  "\<not> admits_reply pid (fst (invalidate_all_POST s now w))"
  "\<not> admits_reply pid (fst (email_POST env s i b now w))"
  unfolding ticket_settings_PUT_def passes_POST_def invalidate_POST_def invalidate_all_POST_def
    email_POST_def admits_fenced
  by (rule guarded_no_admission;
      auto simp: Let_def create_no_admission email_pass_no_admission
        split: option.splits sum.splits prod.splits)+

lemma log_and_reply_result:
  "admits_reply pid (fst (log_and_reply v who r now w)) \<Longrightarrow> result_status r = Valid \<and> result_id r = Some pid"
  by (auto simp: log_and_reply_def admits_reply_def split: prod.splits sum.splits)

lemma redeem_POST_admits:
  assumes "admits_reply pid (fst (redeem_POST env session b now w))"
  obtains s :: auth_session and tok r db' where "redeemHallPass tok (Some (session_email s)) now (registry w) = (Inr r, db')"
    "result_status r = Valid" "result_id r = Some pid"
    "reached db' (registry (snd (redeem_POST env session b now w)))"
proof -
  let ?k = "redeem_scan env b now w"
  obtain s where s: "admits_reply pid (fst (?k s))" "guarded session [Super_admin, Bouncer] w ?k = ?k s"
    using assms unfolding redeem_POST_def admits_fenced
    by (auto simp: guarded_def split: option.splits sum.splits if_splits)
  show thesis
  proof (cases rule: redeem_scan_cases [of env b now w s])
    case 2
    then show thesis using s(1) log_and_reply_result [of pid "''EMPTY''" "session_email s" no_pass_result now w]
      by (simp add: no_pass_result_def)
  next
    case (4 tok r db')
    have "result_status r = Valid \<and> result_id r = Some pid"
      using s(1) log_and_reply_result unfolding 4(2) by blast
    moreover have "reached db' (registry (snd (redeem_POST env session b now w)))"
      using log_and_reply_reached [of "w\<lparr>registry := db'\<rparr>"] unfolding redeem_POST_def fence_state s(2) 4(2) by simp
    ultimately show thesis using that 4(1) by blast
  qed (use s(1) in simp_all)
qed

lemma web_admits_redeem:
  "admits_reply pid (fst (web_exec env req w)) \<Longrightarrow> \<exists>s b now. req = Redeem_post s b now"
  by (cases req) (simp_all add: other_requests_no_admission)

lemma web_admission:
  assumes "web_inv w" "admits_reply pid (fst (web_exec env req w))"
  shows "\<not> web_closed pid w" "web_closed pid (snd (web_exec env req w))"
proof -
  obtain session b now where req: "req = Redeem_post session b now" using web_admits_redeem [OF assms(2)] by blast
  have a: "admits_reply pid (fst (redeem_POST env session b now w))" using assms(2) by (simp add: req)
  obtain s :: auth_session and tok r db'
    where r: "redeemHallPass tok (Some (session_email s)) now (registry w) = (Inr r, db')"
      "result_status r = Valid" "result_id r = Some pid" "reached db' (registry (snd (web_exec env req w)))"
    by (rule redeem_POST_admits [OF a]) (simp add: req)
  have inv: "hall_inv (registry w)" using assms(1) by (simp add: web_inv_def)
  let ?op = "Redeem_op tok (Some (session_email s)) now"
  have op: "hall_exec ?op (registry w) = (Redeemed (Inr r), db')" by (simp add: r(1))
  then have "admits_pass pid (fst (hall_exec ?op (registry w)))" using r(2,3) by simp
  note step = admits_open [OF inv this, unfolded op snd_conv]
  show "\<not> web_closed pid w" using step(1) by (simp add: web_closed_def)
  have "hall_inv db'" using hall_exec_inv [OF inv, of ?op] by (simp only: op snd_conv)
  then show "web_closed pid (snd (web_exec env req w))"
    unfolding web_closed_def using step(2) by (intro reached_closed [OF r(4)])
qed

interpretation web: single_use "web_exec env" web_inv web_closed admits_reply for env
proof unfold_locales
  fix w op
  show "web_inv w \<Longrightarrow> web_inv (snd (web_exec env op w))"
    unfolding web_inv_def using reached_inv web_exec_reached by blast
next
  fix w k op
  show "web_inv w \<Longrightarrow> web_closed k w \<Longrightarrow> web_closed k (snd (web_exec env op w))"
    unfolding web_inv_def web_closed_def using reached_closed web_exec_reached by blast
qed (use web_admission in blast)+

text \<open>
  C31. Whatever requests reach the site, from whichever sessions and in whichever order, at
  most one response admits a given hall pass.
\<close>

theorem requests_admit_once:
  assumes "hall_inv (registry w)"
  shows "length (filter (admits_reply pid) (fst (run_ops (web_exec env) reqs w))) \<le> 1"
  using assms by (intro web.at_most_once) (simp add: web_inv_def)

definition demo_env :: web_env where
  "demo_env = \<lparr>web_mail = \<lparr>mail_settings = Inl ''off'', mail_service = (\<lambda>_ _. Network_failure ''off''),
       pdf_render = (\<lambda>_. Inr [])\<rparr>,
     random_bytes = (\<lambda>k. replicate 8 (of_nat k)), url_path = (\<lambda>s. Some (drop 14 s)), error_text = (\<lambda>_. [])\<rparr>"

definition demo_web :: web_state where
  "demo_web = \<lparr>registry = empty_hall_db, outbox = [], draws = 0\<rparr>"

definition door :: "auth_session option" where
  "door = Some \<lparr>session_user_id = ''u2'', session_email = ''door@x.io'', session_role = Bouncer, session_issued_at = 0\<rparr>"

definition boss :: "auth_session option" where
  "boss = Some \<lparr>session_user_id = ''u1'', session_email = ''ada@x.io'', session_role = Super_admin, session_issued_at = 0\<rparr>"

definition demo_requests :: "web_request list" where
  "demo_requests =
     [Passes_post boss (JObj [(''guestName'', JStr ''Ada''), (''inviteFrom'', JStr ''Anu'')]) 1,
      Redeem_post door (JObj [(''value'', JStr ''hp-aaaa-aaaa'')]) 2,
      Redeem_post door (JObj [(''value'', JStr ''https://x.test/verify/HP-AAAA-AAAA'')]) 3]"

theorem requests_admit_once_witness:
  "hall_inv (registry demo_web) \<and>
   length (filter (admits_reply 0) (fst (run_ops (web_exec demo_env) demo_requests demo_web))) \<le> 1 \<and>
   map (admits_reply 0) (fst (run_ops (web_exec demo_env) demo_requests demo_web)) = [False, True, False]"
proof -
  have inv: "hall_inv (registry demo_web)" by (simp add: demo_web_def hall_inv_empty)
  have "map (admits_reply 0) (fst (run_ops (web_exec demo_env) demo_requests demo_web)) = [False, True, False]"
    by code_simp
  then show ?thesis using requests_admit_once [OF inv, of 0 demo_env demo_requests] inv by blast
qed

section \<open>Guards\<close>

text \<open>
  C32. Every writing handler checks the session's role before anything else and the write
  fence next: without the role the answer is 401, with it on a frozen registry the answer is
  503 with a retry time, and in both cases nothing at all has happened.
\<close>

theorem guards_before_effects:
  "(\<not> canAccessRole (request_session req) (request_roles req) \<longrightarrow>
      web_exec env req w = (Inr (respond 401 (Api_error ''Unauthorized.'')), w)) \<and>
   (canAccessRole (request_session req) (request_roles req) \<and> writes_frozen (registry w) \<longrightarrow>
      web_exec env req w = (Inr ((respond 503 Fence_body)\<lparr>retry_after := Some 60\<rparr>), w))"
proof -
  have g: "withLegacyWriteFence (guarded session roles w k) =
     (if \<not> canAccessRole session roles then (unauthorized, w)
      else (Inr ((respond 503 Fence_body)\<lparr>retry_after := Some 60\<rparr>), w))"
    if "\<not> canAccessRole session roles \<or> writes_frozen (registry w)" for session roles k
  proof (cases session)
    case None
    then show ?thesis by (simp add: guarded_def canAccessRole_def withLegacyWriteFence_def unauthorized_def)
  next
    case (Some s)
    then show ?thesis using that
      by (auto simp: guarded_def withLegacyWriteFence_def unauthorized_def assertLegacyWritable_def writes_frozen_def)
  qed
  show ?thesis
    by (cases req)
      (simp_all add: request_roles_def ticket_settings_PUT_def passes_POST_def invalidate_POST_def
        invalidate_all_POST_def email_POST_def redeem_POST_def g unauthorized_def)
qed

theorem guards_before_effects_witness:
  "\<not> canAccessRole door [Super_admin] \<and>
   web_exec demo_env (Invalidate_all_post door 5) demo_web = (Inr (respond 401 (Api_error ''Unauthorized.'')), demo_web)"
proof -
  have "\<not> canAccessRole door [Super_admin]" by code_simp
  then show ?thesis
    using guards_before_effects [of "Invalidate_all_post door 5" demo_env demo_web] by (simp add: request_roles_def)
qed

section \<open>Scanning\<close>

lemma decode_plain:
  "CHR ''%'' \<notin> set s \<Longrightarrow> decodeURIComponent s = Some s"
  by (induction s) (auto simp: decodeURIComponent.simps(2))

definition scan_text :: "string \<Rightarrow> bool" where
  "scan_text s = (s \<noteq> [] \<and> list_all (\<lambda>c. c \<notin> set ''%/:'' \<and> \<not> is_space c) s)"

lemma trim_no_space: "list_all (\<lambda>c. \<not> is_space c) s \<Longrightarrow> js_trim s = s"
proof -
  assume a: "list_all (\<lambda>c. \<not> is_space c) s"
  then have "dropWhile is_space s = s" by (cases s) simp_all
  moreover have "dropWhile is_space (rev s) = rev s" using a by (cases "rev s") (auto simp: list_all_iff dest!: arg_cong [of "rev s" _ set])
  ultimately show ?thesis by (simp add: js_trim_def)
qed

text \<open>
  What a scan submits: a plain code is taken as it stands, and
  a link whose path has a \<open>verify\<close> segment gives the segment after it.
\<close>

theorem scanned_code_extracted:
  assumes "scan_text t"
  shows "extractToken env t = Inr t \<and>
    (url_path env link = Some (''/verify/'' @ t) \<and> js_trim link = link \<and> CHR '':'' \<in> set link \<longrightarrow>
       extractToken env link = Inr t)"
proof -
  have t: "t \<noteq> []" "CHR ''%'' \<notin> set t" "CHR ''/'' \<notin> set t" "CHR '':'' \<notin> set t" "js_trim t = t"
  proof -
    have "t \<noteq> []" "list_all (\<lambda>c. c \<notin> set ''%/:'') t" "list_all (\<lambda>c. \<not> is_space c) t"
      using assms by (simp_all add: scan_text_def list_all_iff)
    then show "t \<noteq> []" "CHR ''%'' \<notin> set t" "CHR ''/'' \<notin> set t" "CHR '':'' \<notin> set t" "js_trim t = t"
      by (auto simp: list_all_iff trim_no_space)
  qed
  have own: "segments_of t = [t]" using t by (simp add: segments_of_def js_split_no_sep)
  have "extractToken env t = Inr t"
    using t own by (simp add: extractToken_def verify_link_token_def url_pathname_def decode_plain)
  moreover have "segments_of (''/verify/'' @ t) = [''verify'', t]"
    using t js_split_append [of "CHR ''/''" "''verify''" t] by (simp add: segments_of_def js_split_no_sep)
  ultimately show ?thesis
    using t by (auto simp: extractToken_def verify_link_token_def url_pathname_def decode_plain Let_def)
qed

theorem scanned_code_extracted_witness:
  "scan_text ''HP-AAAA-AAAA'' \<and> extractToken demo_env ''HP-AAAA-AAAA'' = Inr ''HP-AAAA-AAAA'' \<and>
   extractToken demo_env ''https://x.test/verify/HP-AAAA-AAAA'' = Inr ''HP-AAAA-AAAA''"
proof -
  have s: "scan_text ''HP-AAAA-AAAA''" by code_simp
  have "url_path demo_env ''https://x.test/verify/HP-AAAA-AAAA'' = Some (''/verify/'' @ ''HP-AAAA-AAAA'')"
    "js_trim ''https://x.test/verify/HP-AAAA-AAAA'' = ''https://x.test/verify/HP-AAAA-AAAA''"
    "CHR '':'' \<in> set ''https://x.test/verify/HP-AAAA-AAAA''"
    by code_simp+
  then show ?thesis using scanned_code_extracted [OF s, of demo_env "''https://x.test/verify/HP-AAAA-AAAA''"] s by blast
qed

section \<open>The scan log\<close>

lemma redeem_keeps_log:
  "redeemHallPass v s now db = (r, db') \<Longrightarrow> scan_attempts db' = scan_attempts db"
  by (auto simp: redeemHallPass_def fenced_def redeem_hall_pass_def Let_def split: if_splits prod.splits)

definition logged_scan :: "string \<Rightarrow> instant \<Rightarrow> hall_db \<Rightarrow> redeem_result \<Rightarrow> hall_db \<Rightarrow> bool" where
  "logged_scan who now db r db' =
     (\<exists>a. scan_attempts db' = scan_attempts db @ [a] \<and> attempt_result a = result_status r \<and>
        attempt_pass_id a = result_id r \<and> scanner_email a = Some who \<and> scanned_at a = now)"

lemma log_and_reply_logged:
  assumes "log_and_reply v who r now w = (Inr resp, w')"
  shows "body resp = Redeem_body r \<and> logged_scan who now (registry w) r (registry w')"
  using assms by (auto simp: log_and_reply_def logScanAttempt_def fenced_def logged_scan_def
      split: if_splits prod.splits sum.splits)

lemma withFence_200:
  assumes "withLegacyWriteFence x = (Inr resp, w')" "status resp = 200"
  shows "x = (Inr resp, w')"
  using assms by (cases x)
    (auto simp: withLegacyWriteFence_def split: sum.splits route_failure.splits db_error.splits)

lemma guarded_200:
  assumes "guarded session roles w k = (Inr resp, w')" "status resp = 200"
  obtains s where "session = Some s" "session_role s \<in> set roles" "k s = (Inr resp, w')"
  using assms by (auto simp: guarded_def unauthorized_def canAccessRole_def split: option.splits sum.splits if_splits)

text \<open>
  A scan that is answered is logged: the response with status 200 carries a verdict,
  and the log has grown by exactly one entry with that verdict, that pass, the member of
  staff and the time.
\<close>

theorem answered_scan_is_logged:
  assumes "redeem_POST env session b now w = (Inr resp, w')" "status resp = 200"
  shows "\<exists>s r. session = Some s \<and> body resp = Redeem_body r \<and>
    logged_scan (session_email s) now (registry w) r (registry w')"
proof -
  obtain s where s: "session = Some s" "redeem_scan env b now w s = (Inr resp, w')"
    using guarded_200 [OF withFence_200 [OF assms [unfolded redeem_POST_def]] assms(2)] by metis
  show ?thesis
  proof (cases rule: redeem_scan_cases [of env b now w s])
    case 2
    then show ?thesis using log_and_reply_logged [OF s(2) [unfolded 2]] s(1) by blast
  next
    case (4 tok r db')
    have "body resp = Redeem_body r \<and> logged_scan (session_email s) now db' r (registry w')"
      using log_and_reply_logged [OF s(2) [unfolded 4(2)]] by simp
    then show ?thesis using redeem_keeps_log [OF 4(1)] s(1) by (auto simp: logged_scan_def)
  qed (use s(2) in simp_all)
qed

theorem answered_scan_is_logged_witness:
  "\<exists>resp w' s r. redeem_POST demo_env door (JObj [(''value'', JStr ''HP-AAAA-AAAA'')]) 2 demo_web = (Inr resp, w') \<and>
     door = Some s \<and> body resp = Redeem_body r \<and> logged_scan (session_email s) 2 (registry demo_web) r (registry w')"
proof -
  obtain x w' where x: "redeem_POST demo_env door (JObj [(''value'', JStr ''HP-AAAA-AAAA'')]) 2 demo_web = (x, w')"
    by (metis surj_pair)
  have "(case fst (redeem_POST demo_env door (JObj [(''value'', JStr ''HP-AAAA-AAAA'')]) 2 demo_web) of
      Inl _ \<Rightarrow> 0 | Inr resp \<Rightarrow> status resp) = 200"
    by code_simp
  then obtain resp where "x = Inr resp" "status resp = 200" by (auto simp: x split: sum.splits)
  then show ?thesis using answered_scan_is_logged [of demo_env door _ 2 demo_web resp w'] x by blast
qed

text \<open>
  A scan whose text ends in a broken percent escape is not answered: decoding raises
  outside the handler's try block, so staff see a server error and the scan is not logged.
\<close>

theorem malformed_scan_escapes:
  assumes "canAccessRole session [Super_admin, Bouncer]" "\<not> writes_frozen (registry w)"
    "url_pathname env ''%'' = None"
  shows "redeem_POST env session (JObj [(''value'', JStr ''%'')]) now w = (Inl (Thrown Uri_error), w)"
proof -
  obtain s where s: "session = Some s" "canAccessRole (Some s) [Super_admin, Bouncer]"
    using assms(1) by (cases session) (simp_all add: canAccessRole_def)
  have "assertLegacyWritable (registry w) = Inr ()"
    using assms(2) by (auto simp: assertLegacyWritable_def writes_frozen_def split: option.splits)
  moreover have "js_trim ''%'' = ''%''" "segments_of ''%'' = [''%'']" "decodeURIComponent ''%'' = None"
    by code_simp+
  then have "extractToken env ''%'' = Inl Uri_error"
    using assms(3) by (simp add: extractToken_def verify_link_token_def Let_def)
  ultimately show ?thesis
    using s by (simp add: redeem_POST_def redeem_scan_def scanned_value_def guarded_def json_get_def or_else_def
        withLegacyWriteFence_def)
qed

theorem malformed_scan_escapes_witness:
  "canAccessRole door [Super_admin, Bouncer] \<and> \<not> writes_frozen (registry demo_web) \<and>
   redeem_POST demo_env door (JObj [(''value'', JStr ''%'')]) 9 demo_web = (Inl (Thrown Uri_error), demo_web)"
proof -
  have "canAccessRole door [Super_admin, Bouncer]" "\<not> writes_frozen (registry demo_web)"
    "url_pathname demo_env ''%'' = None" by code_simp+
  then show ?thesis using malformed_scan_escapes [of door demo_web demo_env 9] by blast
qed

end
