(* ===== verification/MediaLib.thy ===== *)
theory MediaLib
  imports Session Uri
begin

text \<open>
  The public gallery's data: the categories, \<^verbatim>\<open>cloudinaryMedia.ts\<close>,
  \<^verbatim>\<open>r2.ts\<close>, the merge of \<^verbatim>\<open>app/media/page.tsx\<close> and the two media routes.
  The remote services are parameters from a cursor to a page; the year of a timestamp, the
  collation of titles and the SHA-1 digest are parameters as well. A cursor loop that never
  ends has the value \<open>None\<close>.
\<close>

section \<open>Categories\<close>

record media_category =
  category_slug :: string
  category_title :: string
  category_description :: string
  has_photos :: bool
  has_videos :: bool

definition mediaCategories :: "media_category list" where
  "mediaCategories =
     [\<lparr>category_slug = ''engagement'', category_title = ''Engagement'',
        category_description = ''Our engagement memories.'', has_photos = True, has_videos = True\<rparr>,
      \<lparr>category_slug = ''pre-wedding'', category_title = ''Pre-Wedding'',
        category_description = ''Our pre-wedding portraits.'', has_photos = True, has_videos = False\<rparr>,
      \<lparr>category_slug = ''traditional-marriage'', category_title = ''Traditional Marriage'',
        category_description = ''Celebrating our families and traditions.'', has_photos = True, has_videos = True\<rparr>,
      \<lparr>category_slug = ''civil-wedding'', category_title = ''Civil Wedding'',
        category_description = ''Our civil wedding ceremony.'', has_photos = True, has_videos = False\<rparr>,
      \<lparr>category_slug = ''church-wedding'', category_title = ''Church Wedding'',
        category_description = ''Our church wedding ceremony.'', has_photos = True, has_videos = True\<rparr>,
      \<lparr>category_slug = ''wedding-reception'', category_title = ''Wedding Reception'',
        category_description = ''Celebrating with our family and friends.'', has_photos = True, has_videos = True\<rparr>]"

definition getMediaCategory :: "string \<Rightarrow> media_category option" where
  "getMediaCategory slug = List.find (\<lambda>c. category_slug c = slug) mediaCategories"

definition getCloudinaryImageFolder :: "string \<Rightarrow> string" where
  "getCloudinaryImageFolder slug = ''wedding/media/'' @ slug @ ''/photos''"

definition getR2VideoPrefix :: "string \<Rightarrow> string" where
  "getR2VideoPrefix slug = ''media/'' @ slug @ ''/videos/''"

section \<open>Items\<close>

datatype media_kind = Image_item | Video_item

datatype aspect = Portrait | Landscape

record media_item =
  item_id :: string
  item_title :: string
  item_description :: string
  item_event :: string
  item_date :: string
  item_kind :: media_kind
  item_src :: string
  hero_src :: "string option"
  thumbnail :: "string option"
  item_aspect :: aspect

record media_collection =
  collection_slug :: string
  collection_title :: string
  collection_description :: string
  collection_has_videos :: bool
  collection_items :: "media_item list"
  collection_videos :: "media_item list"

section \<open>Names\<close>

text \<open>\<open>replace(/\.[^.]+$/, "")\<close>: a last dot with something after it ends the name.\<close>

definition strip_extension :: "string \<Rightarrow> string" where
  "strip_extension s =
     (let tail = takeWhile (\<lambda>c. c \<noteq> CHR ''.'') (rev s); rest = dropWhile (\<lambda>c. c \<noteq> CHR ''.'') (rev s)
      in if tail = [] \<or> rest = [] then s else rev (tl rest))"

text \<open>\<open>replace(/X+/g, r)\<close> for a character class \<open>X\<close>.\<close>

fun replace_runs :: "(char \<Rightarrow> bool) \<Rightarrow> char \<Rightarrow> bool \<Rightarrow> string \<Rightarrow> string" where
  "replace_runs P r inside [] = []"
| "replace_runs P r inside (c # cs) =
     (if P c then (if inside then replace_runs P r True cs else r # replace_runs P r True cs)
      else c # replace_runs P r False cs)"

definition is_word :: "char \<Rightarrow> bool" where
  "is_word c = (is_upper c \<or> is_lower c \<or> is_digit c \<or> c = CHR ''_'')"

text \<open>\<open>replace(/\b\w/g, c => c.toUpperCase())\<close>.\<close>

fun capitalise :: "bool \<Rightarrow> string \<Rightarrow> string" where
  "capitalise after_word [] = []"
| "capitalise after_word (c # cs) =
     (if is_word c \<and> \<not> after_word then upper_char c else c) # capitalise (is_word c) cs"

definition humanizeFilename :: "string \<Rightarrow> string" where
  "humanizeFilename v =
     capitalise False (js_trim
       (replace_runs is_space (CHR '' '') False
         (replace_runs (\<lambda>c. c = CHR ''-'' \<or> c = CHR ''_'') (CHR '' '') False (strip_extension v))))"

text \<open>\<open>replace(p, r)\<close> for a text \<open>p\<close>: the first occurrence.\<close>

fun replace_first :: "string \<Rightarrow> string \<Rightarrow> string \<Rightarrow> string" where
  "replace_first p r [] = (if p = [] then r else [])"
| "replace_first p r (c # cs) =
     (if starts_with p (c # cs) then r @ drop (length p) (c # cs) else c # replace_first p r cs)"

definition addTransformation :: "string \<Rightarrow> string \<Rightarrow> string" where
  "addTransformation url t = replace_first ''/upload/'' (''/upload/'' @ t @ ''/'') url"

section \<open>Cloudinary\<close>

record cloud_config =
  cloud_name :: string
  cloud_key :: string
  cloud_secret :: string

definition getCloudinaryConfig :: "string option \<Rightarrow> string option \<Rightarrow> string option \<Rightarrow> cloud_config option" where
  "getCloudinaryConfig n k s =
     (if or_else n [] \<noteq> [] \<and> or_else k [] \<noteq> [] \<and> or_else s [] \<noteq> []
      then Some \<lparr>cloud_name = or_else n [], cloud_key = or_else k [], cloud_secret = or_else s []\<rparr> else None)"

record cloud_resource =
  asset_id :: string
  public_id :: string
  secure_url :: string
  asset_folder :: "string option"
  display_name :: "string option"
  filename :: "string option"
  res_width :: "nat option"
  res_height :: "nat option"
  res_created :: "string option"

definition mapResource :: "(string \<Rightarrow> string) \<Rightarrow> cloud_resource \<Rightarrow> string \<Rightarrow> string \<Rightarrow> media_item" where
  "mapResource year r title description =
     (let fallbackName = last (js_split (CHR ''/'') (public_id r));
          sourceName = (if or_else (display_name r) [] \<noteq> [] then or_else (display_name r) []
            else if or_else (filename r) [] \<noteq> [] then or_else (filename r) [] else fallbackName);
          w = or_else (res_width r) 0; h = or_else (res_height r) 0
      in \<lparr>item_id = asset_id r, item_title = humanizeFilename sourceName, item_description = description,
          item_event = title,
          item_date = (if or_else (res_created r) [] = [] then [] else year (or_else (res_created r) [])),
          item_kind = Image_item,
          item_src = addTransformation (secure_url r) ''f_auto,q_auto,c_limit,w_2400'',
          hero_src = None,
          thumbnail = Some (addTransformation (secure_url r) ''f_auto,q_auto:eco,c_fill,g_auto,w_900,h_560''),
          item_aspect = (if w \<noteq> 0 \<and> h \<noteq> 0 \<and> w < h then Portrait else Landscape)\<rparr>)"

text \<open>
  A reply of the search service: the request failed, or its \<open>ok\<close> flag and status with
  the resources, the next cursor and the error message of its body.
\<close>

record cloud_page =
  page_ok :: bool
  page_status :: nat
  page_resources :: "cloud_resource list"
  next_cursor :: "string option"
  page_message :: "string option"

type_synonym cloud_service = "string option \<Rightarrow> (string, cloud_page) result"

definition page_failure :: "string \<Rightarrow> cloud_page \<Rightarrow> string" where
  "page_failure title p =
     (case page_message p of
        Some m \<Rightarrow> or_else (non_empty m) (''Cloudinary returned '' @ show_nat (page_status p) @ '' while loading '' @ title @ ''.'')
      | None \<Rightarrow> ''Cloudinary returned '' @ show_nat (page_status p) @ '' while loading '' @ title @ ''.'')"

partial_function (option) search_pages ::
  "cloud_service \<Rightarrow> string \<Rightarrow> string option \<Rightarrow> cloud_resource list \<Rightarrow> (string, cloud_resource list) result option" where
  "search_pages service title cursor acc =
     (case service cursor of
        Inl e \<Rightarrow> Some (Inl e)
      | Inr p \<Rightarrow>
        if \<not> page_ok p then Some (Inl (page_failure title p))
        else if or_else (next_cursor p) [] = [] then Some (Inr (acc @ page_resources p))
        else search_pages service title (next_cursor p) (acc @ page_resources p))"

definition searchFolder ::
  "cloud_service \<Rightarrow> (string \<Rightarrow> string) \<Rightarrow> media_category \<Rightarrow> (string, media_item list) result option" where
  "searchFolder service year cat =
     map_option (map_sum id (map (\<lambda>r. mapResource year r (category_title cat) (category_description cat))))
       (search_pages service (category_title cat) None [])"

definition featured_item :: "(string \<Rightarrow> string) \<Rightarrow> cloud_resource \<Rightarrow> media_item" where
  "featured_item year r =
     (let cat = List.find (\<lambda>c. asset_folder r = Some (getCloudinaryImageFolder (category_slug c))) mediaCategories;
          item = (case cat of
             Some c \<Rightarrow> mapResource year r (category_title c) (category_description c)
           | None \<Rightarrow> mapResource year r ''Featured'' ''A favorite moment from our wedding journey.'')
      in item\<lparr>hero_src := Some (addTransformation (secure_url r) ''f_auto,q_auto,c_fill,g_auto,w_2400,h_1400'')\<rparr>)"

definition loadCloudinaryFeaturedImages ::
  "cloud_config option \<Rightarrow> (string, cloud_page) result \<Rightarrow> (string \<Rightarrow> string) \<Rightarrow> (string, media_item list) result" where
  "loadCloudinaryFeaturedImages config response year =
     (case config of
        None \<Rightarrow> Inr []
      | Some _ \<Rightarrow>
        (case response of
           Inl e \<Rightarrow> Inl e
         | Inr p \<Rightarrow> Inr (if page_ok p then map (featured_item year) (page_resources p) else [])))"

definition empty_collection :: "media_category \<Rightarrow> media_collection" where
  "empty_collection c =
     \<lparr>collection_slug = category_slug c, collection_title = category_title c,
      collection_description = category_description c, collection_has_videos = has_videos c,
      collection_items = [], collection_videos = []\<rparr>"

text \<open>One category: a failure leaves its collection empty; \<open>None\<close> is a load that never ends.\<close>

definition load_collection ::
  "cloud_service \<Rightarrow> (string \<Rightarrow> string) \<Rightarrow> media_category \<Rightarrow> media_collection option" where
  "load_collection service year c =
     (case searchFolder service year c of
        None \<Rightarrow> None
      | Some (Inl _) \<Rightarrow> Some (empty_collection c)
      | Some (Inr items) \<Rightarrow> Some ((empty_collection c)\<lparr>collection_items := items\<rparr>))"

fun all_some :: "'a option list \<Rightarrow> 'a list option" where
  "all_some [] = Some []"
| "all_some (None # xs) = None"
| "all_some (Some x # xs) = map_option ((#) x) (all_some xs)"

definition loadCloudinaryMediaCollections ::
  "cloud_config option \<Rightarrow> (media_category \<Rightarrow> cloud_service) \<Rightarrow> (string \<Rightarrow> string) \<Rightarrow> media_collection list option" where
  "loadCloudinaryMediaCollections config service year =
     (case config of
        None \<Rightarrow> Some (map empty_collection mediaCategories)
      | Some _ \<Rightarrow> all_some (map (\<lambda>c. load_collection (service c) year c) mediaCategories))"

section \<open>Videos in R2\<close>

definition strip_slashes :: "string \<Rightarrow> string" where
  "strip_slashes s = rev (dropWhile (\<lambda>c. c = CHR ''/'') (rev s))"

record r2_config =
  r2_account :: string
  r2_access_key :: string
  r2_secret_key :: string
  r2_bucket :: string
  r2_public_url :: string

definition getR2Config ::
  "string option \<Rightarrow> string option \<Rightarrow> string option \<Rightarrow> string option \<Rightarrow> string option \<Rightarrow> r2_config option" where
  "getR2Config a k s b u =
     (let url = map_option strip_slashes u
      in if or_else a [] = [] \<or> or_else k [] = [] \<or> or_else s [] = [] \<or> or_else b [] = [] \<or> or_else url [] = []
         then None
         else Some \<lparr>r2_account = or_else a [], r2_access_key = or_else k [], r2_secret_key = or_else s [],
           r2_bucket = or_else b [], r2_public_url = or_else url []\<rparr>)"

text \<open>The ASCII letters that \<open>normalize("NFKD")\<close> without combining marks leaves of a Latin-1 character.\<close>

definition nfkd_table :: "(nat \<times> string) list" where
  "nfkd_table =
     [(160, '' ''), (170, ''a''), (178, ''2''), (179, ''3''), (185, ''1''), (186, ''o''), (188, ''1 4''), (189, ''1 2''),
      (190, ''3 4''), (199, ''C''), (209, ''N''), (221, ''Y''), (231, ''c''), (241, ''n''), (253, ''y''), (255, ''y'')]
     @ map (\<lambda>n. (n, ''A'')) [192, 193, 194, 195, 196, 197] @ map (\<lambda>n. (n, ''E'')) [200, 201, 202, 203]
     @ map (\<lambda>n. (n, ''I'')) [204, 205, 206, 207] @ map (\<lambda>n. (n, ''O'')) [210, 211, 212, 213, 214]
     @ map (\<lambda>n. (n, ''U'')) [217, 218, 219, 220] @ map (\<lambda>n. (n, ''a'')) [224, 225, 226, 227, 228, 229]
     @ map (\<lambda>n. (n, ''e'')) [232, 233, 234, 235] @ map (\<lambda>n. (n, ''i'')) [236, 237, 238, 239]
     @ map (\<lambda>n. (n, ''o'')) [242, 243, 244, 245, 246] @ map (\<lambda>n. (n, ''u'')) [249, 250, 251, 252]"

definition nfkd_char :: "char \<Rightarrow> string" where
  "nfkd_char c = or_else (map_of nfkd_table (code_of c)) [c]"

definition name_char :: "char \<Rightarrow> bool" where
  "name_char c = (is_word c \<or> c = CHR ''-'')"

definition trim_dashes :: "string \<Rightarrow> string" where
  "trim_dashes s = rev (dropWhile (\<lambda>c. c = CHR ''-'') (rev (dropWhile (\<lambda>c. c = CHR ''-'') s)))"

definition ends_with :: "string \<Rightarrow> string \<Rightarrow> bool" where
  "ends_with p s = starts_with (rev p) (rev s)"

definition sanitizeVideoFilename :: "string \<Rightarrow> string option" where
  "sanitizeVideoFilename f =
     (let basename = js_lower (replace_runs (\<lambda>c. c = CHR ''-'') (CHR ''-'') False
            (trim_dashes (replace_runs (\<lambda>c. \<not> name_char c) (CHR ''-'') False
              (concat (map nfkd_char (strip_extension f))))))
      in if basename \<noteq> [] \<and> ends_with ''.mp4'' (js_lower f) then Some (basename @ ''.mp4'') else None)"

definition getPublicObjectUrl :: "string \<Rightarrow> string \<Rightarrow> nat option \<Rightarrow> string" where
  "getPublicObjectUrl publicUrl key version =
     (let url = publicUrl @ ''/'' @ js_join ''/'' (map encodeURIComponent (js_split (CHR ''/'') key))
      in if or_else version 0 = 0 then url else url @ ''?v='' @ show_nat (or_else version 0))"

record r2_object =
  object_key :: "string option"
  object_size :: "nat option"
  object_modified :: "nat option"

record r2_page =
  page_objects :: "r2_object list"
  page_truncated :: bool
  continuation_token :: "string option"

type_synonym r2_service = "string option \<Rightarrow> (string, r2_page) result"

definition video_key :: "string \<Rightarrow> bool" where
  "video_key k = (ends_with ''.mp4'' (js_lower k) \<or> ends_with ''.mov'' (js_lower k))"

definition video_item ::
  "(nat \<Rightarrow> string) \<Rightarrow> r2_config \<Rightarrow> media_category \<Rightarrow> r2_object \<Rightarrow> media_item option" where
  "video_item year config cat obj =
     (let key = or_else (object_key obj) []; name = drop (length (getR2VideoPrefix (category_slug cat))) key
      in if key = [] \<or> \<not> video_key key \<or> object_size obj = Some 0 then None
         else if name = [] \<or> CHR ''/'' \<in> set name then None
         else Some \<lparr>item_id = key, item_title = humanizeFilename name,
           item_description = category_description cat, item_event = category_title cat,
           item_date = (case object_modified obj of None \<Rightarrow> [] | Some t \<Rightarrow> year t),
           item_kind = Video_item,
           item_src = getPublicObjectUrl (r2_public_url config) key (object_modified obj),
           hero_src = None, thumbnail = None, item_aspect = Landscape\<rparr>)"

partial_function (option) list_objects ::
  "r2_service \<Rightarrow> string option \<Rightarrow> r2_object list \<Rightarrow> (string, r2_object list) result option" where
  "list_objects service tok acc =
     (case service tok of
        Inl e \<Rightarrow> Some (Inl e)
      | Inr p \<Rightarrow>
        if page_truncated p \<and> or_else (continuation_token p) [] \<noteq> []
        then list_objects service (continuation_token p) (acc @ page_objects p)
        else Some (Inr (acc @ page_objects p)))"

definition listCategoryVideos ::
  "(string \<Rightarrow> 'k::linorder) \<Rightarrow> (nat \<Rightarrow> string) \<Rightarrow> r2_service \<Rightarrow> r2_config \<Rightarrow> media_category
     \<Rightarrow> (string, media_item list) result option" where
  "listCategoryVideos collate year service config cat =
     (if \<not> has_videos cat then Some (Inr [])
      else map_option (map_sum id (\<lambda>objs. sort_key (\<lambda>i. collate (item_title i))
             (List.map_filter (video_item year config cat) objs))) (list_objects service None []))"

definition load_videos ::
  "(string \<Rightarrow> 'k::linorder) \<Rightarrow> (nat \<Rightarrow> string) \<Rightarrow> (media_category \<Rightarrow> r2_service) \<Rightarrow> r2_config \<Rightarrow> media_category
     \<Rightarrow> (string \<times> media_item list) option" where
  "load_videos collate year service config c =
     (case listCategoryVideos collate year (service c) config c of
        None \<Rightarrow> None
      | Some (Inl _) \<Rightarrow> Some (category_slug c, [])
      | Some (Inr vs) \<Rightarrow> Some (category_slug c, vs))"

definition loadR2VideoCollections ::
  "(string \<Rightarrow> 'k::linorder) \<Rightarrow> (nat \<Rightarrow> string) \<Rightarrow> (media_category \<Rightarrow> r2_service) \<Rightarrow> r2_config option
     \<Rightarrow> (string \<times> media_item list) list option" where
  "loadR2VideoCollections collate year service config =
     (case config of
        None \<Rightarrow> Some (map (\<lambda>c. (category_slug c, [])) mediaCategories)
      | Some cfg \<Rightarrow> all_some (map (load_videos collate year service cfg) mediaCategories))"

section \<open>The page and the routes\<close>

definition merge_collections ::
  "media_collection list \<Rightarrow> (string \<times> media_item list) list \<Rightarrow> media_collection list" where
  "merge_collections images videos =
     map (\<lambda>c. c\<lparr>collection_videos := or_else (map_of videos (collection_slug c)) []\<rparr>) images"

datatype media_body =
    Media_error string
  | Revalidated
  | Signed_upload string string string "(string \<times> string) list"

definition revalidate_POST :: "auth_session option \<Rightarrow> media_body response \<times> string list" where
  "revalidate_POST session =
     (if \<not> canAccessRole session [Super_admin] then (respond 401 (Media_error ''Unauthorized.''), [])
      else (respond 200 Revalidated, [''cloudinary-media'', ''r2-media'', ''/media'']))"

text \<open>The signed parameters, in the order of their names.\<close>

definition signed_parameters :: "string \<Rightarrow> nat \<Rightarrow> (string \<times> string) list" where
  "signed_parameters slug timestamp =
     [(''asset_folder'', getCloudinaryImageFolder slug), (''timestamp'', show_nat timestamp),
      (''unique_filename'', ''true''), (''use_filename'', ''true'')]"

definition parameter_string :: "(string \<times> string) list \<Rightarrow> string" where
  "parameter_string ps = js_join ''&'' (map (\<lambda>(k, v). k @ ''='' @ v) ps)"

definition missing_cloudinary :: string where
  "missing_cloudinary = ''Cloudinary is not configured. Add CLOUDINARY_CLOUD_NAME, CLOUDINARY_API_KEY, and CLOUDINARY_API_SECRET.''"

text \<open>The requested category: only a truthy text can name one.\<close>

definition requested_category :: "json \<Rightarrow> media_category option" where
  "requested_category b =
     (case json_str ''category'' b of None \<Rightarrow> None | Some s \<Rightarrow> if s = [] then None else getMediaCategory s)"

definition signature_POST ::
  "cloud_config option \<Rightarrow> (string \<Rightarrow> string) \<Rightarrow> nat \<Rightarrow> auth_session option \<Rightarrow> json \<Rightarrow> media_body response" where
  "signature_POST config sha1 now session b =
     (if \<not> canAccessRole session [Super_admin] then respond 401 (Media_error ''Unauthorized.'')
      else (case requested_category b of
              None \<Rightarrow> respond 400 (Media_error ''Select a valid photo category.'')
            | Some c \<Rightarrow>
              if \<not> has_photos c then respond 400 (Media_error ''Select a valid photo category.'')
              else (case config of
                      None \<Rightarrow> respond 500 (Media_error missing_cloudinary)
                    | Some cfg \<Rightarrow>
                      (let ps = signed_parameters (category_slug c) (now div 1000)
                       in respond 200 (Signed_upload (cloud_name cfg) (cloud_key cfg)
                            (sha1 (parameter_string ps @ cloud_secret cfg)) ps)))))"

end
