(* ===== verification/MediaView.thy ===== *)
theory MediaView
  imports MediaLib
begin

text \<open>
  The gallery page \<^verbatim>\<open>src/views/MediaPage.tsx\<close>: its state (the open viewer, the
  featured slide, the pause flag), the events that change it, and what the page offers, as a
  list of the controls and texts it renders.
\<close>

type_synonym viewer_state = "media_item \<times> media_item list"

record gallery =
  viewer :: "viewer_state option"
  activeHeroIndex :: nat
  isHeroPaused :: bool

datatype gallery_action =
    Open_viewer viewer_state
  | Close_viewer
  | Step_viewer int
  | Pick_hero nat
  | Toggle_pause
  | Hero_tick bool bool
  | Key_down string

datatype media_widget =
    Caption string
  | Control string gallery_action
  | Shown_image string string
  | Shown_video string

section \<open>The viewer\<close>

text \<open>\<open>findIndex\<close> and an indexed read: \<open>-1\<close> and out of range give nothing.\<close>

fun find_index :: "('a \<Rightarrow> bool) \<Rightarrow> 'a list \<Rightarrow> nat option" where
  "find_index P [] = None"
| "find_index P (x # xs) = (if P x then Some 0 else map_option Suc (find_index P xs))"

definition index_of :: "('a \<Rightarrow> bool) \<Rightarrow> 'a list \<Rightarrow> int" where
  "index_of P xs = (case find_index P xs of None \<Rightarrow> -1 | Some i \<Rightarrow> int i)"

definition js_at :: "'a list \<Rightarrow> int \<Rightarrow> 'a option" where
  "js_at xs i = (if 0 \<le> i \<and> i < int (length xs) then Some (xs ! nat i) else None)"

definition getAdjacentViewer :: "viewer_state option \<Rightarrow> int \<Rightarrow> viewer_state option" where
  "getAdjacentViewer current direction =
     (case current of
        None \<Rightarrow> None
      | Some (item, sequence) \<Rightarrow>
        (case js_at sequence (index_of (\<lambda>i. item_id i = item_id item) sequence + direction) of
           None \<Rightarrow> Some (item, sequence)
         | Some next_item \<Rightarrow> Some (next_item, sequence)))"

definition selected_index :: "viewer_state option \<Rightarrow> int" where
  "selected_index v = (case v of None \<Rightarrow> -1
     | Some (item, sequence) \<Rightarrow> index_of (\<lambda>i. item_id i = item_id item) sequence)"

definition can_view_previous :: "viewer_state option \<Rightarrow> bool" where
  "can_view_previous v = (0 < selected_index v)"

definition can_view_next :: "viewer_state option \<Rightarrow> bool" where
  "can_view_next v = (case v of None \<Rightarrow> False | Some (item, sequence) \<Rightarrow> selected_index v < int (length sequence) - 1)"

section \<open>The featured slides\<close>

definition hero_items :: "media_collection list \<Rightarrow> media_item list \<Rightarrow> media_item list" where
  "hero_items collections featured =
     (if featured \<noteq> [] then featured
      else (case List.find (\<lambda>c. collection_items c \<noteq> []) collections of
              None \<Rightarrow> []
            | Some c \<Rightarrow> [hd (collection_items c)]))"

definition normalized_hero :: "nat \<Rightarrow> media_item list \<Rightarrow> nat" where
  "normalized_hero active items = active mod max 1 (length items)"

definition hero_slides :: "media_item list \<Rightarrow> (string \<times> string) list" where
  "hero_slides items =
     (if items \<noteq> [] then map (\<lambda>i. (or_else (hero_src i) (item_src i), item_title i)) items
      else [(''/7V2A8743.jpg'', ''Adeola and Joshua'')])"

section \<open>Events\<close>

text \<open>
  A timer tick counts only with several slides, not paused, with motion allowed and the
  page visible; the keys act only while a viewer is open.
\<close>

fun gallery_step :: "media_item list \<Rightarrow> gallery_action \<Rightarrow> gallery \<Rightarrow> gallery" where
  "gallery_step heroes (Open_viewer v) g = g\<lparr>viewer := Some v\<rparr>"
| "gallery_step heroes Close_viewer g = g\<lparr>viewer := None\<rparr>"
| "gallery_step heroes (Step_viewer d) g = g\<lparr>viewer := getAdjacentViewer (viewer g) d\<rparr>"
| "gallery_step heroes (Pick_hero i) g = g\<lparr>activeHeroIndex := i\<rparr>"
| "gallery_step heroes Toggle_pause g = g\<lparr>isHeroPaused := \<not> isHeroPaused g\<rparr>"
| "gallery_step heroes (Hero_tick reduced hidden) g =
     (if length heroes \<le> 1 \<or> isHeroPaused g \<or> reduced \<or> hidden then g
      else g\<lparr>activeHeroIndex := (activeHeroIndex g + 1) mod length heroes\<rparr>)"
| "gallery_step heroes (Key_down k) g =
     (if viewer g = None then g
      else if k = ''Escape'' then g\<lparr>viewer := None\<rparr>
      else if k = ''ArrowLeft'' then g\<lparr>viewer := getAdjacentViewer (viewer g) (-1)\<rparr>
      else if k = ''ArrowRight'' then g\<lparr>viewer := getAdjacentViewer (viewer g) 1\<rparr>
      else g)"

section \<open>What the page shows\<close>

definition hero_view :: "media_item list \<Rightarrow> gallery \<Rightarrow> media_widget list" where
  "hero_view heroes g =
     (let n = normalized_hero (activeHeroIndex g) heroes
      in (case js_at heroes (int n) of None \<Rightarrow> []
          | Some h \<Rightarrow> [Control ''View featured photo'' (Open_viewer (h, heroes))]) @
         (if 1 < length heroes
          then map (\<lambda>i. Control (''Show featured image '' @ show_nat (i + 1) @ '': '' @ item_title (heroes ! i)) (Pick_hero i))
                 [0..<length heroes] @
               [Control (if isHeroPaused g then ''Resume featured images'' else ''Pause featured images'') Toggle_pause]
          else []))"

definition count_label :: "nat \<Rightarrow> string" where
  "count_label n = show_nat n @ '' item'' @ (if n = 1 then [] else ''s'')"

definition photo_cards :: "media_collection \<Rightarrow> media_widget list" where
  "photo_cards c =
     (if collection_items c \<noteq> []
      then map (\<lambda>i. Control (''View '' @ item_title i) (Open_viewer (i, collection_items c))) (collection_items c)
      else [Caption ''Photos coming soon'', Caption ''This collection will appear here as memories are added.''])"

definition video_cards :: "media_collection \<Rightarrow> media_widget list" where
  "video_cards c =
     (if \<not> collection_has_videos c then []
      else Caption ''Videos'' #
        (if collection_videos c \<noteq> []
         then map (\<lambda>i. Control (''Play '' @ item_title i) (Open_viewer (i, collection_videos c))) (collection_videos c)
         else [Caption ''Videos coming soon'', Caption ''This collection will appear here as films are added.'']))"

definition collection_view :: "media_collection \<Rightarrow> media_widget list" where
  "collection_view c =
     (let n = length (collection_items c) + length (collection_videos c)
      in [Caption (collection_title c), Caption (collection_description c)] @
         (if 0 < n then [Caption (count_label n)] else []) @
         [Caption ''Photos''] @ photo_cards c @ video_cards c)"

definition modal_view :: "gallery \<Rightarrow> media_widget list" where
  "modal_view g =
     (case viewer g of
        None \<Rightarrow> []
      | Some (item, sequence) \<Rightarrow>
        [Control ''Close media viewer'' Close_viewer] @
        (if can_view_previous (viewer g) then [Control ''View previous asset'' (Step_viewer (-1))] else []) @
        (if can_view_next (viewer g) then [Control ''View next asset'' (Step_viewer 1)] else []) @
        [case item_kind item of Video_item \<Rightarrow> Shown_video (item_src item)
         | Image_item \<Rightarrow> Shown_image (item_src item) (item_title item),
         Caption (item_event item @ (if item_date item = [] then [] else dot_sep @ item_date item)),
         Caption (item_title item), Caption (item_description item)])"

definition media_page :: "media_collection list \<Rightarrow> media_item list \<Rightarrow> gallery \<Rightarrow> media_widget list" where
  "media_page collections featured g =
     hero_view (hero_items collections featured) g @ concat (map collection_view collections) @ modal_view g"

section \<open>The scrolling rail\<close>

record rail =
  scroll_width :: rat
  client_width :: rat
  scroll_left :: rat

definition rail_controls :: "rail \<Rightarrow> bool \<times> bool \<times> bool" where
  "rail_controls r =
     (let maximum = max 0 (scroll_width r - client_width r)
      in (2 < maximum, 2 < scroll_left r, scroll_left r < maximum - 2))"

definition rail_move :: "rail \<Rightarrow> rat \<Rightarrow> rat" where
  "rail_move r direction = direction * max 250 (client_width r * (82 / 100))"

section \<open>Facts about the viewer\<close>

lemma find_index_Some: "find_index P xs = Some i \<Longrightarrow> i < length xs \<and> P (xs ! i)"
proof (induction xs arbitrary: i)
  case (Cons x xs)
  then show ?case by (cases i) (auto split: if_splits)
qed simp

lemma find_index_nth:
  assumes "distinct (map f xs)" "i < length xs"
  shows "find_index (\<lambda>y. f y = f (xs ! i)) xs = Some i"
  using assms
proof (induction xs arbitrary: i)
  case Nil
  then show ?case by simp
next
  case (Cons x xs)
  show ?case
  proof (cases i)
    case 0
    then show ?thesis by simp
  next
    case (Suc j)
    then have "f x \<noteq> f (xs ! j)" using Cons.prems by auto
    then show ?thesis using Cons Suc by simp
  qed
qed

definition viewer_ok :: "viewer_state option \<Rightarrow> bool" where
  "viewer_ok v = (case v of None \<Rightarrow> True
     | Some (item, sequence) \<Rightarrow> item \<in> set sequence \<and> distinct (map item_id sequence))"

lemma adjacent_at:
  assumes "distinct (map item_id sq)" "i < length sq"
  shows "getAdjacentViewer (Some (sq ! i, sq)) d =
     Some ((case js_at sq (int i + d) of None \<Rightarrow> sq ! i | Some x \<Rightarrow> x), sq)"
  using find_index_nth [OF assms] by (simp add: getAdjacentViewer_def index_of_def split: option.split)

lemma viewer_ok_cases:
  assumes "viewer_ok (Some v)"
  obtains sq i where "v = (sq ! i, sq)" "i < length sq" "distinct (map item_id sq)"
  using assms by (cases v) (auto simp: viewer_ok_def in_set_conv_nth)

lemma js_at_in: "js_at xs i = Some x \<Longrightarrow> x \<in> set xs"
  by (auto simp: js_at_def split: if_splits)

lemma adjacent_ok: "viewer_ok v \<Longrightarrow> viewer_ok (getAdjacentViewer v d)"
proof (cases v)
  case None
  then show ?thesis by (simp add: getAdjacentViewer_def viewer_ok_def)
next
  case (Some w)
  assume ok: "viewer_ok v"
  then obtain sq i where w: "w = (sq ! i, sq)" "i < length sq" "distinct (map item_id sq)"
    using viewer_ok_cases Some by metis
  then show ?thesis
    using Some adjacent_at [OF w(3,2), of d] js_at_in by (auto simp: viewer_ok_def split: option.splits)
qed

end
