(* ===== verification/MediaTheorems.thy ===== *)
theory MediaTheorems
  imports MediaView
begin

text \<open>
  The properties of the gallery: nothing is lost between pages or to a failing category,
  object links name their object, upload names are safe, and the viewer's buttons are the
  steps that exist.
\<close>

section \<open>Loading\<close>

text \<open>The pages a service hands out from a cursor on, each naming the next.\<close>

fun serves :: "cloud_service \<Rightarrow> string option \<Rightarrow> cloud_page list \<Rightarrow> bool" where
  "serves s cur [] = False"
| "serves s cur [p] = (s cur = Inr p \<and> page_ok p \<and> or_else (next_cursor p) [] = [])"
| "serves s cur (p # q # ps) =
     (s cur = Inr p \<and> page_ok p \<and> or_else (next_cursor p) [] \<noteq> [] \<and> serves s (next_cursor p) (q # ps))"

lemma search_pages_serves:
  "serves s cur ps \<Longrightarrow> search_pages s t cur acc = Some (Inr (acc @ concat (map page_resources ps)))"
proof (induction s cur ps arbitrary: acc rule: serves.induct)
  case (1 s cur)
  then show ?case by simp
next
  case (2 s cur p)
  then show ?case by (subst search_pages.simps) simp
next
  case (3 s cur p q ps)
  then show ?case by (subst search_pages.simps) simp
qed

lemma all_some_map: "(\<And>x. x \<in> set xs \<Longrightarrow> f x = Some (g x)) \<Longrightarrow> all_some (map f xs) = Some (map g xs)"
  by (induction xs) auto

definition loaded_items :: "cloud_page list option \<Rightarrow> (string \<Rightarrow> string) \<Rightarrow> media_category \<Rightarrow> media_item list" where
  "loaded_items pages year c =
     (case pages of None \<Rightarrow> []
      | Some ps \<Rightarrow> map (\<lambda>r. mapResource year r (category_title c) (category_description c))
          (concat (map page_resources ps)))"

text \<open>
  C36. The gallery loads completely and fails locally: when every category's service either
  serves a finite chain of pages or fails on its first request, the load ends with one
  collection per category in order, holding every resource of every page of that category,
  and the failing categories are present and empty.
\<close>

theorem gallery_loads_all_pages:
  assumes "list_all (\<lambda>c. case pages c of None \<Rightarrow> (\<exists>e. service c None = Inl e)
      | Some ps \<Rightarrow> serves (service c) None ps) mediaCategories"
  shows "loadCloudinaryMediaCollections (Some cfg) service year =
    Some (map (\<lambda>c. (empty_collection c)\<lparr>collection_items := loaded_items (pages c) year c\<rparr>) mediaCategories)"
proof -
  have "load_collection (service c) year c =
      Some ((empty_collection c)\<lparr>collection_items := loaded_items (pages c) year c\<rparr>)"
    if c_in: "c \<in> set mediaCategories" for c
  proof (cases "pages c")
    case None
    then obtain e where "service c None = Inl e" using bspec [OF assms(1) [unfolded list_all_iff] c_in] by auto
    then have "search_pages (service c) (category_title c) None [] = Some (Inl e)"
      by (subst search_pages.simps) simp
    then show ?thesis using None
      by (simp add: load_collection_def searchFolder_def loaded_items_def empty_collection_def)
  next
    case (Some ps)
    then have "serves (service c) None ps" using bspec [OF assms(1) [unfolded list_all_iff] c_in] by simp
    then show ?thesis using Some search_pages_serves
      by (simp add: load_collection_def searchFolder_def loaded_items_def)
  qed
  then show ?thesis by (simp add: loadCloudinaryMediaCollections_def all_some_map)
qed

definition demo_resource :: cloud_resource where
  "demo_resource = \<lparr>asset_id = ''a1'', public_id = ''wedding/first-dance'',
     secure_url = ''https://r.test/image/upload/v1/first-dance.jpg'', asset_folder = None, display_name = None,
     filename = None, res_width = Some 10, res_height = Some 20, res_created = None\<rparr>"

definition demo_page :: "string option \<Rightarrow> cloud_page" where
  "demo_page n = \<lparr>page_ok = True, page_status = 200, page_resources = [demo_resource], next_cursor = n, page_message = None\<rparr>"

definition demo_service :: "media_category \<Rightarrow> cloud_service" where
  "demo_service c cur =
     (if category_slug c = ''engagement'' then Inl ''down''
      else if cur = None then Inr (demo_page (Some ''p2'')) else Inr (demo_page None))"

definition demo_pages :: "media_category \<Rightarrow> cloud_page list option" where
  "demo_pages c = (if category_slug c = ''engagement'' then None else Some [demo_page (Some ''p2''), demo_page None])"

theorem gallery_loads_all_pages_witness:
  "\<exists>cs. loadCloudinaryMediaCollections (Some \<lparr>cloud_name = ''n'', cloud_key = ''k'', cloud_secret = ''s''\<rparr>)
       demo_service (\<lambda>_. ''2026'') = Some cs \<and> map (length \<circ> collection_items) cs = [0, 2, 2, 2, 2, 2]"
proof -
  have "list_all (\<lambda>c. case demo_pages c of None \<Rightarrow> (\<exists>e. demo_service c None = Inl e)
      | Some ps \<Rightarrow> serves (demo_service c) None ps) mediaCategories"
    by (simp add: mediaCategories_def demo_pages_def demo_service_def demo_page_def or_else_def)
  from gallery_loads_all_pages [OF this] show ?thesis
    by (simp add: mediaCategories_def loaded_items_def demo_pages_def demo_page_def comp_def)
qed

section \<open>Object links\<close>

lemma js_split_join_encoded:
  assumes "xs \<noteq> []" "\<And>x. x \<in> set xs \<Longrightarrow> c \<notin> set x"
  shows "js_split c (js_join [c] xs) = xs"
  using assms
proof (induction xs)
  case Nil
  then show ?case by simp
next
  case (Cons x xs)
  then show ?case by (cases xs) (simp_all add: js_split_no_sep js_split_append)
qed

text \<open>
  The public link of a stored object names that object and no other: what follows the
  public origin, split at the slashes and decoded, is the object's key again.
\<close>

theorem object_link_names_key:
  "map decodeURIComponent (js_split (CHR ''/'') (drop (Suc (length publicUrl)) (getPublicObjectUrl publicUrl key None)))
     = map Some (js_split (CHR ''/'') key)"
proof -
  have "js_split (CHR ''/'') (js_join ''/'' (map encodeURIComponent (js_split (CHR ''/'') key))) =
      map encodeURIComponent (js_split (CHR ''/'') key)"
    by (rule js_split_join_encoded) (auto simp: encoded_no_slash)
  then show ?thesis by (simp add: getPublicObjectUrl_def or_else_def uri_round_trip comp_def)
qed

section \<open>The viewer\<close>

lemma gallery_step_ok:
  assumes "viewer_ok (viewer g)" "\<And>v. a = Open_viewer v \<Longrightarrow> viewer_ok (Some v)"
  shows "viewer_ok (viewer (gallery_step heroes a g))"
proof (cases a)
  case (Key_down k)
  have "viewer_ok None" by (simp add: viewer_ok_def)
  then show ?thesis using Key_down assms(1) adjacent_ok by simp
next
  case Close_viewer
  then show ?thesis by (simp add: viewer_ok_def)
next
  case (Hero_tick r h)
  then show ?thesis using assms(1) by simp
qed (use assms adjacent_ok in simp_all)

text \<open>
  While the viewer is open on an item of its sequence, the page offers a previous and a
  next button exactly when that step shows another item; stepping forth and back returns to
  the item, every step and key stays within the sequence, and Escape closes the viewer.
\<close>

theorem viewer_buttons_are_steps:
  assumes "viewer_ok (Some (item, sequence))" "viewer g = Some (item, sequence)"
  shows "(Control ''View next asset'' (Step_viewer 1) \<in> set (modal_view g) \<longleftrightarrow>
      getAdjacentViewer (viewer g) 1 \<noteq> viewer g) \<and>
    (Control ''View previous asset'' (Step_viewer (-1)) \<in> set (modal_view g) \<longleftrightarrow>
      getAdjacentViewer (viewer g) (-1) \<noteq> viewer g) \<and>
    (can_view_next (viewer g) \<longrightarrow> getAdjacentViewer (getAdjacentViewer (viewer g) 1) (-1) = viewer g) \<and>
    viewer_ok (viewer (gallery_step heroes (Key_down k) g)) \<and>
    viewer (gallery_step heroes (Key_down ''Escape'') g) = None"
proof -
  obtain sq i where v: "(item, sequence) = (sq ! i, sq)" "i < length sq" "distinct (map item_id sq)"
    using viewer_ok_cases [OF assms(1)] by metis
  have g: "viewer g = Some (sq ! i, sq)" using assms(2) v(1) by simp
  have idx: "selected_index (viewer g) = int i"
    using find_index_nth [OF v(3,2)] by (simp add: g selected_index_def index_of_def)
  have distinct_items: "distinct sq" using v(3) distinct_map by blast
  have nxt: "getAdjacentViewer (viewer g) 1 = Some (if Suc i < length sq then sq ! Suc i else sq ! i, sq)"
    using adjacent_at [OF v(3,2), of 1] by (simp add: g js_at_def nat_add_distrib)
  have prv: "getAdjacentViewer (viewer g) (-1) = Some (if 0 < i then sq ! (i - 1) else sq ! i, sq)"
    using adjacent_at [OF v(3,2), of "-1"] v(2) by (simp add: g js_at_def nat_diff_distrib)
  have next_iff: "can_view_next (viewer g) \<longleftrightarrow> Suc i < length sq"
    using idx by (auto simp: can_view_next_def g)
  have prev_iff: "can_view_previous (viewer g) \<longleftrightarrow> 0 < i" using idx by (simp add: can_view_previous_def)
  have 1: "Control ''View next asset'' (Step_viewer 1) \<in> set (modal_view g) \<longleftrightarrow> can_view_next (viewer g)"
    "Control ''View previous asset'' (Step_viewer (-1)) \<in> set (modal_view g) \<longleftrightarrow> can_view_previous (viewer g)"
    by (auto simp: modal_view_def g split: media_kind.splits)
  have 2: "getAdjacentViewer (viewer g) 1 \<noteq> viewer g \<longleftrightarrow> Suc i < length sq"
    using nxt v(2) distinct_items by (auto simp: g nth_eq_iff_index_eq)
  have 3: "getAdjacentViewer (viewer g) (-1) \<noteq> viewer g \<longleftrightarrow> 0 < i"
    using prv v(2) distinct_items by (auto simp: g nth_eq_iff_index_eq)
  have 4: "getAdjacentViewer (getAdjacentViewer (viewer g) 1) (-1) = viewer g" if "Suc i < length sq"
    using nxt adjacent_at [OF v(3) that, of "-1"] that by (simp add: g js_at_def)
  have 5: "viewer_ok (viewer (gallery_step heroes (Key_down k) g))"
    using gallery_step_ok [of g "Key_down k"] assms by simp
  show ?thesis using 1 2 3 4 5 next_iff prev_iff g by simp
qed

definition demo_item :: "string \<Rightarrow> media_item" where
  "demo_item i = mapResource (\<lambda>_. ''2026'') (demo_resource\<lparr>asset_id := i\<rparr>) ''Title'' ''Text''"

definition demo_gallery :: gallery where
  "demo_gallery = \<lparr>viewer = Some (demo_item ''b'', [demo_item ''a'', demo_item ''b'']), activeHeroIndex = 0, isHeroPaused = False\<rparr>"

theorem viewer_buttons_are_steps_witness:
  "viewer_ok (viewer demo_gallery) \<and>
   Control ''View next asset'' (Step_viewer 1) \<notin> set (modal_view demo_gallery) \<and>
   Control ''View previous asset'' (Step_viewer (-1)) \<in> set (modal_view demo_gallery) \<and>
   getAdjacentViewer (viewer demo_gallery) (-1) = Some (demo_item ''a'', [demo_item ''a'', demo_item ''b''])"
proof -
  have ok: "viewer_ok (Some (demo_item ''b'', [demo_item ''a'', demo_item ''b'']))"
    by (simp add: viewer_ok_def demo_item_def mapResource_def Let_def)
  have v: "viewer demo_gallery = Some (demo_item ''b'', [demo_item ''a'', demo_item ''b''])"
    by (simp add: demo_gallery_def)
  have ids: "item_id (demo_item x) = x" for x by (simp add: demo_item_def mapResource_def Let_def)
  have "getAdjacentViewer (viewer demo_gallery) 1 = viewer demo_gallery"
    "getAdjacentViewer (viewer demo_gallery) (-1) = Some (demo_item ''a'', [demo_item ''a'', demo_item ''b''])"
    by (simp_all add: v getAdjacentViewer_def index_of_def js_at_def ids)
  moreover have "item_id (demo_item ''a'') \<noteq> item_id (demo_item ''b'')" by (simp add: ids)
  then have "Some (demo_item ''a'', [demo_item ''a'', demo_item ''b'']) \<noteq> viewer demo_gallery"
    by (auto simp: v)
  ultimately show ?thesis
    using viewer_buttons_are_steps [OF ok v] ok v by simp
qed

end
