(* ===== verification/Scanner.thy ===== *)
theory Scanner
  imports HallPasses
begin

text \<open>
  The door scanner \<^verbatim>\<open>src/components/scanner/HallPassScanner.tsx\<close>: its state, the
  events that reach it (the camera library's callbacks, the inputs, the buttons and the
  replies of the redeem route) and what it shows. A request is sent when its value is added
  to \<open>posted\<close>; its reply is a later event.
\<close>

section \<open>Token fields\<close>

definition token_letter :: "char \<Rightarrow> bool" where
  "token_letter c = (is_upper c \<or> is_digit c)"

definition cleanTokenPart :: "string \<Rightarrow> nat \<Rightarrow> string" where
  "cleanTokenPart v n = take n (filter token_letter (js_upper v))"

definition skip_separator :: "string \<Rightarrow> string" where
  "skip_separator s = (case s of [] \<Rightarrow> [] | c # cs \<Rightarrow> if c = CHR ''-'' \<or> is_space c then cs else s)"

definition take_letters :: "nat \<Rightarrow> string \<Rightarrow> (string \<times> string) option" where
  "take_letters n s = (if length (take n s) = n \<and> list_all token_letter (take n s)
     then Some (take n s, drop n s) else None)"

text \<open>
  A match of \<open>([A-Z0-9]{2})[-\s]?([A-Z0-9]{4})[-\s]?([A-Z0-9]{4})\<close> at the start of a
  text. A separator is no letter of the groups, so skipping it when it is there is the
  only way to match.
\<close>

definition match_token :: "string \<Rightarrow> (string \<times> string \<times> string) option" where
  "match_token s =
     (case take_letters 2 s of None \<Rightarrow> None
      | Some (a, s1) \<Rightarrow>
        (case take_letters 4 (skip_separator s1) of None \<Rightarrow> None
         | Some (b, s2) \<Rightarrow>
           (case take_letters 4 (skip_separator s2) of None \<Rightarrow> None
            | Some (c, s3) \<Rightarrow> Some (a, b, c))))"

fun find_token :: "string \<Rightarrow> (string \<times> string \<times> string) option" where
  "find_token [] = match_token []"
| "find_token (c # cs) = (case match_token (c # cs) of Some m \<Rightarrow> Some m | None \<Rightarrow> find_token cs)"

section \<open>State\<close>

datatype field = Prefix_field | First_field | Second_field

record scanner =
  part_prefix :: string
  part_first :: string
  part_second :: string
  fallbackValue :: string
  useFallbackEntry :: bool
  shown_result :: "redeem_result option"
  shown_error :: string
  isCameraVisible :: bool
  isStarting :: bool
  isRedeeming :: bool
  hasScanned :: bool
  camera_running :: bool
  focused :: "field option"
  posted :: "string list"
  in_flight :: nat

definition initial_scanner :: scanner where
  "initial_scanner =
     \<lparr>part_prefix = [], part_first = [], part_second = [], fallbackValue = [], useFallbackEntry = False,
      shown_result = None, shown_error = [], isCameraVisible = False, isStarting = False, isRedeeming = False,
      hasScanned = False, camera_running = False, focused = None, posted = [], in_flight = 0\<rparr>"

datatype scan_reply = No_connection | Refused "string option" "string option" | Verdict redeem_result

datatype scan_event =
    Open_scanner
  | Camera_started
  | Camera_failed bool
  | Decoded string
  | Submit_manual
  | Type_in field string
  | Type_fallback string
  | Toggle_fallback
  | Reset
  | Scan_next
  | Reply_arrived scan_reply

section \<open>Operations\<close>

definition redeem_start :: "string \<Rightarrow> scanner \<Rightarrow> scanner" where
  "redeem_start v s =
     (if js_trim v = [] then s\<lparr>shown_error := ''Scan or enter a QR value first.''\<rparr>
      else s\<lparr>shown_error := [], shown_result := None, isRedeeming := True, camera_running := False,
             posted := posted s @ [v], in_flight := Suc (in_flight s)\<rparr>)"

definition redeem_finish :: "scan_reply \<Rightarrow> scanner \<Rightarrow> scanner" where
  "redeem_finish r s =
     (let t = s\<lparr>isRedeeming := False, isCameraVisible := False, in_flight := in_flight s - 1\<rparr>
      in case r of
           No_connection \<Rightarrow> t\<lparr>shown_error :=
             ''The connection failed. Admission may be uncertain; reconcile with the event lead before retrying.''\<rparr>
         | Refused code msg \<Rightarrow> t\<lparr>shown_error :=
             (case (code, msg) of
                (Some c, Some m) \<Rightarrow> if c = ''LEGACY_WRITES_FROZEN'' then m
                  else ''Could not verify this QR code. Reconcile an uncertain admission before retrying.''
              | _ \<Rightarrow> ''Could not verify this QR code. Reconcile an uncertain admission before retrying.'')\<rparr>
         | Verdict x \<Rightarrow> t\<lparr>shown_result := Some x\<rparr>)"

definition openScanner :: "scanner \<Rightarrow> scanner" where
  "openScanner s = s\<lparr>shown_error := [], shown_result := None, isCameraVisible := True, isStarting := True,
     hasScanned := False\<rparr>"

definition camera_failure :: "bool \<Rightarrow> scanner \<Rightarrow> scanner" where
  "camera_failure secure s = s\<lparr>isStarting := False, isCameraVisible := False, shown_error :=
     (if secure then ''Camera access is unavailable. Check browser permissions, then try again.''
      else ''Camera access requires HTTPS on mobile browsers. Open the deployed HTTPS site or use manual entry.'')\<rparr>"

definition decoded :: "string \<Rightarrow> scanner \<Rightarrow> scanner" where
  "decoded v s = (if hasScanned s then s else redeem_start v (s\<lparr>hasScanned := True\<rparr>))"

definition structured_token :: "scanner \<Rightarrow> string" where
  "structured_token s = part_prefix s @ ''-'' @ part_first s @ ''-'' @ part_second s"

definition handleManualSubmit :: "scanner \<Rightarrow> scanner" where
  "handleManualSubmit s = redeem_start (if useFallbackEntry s then fallbackValue s else structured_token s) s"

definition applyFullToken :: "string \<Rightarrow> scanner \<Rightarrow> scanner option" where
  "applyFullToken v s =
     (case find_token (js_upper v) of None \<Rightarrow> None
      | Some (a, b, c) \<Rightarrow> Some (s\<lparr>part_prefix := a, part_first := b, part_second := c, fallbackValue := [],
          useFallbackEntry := False, focused := Some Second_field\<rparr>))"

definition part_length :: "field \<Rightarrow> nat" where
  "part_length f = (case f of Prefix_field \<Rightarrow> 2 | First_field \<Rightarrow> 4 | Second_field \<Rightarrow> 4)"

definition set_part :: "field \<Rightarrow> string \<Rightarrow> scanner \<Rightarrow> scanner" where
  "set_part f v s = (case f of Prefix_field \<Rightarrow> s\<lparr>part_prefix := v\<rparr>
     | First_field \<Rightarrow> s\<lparr>part_first := v\<rparr> | Second_field \<Rightarrow> s\<lparr>part_second := v\<rparr>)"

definition next_field :: "field \<Rightarrow> field option" where
  "next_field f = (case f of Prefix_field \<Rightarrow> Some First_field | First_field \<Rightarrow> Some Second_field
     | Second_field \<Rightarrow> None)"

definition handleStructuredChange :: "field \<Rightarrow> string \<Rightarrow> scanner \<Rightarrow> scanner" where
  "handleStructuredChange f v s =
     (let cleaned = (let nextValue = cleanTokenPart v (part_length f); t = set_part f nextValue s
                     in if length nextValue = part_length f \<and> next_field f \<noteq> None
                        then t\<lparr>focused := next_field f\<rparr> else t)
      in if part_length f < length v
         then (case applyFullToken v s of Some t \<Rightarrow> t | None \<Rightarrow> cleaned)
         else cleaned)"

text \<open>The \<open>maxLength\<close> attribute: the browser cuts what is typed or pasted.\<close>

definition input_limit :: "field \<Rightarrow> nat" where
  "input_limit f = (case f of Prefix_field \<Rightarrow> 10 | First_field \<Rightarrow> 12 | Second_field \<Rightarrow> 12)"

definition resetScanner :: "scanner \<Rightarrow> scanner" where
  "resetScanner s = s\<lparr>camera_running := False, shown_result := None, shown_error := [], part_prefix := [],
     part_first := [], part_second := [], fallbackValue := [], useFallbackEntry := False,
     isCameraVisible := False, hasScanned := False\<rparr>"

text \<open>The camera starts only while its box is on the page, and decodes only while it runs.\<close>

fun scan_step :: "scan_event \<Rightarrow> scanner \<Rightarrow> scanner" where
  "scan_step Open_scanner s = openScanner s"
| "scan_step Camera_started s =
     (if isCameraVisible s \<and> shown_result s = None then s\<lparr>isStarting := False, camera_running := True\<rparr> else s)"
| "scan_step (Camera_failed secure) s =
     (if isCameraVisible s \<and> shown_result s = None then camera_failure secure s else s)"
| "scan_step (Decoded v) s = (if camera_running s then decoded v s else s)"
| "scan_step Submit_manual s = handleManualSubmit s"
| "scan_step (Type_in f v) s = handleStructuredChange f (take (input_limit f) v) s"
| "scan_step (Type_fallback v) s = s\<lparr>fallbackValue := js_upper v\<rparr>"
| "scan_step Toggle_fallback s = s\<lparr>useFallbackEntry := \<not> useFallbackEntry s\<rparr>"
| "scan_step Reset s = resetScanner s"
| "scan_step Scan_next s = openScanner (resetScanner s)"
| "scan_step (Reply_arrived r) s = (if 0 < in_flight s then redeem_finish r s else s)"

definition scan_run :: "scan_event list \<Rightarrow> scanner \<Rightarrow> scanner" where
  "scan_run es s = fold scan_step es s"

section \<open>What is shown\<close>

datatype scan_widget =
    Label string
  | Press string scan_event bool
  | Camera_box
  | Panel string string string
  | Detail string string
  | Alert string
  | Token_input field string nat
  | Raw_input string

definition statusContent :: "redeem_status \<Rightarrow> string \<times> string \<times> string" where
  "statusContent st = (case st of
     Valid \<Rightarrow> (''Valid'', ''Pass Accepted'', ''This QR code was valid and has now been marked as used.'')
   | Used \<Rightarrow> (''Used'', ''Already Used'', ''This QR code has already been scanned. Do not admit with this pass.'')
   | Invalid \<Rightarrow> (''Invalid'', ''Invalid Pass'', ''This QR code does not match an issued hall pass.''))"

definition result_panel :: "(instant \<Rightarrow> string) \<Rightarrow> redeem_result \<Rightarrow> bool \<Rightarrow> scan_widget list" where
  "result_panel date r starting =
     (case statusContent (result_status r) of (badge, heading, detail) \<Rightarrow>
       [Panel badge heading detail,
        Detail ''Ticket'' (if or_else (result_ticket_number r) 0 = 0 then ''-''
          else ''Ticket #'' @ js_pad_start 3 (CHR ''0'') (show_nat (or_else (result_ticket_number r) 0))),
        Detail ''Guest'' (or_else (result_guest_name r) ''Guest'')] @
       (case result_used_at r of None \<Rightarrow> [] | Some t \<Rightarrow> [Detail ''Used At'' (date t)]) @
       [Press ''Scan Next'' Scan_next starting])"

definition camera_view :: "scanner \<Rightarrow> scan_widget list" where
  "camera_view s =
     (if \<not> isCameraVisible s then [Press ''Scan QR'' Open_scanner (isStarting s \<or> isRedeeming s)]
      else Camera_box # (if isStarting s then [Label ''Starting camera...''] else []) @
        [Press ''Cancel Scan'' Reset False])"

definition manual_view :: "scanner \<Rightarrow> scan_widget list" where
  "manual_view s =
     (if useFallbackEntry s then [Raw_input (fallbackValue s)]
      else [Token_input Prefix_field (part_prefix s) 10, Token_input First_field (part_first s) 12,
            Token_input Second_field (part_second s) 12]) @
     [Press (if useFallbackEntry s then ''Use structured token'' else ''Use raw QR value'') Toggle_fallback False,
      Press ''Verify Pass'' Submit_manual (isRedeeming s)]"

definition scanner_view :: "(instant \<Rightarrow> string) \<Rightarrow> scanner \<Rightarrow> scan_widget list" where
  "scanner_view date s =
     [Label ''Scan Hall Pass'',
      Label ''Scan a QR code to verify whether the hall pass is valid, used, or invalid.''] @
     (case shown_result s of None \<Rightarrow> camera_view s | Some r \<Rightarrow> result_panel date r (isStarting s)) @
     (if shown_error s = [] then [] else [Alert (shown_error s)]) @
     Label ''Manual entry'' # manual_view s"

end
