(* ===== verification/ScannerTheorems.thy ===== *)
theory ScannerTheorems
  imports Scanner
begin

text \<open>
  The properties of the door scanner: what is pasted is what is sent, one camera session
  sends one code, and acceptance is shown only for an accepted reply.
\<close>

section \<open>Pasting a token\<close>

lemma token_letter_sep [simp]: "\<not> token_letter CHR ''-''"
  by (simp add: token_letter_def is_upper_def is_digit_def code_of_def)

lemma take_letters_append:
  "length a = n \<Longrightarrow> list_all token_letter a \<Longrightarrow> take_letters n (a @ s) = Some (a, s)"
  by (simp add: take_letters_def)

lemma skip_separator_dash [simp]: "skip_separator (CHR ''-'' # s) = s"
  by (simp add: skip_separator_def)

lemma match_dashed:
  assumes "length a = 2" "length b = 4" "length c = 4" "list_all token_letter (a @ b @ c)"
  shows "match_token (a @ CHR ''-'' # b @ CHR ''-'' # c @ r) = Some (a, b, c)"
  using assms by (simp add: match_token_def take_letters_append)

lemma find_token_match: "match_token s = Some m \<Longrightarrow> find_token s = Some m"
  by (cases s) simp_all

lemma alphabet_token_letter: "c \<in> set token_alphabet \<Longrightarrow> token_letter c"
  by (auto simp: token_alphabet_def token_letter_def is_upper_def is_digit_def code_of_def)

lemma token_parts:
  assumes "8 \<le> length bs"
  obtains a b where "createReadableToken bs = ''HP-'' @ a @ ''-'' @ b" "length a = 4" "length b = 4"
    "list_all token_letter (''HP'' @ a @ b)"
proof -
  define cs where "cs = map token_char (take 8 bs)"
  have letter: "token_letter (token_char x)" for x
  proof -
    have "token_char x \<in> set token_alphabet"
      unfolding token_char_def by (rule nth_mem) (simp add: token_alphabet_def)
    then show ?thesis by (rule alphabet_token_letter)
  qed
  have "token_letter CHR ''H''" "token_letter CHR ''P''"
    by (simp_all add: token_letter_def is_upper_def code_of_def)
  moreover have "list_all token_letter cs" using letter by (simp add: cs_def list_all_iff)
  moreover define a b where "a = take 4 cs" and "b = take 4 (drop 4 cs)"
  ultimately have "list_all token_letter (''HP'' @ a @ b)"
    by (auto simp: list_all_iff a_def b_def dest: in_set_takeD in_set_dropD)
  moreover have "createReadableToken bs = ''HP-'' @ a @ ''-'' @ b"
    by (simp add: createReadableToken_def Let_def cs_def a_def b_def)
  moreover have "length a = 4" "length b = 4" using assms by (simp_all add: cs_def a_def b_def)
  ultimately show thesis using that by blast
qed

lemma pasted_token:
  assumes "8 \<le> length bs" "js_upper v = createReadableToken bs" "f \<noteq> Prefix_field"
  shows "structured_token (scan_step (Type_in f v) s) = createReadableToken bs \<and>
    \<not> useFallbackEntry (scan_step (Type_in f v) s) \<and> posted (scan_step (Type_in f v) s) = posted s"
proof -
  obtain a b where t: "createReadableToken bs = ''HP-'' @ a @ ''-'' @ b" "length a = 4" "length b = 4"
    "list_all token_letter (''HP'' @ a @ b)"
    using token_parts [OF assms(1)] .
  have len: "length v = 12"
    using arg_cong [OF assms(2), of length] t by (simp add: js_upper_def)
  have "find_token (js_upper v) = Some (''HP'', a, b)"
    using match_dashed [of "''HP''" a b "[]"] t assms(2) by (intro find_token_match) simp
  moreover have "take (input_limit f) v = v" "part_length f < length v"
    using len assms(3) by (cases f; simp add: input_limit_def part_length_def)+
  ultimately show ?thesis
    using t(1) by (simp add: handleStructuredChange_def applyFullToken_def structured_token_def Let_def)
qed

text \<open>
  A pass token pasted into either code field, in any letter case, is what Verify sends:
  the whole token, in its canonical form, exactly once.
\<close>

theorem pasted_token_is_submitted:
  assumes "8 \<le> length bs" "js_upper v = createReadableToken bs" "f \<noteq> Prefix_field"
  shows "posted (scan_run [Type_in f v, Submit_manual] s) = posted s @ [createReadableToken bs]"
proof -
  let ?t = "scan_step (Type_in f v) s"
  have t: "structured_token ?t = createReadableToken bs" "\<not> useFallbackEntry ?t" "posted ?t = posted s"
    using pasted_token [OF assms, of s] by simp_all
  obtain a b where "createReadableToken bs = ''HP-'' @ a @ ''-'' @ b"
    using token_parts [OF assms(1)] by metis
  then have "js_trim (createReadableToken bs) \<noteq> []"
  proof -
    assume tok: "createReadableToken bs = ''HP-'' @ a @ ''-'' @ b"
    have "\<not> is_space CHR ''H''" by (simp add: is_space_def code_of_def)
    then have "dropWhile is_space (rev (dropWhile is_space (createReadableToken bs))) \<noteq> []"
      unfolding tok by (auto simp: dropWhile_eq_Nil_conv)
    then show ?thesis by (simp add: js_trim_def)
  qed
  then show ?thesis
    using t by (simp add: scan_run_def handleManualSubmit_def redeem_start_def del: scan_step.simps(6))
qed

definition demo_bytes :: "byte list" where
  "demo_bytes = replicate 8 0"

theorem pasted_token_is_submitted_witness:
  "8 \<le> length demo_bytes \<and> js_upper ''hp-aaaa-aaaa'' = createReadableToken demo_bytes \<and>
   posted (scan_run [Type_in First_field ''hp-aaaa-aaaa'', Submit_manual] initial_scanner) = [''HP-AAAA-AAAA'']"
proof -
  have l: "8 \<le> length demo_bytes" by (simp add: demo_bytes_def)
  have t: "js_upper ''hp-aaaa-aaaa'' = createReadableToken demo_bytes"
    "createReadableToken demo_bytes = ''HP-AAAA-AAAA''" by code_simp+
  have "posted initial_scanner = []" by (simp add: initial_scanner_def)
  then show ?thesis
    using pasted_token_is_submitted [OF l t(1), of First_field initial_scanner] l t by simp
qed

abbreviation letters :: "string \<Rightarrow> nat" where
  "letters s \<equiv> length (filter token_letter s)"

lemma take_letters_count: "take_letters n s = Some (a, r) \<Longrightarrow> letters s = n + letters r"
proof -
  assume t: "take_letters n s = Some (a, r)"
  then have "a = take n s" "r = drop n s" "length a = n" "list_all token_letter a"
    by (auto simp: take_letters_def split: if_splits)
  then have "s = a @ r" "letters a = n" by (auto simp: list_all_iff)
  then show ?thesis by simp
qed

lemma skip_separator_count: "letters (skip_separator s) \<le> letters s"
  by (cases s) (simp_all add: skip_separator_def)

lemma match_token_count: "match_token s = Some m \<Longrightarrow> 10 \<le> letters s"
proof -
  assume "match_token s = Some m"
  then obtain a s1 b s2 c s3 where t: "take_letters 2 s = Some (a, s1)"
    "take_letters 4 (skip_separator s1) = Some (b, s2)" "take_letters 4 (skip_separator s2) = Some (c, s3)"
    by (auto simp: match_token_def split: option.splits)
  show ?thesis
    using t [THEN take_letters_count] skip_separator_count [of s1] skip_separator_count [of s2] by linarith
qed

lemma find_token_count: "find_token s = Some m \<Longrightarrow> 10 \<le> letters s"
  by (induction s) (auto split: option.splits dest: match_token_count)

text \<open>
  C38. The prefix field cannot take a whole token: its input keeps ten characters, two fewer
  than a token has, so a token pasted there leaves both code fields as they were.
\<close>

theorem prefix_paste_loses_token:
  assumes "8 \<le> length bs" "js_upper v = createReadableToken bs"
  shows "part_prefix (scan_step (Type_in Prefix_field v) s) = ''HP'' \<and>
    part_first (scan_step (Type_in Prefix_field v) s) = part_first s \<and>
    part_second (scan_step (Type_in Prefix_field v) s) = part_second s"
proof -
  obtain a b where t: "createReadableToken bs = ''HP-'' @ a @ ''-'' @ b" "length a = 4" "length b = 4"
    "list_all token_letter (''HP'' @ a @ b)"
    using token_parts [OF assms(1)] .
  let ?v = "take 10 v"
  have up: "js_upper ?v = ''HP-'' @ a @ ''-'' @ take 2 b"
  proof -
    have "js_upper ?v = take 10 (js_upper v)" by (simp add: js_upper_def take_map)
    then show ?thesis using t(1-3) assms(2) by simp
  qed
  have fl: "filter token_letter (js_upper ?v) = ''HP'' @ a @ take 2 b"
    using t(4) unfolding up by (auto simp: list_all_iff filter_id_conv dest: in_set_takeD)
  then have "find_token (js_upper ?v) = None"
    using find_token_count [of "js_upper ?v"] t(2,3) by (cases "find_token (js_upper ?v)") auto
  moreover have "cleanTokenPart ?v 2 = ''HP''" by (simp add: cleanTokenPart_def fl)
  ultimately show ?thesis
    by (auto simp: handleStructuredChange_def applyFullToken_def input_limit_def part_length_def set_part_def Let_def)
qed

theorem prefix_paste_loses_token_witness:
  "8 \<le> length demo_bytes \<and> js_upper ''hp-aaaa-aaaa'' = createReadableToken demo_bytes \<and>
   structured_token (scan_step (Type_in Prefix_field ''hp-aaaa-aaaa'') initial_scanner) = ''HP--''"
proof -
  have l: "8 \<le> length demo_bytes" by (simp add: demo_bytes_def)
  have t: "js_upper ''hp-aaaa-aaaa'' = createReadableToken demo_bytes" by code_simp
  show ?thesis
    using prefix_paste_loses_token [OF l t, of initial_scanner] l t
    by (simp add: structured_token_def initial_scanner_def del: scan_step.simps)
qed

section \<open>One code per camera session\<close>

definition keeps_session :: "scan_event \<Rightarrow> bool" where
  "keeps_session e = (e \<noteq> Open_scanner \<and> e \<noteq> Scan_next \<and> e \<noteq> Reset \<and> e \<noteq> Submit_manual)"

lemma typed_scanned: "posted (handleStructuredChange f v s) = posted s \<and> hasScanned (handleStructuredChange f v s) = hasScanned s"
  by (auto simp: handleStructuredChange_def applyFullToken_def set_part_def Let_def
      split: option.splits prod.splits field.splits)

lemma finish_scanned: "posted (redeem_finish r s) = posted s \<and> hasScanned (redeem_finish r s) = hasScanned s"
  by (cases r) (simp_all add: redeem_finish_def Let_def)

lemma session_step:
  assumes "keeps_session e"
  shows "(hasScanned s \<longrightarrow> hasScanned (scan_step e s) \<and> posted (scan_step e s) = posted s) \<and>
    (posted (scan_step e s) = posted s \<or> hasScanned (scan_step e s) \<and> length (posted (scan_step e s)) = Suc (length (posted s)))"
  using assms
  by (cases e) (auto simp: keeps_session_def typed_scanned finish_scanned camera_failure_def decoded_def redeem_start_def)

lemma session_quiet:
  "list_all keeps_session es \<Longrightarrow> hasScanned s \<Longrightarrow> posted (scan_run es s) = posted s"
  unfolding scan_run_def
proof (induction es arbitrary: s)
  case (Cons e es)
  then show ?case using session_step [of e s] by simp
qed simp

text \<open>
  Between two openings of the camera at most one decoded code is sent to the server,
  however often and with whatever texts the camera reports a code, and none once one was
  sent.
\<close>

theorem one_code_per_session:
  assumes "list_all keeps_session es"
  shows "length (posted (scan_run es s)) \<le> Suc (length (posted s)) \<and>
    (hasScanned s \<longrightarrow> posted (scan_run es s) = posted s)"
proof -
  have "length (posted (scan_run es s)) \<le> Suc (length (posted s))" using assms
  proof (induction es arbitrary: s)
    case Nil
    then show ?case by (simp add: scan_run_def)
  next
    case (Cons e es)
    have run: "scan_run (e # es) s = scan_run es (scan_step e s)" by (simp add: scan_run_def)
    have e: "keeps_session e" "list_all keeps_session es" using Cons.prems by simp_all
    show ?case
      unfolding run using session_step [OF e(1), of s] Cons.IH [OF e(2), of "scan_step e s"]
        session_quiet [OF e(2), of "scan_step e s"] by auto
  qed
  then show ?thesis using session_quiet [OF assms] by simp
qed

theorem one_code_per_session_witness:
  "list_all keeps_session [Camera_started, Decoded ''HP-A'', Decoded ''HP-A'', Decoded ''HP-B''] \<and>
   length (posted (scan_run [Camera_started, Decoded ''HP-A'', Decoded ''HP-A'', Decoded ''HP-B'']
     (scan_step Open_scanner initial_scanner))) \<le> 1 \<and>
   posted (scan_run [Camera_started, Decoded ''HP-A'', Decoded ''HP-A'', Decoded ''HP-B'']
     (scan_step Open_scanner initial_scanner)) = [''HP-A'']"
proof -
  have k: "list_all keeps_session [Camera_started, Decoded ''HP-A'', Decoded ''HP-A'', Decoded ''HP-B'']"
    by (simp add: keeps_session_def)
  have "posted (scan_run [Camera_started, Decoded ''HP-A'', Decoded ''HP-A'', Decoded ''HP-B'']
     (scan_step Open_scanner initial_scanner)) = [''HP-A'']" by code_simp
  moreover have "length (posted (scan_step Open_scanner initial_scanner)) = 0"
    by (simp add: openScanner_def initial_scanner_def)
  ultimately show ?thesis
    using one_code_per_session [OF k, of "scan_step Open_scanner initial_scanner"] k by simp
qed

section \<open>Acceptance\<close>

lemma shown_result_step:
  assumes "shown_result (scan_step e s) = Some r"
  shows "shown_result s = Some r \<or> e = Reply_arrived (Verdict r)"
  using assms
proof (cases e)
  case (Type_in f v)
  have "shown_result (handleStructuredChange f w s) = shown_result s" for w
    by (auto simp: handleStructuredChange_def applyFullToken_def set_part_def Let_def
        split: option.splits prod.splits field.splits)
  then show ?thesis using assms Type_in by simp
next
  case (Reply_arrived x)
  then show ?thesis using assms by (cases x) (auto simp: redeem_finish_def Let_def split: if_splits)
qed (auto simp: openScanner_def camera_failure_def decoded_def redeem_start_def handleManualSubmit_def
    resetScanner_def split: if_splits)

lemma shown_result_run:
  "shown_result (scan_run es s) = Some r \<Longrightarrow> shown_result s = Some r \<or> Reply_arrived (Verdict r) \<in> set es"
  unfolding scan_run_def
proof (induction es arbitrary: s)
  case (Cons e es)
  then have "shown_result (scan_step e s) = Some r \<or> Reply_arrived (Verdict r) \<in> set es" by simp
  then show ?case using shown_result_step [of e s r] by auto
qed simp

definition accepts :: "scan_widget \<Rightarrow> bool" where
  "accepts x = (case x of Panel badge heading detail \<Rightarrow> heading = ''Pass Accepted'' | _ \<Rightarrow> False)"

text \<open>
  C37. The door sees "Pass Accepted" exactly when the result on screen is valid, and a result
  is on screen only if the server sent that very verdict: a failed connection, a refused
  request or a frozen registry never looks like an admission.
\<close>

theorem acceptance_needs_verdict:
  "(list_ex accepts (scanner_view date s) \<longleftrightarrow> (\<exists>r. shown_result s = Some r \<and> result_status r = Valid)) \<and>
   (case shown_result (scan_run es initial_scanner) of None \<Rightarrow> True
    | Some r \<Rightarrow> Reply_arrived (Verdict r) \<in> set es)"
proof -
  have "\<not> list_ex accepts (camera_view s)" "\<not> list_ex accepts (manual_view s)"
    by (simp_all add: camera_view_def manual_view_def accepts_def)
  moreover have "list_ex accepts (result_panel date r b) \<longleftrightarrow> result_status r = Valid" for r b
    by (cases "result_status r") (simp_all add: result_panel_def statusContent_def accepts_def split: option.split)
  ultimately have "list_ex accepts (scanner_view date s) \<longleftrightarrow> (\<exists>r. shown_result s = Some r \<and> result_status r = Valid)"
    by (auto simp: scanner_view_def accepts_def split: option.splits)
  moreover have "Reply_arrived (Verdict r) \<in> set es" if "shown_result (scan_run es initial_scanner) = Some r" for r
    using shown_result_run [OF that] by (simp add: initial_scanner_def)
  ultimately show ?thesis by (simp split: option.split)
qed

end
