(* ===== verification/Uploader.thy ===== *)
theory Uploader
  imports PassPdf MediaLib
begin

text \<open>
  The photo uploader \<^verbatim>\<open>src/components/admin/CloudinaryImageUploader.tsx\<close>: image
  sizes and JPEG qualities, the queue and the upload run. The browser's decoder and encoder
  and the replies of the servers are parameters; what is posted is kept as a log.
\<close>

definition MAX_DIMENSION :: nat where "MAX_DIMENSION = 3200"

definition MAX_OUTPUT_BYTES :: int where "MAX_OUTPUT_BYTES = 18 * 1024 * 1024"

definition JPEG_QUALITIES :: "rat list" where
  "JPEG_QUALITIES = [90 / 100, 85 / 100, 80 / 100, 75 / 100]"

definition supported_file :: "string \<Rightarrow> bool" where
  "supported_file name =
     list_ex (\<lambda>ext. ends_with ext (js_lower name)) [''.jpg'', ''.jpeg'', ''.png'', ''.webp'']"

section \<open>Sizes\<close>

definition scaled_size :: "nat \<Rightarrow> nat \<Rightarrow> rat \<times> rat" where
  "scaled_size w h =
     (let scale = min 1 (of_nat MAX_DIMENSION / of_nat (max w h))
      in (max 1 (js_round (of_nat w * scale)), max 1 (js_round (of_nat h * scale))))"

text \<open>\<open>toFixed\<close> with no or one decimal.\<close>

definition to_fixed :: "nat \<Rightarrow> rat \<Rightarrow> string" where
  "to_fixed digits x =
     (if digits = 0 then show_int \<lfloor>x + 1 / 2\<rfloor>
      else (let tenths = \<lfloor>x * 10 + 1 / 2\<rfloor> in show_int (tenths div 10) @ ''.'' @ show_int (tenths mod 10)))"

fun byte_unit :: "nat \<Rightarrow> rat \<Rightarrow> string list \<Rightarrow> nat \<times> rat \<times> string" where
  "byte_unit i v (u # w # us) = (if 1024 \<le> v then byte_unit (Suc i) (v / 1024) (w # us) else (i, v, u))"
| "byte_unit i v [u] = (i, v, u)"
| "byte_unit i v [] = (i, v, [])"

definition formatBytes :: "rat \<Rightarrow> string" where
  "formatBytes bytes =
     (case byte_unit 0 bytes [''B'', ''KB'', ''MB'', ''GB''] of
        (i, v, u) \<Rightarrow> to_fixed (if i = 0 then 0 else 1) v @ '' '' @ u)"

section \<open>Encoding\<close>

text \<open>
  The encoder gives the size of the JPEG at a quality, or fails. The first quality is always
  tried; a further one only while the image is too large.
\<close>

fun encode_rest :: "(rat \<Rightarrow> int option) \<Rightarrow> rat list \<Rightarrow> int \<Rightarrow> (string, int) result" where
  "encode_rest enc [] bytes = Inr bytes"
| "encode_rest enc (q # qs) bytes =
     (if bytes \<le> MAX_OUTPUT_BYTES then Inr bytes
      else (case enc q of None \<Rightarrow> Inl ''The browser could not create an optimized JPEG.''
            | Some n \<Rightarrow> encode_rest enc qs n))"

record picture =
  pic_width :: nat
  pic_height :: nat
  pic_context :: bool
  pic_encoder :: "rat \<times> rat \<Rightarrow> rat \<Rightarrow> int option"

text \<open>\<open>None\<close> is a file the browser cannot decode, with its message.\<close>

definition optimizeImage :: "(string, picture) result \<Rightarrow> (string, int) result" where
  "optimizeImage decoded =
     (case decoded of
        Inl e \<Rightarrow> Inl e
      | Inr p \<Rightarrow>
        (let enc = pic_encoder p (scaled_size (pic_width p) (pic_height p))
         in if \<not> pic_context p then Inl ''Your browser does not support image processing.''
            else (case enc (hd JPEG_QUALITIES) of
                None \<Rightarrow> Inl ''The browser could not create an optimized JPEG.''
              | Some first \<Rightarrow>
                (case encode_rest enc (tl JPEG_QUALITIES) first of
                   Inl e \<Rightarrow> Inl e
                 | Inr bytes \<Rightarrow>
                   if MAX_OUTPUT_BYTES < bytes then Inl ''The optimized image is still larger than 18 MB.''
                   else Inr bytes))))"

section \<open>The queue\<close>

datatype upload_status = Queued | Processing | Uploading | Complete | Error

record picked_file =
  file_name' :: string
  file_path :: string
  file_modified :: nat
  file_size :: nat

record upload_item =
  upload_id :: string
  upload_file :: picked_file
  upload_state :: upload_status
  upload_progress :: nat
  output_bytes :: "int option"
  upload_error :: "string option"

record uploader =
  upload_category :: string
  upload_items :: "upload_item list"
  isUploading :: bool
  isSyncing :: bool
  syncMessage :: string
  pageError :: string

definition queued_item :: "picked_file \<Rightarrow> upload_item" where
  "queued_item f =
     \<lparr>upload_id = (if file_path f = [] then file_name' f else file_path f) @ ''-'' @ show_nat (file_modified f) @ ''-'' @
        show_nat (file_size f),
      upload_file = f, upload_state = Queued, upload_progress = 0, output_bytes = None, upload_error = None\<rparr>"

definition handleFiles :: "picked_file list option \<Rightarrow> uploader \<Rightarrow> uploader" where
  "handleFiles files u =
     (case files of None \<Rightarrow> u
      | Some fs \<Rightarrow>
        (let selected = map queued_item (filter (\<lambda>f. supported_file (file_name' f)) fs)
         in u\<lparr>pageError := (if selected = []
                then ''No supported JPEG, PNG, or WebP images were found in that folder.'' else []),
              upload_items := selected\<rparr>))"

definition updateItem :: "string \<Rightarrow> (upload_item \<Rightarrow> upload_item) \<Rightarrow> upload_item list \<Rightarrow> upload_item list" where
  "updateItem i patch items = map (\<lambda>x. if upload_id x = i then patch x else x) items"

definition handleSync :: "bool \<Rightarrow> uploader \<Rightarrow> uploader" where
  "handleSync ok u = u\<lparr>isSyncing := False, syncMessage :=
     (if ok then ''The public gallery will load the latest Cloudinary and R2 files.''
      else ''Unable to refresh the public gallery cache.'')\<rparr>"

section \<open>The upload run\<close>

text \<open>The signed parameters, and what one upload posts: where, the output name and the fields.\<close>

record signature_response =
  sig_cloud :: string
  sig_key :: string
  sig_signature :: string
  sig_folder :: string
  sig_timestamp :: nat
  sig_unique :: string
  sig_use_filename :: string

record upload_post =
  post_url :: string
  post_name :: string
  post_fields :: "(string \<times> string) list"

record upload_env =
  signature_reply :: "(string, signature_response) result"
  decode_file :: "picked_file \<Rightarrow> (string, picture) result"
  upload_reply :: "upload_post list \<Rightarrow> upload_post \<Rightarrow> (string, unit) result"
  revalidate_ok :: bool

definition upload_form :: "signature_response \<Rightarrow> picked_file \<Rightarrow> upload_post" where
  "upload_form signature f =
     \<lparr>post_url = ''https://api.cloudinary.com/v1_1/'' @ encodeURIComponent (sig_cloud signature) @ ''/image/upload'',
      post_name = strip_extension (file_name' f) @ ''.jpg'',
      post_fields =
        [(''api_key'', sig_key signature), (''signature'', sig_signature signature),
         (''timestamp'', show_nat (sig_timestamp signature)), (''asset_folder'', sig_folder signature),
         (''unique_filename'', sig_unique signature), (''use_filename'', sig_use_filename signature)]\<rparr>"

definition mark_processing :: "upload_item \<Rightarrow> upload_item" where
  "mark_processing x = x\<lparr>upload_state := Processing, upload_progress := 0, upload_error := None\<rparr>"

definition mark_uploading :: "int \<Rightarrow> upload_item \<Rightarrow> upload_item" where
  "mark_uploading n x = x\<lparr>upload_state := Uploading, output_bytes := Some n, upload_progress := 0\<rparr>"

definition mark_complete :: "upload_item \<Rightarrow> upload_item" where
  "mark_complete x = x\<lparr>upload_state := Complete, upload_progress := 100\<rparr>"

definition mark_error :: "string \<Rightarrow> upload_item \<Rightarrow> upload_item" where
  "mark_error m x = x\<lparr>upload_state := Error, upload_error := Some m\<rparr>"

text \<open>One item: the queue after it, the posts, and whether it was uploaded.\<close>

definition upload_one ::
  "upload_env \<Rightarrow> signature_response \<Rightarrow> upload_item \<Rightarrow> upload_item list \<Rightarrow> upload_post list
     \<Rightarrow> upload_item list \<times> upload_post list \<times> bool" where
  "upload_one env signature item items posts =
     (let i = upload_id item; items1 = updateItem i mark_processing items
      in case optimizeImage (decode_file env (upload_file item)) of
           Inl m \<Rightarrow> (updateItem i (mark_error m) items1, posts, False)
         | Inr bytes \<Rightarrow>
           (let items2 = updateItem i (mark_uploading bytes) items1; form = upload_form signature (upload_file item)
            in case upload_reply env posts form of
                 Inl m \<Rightarrow> (updateItem i (mark_error m) items2, posts @ [form], False)
               | Inr _ \<Rightarrow> (updateItem i mark_complete items2, posts @ [form], True)))"

fun upload_each ::
  "upload_env \<Rightarrow> signature_response \<Rightarrow> upload_item list \<Rightarrow> upload_item list \<Rightarrow> upload_post list \<Rightarrow> nat
     \<Rightarrow> upload_item list \<times> upload_post list \<times> nat" where
  "upload_each env signature [] items posts n = (items, posts, n)"
| "upload_each env signature (x # xs) items posts n =
     (if upload_state x = Complete then upload_each env signature xs items posts n
      else (case upload_one env signature x items posts of
              (items', posts', ok) \<Rightarrow> upload_each env signature xs items' posts' (if ok then Suc n else n)))"

definition handleUpload :: "upload_env \<Rightarrow> uploader \<Rightarrow> upload_post list \<Rightarrow> uploader \<times> upload_post list" where
  "handleUpload env u posts =
     (if upload_items u = [] \<or> isUploading u then (u, posts)
      else (case signature_reply env of
              Inl m \<Rightarrow> (u\<lparr>pageError := m, isUploading := False\<rparr>, posts)
            | Inr signature \<Rightarrow>
              (case upload_each env signature (upload_items u) (upload_items u) posts 0 of
                 (items, posts', n) \<Rightarrow>
                   (u\<lparr>upload_items := items, isUploading := False, pageError :=
                      (if 0 < n \<and> \<not> revalidate_ok env
                       then ''Images were uploaded, but the public gallery cache could not be refreshed. Redeploy the site to show them.''
                       else [])\<rparr>, posts'))))"

section \<open>What is shown\<close>

datatype upload_widget =
    Upload_text string
  | Upload_button string bool bool
  | Upload_choice "string list" string bool
  | Upload_bar nat

definition plural :: "nat \<Rightarrow> string" where
  "plural n = (if n = 1 then [] else ''s'')"

definition status_word :: "upload_status \<Rightarrow> string" where
  "status_word s = (case s of Queued \<Rightarrow> ''queued'' | Processing \<Rightarrow> ''processing'' | Uploading \<Rightarrow> ''uploading''
     | Complete \<Rightarrow> ''complete'' | Error \<Rightarrow> ''error'')"

definition picker_view :: "uploader \<Rightarrow> upload_widget list" where
  "picker_view u =
     (let n = length (upload_items u)
      in [Upload_button ''Sync public gallery'' False (isSyncing u),
          Upload_choice (map category_title (filter has_photos mediaCategories)) (upload_category u) (isUploading u),
          Upload_text (''Cloudinary folder: '' @ getCloudinaryImageFolder (upload_category u)),
          Upload_text (if 0 < n then show_nat n @ '' image'' @ plural n @ '' ready'' else ''Choose an image folder''),
          Upload_button (if 0 < n then ''Choose another folder'' else ''Select folder'') (isUploading u) False] @
         (if pageError u = [] then [] else [Upload_text (pageError u)]) @
         [Upload_button (''Upload '' @ (if n = 0 then [] else show_nat n) @ '' image'' @ plural n) (n = 0) (isUploading u)])"

definition item_view :: "upload_item \<Rightarrow> upload_widget list" where
  "item_view x =
     [Upload_text (if file_path (upload_file x) = [] then file_name' (upload_file x) else file_path (upload_file x))] @
     (case upload_error x of None \<Rightarrow> [] | Some m \<Rightarrow> if m = [] then [] else [Upload_text m]) @
     [Upload_text (status_word (upload_state x) @
        (if or_else (output_bytes x) 0 = 0 then [] else dot_sep @ formatBytes (of_int (or_else (output_bytes x) 0))))] @
     (if upload_state x = Uploading then [Upload_bar (upload_progress x)] else [])"

definition queue_view :: "uploader \<Rightarrow> upload_widget list" where
  "queue_view u =
     (let done = length (filter (\<lambda>x. upload_state x = Complete) (upload_items u));
          failed = length (filter (\<lambda>x. upload_state x = Error) (upload_items u))
      in if upload_items u = [] then []
         else Upload_text ''Upload queue'' #
           Upload_text (show_nat done @ '' complete'' @ (if 0 < failed then dot_sep @ show_nat failed @ '' failed'' else [])) #
           concat (map item_view (upload_items u)))"

end
