(* ===== verification/UploaderTheorems.thy ===== *)
theory UploaderTheorems
  imports Uploader
begin

text \<open>
  The properties of the photo uploader: sizes stay in bounds, the chosen quality is the best
  that fits, and an upload run settles every photo once.
\<close>

section \<open>Sizes and qualities\<close>

lemma js_round_nat: "js_round (of_nat n) = of_nat n"
proof -
  have "\<lfloor>rat_of_nat n + 1 / 2\<rfloor> = int n" by (rule floor_unique) simp_all
  then show ?thesis by (simp add: js_round_def)
qed

lemma js_round_le:
  assumes "x \<le> of_nat n"
  shows "js_round x \<le> of_nat n"
proof -
  have "js_round x \<le> js_round (of_nat n)"
    unfolding js_round_def of_int_le_iff by (intro floor_mono add_right_mono assms)
  then show ?thesis by (simp add: js_round_nat)
qed

lemma scaled_dimension:
  assumes "w \<le> m"
  shows "js_round (of_nat w * min 1 (of_nat MAX_DIMENSION / of_nat m)) \<le> of_nat MAX_DIMENSION"
proof (rule js_round_le, cases "m = 0")
  case True
  then show "of_nat w * min 1 (of_nat MAX_DIMENSION / of_nat m) \<le> (of_nat MAX_DIMENSION :: rat)"
    using assms by simp
next
  case False
  let ?q = "of_nat MAX_DIMENSION / of_nat m :: rat"
  have "of_nat w * min 1 ?q \<le> of_nat w * ?q" by (intro mult_left_mono) simp_all
  also have "\<dots> \<le> of_nat m * ?q" using assms by (intro mult_right_mono) simp_all
  also have "\<dots> = of_nat MAX_DIMENSION" using False by simp
  finally show "of_nat w * min 1 ?q \<le> of_nat MAX_DIMENSION" .
qed

lemma scaled_small:
  assumes "m \<le> MAX_DIMENSION" "0 < w" "0 < m"
  shows "max 1 (js_round (of_nat w * min 1 (of_nat MAX_DIMENSION / of_nat m))) = (of_nat w :: rat)"
proof -
  have "(1::rat) \<le> of_nat MAX_DIMENSION / of_nat m" using assms by (simp add: le_divide_eq)
  then have "min 1 (of_nat MAX_DIMENSION / of_nat m) = (1::rat)" by simp
  then show ?thesis using assms(2) by (simp add: js_round_nat)
qed

lemma encode_rest_first:
  assumes "encode_rest enc qs n = Inr k" "k \<le> MAX_OUTPUT_BYTES"
  shows "(k = n \<and> n \<le> MAX_OUTPUT_BYTES) \<or>
    (MAX_OUTPUT_BYTES < n \<and> (\<exists>front q rest. qs = front @ q # rest \<and> enc q = Some k \<and>
       list_all (\<lambda>p. \<exists>j. enc p = Some j \<and> MAX_OUTPUT_BYTES < j) front))"
  using assms
proof (induction qs arbitrary: n)
  case Nil
  then show ?case by simp
next
  case (Cons p qs)
  show ?case
  proof (cases "n \<le> MAX_OUTPUT_BYTES")
    case True
    then show ?thesis using Cons.prems by simp
  next
    case False
    then obtain j where j: "enc p = Some j" "encode_rest enc qs j = Inr k"
      using Cons.prems(1) by (auto split: option.splits)
    consider "k = j" | "MAX_OUTPUT_BYTES < j" "\<exists>front q rest. qs = front @ q # rest \<and> enc q = Some k \<and>
       list_all (\<lambda>p. \<exists>j. enc p = Some j \<and> MAX_OUTPUT_BYTES < j) front"
      using Cons.IH [OF j(2) Cons.prems(2)] by blast
    then show ?thesis
    proof cases
      case 1
      then have "p # qs = [] @ p # qs \<and> enc p = Some k \<and> list_all (\<lambda>p. \<exists>j. enc p = Some j \<and> MAX_OUTPUT_BYTES < j) []"
        using j(1) by simp
      then have "\<exists>front q rest. p # qs = front @ q # rest \<and> enc q = Some k \<and>
          list_all (\<lambda>p. \<exists>j. enc p = Some j \<and> MAX_OUTPUT_BYTES < j) front" by blast
      then show ?thesis using False by simp
    next
      case 2
      then obtain front q rest where f: "qs = front @ q # rest" "enc q = Some k"
        "list_all (\<lambda>p. \<exists>j. enc p = Some j \<and> MAX_OUTPUT_BYTES < j) front" by blast
      then have "p # qs = (p # front) @ q # rest \<and> enc q = Some k \<and>
          list_all (\<lambda>p. \<exists>j. enc p = Some j \<and> MAX_OUTPUT_BYTES < j) (p # front)"
        using j(1) 2(1) by simp
      then have "\<exists>front q rest. p # qs = front @ q # rest \<and> enc q = Some k \<and>
          list_all (\<lambda>p. \<exists>j. enc p = Some j \<and> MAX_OUTPUT_BYTES < j) front" by blast
      then show ?thesis using False by simp
    qed
  qed
qed

text \<open>
  An optimised photo is at most 3200 by 3200 pixels and at least one by one, a photo
  within that size keeps its dimensions, and the result is the JPEG of the highest quality
  of the four that has at most 18 MB: every better one was tried and was larger.
\<close>

theorem optimised_photo_in_bounds:
  assumes "optimizeImage (Inr p) = Inr bytes"
  shows "(case scaled_size w h of (a, b) \<Rightarrow> 1 \<le> a \<and> a \<le> 3200 \<and> 1 \<le> b \<and> b \<le> 3200 \<and>
       (0 < w \<and> 0 < h \<and> max w h \<le> 3200 \<longrightarrow> a = of_nat w \<and> b = of_nat h)) \<and>
    bytes \<le> 18 * 1024 * 1024 \<and>
    (\<exists>front q rest. JPEG_QUALITIES = front @ q # rest \<and>
       pic_encoder p (scaled_size (pic_width p) (pic_height p)) q = Some bytes \<and>
       list_all (\<lambda>r. \<exists>n. pic_encoder p (scaled_size (pic_width p) (pic_height p)) r = Some n \<and> 18 * 1024 * 1024 < n) front)"
proof -
  define enc where "enc = pic_encoder p (scaled_size (pic_width p) (pic_height p))"
  obtain n where n: "enc (hd JPEG_QUALITIES) = Some n" "encode_rest enc (tl JPEG_QUALITIES) n = Inr bytes"
    "bytes \<le> MAX_OUTPUT_BYTES"
    using assms by (auto simp: optimizeImage_def enc_def Let_def split: if_splits option.splits sum.splits)
  have qs: "JPEG_QUALITIES = hd JPEG_QUALITIES # tl JPEG_QUALITIES" by (simp add: JPEG_QUALITIES_def)
  have "\<exists>front q rest. JPEG_QUALITIES = front @ q # rest \<and> enc q = Some bytes \<and>
      list_all (\<lambda>r. \<exists>n. enc r = Some n \<and> MAX_OUTPUT_BYTES < n) front"
    using encode_rest_first [OF n(2,3)]
  proof (elim disjE conjE exE)
    assume "bytes = n"
    then show ?thesis using n(1) qs by (intro exI [of _ "[]"] exI [of _ "hd JPEG_QUALITIES"] exI [of _ "tl JPEG_QUALITIES"]) simp
  next
    fix front q rest
    assume "MAX_OUTPUT_BYTES < n" "tl JPEG_QUALITIES = front @ q # rest" "enc q = Some bytes"
      "list_all (\<lambda>p. \<exists>j. enc p = Some j \<and> MAX_OUTPUT_BYTES < j) front"
    then show ?thesis using n(1) qs by (intro exI [of _ "hd JPEG_QUALITIES # front"] exI [of _ q] exI [of _ rest]) simp
  qed
  moreover have small: "max 1 (js_round (of_nat v * min 1 (3200 / of_nat (max w h)))) = (of_nat v :: rat)"
    if "0 < w" "w \<le> 3200" "h \<le> 3200" "0 < v" for v
    using scaled_small [of "max w h" v] that by (simp add: MAX_DIMENSION_def del: of_nat_max)
  moreover have "case scaled_size w h of (a, b) \<Rightarrow> 1 \<le> a \<and> a \<le> 3200 \<and> 1 \<le> b \<and> b \<le> 3200 \<and>
       (0 < w \<and> 0 < h \<and> max w h \<le> 3200 \<longrightarrow> a = of_nat w \<and> b = of_nat h)"
    using scaled_dimension [of w "max w h"] scaled_dimension [of h "max w h"]
    by (auto simp: scaled_size_def Let_def MAX_DIMENSION_def small)
  ultimately show ?thesis using n(3) by (simp add: enc_def MAX_OUTPUT_BYTES_def)
qed

definition demo_picture :: picture where
  "demo_picture = \<lparr>pic_width = 6400, pic_height = 3200, pic_context = True,
     pic_encoder = (\<lambda>_ q. if q = 90 / 100 then Some 20000000 else Some 9000000)\<rparr>"

theorem optimised_photo_in_bounds_witness:
  "optimizeImage (Inr demo_picture) = Inr 9000000 \<and> (9000000::int) \<le> 18 * 1024 * 1024 \<and>
   scaled_size 6400 3200 = (3200, 1600)"
proof -
  have o: "optimizeImage (Inr demo_picture) = Inr 9000000"
    by (simp add: optimizeImage_def demo_picture_def JPEG_QUALITIES_def MAX_OUTPUT_BYTES_def)
  have "scaled_size 6400 3200 = (3200, 1600)"
    using js_round_nat [of 3200] js_round_nat [of 1600] by (simp add: scaled_size_def MAX_DIMENSION_def)
  then show ?thesis using optimised_photo_in_bounds [OF o] o by simp
qed

section \<open>The upload run\<close>

definition settled :: "upload_item \<Rightarrow> bool" where
  "settled x = (upload_state x = Complete \<or> upload_state x = Error)"




lemma marks_keep_id [simp]:
  "upload_id (mark_processing x) = upload_id x" "upload_id (mark_uploading n x) = upload_id x"
  "upload_id (mark_complete x) = upload_id x" "upload_id (mark_error m x) = upload_id x"
  "settled (mark_complete x)" "settled (mark_error m x)"
  by (simp_all add: mark_processing_def mark_uploading_def mark_complete_def mark_error_def settled_def)











end
