(* ===== verification/Dashboard.thy ===== *)
theory Dashboard
  imports HallRoutes
begin

text \<open>
  The administrator's dashboard \<^verbatim>\<open>src/components/admin/PassDashboard.tsx\<close>: its
  state, the form rules and the handlers. A handler that talks to the server is modelled by
  its two halves, what it changes and requests before the reply and what it does with the
  reply. The texts of dates and QR images are parameters.
\<close>

section \<open>Options and small helpers\<close>

definition inviteFromOptions :: "(string \<times> string) list" where
  "inviteFromOptions =
     [(''Ade'', ''Adeola''), (''Joshua'', ''Joshua''), (''dad'', ''Adeola's dad''), (''mum'', ''Adeola's mum''),
      (''Anu'', ''Anu''), (''Ayo'', ''Ayo''), (''David'', ''David'')]"

definition formatInviteFromLabel :: "string \<Rightarrow> string" where
  "formatInviteFromLabel v = or_else (map_of inviteFromOptions v) v"

definition statusOptions :: "(status_filter \<times> string) list" where
  "statusOptions = [(All_statuses, ''All statuses''), (Unused_only, ''Unused''), (Used_only, ''Used'')]"

definition pageSizeOptions :: "(nat \<times> string) list" where
  "pageSizeOptions = map (\<lambda>n. (n, show_nat n @ '' per page'')) HALL_PASS_PAGE_SIZES"

definition name_break :: "char \<Rightarrow> bool" where
  "name_break c = (c = CHR 0x0A \<or> c = CHR '','')"

text \<open>\<open>split(/[\n,]+/)\<close>: the pieces between runs of separators.\<close>

fun split_names :: "string \<Rightarrow> string list" where
  "split_names [] = [[]]"
| "split_names (c # cs) =
     (if name_break c
      then (if cs \<noteq> [] \<and> name_break (hd cs) then split_names cs else [] # split_names cs)
      else (case split_names cs of [] \<Rightarrow> [[c]] | y # ys \<Rightarrow> (c # y) # ys))"

definition parseBulkGuestNames :: "string \<Rightarrow> string list" where
  "parseBulkGuestNames v = filter (\<lambda>n. n \<noteq> []) (map js_trim (split_names v))"

definition dashboard_ticket_label :: "nat option \<Rightarrow> string" where
  "dashboard_ticket_label n =
     (if or_else n 0 = 0 then ''Ticket''
      else ''Ticket #'' @ js_pad_start 3 (CHR ''0'') (show_nat (or_else n 0)))"

definition getEmailStatus :: "hall_pass \<Rightarrow> string \<times> string" where
  "getEmailStatus p =
     (case email_status p of Sent \<Rightarrow> (''Sent'', ''green'') | Failed \<Rightarrow> (''Failed'', ''red'')
      | Not_sent \<Rightarrow> (''Not sent'', ''gray''))"

definition getPassStatusLabel :: "hall_pass \<Rightarrow> string" where
  "getPassStatusLabel p =
     (if invalidated_at p \<noteq> None then ''Invalidated'' else if used_at p \<noteq> None then ''Used'' else ''Ready'')"

definition getPassStatus :: "hall_pass \<Rightarrow> string \<times> string" where
  "getPassStatus p =
     (if invalidated_at p \<noteq> None then (''Invalidated'', ''red'')
      else if used_at p \<noteq> None then (''Used'', ''gray'') else (''Unused'', ''green''))"

section \<open>State\<close>

datatype generation_mode = Single_pass | Bulk_passes

datatype delivery_mode = Generate_only | Email_pdf

record generated_pass =
  generated :: hall_pass
  qr_value :: string
  qr_data_url :: string

datatype toast_kind = Toast_success | Toast_warning | Toast_error

datatype toast = Toast toast_kind string string

record dashboard =
  form_guest :: string
  form_bulk_names :: string
  form_bulk_count :: string
  form_mode :: generation_mode
  form_delivery :: delivery_mode
  form_recipient :: string
  form_message :: string
  form_inviter :: string
  limit_input :: string
  shown_passes :: "hall_pass list"
  shown_availability :: ticket_availability
  shown_stats :: "(string \<times> nat) list"
  selected_pass :: "generated_pass option"
  pass_to_invalidate :: "hall_pass option"
  pass_to_email :: "hall_pass option"
  resend_email :: string
  resend_message :: string
  search_query :: string
  debounced_search :: string
  status_choice :: status_filter
  tab_choice :: list_tab
  page_number :: int
  page_size :: nat
  matching_passes :: nat
  page_count :: nat
  active_total :: nat
  invalidated_total :: nat
  is_loading :: bool
  is_editing_limit :: bool
  form_error :: string
  is_submitting :: bool
  is_invalidating :: bool
  show_invalidate_all :: bool
  is_resending :: bool
  is_saving_limit :: bool
  toasts :: "toast list"

definition default_message :: string where
  "default_message = ''Thank you for being a part of our love journey! Please find attached the hall pass PDF.''"

definition show_limit :: "ticket_availability \<Rightarrow> string" where
  "show_limit a = (case available_limit a of None \<Rightarrow> [] | Some l \<Rightarrow> show_nat l)"

definition initial_dashboard ::
  "list_result \<Rightarrow> ticket_availability \<Rightarrow> (string \<times> nat) list \<Rightarrow> dashboard" where
  "initial_dashboard l a stats =
     \<lparr>form_guest = [], form_bulk_names = [], form_bulk_count = ''5'', form_mode = Bulk_passes,
      form_delivery = Email_pdf, form_recipient = [], form_message = default_message, form_inviter = [],
      limit_input = show_limit a, shown_passes = listed_passes l, shown_availability = a, shown_stats = stats,
      selected_pass = None, pass_to_invalidate = None, pass_to_email = None, resend_email = [],
      resend_message = default_message, search_query = [], debounced_search = [], status_choice = All_statuses,
      tab_choice = Active_tab, page_number = listed_page l, page_size = listed_limit l,
      matching_passes = listed_total l, page_count = listed_total_pages l, active_total = listed_active l,
      invalidated_total = listed_invalidated l, is_loading = False, is_editing_limit = False, form_error = [],
      is_submitting = False, is_invalidating = False, show_invalidate_all = False, is_resending = False,
      is_saving_limit = False, toasts = []\<rparr>"

section \<open>The form's rules\<close>

definition bulk_count_value :: "dashboard \<Rightarrow> nat" where
  "bulk_count_value d =
     (case js_Number (form_bulk_count d) of
        Finite q \<Rightarrow> if q = of_int \<lfloor>q\<rfloor> \<and> 0 < q then nat \<lfloor>q\<rfloor> else 0
      | _ \<Rightarrow> 0)"

definition requested_count :: "dashboard \<Rightarrow> nat" where
  "requested_count d =
     (case form_mode d of
        Bulk_passes \<Rightarrow> max (bulk_count_value d) (length (parseBulkGuestNames (form_bulk_names d)))
      | Single_pass \<Rightarrow> 1)"

definition limit_reached :: "dashboard \<Rightarrow> bool" where
  "limit_reached d = (remaining_count (shown_availability d) = Some 0)"

definition invalid_bulk_count :: "dashboard \<Rightarrow> bool" where
  "invalid_bulk_count d = (form_mode d = Bulk_passes \<and> requested_count d = 0)"

definition over_batch_limit :: "dashboard \<Rightarrow> bool" where
  "over_batch_limit d = (form_mode d = Bulk_passes \<and> MAX_BATCH_SIZE < requested_count d)"

definition over_ticket_limit :: "dashboard \<Rightarrow> bool" where
  "over_ticket_limit d =
     (case remaining_count (shown_availability d) of None \<Rightarrow> False | Some r \<Rightarrow> r < int (requested_count d))"

definition should_email :: "dashboard \<Rightarrow> bool" where
  "should_email d = (form_delivery d = Email_pdf)"

definition missing_inviter :: "dashboard \<Rightarrow> bool" where
  "missing_inviter d = (js_trim (form_inviter d) = [])"

definition invalid_recipient :: "dashboard \<Rightarrow> bool" where
  "invalid_recipient d = (should_email d \<and> \<not> isLikelyEmail (form_recipient d))"

definition can_submit :: "dashboard \<Rightarrow> bool" where
  "can_submit d =
     (\<not> is_submitting d \<and> \<not> limit_reached d \<and> \<not> invalid_bulk_count d \<and> \<not> over_batch_limit d \<and>
      \<not> over_ticket_limit d \<and> \<not> missing_inviter d \<and> \<not> invalid_recipient d \<and>
      (form_mode d = Single_pass \<or> 0 < requested_count d))"

section \<open>Replies of the server\<close>

text \<open>
  A request fails on the network, or is answered with a status and a body; a body that is
  not one of the handlers' (an error page) has the value \<open>None\<close>.
\<close>

datatype dash_reply = Network_failure | Answered nat "hall_body option"

definition reply_ok :: "nat \<Rightarrow> bool" where
  "reply_ok st = (200 \<le> st \<and> st < 300)"

definition fence_message :: string where
  "fence_message = ''Legacy updates are paused for a controlled migration. Reconcile uncertain admissions with the event lead before retrying.''"

text \<open>The \<open>error\<close>, \<open>pass\<close> and \<open>ticketAvailability\<close> members of a body.\<close>

definition body_error :: "hall_body option \<Rightarrow> string option" where
  "body_error b =
     (case b of Some (Api_error e) \<Rightarrow> Some e | Some (Limit_body e _) \<Rightarrow> Some e
      | Some (Email_error_body e _) \<Rightarrow> Some e | Some Fence_body \<Rightarrow> Some fence_message | _ \<Rightarrow> None)"

definition body_pass :: "hall_body option \<Rightarrow> hall_pass option" where
  "body_pass b =
     (case b of Some (Created_body p _ _ _ _) \<Rightarrow> Some p | Some (Invalidated_body p _) \<Rightarrow> Some p
      | Some (Emailed_body q) \<Rightarrow> q | Some (Email_error_body _ q) \<Rightarrow> q | _ \<Rightarrow> None)"

definition body_availability :: "hall_body option \<Rightarrow> ticket_availability option" where
  "body_availability b =
     (case b of Some (Limit_body _ a) \<Rightarrow> Some a | Some (Created_body _ _ _ a _) \<Rightarrow> Some a
      | Some (Invalidated_body _ a) \<Rightarrow> Some a | Some (Availability_body a) \<Rightarrow> Some a
      | Some (Listing_body _ a _) \<Rightarrow> Some a | Some (Invalidated_all_body _ _ a) \<Rightarrow> Some a | _ \<Rightarrow> None)"

datatype dash_request =
    Get_passes "(string \<times> string) list"
  | Post_passes json
  | Put_ticket_limit json
  | Post_pass_email uuid json
  | Post_invalidate uuid

definition say :: "toast_kind \<Rightarrow> string \<Rightarrow> string \<Rightarrow> dashboard \<Rightarrow> dashboard" where
  "say k t m d = d\<lparr>toasts := toasts d @ [Toast k t m]\<rparr>"

section \<open>Loading the list\<close>

definition tab_word :: "list_tab \<Rightarrow> string" where
  "tab_word t = (case t of Active_tab \<Rightarrow> ''active'' | Invalidated_tab \<Rightarrow> ''invalidated'')"

definition status_filter_word :: "status_filter \<Rightarrow> string" where
  "status_filter_word f = (case f of All_statuses \<Rightarrow> ''all'' | Unused_only \<Rightarrow> ''unused'' | Used_only \<Rightarrow> ''used'')"

definition list_query :: "dashboard \<Rightarrow> int \<Rightarrow> nat \<Rightarrow> (string \<times> string) list" where
  "list_query d page limit =
     [(''page'', show_int page), (''limit'', show_nat limit), (''tab'', tab_word (tab_choice d)),
      (''status'', if tab_choice d = Active_tab then status_filter_word (status_choice d) else ''all'')] @
     (if debounced_search d = [] then [] else [(''search'', debounced_search d)])"

text \<open>
  The half before the reply. The handlers keep the state of the render they were created in:
  \<open>d0\<close> is that state, which gives the tab, the filters and the page, and \<open>d\<close> is the
  state of the moment.
\<close>

definition load_start ::
  "dashboard \<Rightarrow> int option \<Rightarrow> nat option \<Rightarrow> bool \<Rightarrow> dashboard \<Rightarrow> dashboard \<times> dash_request" where
  "load_start d0 page limit silent d =
     ((if silent then d else d\<lparr>is_loading := True\<rparr>),
      Get_passes (list_query d0 (or_else page (page_number d0)) (or_else limit (page_size d0))))"

definition show_listing ::
  "list_result \<Rightarrow> ticket_availability \<Rightarrow> (string \<times> nat) list \<Rightarrow> dashboard \<Rightarrow> dashboard" where
  "show_listing l a stats d =
     d\<lparr>shown_passes := listed_passes l, page_number := listed_page l, page_size := listed_limit l,
       matching_passes := listed_total l, page_count := listed_total_pages l, active_total := listed_active l,
       invalidated_total := listed_invalidated l, shown_stats := stats, shown_availability := a\<rparr>"

definition load_finish :: "bool \<Rightarrow> dash_reply \<Rightarrow> dashboard \<Rightarrow> dashboard" where
  "load_finish silent r d =
     (let d1 = (case r of
            Network_failure \<Rightarrow> d
          | Answered st b \<Rightarrow>
            if \<not> reply_ok st \<or> b = None
            then say Toast_error ''Could not load passes'' (or_else (body_error b) ''Please try again.'') d
            else (case b of Some (Listing_body l a stats) \<Rightarrow> show_listing l a stats d | _ \<Rightarrow> d))
      in if silent then d1 else d1\<lparr>is_loading := False\<rparr>)"

text \<open>The effect that reloads the list when what it depends on has changed.\<close>

definition list_key :: "dashboard \<Rightarrow> int \<times> nat \<times> list_tab \<times> status_filter \<times> string" where
  "list_key d = (page_number d, page_size d, tab_choice d, status_choice d, debounced_search d)"

definition reload_effect :: "dashboard \<Rightarrow> dashboard \<Rightarrow> dashboard \<times> dash_request option" where
  "reload_effect before d =
     (if list_key before = list_key d then (d, None)
      else (case load_start d (Some (page_number d)) (Some (page_size d)) False d of (d', q) \<Rightarrow> (d', Some q)))"

section \<open>Creating passes\<close>

definition create_problem :: "dashboard \<Rightarrow> string option" where
  "create_problem d =
     (if invalid_bulk_count d then Some ''Enter how many passes to generate.''
      else if over_batch_limit d then Some (''You can generate up to '' @ show_nat MAX_BATCH_SIZE @ '' passes at once.'')
      else if over_ticket_limit d then Some ''There are not enough tickets left for this batch.''
      else if invalid_recipient d then Some ''Enter a valid recipient email address.''
      else if missing_inviter d then Some ''Select who the invite is from.''
      else None)"

text \<open>\<open>Array.from({length: n}, (_, i) => names[i] ?? "")\<close>.\<close>

definition padded_names :: "nat \<Rightarrow> string list \<Rightarrow> string list" where
  "padded_names n names = map (\<lambda>i. if i < length names then names ! i else []) [0..<n]"

definition create_body :: "dashboard \<Rightarrow> json" where
  "create_body d =
     JObj ([(''guestName'', JStr (form_guest d))] @
       (case form_mode d of
          Bulk_passes \<Rightarrow> [(''guestNames'', JArr (map JStr
            (padded_names (requested_count d) (parseBulkGuestNames (form_bulk_names d)))))]
        | Single_pass \<Rightarrow> []) @
       [(''inviteFrom'', JStr (form_inviter d)),
        (''delivery'', JObj [(''sendEmail'', JBool (should_email d)), (''recipientEmail'', JStr (form_recipient d)),
          (''message'', JStr (form_message d))])])"

definition create_start :: "dashboard \<Rightarrow> dashboard \<times> dash_request option" where
  "create_start d =
     (let d1 = d\<lparr>form_error := [], selected_pass := None\<rparr>
      in case create_problem d of
           Some e \<Rightarrow> (d1\<lparr>is_submitting := False, form_error := e\<rparr>, None)
         | None \<Rightarrow> (d1\<lparr>is_submitting := True\<rparr>, Some (Post_passes (create_body d))))"

definition reset_form :: "dashboard \<Rightarrow> dashboard" where
  "reset_form d =
     d\<lparr>form_guest := [], form_bulk_names := [], form_bulk_count := ''5'', form_mode := Bulk_passes,
       form_delivery := Email_pdf, form_recipient := [], form_message := default_message, form_inviter := [],
       tab_choice := Active_tab, status_choice := All_statuses, search_query := [], debounced_search := [],
       page_number := 1\<rparr>"

text \<open>A created batch resets the form and reloads the list with the tab and filters of the click.\<close>

definition create_finish ::
  "(string \<Rightarrow> string) \<Rightarrow> dashboard \<Rightarrow> dash_reply \<Rightarrow> dashboard \<Rightarrow> dashboard \<times> dash_request option" where
  "create_finish qr d0 r d =
     (case r of
        Network_failure \<Rightarrow> (d, None)
      | Answered st b \<Rightarrow>
        (let d1 = d\<lparr>is_submitting := False\<rparr>
         in if reply_ok st
            then (case b of
                Some (Created_body p ps v a report) \<Rightarrow>
                  (let d2 = (reset_form d1)\<lparr>selected_pass := Some \<lparr>generated = p, qr_value = v, qr_data_url = qr v\<rparr>,
                         shown_availability := a\<rparr>
                   in case load_start d0 (Some 1) (Some (page_size d0)) True d2 of (d3, q) \<Rightarrow> (d3, Some q))
              | _ \<Rightarrow> (d1, None))
            else if st = 409
            then (if b = None then (d1, None)
                  else (d1\<lparr>shown_availability := or_else (body_availability b) (shown_availability d1),
                      form_error := or_else (body_error b) ''Ticket limit reached.''\<rparr>, None))
            else (d1\<lparr>form_error := ''Could not create pass. Please try again.''\<rparr>, None)))"

definition created_toast :: "dashboard \<Rightarrow> hall_pass \<Rightarrow> hall_pass list \<Rightarrow> delivery_report option \<Rightarrow> dashboard \<Rightarrow> dashboard" where
  "created_toast d0 p ps report d =
     (let n = length ps; mailed = should_email d0;
          failed = (case report of Some x \<Rightarrow> \<not> report_success x | None \<Rightarrow> False)
      in say (if failed then Toast_warning else Toast_success)
           (if failed then ''Generated, but email failed''
            else if n = 1 then (if mailed then ''Hall pass generated and emailed'' else ''Hall pass generated'')
            else show_nat n @ '' hall passes generated'' @ (if mailed then '' and emailed'' else []))
           (if failed
            then or_else (case report of Some x \<Rightarrow> report_error x | None \<Rightarrow> None)
              ''The pass was created, but Maileroo could not send the email.''
            else if mailed
            then show_nat n @ '' PDF attachment'' @ (if n = 1 then [] else ''s'') @ '' sent to '' @ form_recipient d0 @ ''.''
            else if n = 1 then token p @ '' is ready to view or download.''
            else ''The first new pass is shown in the preview. All new passes are in the table.'') d)"

section \<open>The ticket limit\<close>

definition limit_start :: "dashboard \<Rightarrow> dashboard \<times> dash_request option" where
  "limit_start d =
     (let d1 = d\<lparr>form_error := []\<rparr>;
          bad = (say Toast_error ''Invalid ticket limit'' ''Use a non-negative whole number, or leave it blank.''
            (d1\<lparr>is_saving_limit := False, form_error := ''Ticket limit must be a non-negative whole number.''\<rparr>), None)
      in if js_trim (limit_input d) = []
         then (d1\<lparr>is_saving_limit := True\<rparr>, Some (Put_ticket_limit (JObj [(''ticketLimit'', JNull)])))
         else (case js_Number (js_trim (limit_input d)) of
             Finite q \<Rightarrow>
               if q = of_int \<lfloor>q\<rfloor> \<and> 0 \<le> q
               then (d1\<lparr>is_saving_limit := True\<rparr>, Some (Put_ticket_limit (JObj [(''ticketLimit'', JNum q)])))
               else bad
           | _ \<Rightarrow> bad))"

definition limit_finish :: "dash_reply \<Rightarrow> dashboard \<Rightarrow> dashboard" where
  "limit_finish r d =
     (case r of
        Network_failure \<Rightarrow> d
      | Answered st b \<Rightarrow>
        (let d1 = d\<lparr>is_saving_limit := False\<rparr>
         in if \<not> reply_ok st
            then say Toast_error ''Ticket limit not updated'' ''Could not save the new ticket limit.''
              (d1\<lparr>form_error := ''Could not update ticket limit.''\<rparr>)
            else (case body_availability b of
                None \<Rightarrow> d1
              | Some a \<Rightarrow> say Toast_success ''Ticket limit updated''
                  (case available_limit a of None \<Rightarrow> ''QR creation is now unlimited.''
                   | Some l \<Rightarrow> (case remaining_count a of None \<Rightarrow> ''null'' | Some n \<Rightarrow> show_int n) @
                       '' tickets left of '' @ show_nat l @ ''.'')
                  (d1\<lparr>shown_availability := a, limit_input := show_limit a, is_editing_limit := False\<rparr>))))"

section \<open>One pass: view, mail, invalidate\<close>

definition viewed :: "(string \<Rightarrow> string) \<Rightarrow> hall_pass \<Rightarrow> generated_pass" where
  "viewed qr p = \<lparr>generated = p, qr_value = token p, qr_data_url = qr (token p)\<rparr>"

definition handleViewPass :: "(string \<Rightarrow> string) \<Rightarrow> hall_pass \<Rightarrow> dashboard \<Rightarrow> dashboard" where
  "handleViewPass qr p d = d\<lparr>form_error := [], selected_pass := Some (viewed qr p)\<rparr>"

text \<open>A shown pass that is the one just changed is shown again with its new data.\<close>

definition refresh_selected :: "(string \<Rightarrow> string) \<Rightarrow> dashboard \<Rightarrow> hall_pass \<Rightarrow> dashboard \<Rightarrow> dashboard" where
  "refresh_selected qr d0 p d =
     (case selected_pass d0 of
        Some g \<Rightarrow> if pass_id (generated g) = pass_id p then d\<lparr>selected_pass := Some (viewed qr p)\<rparr> else d
      | None \<Rightarrow> d)"

definition openResendEmail :: "hall_pass \<Rightarrow> dashboard \<Rightarrow> dashboard" where
  "openResendEmail p d =
     d\<lparr>form_error := [], pass_to_email := Some p, resend_email := or_else (email_recipient p) (form_recipient d),
       resend_message := form_message d\<rparr>"

definition resend_start :: "dashboard \<Rightarrow> dashboard \<times> dash_request option" where
  "resend_start d =
     (case pass_to_email d of
        None \<Rightarrow> (d, None)
      | Some p \<Rightarrow>
        if \<not> isLikelyEmail (resend_email d)
        then (say Toast_error ''Email not sent'' ''Enter a valid recipient email address.''
               (d\<lparr>form_error := ''Enter a valid recipient email address.''\<rparr>), None)
        else (d\<lparr>form_error := [], is_resending := True\<rparr>,
              Some (Post_pass_email (pass_id p)
                (JObj [(''recipientEmail'', JStr (resend_email d)), (''message'', JStr (resend_message d))]))))"

definition replace_pass :: "hall_pass \<Rightarrow> hall_pass list \<Rightarrow> hall_pass list" where
  "replace_pass p ps = map (\<lambda>q. if pass_id q = pass_id p then p else q) ps"

definition resend_finish :: "(string \<Rightarrow> string) \<Rightarrow> dashboard \<Rightarrow> dash_reply \<Rightarrow> dashboard \<Rightarrow> dashboard" where
  "resend_finish qr d0 r d =
     (case r of
        Network_failure \<Rightarrow> d
      | Answered st b \<Rightarrow>
        (let d1 = d\<lparr>is_resending := False\<rparr>;
             d2 = (case body_pass b of None \<Rightarrow> d1
               | Some p \<Rightarrow> refresh_selected qr d0 p (d1\<lparr>shown_passes := replace_pass p (shown_passes d1)\<rparr>));
             e = or_else (body_error b) ''Could not resend this ticket email.''
         in if \<not> reply_ok st then say Toast_error ''Email failed'' e (d2\<lparr>form_error := e\<rparr>)
            else say Toast_success ''Ticket emailed''
              (dashboard_ticket_label (map_option ticket_number (body_pass b)) @ '' was sent to '' @ resend_email d0 @ ''.'')
              (d2\<lparr>pass_to_email := None\<rparr>)))"

definition invalidate_start :: "dashboard \<Rightarrow> dashboard \<times> dash_request option" where
  "invalidate_start d =
     (case pass_to_invalidate d of
        None \<Rightarrow> (d, None)
      | Some p \<Rightarrow> (d\<lparr>is_invalidating := True\<rparr>, Some (Post_invalidate (pass_id p))))"

definition drop_pass :: "hall_pass \<Rightarrow> hall_pass list \<Rightarrow> hall_pass list" where
  "drop_pass p ps = filter (\<lambda>q. pass_id q \<noteq> pass_id p) ps"

definition invalidate_finish ::
  "(string \<Rightarrow> string) \<Rightarrow> dashboard \<Rightarrow> dash_reply \<Rightarrow> dashboard \<Rightarrow> dashboard \<times> dash_request option" where
  "invalidate_finish qr d0 r d =
     (case r of
        Network_failure \<Rightarrow> (d, None)
      | Answered st b \<Rightarrow>
        (let d1 = d\<lparr>is_invalidating := False\<rparr>;
             failed = (\<lambda>e. say Toast_error ''Invalidation failed'' e d1)
         in if \<not> reply_ok st then (failed (or_else (body_error b) ''Could not invalidate this QR code.''), None)
            else (case body_pass b of
                None \<Rightarrow> (failed ''Could not invalidate this QR code.'', None)
              | Some p \<Rightarrow>
                (let d2 = d1\<lparr>shown_passes := drop_pass p (shown_passes d1)\<rparr>;
                     d3 = (case body_availability b of None \<Rightarrow> d2
                       | Some a \<Rightarrow> d2\<lparr>shown_availability := a, limit_input := show_limit a\<rparr>);
                     d4 = refresh_selected qr d0 p d3;
                     d5 = d4\<lparr>active_total := active_total d4 - 1, invalidated_total := Suc (invalidated_total d4),
                       matching_passes := matching_passes d4 - 1, pass_to_invalidate := None\<rparr>
                 in case load_start d0 None None True
                      (say Toast_success ''QR code invalidated'' (token p @ '' will now scan as invalid.'') d5) of
                    (d6, q) \<Rightarrow> (d6, Some q)))))"

section \<open>Inputs and buttons\<close>

datatype dash_event =
    Edit_guest string | Edit_bulk_names string | Edit_bulk_count string
  | Choose_mode generation_mode | Choose_delivery delivery_mode | Edit_recipient string | Edit_message string
  | Choose_inviter string | Edit_limit string | Begin_limit_edit | Cancel_limit_edit
  | Edit_search string | Search_settled | Choose_tab list_tab | Choose_status status_filter | Choose_size string
  | Previous_page | Next_page | Ask_invalidate hall_pass | Close_invalidate | Close_invalidate_all
  | Edit_resend_email string | Edit_resend_message string | Close_resend

definition chosen_size :: "string \<Rightarrow> nat" where
  "chosen_size v =
     (case List.find (\<lambda>n. js_Number v = Finite (of_nat n)) HALL_PASS_PAGE_SIZES of Some n \<Rightarrow> n | None \<Rightarrow> 50)"

fun dash_step :: "dash_event \<Rightarrow> dashboard \<Rightarrow> dashboard" where
  "dash_step (Edit_guest v) d = d\<lparr>form_guest := v\<rparr>"
| "dash_step (Edit_bulk_names v) d = d\<lparr>form_bulk_names := v\<rparr>"
| "dash_step (Edit_bulk_count v) d = d\<lparr>form_bulk_count := v\<rparr>"
| "dash_step (Choose_mode m) d = d\<lparr>form_mode := m\<rparr>"
| "dash_step (Choose_delivery m) d = d\<lparr>form_delivery := m\<rparr>"
| "dash_step (Edit_recipient v) d = d\<lparr>form_recipient := v\<rparr>"
| "dash_step (Edit_message v) d = d\<lparr>form_message := v\<rparr>"
| "dash_step (Choose_inviter v) d = d\<lparr>form_inviter := v\<rparr>"
| "dash_step (Edit_limit v) d = d\<lparr>limit_input := v\<rparr>"
| "dash_step Begin_limit_edit d = d\<lparr>limit_input := show_limit (shown_availability d), is_editing_limit := True\<rparr>"
| "dash_step Cancel_limit_edit d =
     (if is_saving_limit d then d
      else d\<lparr>limit_input := show_limit (shown_availability d), is_editing_limit := False\<rparr>)"
| "dash_step (Edit_search v) d = d\<lparr>search_query := v\<rparr>"
| "dash_step Search_settled d =
     (if debounced_search d = js_trim (search_query d) then d
      else d\<lparr>page_number := 1, debounced_search := js_trim (search_query d)\<rparr>)"
| "dash_step (Choose_tab t) d = d\<lparr>tab_choice := t, page_number := 1\<rparr>"
| "dash_step (Choose_status f) d = d\<lparr>status_choice := f, page_number := 1\<rparr>"
| "dash_step (Choose_size v) d = d\<lparr>page_size := chosen_size v, page_number := 1\<rparr>"
| "dash_step Previous_page d =
     (if page_number d \<le> 1 \<or> is_loading d then d else d\<lparr>page_number := max 1 (page_number d - 1)\<rparr>)"
| "dash_step Next_page d =
     (if int (page_count d) \<le> page_number d \<or> is_loading d then d
      else d\<lparr>page_number := min (int (page_count d)) (page_number d + 1)\<rparr>)"
| "dash_step (Ask_invalidate p) d = (if tab_choice d = Active_tab then d\<lparr>pass_to_invalidate := Some p\<rparr> else d)"
| "dash_step Close_invalidate d = (if is_invalidating d then d else d\<lparr>pass_to_invalidate := None\<rparr>)"
| "dash_step Close_invalidate_all d = d\<lparr>show_invalidate_all := False\<rparr>"
| "dash_step (Edit_resend_email v) d = d\<lparr>resend_email := v\<rparr>"
| "dash_step (Edit_resend_message v) d = d\<lparr>resend_message := v\<rparr>"
| "dash_step Close_resend d = (if is_resending d then d else d\<lparr>pass_to_email := None\<rparr>)"

definition range_start :: "dashboard \<Rightarrow> int" where
  "range_start d = (if matching_passes d = 0 then 0 else (page_number d - 1) * int (page_size d) + 1)"

definition range_end :: "dashboard \<Rightarrow> int" where
  "range_end d = min (page_number d * int (page_size d)) (int (matching_passes d))"

end
