(* ===== verification/DashboardView.thy ===== *)
theory DashboardView
  imports Dashboard PassPdf
begin

text \<open>
  What the dashboard shows: the image of a pass as the canvas calls that draw it, the
  preview, the form, the list and the dialogs as the texts and controls they contain.
\<close>

section \<open>The image of a pass\<close>

datatype canvas_op =
    Canvas_fill string rat rat rat rat
  | Canvas_frame string rat rat rat rat rat
  | Canvas_line string rat rat rat rat
  | Canvas_text string string string rat rat
  | Canvas_image string rat rat rat rat
  | Canvas_cover string rat rat rat rat rat rat rat rat
  | Canvas_stamp string string string rat rat

definition CANVAS_W :: rat where "CANVAS_W = 1360"
definition CANVAS_H :: rat where "CANVAS_H = 640"

text \<open>A text that is too wide is cut and marked; \<open>width\<close> measures in the current font.\<close>

function cut_text :: "(string \<Rightarrow> rat) \<Rightarrow> rat \<Rightarrow> string \<Rightarrow> string" where
  "cut_text width max_width t =
     (if 3 < length t \<and> max_width < width (t @ ''...'') then cut_text width max_width (butlast t) else t)"
  by pat_completeness auto
termination
  by (relation "measure (\<lambda>(w, m, t). length t)") auto

declare cut_text.simps [simp del]

definition fitCanvasText :: "(string \<Rightarrow> rat) \<Rightarrow> rat \<Rightarrow> string \<Rightarrow> string" where
  "fitCanvasText width max_width text =
     (if width text \<le> max_width then text else cut_text width max_width text @ ''...'')"

text \<open>An image scaled to cover a box, centred in it and clipped to it.\<close>

definition drawImageCover :: "string \<Rightarrow> rat \<Rightarrow> rat \<Rightarrow> rat \<Rightarrow> rat \<Rightarrow> rat \<Rightarrow> rat \<Rightarrow> canvas_op" where
  "drawImageCover name iw ih x y w h =
     (let scale = max (w / iw) (h / ih); dw = iw * scale; dh = ih * scale
      in Canvas_cover name (x + (w - dw) / 2) (y + (h - dh) / 2) dw dh x y w h)"

definition image_panel_h :: rat where "image_panel_h = CANVAS_H - 120"
definition image_panel_w :: rat where "image_panel_w = js_round (image_panel_h * (720 / 1019))"
definition image_qr_x :: rat where "image_qr_x = CANVAS_W - 64 - 300"
definition image_qr_y :: rat where "image_qr_y = (CANVAS_H - 300) / 2 - 10"
definition image_left :: rat where "image_left = 64 + image_panel_w + 40"
definition image_right :: rat where "image_right = image_qr_x - 40"
definition image_center :: rat where "image_center = (image_left + image_right) / 2"

definition image_details :: "(string \<Rightarrow> string \<Rightarrow> rat) \<Rightarrow> hall_pass \<Rightarrow> canvas_op list" where
  "image_details width p =
     (let c = image_center; w = image_right - image_left
      in [Canvas_text ''ADEOLA & JOSHUA'' ''700 24px serif'' ''#C74375'' c 150,
          Canvas_text ''Hall Pass'' ''400 58px serif'' ''#800020'' c 220,
          Canvas_text (js_upper (dashboard_ticket_label (Some (ticket_number p))) @ dot_sep @ js_upper (getPassStatusLabel p))
            ''700 22px sans-serif'' (if invalidated_at p \<noteq> None then ''#B42318'' else ''#3E2723'') c 262,
          Canvas_line ''#D4A57A'' (c - 80) 285 (c + 80) 285,
          Canvas_text (fitCanvasText (width ''700 42px serif'') w (or_else (guest_name p) ''Guest''))
            ''700 42px serif'' ''#3E2723'' c 360,
          Canvas_text ''Saturday 1st August 2026'' ''italic 400 24px serif'' ''#6D4C41'' c 405,
          Canvas_text (fitCanvasText (width ''700 30px monospace'') w (token p))
            ''700 30px monospace'' ''#3E2723'' c 470,
          Canvas_text ''Present this code at entry.'' ''400 20px serif'' ''#6D4C41'' c 512])"

text \<open>\<open>invitation\<close> is the size of the invitation picture, when it could be loaded.\<close>

definition createPassImage ::
  "(string \<Rightarrow> string \<Rightarrow> rat) \<Rightarrow> (rat \<times> rat) option \<Rightarrow> generated_pass \<Rightarrow> canvas_op list" where
  "createPassImage width invitation g =
     (let p = generated g
      in [Canvas_fill ''#FFF8F0'' 0 0 CANVAS_W CANVAS_H,
          Canvas_frame ''#D4A57A'' 6 26 26 (CANVAS_W - 52) (CANVAS_H - 52),
          Canvas_frame ''#CC8899'' (3 / 2) 40 40 (CANVAS_W - 80) (CANVAS_H - 80)] @
         (case invitation of
            Some (iw, ih) \<Rightarrow> [drawImageCover ''/invitation.jpg'' iw ih 64 60 image_panel_w image_panel_h,
              Canvas_frame ''#D4A57A'' 3 64 60 image_panel_w image_panel_h]
          | None \<Rightarrow> [Canvas_fill ''#800020'' 64 60 image_panel_w image_panel_h]) @
         [Canvas_line ''#E7D8CE'' (image_qr_x - 20) 90 (image_qr_x - 20) (CANVAS_H - 90)] @
         image_details width p @
         [Canvas_image (qr_data_url g) image_qr_x image_qr_y 300 300,
          Canvas_text ''SCAN TO VERIFY'' ''700 18px sans-serif'' ''#6D4C41'' (image_qr_x + 300 / 2) (image_qr_y - 18)] @
         (if invalidated_at p \<noteq> None
          then [Canvas_stamp ''INVALIDATED'' ''900 120px sans-serif'' ''#B42318'' (CANVAS_W / 2) (CANVAS_H / 2)] else []))"

definition getPassFileName :: "generated_pass \<Rightarrow> string" where
  "getPassFileName g =
     (let name = strip_dashes (dash_runs False (js_lower (or_else (guest_name (generated g)) ''guest'')))
      in ''hall-pass-'' @ or_else (non_empty name) ''guest'' @ ''-'' @ token (generated g) @ ''.png'')"

text \<open>\<open>drawn\<close> is the drawn picture, or nothing when the browser could not draw it.\<close>

definition handleDownload :: "string option \<Rightarrow> generated_pass \<Rightarrow> dashboard \<Rightarrow> dashboard \<times> (string \<times> string) option" where
  "handleDownload drawn g d =
     (case drawn of
        None \<Rightarrow> (say Toast_error ''Download failed'' ''Could not generate the hall pass image.'' d, None)
      | Some href \<Rightarrow> (say Toast_success ''Hall pass downloaded'' (token (generated g) @ '' was saved as a PNG.'') d,
          Some (getPassFileName g, href)))"

definition handlePrint :: "string option \<Rightarrow> bool \<Rightarrow> generated_pass \<Rightarrow> dashboard \<Rightarrow> dashboard \<times> string option" where
  "handlePrint drawn window_opened g d =
     (case drawn of
        None \<Rightarrow> (say Toast_error ''Print failed'' ''Could not generate the print view.'' d, None)
      | Some href \<Rightarrow>
        if \<not> window_opened
        then (say Toast_error ''Print window blocked'' ''Allow popups for this site and try again.'' d, None)
        else (say Toast_success ''Print view opened'' (token (generated g) @ '' is ready to print.'') d, Some href))"

section \<open>Widgets\<close>

datatype dash_widget =
    Show string
  | Mark string string
  | Field string string
  | Select_box "string list" string
  | Act string bool bool
  | Warn string
  | Row "dash_widget list"

definition pass_preview :: "(instant \<Rightarrow> string) \<Rightarrow> generated_pass option \<Rightarrow> dash_widget list" where
  "pass_preview date sel =
     (case sel of
        None \<Rightarrow> [Show ''Create a pass or select one from the table to preview its QR code.'']
      | Some g \<Rightarrow>
        (let p = generated g; st = getPassStatusLabel p
         in [Show (js_upper (dashboard_ticket_label (Some (ticket_number p))) @ dot_sep @ js_upper st),
             Show (or_else (guest_name p) ''Guest''), Show ''Saturday 1st August 2026'', Show (token p),
             Show ''Present this code at entry.'', Show (qr_data_url g), Show ''SCAN TO VERIFY'',
             Mark st (if invalidated_at p \<noteq> None then ''red'' else if used_at p \<noteq> None then ''gray'' else ''green''),
             Field ''QR Token'' (qr_value g),
             Field ''Ticket Number'' (dashboard_ticket_label (Some (ticket_number p))),
             Mark (fst (getEmailStatus p)) (snd (getEmailStatus p))] @
            (if or_else (email_recipient p) [] = [] then [] else [Show (or_else (email_recipient p) [])]) @
            (case email_sent_at p of None \<Rightarrow> [] | Some t \<Rightarrow> [Show (''Sent '' @ date t)]) @
            (if or_else (email_error p) [] = [] then [] else [Warn (or_else (email_error p) [])]) @
            (case invalidated_at p of None \<Rightarrow> []
             | Some t \<Rightarrow> [Field ''Invalidated'' (date t @ '' by '' @ or_else (invalidated_by p) ''admin'')]) @
            [Act ''Download PNG'' True False, Act ''Print'' True False, Act ''Email PDF'' True False]))"

text \<open>The generate button: enabled exactly when the form may be submitted.\<close>

definition generate_label :: "dashboard \<Rightarrow> string" where
  "generate_label d =
     (let n = show_nat (requested_count d)
      in if limit_reached d then ''Limit Reached''
         else if form_mode d = Bulk_passes
         then (if 0 < requested_count d
               then (if should_email d then ''Generate & Email '' @ n @ '' PDFs'' else ''Generate '' @ n @ '' QRs'')
               else ''Generate QRs'')
         else if should_email d then ''Generate & Email PDF'' else ''Generate QR'')"

definition availability_text :: "ticket_availability \<Rightarrow> string" where
  "availability_text a =
     (case available_limit a of
        None \<Rightarrow> show_nat (issued_count a) @ '' issued. No limit set.''
      | Some l \<Rightarrow> (case remaining_count a of None \<Rightarrow> ''null'' | Some n \<Rightarrow> show_int n) @ '' left of '' @ show_nat l @ ''.'')"

definition names_form :: "dashboard \<Rightarrow> dash_widget list" where
  "names_form d =
     (case form_mode d of
        Single_pass \<Rightarrow> [Field ''Guest name'' (form_guest d)]
      | Bulk_passes \<Rightarrow>
        [Field ''Number of passes'' (form_bulk_count d),
         Show ''Names are optional. Unnamed passes will show as Guest.''] @
        (if invalid_bulk_count d then [Warn ''Enter at least 1 pass.''] else []) @
        [Field ''Guest names'' (form_bulk_names d),
         Show ''Optional. Add one name per line, or separate names with commas.'',
         Show (show_nat (requested_count d) @ '' of '' @ show_nat MAX_BATCH_SIZE @ '' selected''),
         Show (case remaining_count (shown_availability d) of None \<Rightarrow> ''No ticket limit''
           | Some n \<Rightarrow> show_int n @ '' tickets left'')] @
        (if over_batch_limit d then [Warn (''Split this into batches of '' @ show_nat MAX_BATCH_SIZE @ '' or fewer.'')]
         else []) @
        (if over_ticket_limit d then [Warn ''Reduce the count or increase the ticket limit before generating.''] else []))"

definition delivery_form :: "dashboard \<Rightarrow> dash_widget list" where
  "delivery_form d =
     (if should_email d
      then [Field (if form_mode d = Bulk_passes then ''Packet recipient email'' else ''Recipient email'') (form_recipient d),
            Show (if form_mode d = Bulk_passes
              then ''All generated tickets will be sent to this address as PDF attachments.''
              else ''The ticket will be sent to this address as a PDF attachment.'')] @
           (if invalid_recipient d then [Warn ''Enter a valid email address.''] else []) @
           [Field ''Email message'' (form_message d)]
      else [Show ''Passes will be created without sending email.''])"

definition generate_form :: "dashboard \<Rightarrow> dash_widget list" where
  "generate_form d =
     [Show ''Generate Pass'', Show ''Each pass gets a unique QR token.'',
      Field ''Tickets'' (availability_text (shown_availability d)),
      Select_box [''Single'', ''Bulk''] (case form_mode d of Single_pass \<Rightarrow> ''Single'' | Bulk_passes \<Rightarrow> ''Bulk'')] @
     names_form d @
     [Select_box (map snd inviteFromOptions) (form_inviter d)] @
     (if missing_inviter d then [Warn ''Select who the invite is from.''] else []) @
     [Select_box [''Generate only'', ''Email PDF'']
       (case form_delivery d of Generate_only \<Rightarrow> ''Generate only'' | Email_pdf \<Rightarrow> ''Email PDF'')] @
     delivery_form d @
     (if form_error d = [] then [] else [Warn (form_error d)]) @
     [Act (generate_label d) (can_submit d) (is_submitting d)]"

definition limit_form :: "dashboard \<Rightarrow> dash_widget list" where
  "limit_form d =
     [Show ''Ticket Limit'', Show ''Leave blank for unlimited QR creation.''] @
     (if is_editing_limit d
      then [Field ''Total tickets available'' (limit_input d), Act ''Save Limit'' True (is_saving_limit d),
            Act ''Cancel'' (\<not> is_saving_limit d) False]
      else [Field ''Total tickets available''
              (case available_limit (shown_availability d) of None \<Rightarrow> ''Unlimited'' | Some l \<Rightarrow> show_nat l),
            Act ''Edit'' True False])"

definition stats_view :: "dashboard \<Rightarrow> dash_widget list" where
  "stats_view d =
     [Show ''Invite from'', Show ''Active guest invites attributed to each person.''] @
     (if shown_stats d = [] then [Show ''No active invites yet.'']
      else map (\<lambda>(inviter, n). Field (formatInviteFromLabel inviter) (show_nat n)) (shown_stats d))"

definition pass_row :: "(instant \<Rightarrow> string) \<Rightarrow> list_tab \<Rightarrow> hall_pass \<Rightarrow> dash_widget" where
  "pass_row date tab p = Row (
     [Show (or_else (guest_name p) ''Guest''), Show (dashboard_ticket_label (Some (ticket_number p))),
      Show (or_else (invite_from p) ''-''), Show (token p),
      Mark (fst (getPassStatus p)) (snd (getPassStatus p)),
      Mark (fst (getEmailStatus p)) (snd (getEmailStatus p))] @
     (if or_else (email_recipient p) [] = [] then [] else [Show (or_else (email_recipient p) [])]) @
     [Show (date (created_at p)), Act ''View'' True False, Act ''Email'' True False] @
     (if tab = Active_tab then [Act ''Invalidate'' True False] else []))"

definition list_summary :: "dashboard \<Rightarrow> string" where
  "list_summary d =
     (if is_loading d then ''Loading passes...''
      else if matching_passes d = 0 then ''No '' @ tab_word (tab_choice d) @ '' passes found.''
      else ''Showing '' @ show_int (range_start d) @ ''-'' @ show_int (range_end d) @ '' of '' @
        show_nat (matching_passes d) @ '' '' @ tab_word (tab_choice d) @ '' passes.'')"

definition pass_list_view :: "(instant \<Rightarrow> string) \<Rightarrow> dashboard \<Rightarrow> dash_widget list" where
  "pass_list_view date d =
     [Select_box [''Active ('' @ show_nat (active_total d) @ '')'', ''Invalidated ('' @ show_nat (invalidated_total d) @ '')'']
        (tab_word (tab_choice d)),
      Field ''Search guest name'' (search_query d)] @
     (if tab_choice d = Active_tab
      then [Select_box (map snd statusOptions) (status_filter_word (status_choice d))] else []) @
     [Select_box (map snd pageSizeOptions) (show_nat (page_size d)), Show (list_summary d)] @
     (if tab_choice d = Active_tab then [Act ''Invalidate All'' False False] else []) @
     map (pass_row date (tab_choice d)) (shown_passes d) @
     [Show (''Page '' @ show_int (page_number d) @ '' of '' @ show_nat (page_count d)),
      Act ''Previous'' (\<not> (page_number d \<le> 1 \<or> is_loading d)) False,
      Act ''Next'' (\<not> (int (page_count d) \<le> page_number d \<or> is_loading d)) False]"

definition dialogs_view :: "dashboard \<Rightarrow> dash_widget list" where
  "dialogs_view d =
     (case pass_to_invalidate d of None \<Rightarrow> []
      | Some p \<Rightarrow> [Show ''Invalidate QR code?'',
          Show ''This QR code will stop working immediately. Future scans will return invalid.'',
          Field ''Token'' (token p), Field ''Guest'' (or_else (guest_name p) ''Guest''),
          Act ''Cancel'' (\<not> is_invalidating d) False, Act ''Invalidate'' True (is_invalidating d)]) @
     (if show_invalidate_all d
      then [Show ''Invalidate all tickets?'',
            Show (show_nat (active_total d) @ '' active pass'' @ (if active_total d = 1 then [] else ''es'') @
              '' will be invalidated.''), Act ''Cancel'' True False, Act ''Invalidate All'' True False] else []) @
     (case pass_to_email d of None \<Rightarrow> []
      | Some p \<Rightarrow> [Show ''Email ticket PDF'', Field ''Ticket'' (dashboard_ticket_label (Some (ticket_number p))),
          Field ''Guest'' (or_else (guest_name p) ''Guest''), Field ''Recipient email'' (resend_email d)] @
          (if resend_email d \<noteq> [] \<and> \<not> isLikelyEmail (resend_email d) then [Warn ''Enter a valid email address.''] else []) @
          [Field ''Email message'' (resend_message d), Act ''Cancel'' (\<not> is_resending d) False,
           Act ''Send PDF'' (isLikelyEmail (resend_email d)) (is_resending d)])"

definition dashboard_view :: "(instant \<Rightarrow> string) \<Rightarrow> dashboard \<Rightarrow> dash_widget list" where
  "dashboard_view date d =
     [Show ''Super Admin'', Show ''Hall Passes'', Show ''Protected''] @ generate_form d @ limit_form d @
     pass_preview date (selected_pass d) @ stats_view d @ pass_list_view date d @ dialogs_view d"

end
