(* ===== verification/DashboardTheorems.thy ===== *)
theory DashboardTheorems
  imports DashboardView
begin














end
