(* ===== verification/PlatformRules.thy ===== *)
theory PlatformRules
  imports Platform
begin

text \<open>
  What holds of a wedding's tables in every state, in two parts: \<open>wf\<close>, the keys and references
  of the rows (the unique and foreign keys of the migrations, with the pairing of used passes
  and admissions), and \<open>places_ok\<close>, the bookkeeping of places. The lemmas show what each
  shared statement does to both; the handlers follow in \<^verbatim>\<open>PlatformInvariant\<close>.
\<close>

named_theorems framed_simps "statements that leave the checked tables alone"

section \<open>The invariants\<close>

definition rsvp_key :: "rsvp_row \<Rightarrow> uuid \<times> uuid" where
  "rsvp_key r = (rsvp_attendee r, rsvp_event r)"

definition entry_key :: "entry_pass \<Rightarrow> uuid \<times> uuid" where
  "entry_key p = (entry_attendee p, entry_event p)"

definition used_ids :: "wedding \<Rightarrow> uuid set" where
  "used_ids w = entry_id ` {p \<in> set (passes w). entry_status p = Pass_used}"

definition events_ok :: "wedding \<Rightarrow> bool" where
  "events_ok w = (distinct (map event_id (events w)) \<and> (\<forall>e\<in>set (events w). event_id e < next_id w))"

definition passes_ok :: "wedding \<Rightarrow> bool" where
  "passes_ok w = (distinct (map entry_id (passes w)) \<and> distinct (map entry_key (passes w)) \<and>
     (\<forall>p\<in>set (passes w). entry_id p < next_id w \<and> entry_key p \<in> rsvp_key ` set (rsvps w)))"

definition answers_ok :: "wedding \<Rightarrow> bool" where
  "answers_ok w = (distinct (map rsvp_key (rsvps w)) \<and> distinct (reservations w) \<and>
     (\<forall>r\<in>set (rsvps w). rsvp_event r \<in> event_id ` set (events w)) \<and>
     (\<forall>k\<in>set (reservations w). k \<in> rsvp_key ` set (rsvps w)))"

definition admission_of :: "wedding \<Rightarrow> admission_row \<Rightarrow> entry_pass \<Rightarrow> bool" where
  "admission_of w x p = (entry_id p = admitted_pass x \<and> entry_status p = Pass_used \<and>
     entry_key p = (admitted_attendee x, admitted_event x))"

definition admissions_ok :: "wedding \<Rightarrow> bool" where
  "admissions_ok w = (distinct (map admitted_pass (admissions w)) \<and>
     (\<forall>x\<in>set (admissions w). \<exists>p\<in>set (passes w). admission_of w x p) \<and>
     (\<forall>p\<in>set (passes w). entry_status p = Pass_used \<longrightarrow> entry_id p \<in> admitted_pass ` set (admissions w)))"

definition admitted_scans :: "wedding \<Rightarrow> scan_row list" where
  "admitted_scans w = filter (\<lambda>s. scan_state (scan_reply s) = Admitted) (scans w)"

definition scan_request :: "scan_row \<Rightarrow> uuid \<times> uuid \<times> string" where
  "scan_request s = (scan_actor s, scan_event s, scan_key s)"

definition scans_ok :: "wedding \<Rightarrow> bool" where
  "scans_ok w = (distinct (map scan_request (scans w)) \<and> distinct (map scan_pass (admitted_scans w)) \<and>
     (\<forall>s\<in>set (admitted_scans w). \<exists>pid\<in>used_ids w. scan_pass s = Some pid))"

definition wf :: "wedding \<Rightarrow> bool" where
  "wf w = (events_ok w \<and> passes_ok w \<and> answers_ok w \<and> admissions_ok w \<and> scans_ok w)"

definition held_places :: "uuid \<Rightarrow> wedding \<Rightarrow> int" where
  "held_places e w = int (length (filter (\<lambda>r. snd r = e) (reservations w)))"

definition fits :: "nat option \<Rightarrow> int \<Rightarrow> bool" where
  "fits c n = (case c of None \<Rightarrow> True | Some m \<Rightarrow> n \<le> int m)"

definition counts_ok :: "wedding \<Rightarrow> bool" where
  "counts_ok w = (\<forall>ev\<in>set (events w). confirmed_count ev = held_places (event_id ev) w \<and>
     fits (capacity ev) (confirmed_count ev))"

definition confirmed_ok :: "wedding \<Rightarrow> bool" where
  "confirmed_ok w = (\<forall>r\<in>set (rsvps w). rsvp_state r = Confirmed \<longleftrightarrow> rsvp_key r \<in> set (reservations w))"

definition places_ok :: "wedding \<Rightarrow> bool" where
  "places_ok w = (counts_ok w \<and> confirmed_ok w)"

text \<open>The whole invariant, and a lawful change: it keeps the invariant and no pass is unspent.\<close>

definition sound :: "wedding \<Rightarrow> bool" where
  "sound w = (wf w \<and> places_ok w)"

definition lawful :: "wedding \<Rightarrow> wedding \<Rightarrow> bool" where
  "lawful w w' = (sound w \<longrightarrow> sound w' \<and> used_ids w \<subseteq> used_ids w')"

lemma lawful_refl [simp]: "lawful w w"
  by (simp add: lawful_def)

lemma lawful_trans: "lawful w w' \<Longrightarrow> lawful w' w'' \<Longrightarrow> lawful w w''"
  by (auto simp: lawful_def)

lemma lawful_kept: "(\<And>w'. r = Inr w' \<Longrightarrow> lawful w w') \<Longrightarrow> lawful w (kept r w)"
  by (simp add: kept_cases)

lemma lawful_kept_op: "(\<And>x w'. r = Inr (x, w') \<Longrightarrow> lawful w w') \<Longrightarrow> lawful w (kept_op r w)"
  by (simp add: kept_op_cases)

section \<open>Statements outside the checked tables\<close>

definition framed :: "wedding \<Rightarrow> wedding \<Rightarrow> bool" where
  "framed w w' = (events w' = events w \<and> rsvps w' = rsvps w \<and> reservations w' = reservations w \<and>
     passes w' = passes w \<and> admissions w' = admissions w \<and> scans w' = scans w \<and> next_id w' = next_id w)"

lemma framed_refl [simp]: "framed w w"
  by (simp add: framed_def)

lemma framed_trans: "framed w w' \<Longrightarrow> framed w' w'' \<Longrightarrow> framed w w''"
  by (simp add: framed_def)

lemma framed_used: "framed w w' \<Longrightarrow> used_ids w' = used_ids w"
  by (simp add: framed_def used_ids_def)

lemma framed_wf: "framed w w' \<Longrightarrow> wf w' = wf w"
  by (simp add: framed_def wf_def events_ok_def passes_ok_def answers_ok_def admissions_ok_def scans_ok_def
      admitted_scans_def used_ids_def admission_of_def)

lemma framed_places: "framed w w' \<Longrightarrow> places_ok w' = places_ok w"
  by (simp add: framed_def places_ok_def counts_ok_def confirmed_ok_def held_places_def)

lemma framed_lawful: "framed w w' \<Longrightarrow> lawful w w'"
  by (simp add: lawful_def sound_def framed_used framed_wf framed_places)

lemma lawful_framed: "framed w' w'' \<Longrightarrow> lawful w w' \<Longrightarrow> lawful w w''"
  by (blast intro: lawful_trans framed_lawful)

lemma framed_fold: "(\<And>x v. framed v (f x v)) \<Longrightarrow> framed w (fold f xs w)"
  by (induction xs arbitrary: w) (auto intro: framed_trans)

lemma framed_audit [framed_simps]: "framed w (audit who action resource w)"
  by (simp add: framed_def audit_def)

lemma framed_record_history [framed_simps]: "framed w (record_history pid action who reason w)"
  by (simp add: framed_def record_history_def)

lemma framed_pass_history [framed_simps]: "framed w (pass_history pid action who reason w)"
  by (simp add: framed_def pass_history_def audit_def record_history_def)

lemma framed_add_issue_job [framed_simps]: "framed w (add_issue_job j w)"
  by (simp add: framed_def add_issue_job_def)

lemma framed_ticket_jobs [framed_simps]: "framed w (ticket_jobs prefix pid version w)"
  by (simp add: framed_def ticket_jobs_def)

lemma framed_store_op [framed_simps]: "framed w (store_op who name key hash r w)"
  by (simp add: framed_def store_op_def)

lemma framed_add_hold [framed_simps]: "framed w (add_hold pid reason w)"
  by (simp add: framed_def add_hold_def)

lemma framed_release_hold [framed_simps]: "framed w (release_hold pid w)"
  by (simp add: framed_def release_hold_def)

lemma framed_rename [framed_simps]: "framed w (rename a name w)"
  by (simp add: framed_def rename_def)

lemma framed_rsvp_mails [framed_simps]: "framed w (rsvp_mails env s e key w)"
  by (simp add: framed_def rsvp_mails_def Let_def)

lemma framed_queue_policy_passes [framed_simps]: "framed w (queue_policy_passes e version w)"
  by (simp add: queue_policy_passes_def framed_fold framed_add_issue_job)

lemma framed_correct_name [framed_simps]: "framed w (correct_name_in c w)"
  by (simp add: correct_name_in_def framed_rename split: option.split)

text \<open>A handler that runs a body once per key is as lawful as its body.\<close>

lemma lawful_once:
  assumes "once who name key hash body w = Inr (r, w')" "\<And>x v. body = Inr (x, v) \<Longrightarrow> lawful w v"
  shows "lawful w w'"
  using assms by (auto simp: once_def split: sum.splits option.splits intro: lawful_framed [OF framed_store_op])

section \<open>Changes of passes\<close>

text \<open>A change of passes keeps their identity and does not turn a used pass into another one.\<close>

definition same_lineage :: "entry_pass \<Rightarrow> entry_pass \<Rightarrow> bool" where
  "same_lineage p q = (entry_id q = entry_id p \<and> entry_key q = entry_key p \<and>
     (entry_status q = Pass_used \<longleftrightarrow> entry_status p = Pass_used))"

lemma same_lineage_refl [simp]: "same_lineage p p"
  by (simp add: same_lineage_def)

lemma used_ids_map:
  assumes "\<And>p. p \<in> set (passes w) \<Longrightarrow> same_lineage p (g p)"
  shows "used_ids (w\<lparr>passes := map g (passes w)\<rparr>) = used_ids w"
proof -
  have "{q \<in> set (map g (passes w)). entry_status q = Pass_used} = g ` {p \<in> set (passes w). entry_status p = Pass_used}"
    using assms by (auto simp: same_lineage_def)
  then show ?thesis using assms by (simp add: used_ids_def image_image same_lineage_def cong: image_cong_simp)
qed

lemma wf_map_passes:
  assumes "wf w" "\<And>p. p \<in> set (passes w) \<Longrightarrow> same_lineage p (g p)"
  shows "wf (w\<lparr>passes := map g (passes w)\<rparr>)"
proof -
  have ids: "map entry_id (map g (passes w)) = map entry_id (passes w)"
    and keys: "map entry_key (map g (passes w)) = map entry_key (passes w)"
    using assms(2) by (auto simp: same_lineage_def)
  let ?w = "w\<lparr>passes := map g (passes w)\<rparr>"
  have "passes_ok ?w"
    using assms unfolding wf_def passes_ok_def by (auto simp: same_lineage_def simp del: map_map simp flip: ids keys)
  moreover have "admissions_ok ?w"
    using assms unfolding wf_def admissions_ok_def admission_of_def by (fastforce simp: same_lineage_def)
  moreover have "scans_ok ?w"
    using assms(1) used_ids_map [of w g, OF assms(2)] unfolding wf_def scans_ok_def by (simp add: admitted_scans_def)
  ultimately show ?thesis using assms(1) by (simp add: wf_def events_ok_def answers_ok_def)
qed

lemma places_passes [simp]: "places_ok (w\<lparr>passes := ps\<rparr>) = places_ok w"
  by (simp add: places_ok_def counts_ok_def confirmed_ok_def held_places_def)

text \<open>A quiet change touches passes and logs only, and keeps the lineage of every pass.\<close>

definition quiet :: "wedding \<Rightarrow> wedding \<Rightarrow> bool" where
  "quiet w w' = (events w' = events w \<and> rsvps w' = rsvps w \<and> reservations w' = reservations w \<and>
     (wf w \<longrightarrow> wf w') \<and> used_ids w' = used_ids w)"

lemma quiet_refl [simp]: "quiet w w"
  by (simp add: quiet_def)

lemma framed_quiet: "framed w w' \<Longrightarrow> quiet w w'"
  using framed_wf [of w w'] framed_used [of w w'] by (simp add: quiet_def framed_def)

lemma quiet_trans: "quiet w w' \<Longrightarrow> quiet w' w'' \<Longrightarrow> quiet w w''"
  by (simp add: quiet_def)

lemma quiet_places: "quiet w w' \<Longrightarrow> places_ok w' = places_ok w"
  by (simp add: quiet_def places_ok_def counts_ok_def confirmed_ok_def held_places_def)

lemma quiet_lawful: "quiet w w' \<Longrightarrow> lawful w w'"
  using quiet_places [of w w'] by (simp add: lawful_def sound_def quiet_def)

lemma quiet_framed: "framed w' w'' \<Longrightarrow> quiet w w' \<Longrightarrow> quiet w w''"
  by (blast intro: quiet_trans framed_quiet)

lemma quiet_update_passes:
  assumes "\<And>p. p \<in> set (passes w) \<Longrightarrow> P p \<Longrightarrow> same_lineage p (f p)"
  shows "quiet w (w\<lparr>passes := update_where P f (passes w)\<rparr>)"
  unfolding quiet_def update_where_def
  using assms wf_map_passes [of w "\<lambda>p. if P p then f p else p"] used_ids_map [of w "\<lambda>p. if P p then f p else p"]
  by simp

lemma lawful_update_passes:
  assumes "\<And>p. p \<in> set (passes w) \<Longrightarrow> P p \<Longrightarrow> same_lineage p (f p)"
  shows "lawful w (w\<lparr>passes := update_where P f (passes w)\<rparr>)"
  using assms by (intro quiet_lawful quiet_update_passes)

lemma same_lineage_revoked: "entry_status p = Pass_active \<Longrightarrow> same_lineage p (revoked reason p)"
  by (simp add: same_lineage_def revoked_def entry_key_def)

lemma quiet_revoke_where:
  assumes "\<And>pid v. framed v (write pid v)"
  shows "quiet w (revoke_where P reason write w)"
  unfolding revoke_where_def Let_def
  by (rule quiet_framed [OF framed_fold [OF assms] quiet_update_passes]) (simp add: same_lineage_revoked)

lemma framed_renewal:
  "framed v ((ticket_jobs prefix (entry_id p) n \<circ> record_history (entry_id p) action who reason) v)"
  by (simp add: framed_def ticket_jobs_def record_history_def)

lemma quiet_renew_tickets: "quiet w (renew_tickets P prefix reason who w)"
  unfolding renew_tickets_def Let_def
  by (rule quiet_framed [OF framed_fold [OF framed_renewal] quiet_update_passes])
    (simp add: same_lineage_def entry_key_def)

lemma quiet_refreshTickets: "quiet w (refreshTickets a who w)"
  by (simp add: refreshTickets_def quiet_renew_tickets)

end
