(* ===== verification/PassRules.thy ===== *)
theory PassRules
  imports PlatformRules
begin

text \<open>
  The pass handlers are lawful: issuing, revoking, reissuing, the scan at the door, the expiry
  sweep and the recovery after a restored backup keep the tables sound and never unspend a pass.
\<close>

section \<open>Issuing, revoking, reissuing\<close>

lemma is_confirmed_key: "is_confirmed a e w \<Longrightarrow> (a, e) \<in> rsvp_key ` set (rsvps w)"
  by (force simp: is_confirmed_def rsvp_key_def list_ex_iff)

lemma find_pass_SomeD: "find_pass pid w = Some p \<Longrightarrow> p \<in> set (passes w) \<and> entry_id p = pid"
  unfolding find_pass_def by (drule find_SomeD)

lemma new_entry_pass_simps [simp]:
  "entry_id (new_entry_pass env pid a e) = pid" "entry_key (new_entry_pass env pid a e) = (a, e)"
  "entry_status (new_entry_pass env pid a e) = Pass_active"
  by (simp_all add: new_entry_pass_def entry_key_def)

lemma lawful_new_pass:
  assumes "(a, e) \<in> rsvp_key ` set (rsvps w)" "(a, e) \<notin> entry_key ` set (passes w)"
  shows "lawful w (w\<lparr>passes := passes w @ [new_entry_pass env (next_id w) a e], next_id := Suc (next_id w)\<rparr>)"
proof -
  let ?w = "w\<lparr>passes := passes w @ [new_entry_pass env (next_id w) a e], next_id := Suc (next_id w)\<rparr>"
  have used: "used_ids ?w = used_ids w" by (auto simp: used_ids_def)
  have "wf ?w" if "wf w"
  proof -
    have "passes_ok ?w" using that assms by (auto simp: wf_def passes_ok_def)
    moreover have "scans_ok ?w" using that used by (simp add: wf_def scans_ok_def admitted_scans_def)
    moreover have "admissions_ok ?w" using that by (auto simp: wf_def admissions_ok_def admission_of_def)
    moreover have "events_ok ?w" using that by (auto simp: wf_def events_ok_def)
    ultimately show ?thesis using that by (simp add: wf_def answers_ok_def)
  qed
  moreover have "places_ok ?w = places_ok w"
    by (simp add: places_ok_def counts_ok_def confirmed_ok_def held_places_def)
  ultimately show ?thesis using used by (simp add: lawful_def sound_def)
qed

lemma lawful_issueIn:
  assumes "issueIn env a ev who w = Inr (r, w')"
  shows "lawful w w'"
proof (cases "List.find (\<lambda>p. entry_attendee p = a \<and> entry_event p = event_id ev) (passes w)")
  case (Some p)
  then show ?thesis using assms by (simp add: issueIn_def legacyHold_def)
next
  case None
  then have "(a, event_id ev) \<notin> entry_key ` set (passes w)"
    by (auto simp: find_None_iff' entry_key_def)
  then show ?thesis using assms None
    by (auto simp: issueIn_def legacyHold_def entitled_def Let_def intro!: lawful_new_pass is_confirmed_key
        lawful_framed [OF framed_ticket_jobs] lawful_framed [OF framed_pass_history])
qed

lemma lawful_issue: "issue env who a e key w = Inr (r, w') \<Longrightarrow> lawful w w'"
  unfolding issue_def by (auto split: option.splits elim!: lawful_once intro: lawful_issueIn)

lemma lawful_process: "process_issue env leased a e w = Inr (r, w') \<Longrightarrow> lawful w w'"
  unfolding process_issue_def by (auto split: option.splits if_splits sum.splits intro: lawful_issueIn)

lemma lawful_revoke: "revoke env who pid version reason key w = Inr (r, w') \<Longrightarrow> lawful w w'"
  unfolding revoke_def
  by (auto split: option.splits elim!: lawful_once
      intro!: lawful_framed [OF framed_pass_history] lawful_update_passes same_lineage_revoked)

lemma lawful_reissue:
  assumes "reissue env who pid version reason key l w = Inr (r, w')"
  shows "lawful w w'"
proof (cases "find_pass pid w")
  case None
  then show ?thesis using assms by (simp add: reissue_def legacyHold_def)
next
  case (Some p)
  note p = find_pass_SomeD [OF Some]
  have "lawful w v" if body: "reissue_body env who p version reason l w = Inr (x, v)" for x v
  proof -
    from body have unused: "entry_status p \<noteq> Pass_used"
      and v: "v = ticket_jobs ''pass-ticket'' (entry_id p) (Suc version) (pass_history (entry_id p) ''reissued'' (Some who)
        (Some reason) (w\<lparr>passes := update_where (\<lambda>q. entry_id q = entry_id p) (reissued env) (passes w)\<rparr>))"
      by (auto simp: reissue_body_def split: sum.splits option.splits)
    show ?thesis
    proof (cases "sound w")
      case True
      then have "q = p" if "q \<in> set (passes w)" "entry_id q = entry_id p" for q
        using that p unfolding sound_def wf_def passes_ok_def by (auto dest: inj_onD simp: distinct_map)
      then have "same_lineage q (reissued env q)" if "q \<in> set (passes w)" "entry_id q = entry_id p" for q
        using that unused by (auto simp: same_lineage_def reissued_def entry_key_def)
      then show ?thesis unfolding v
        by (intro lawful_framed [OF framed_ticket_jobs] lawful_framed [OF framed_pass_history] lawful_update_passes)
    qed (simp add: lawful_def)
  qed
  then show ?thesis using assms Some by (auto simp: reissue_def legacyHold_def elim: lawful_once)
qed

section \<open>Spending a pass\<close>

definition spent_by :: "entry_pass \<Rightarrow> (entry_pass \<Rightarrow> entry_pass) \<Rightarrow> admission_row \<Rightarrow> bool" where
  "spent_by p f x = (entry_status p \<noteq> Pass_used \<and> entry_id (f p) = entry_id p \<and> entry_key (f p) = entry_key p \<and>
     entry_status (f p) = Pass_used \<and> admitted_pass x = entry_id p \<and>
     (admitted_attendee x, admitted_event x) = entry_key p)"

definition use_pass :: "entry_pass \<Rightarrow> (entry_pass \<Rightarrow> entry_pass) \<Rightarrow> admission_row \<Rightarrow> nat \<Rightarrow> wedding \<Rightarrow> wedding" where
  "use_pass p f x n w = w\<lparr>passes := update_where (\<lambda>q. entry_id q = entry_id p) f (passes w),
     admissions := admissions w @ [x], next_id := n\<rparr>"

lemma used_ids_iff: "pid \<in> used_ids w \<longleftrightarrow> (\<exists>p\<in>set (passes w). entry_id p = pid \<and> entry_status p = Pass_used)"
  by (auto simp: used_ids_def)

definition usable :: "wedding \<Rightarrow> entry_pass \<Rightarrow> (entry_pass \<Rightarrow> entry_pass) \<Rightarrow> admission_row \<Rightarrow> nat \<Rightarrow> bool" where
  "usable w p f x n = (sound w \<and> p \<in> set (passes w) \<and> spent_by p f x \<and> next_id w \<le> n)"

lemma only_pass:
  assumes "sound w" "p \<in> set (passes w)" "q \<in> set (passes w)" "entry_id q = entry_id p"
  shows "q = p"
  using assms unfolding sound_def wf_def passes_ok_def by (auto dest: inj_onD simp: distinct_map)

lemma use_pass_members:
  assumes "usable w p f x n"
  shows "set (passes (use_pass p f x n w)) = insert (f p) {q \<in> set (passes w). entry_id q \<noteq> entry_id p}"
proof -
  have "q = p" if "q \<in> set (passes w)" "entry_id q = entry_id p" for q
    using only_pass [of w p q] assms that by (simp add: usable_def)
  then have "{q \<in> set (passes w). entry_id q = entry_id p} = {p}" using assms by (auto simp: usable_def)
  then show ?thesis by (simp add: use_pass_def set_update_where)
qed

lemma use_pass_map:
  assumes "usable w p f x n"
  shows "map entry_id (passes (use_pass p f x n w)) = map entry_id (passes w)"
    and "map entry_key (passes (use_pass p f x n w)) = map entry_key (passes w)"
proof -
  have "entry_id (f q) = entry_id q \<and> entry_key (f q) = entry_key q"
    if "q \<in> set (passes w)" "entry_id q = entry_id p" for q
    using only_pass [of w p q] assms that by (simp add: usable_def spent_by_def)
  then show "map entry_id (passes (use_pass p f x n w)) = map entry_id (passes w)"
    "map entry_key (passes (use_pass p f x n w)) = map entry_key (passes w)"
    by (simp_all add: use_pass_def update_where_def)
qed

lemma use_pass_used:
  assumes "usable w p f x n"
  shows "used_ids (use_pass p f x n w) = insert (entry_id p) (used_ids w)"
proof -
  have "entry_status q \<noteq> Pass_used" if "q \<in> set (passes w)" "entry_id q = entry_id p" for q
    using only_pass [of w p q] assms that by (simp add: usable_def spent_by_def)
  then have "pid \<in> used_ids (use_pass p f x n w) \<longleftrightarrow> pid = entry_id p \<or> pid \<in> used_ids w" for pid
    using assms unfolding used_ids_iff use_pass_members [OF assms] by (auto simp: usable_def spent_by_def)
  then show ?thesis by auto
qed

lemma no_admission:
  assumes "usable w p f x n"
  shows "entry_id p \<notin> admitted_pass ` set (admissions w)"
proof
  assume "entry_id p \<in> admitted_pass ` set (admissions w)"
  then obtain y where "y \<in> set (admissions w)" "admitted_pass y = entry_id p" by auto
  then obtain q where "q \<in> set (passes w)" "entry_id q = entry_id p" "entry_status q = Pass_used"
    using assms unfolding usable_def sound_def wf_def admissions_ok_def admission_of_def by metis
  then show False using only_pass [of w p q] assms by (simp add: usable_def spent_by_def)
qed

lemma use_pass_admissions_ok:
  assumes use: "usable w p f x n"
  shows "admissions_ok (use_pass p f x n w)"
proof -
  let ?w = "use_pass p f x n w"
  have adm: "admissions ?w = admissions w @ [x]" by (simp add: use_pass_def)
  have fresh: "admitted_pass x \<notin> admitted_pass ` set (admissions w)"
    using no_admission [OF use] use by (simp add: usable_def spent_by_def)
  have prior: "admissions_ok w" using use by (simp add: usable_def sound_def wf_def)
  have old: "\<exists>q\<in>set (passes ?w). admission_of ?w y q" if y: "y \<in> set (admissions w)" for y
  proof -
    obtain q where q: "q \<in> set (passes w)" "admission_of w y q"
      using y prior unfolding admissions_ok_def by metis
    then have "admitted_pass y = entry_id q" by (simp add: admission_of_def)
    then have "entry_id q \<noteq> entry_id p" using no_admission [OF use] y by (metis imageI)
    with q show ?thesis unfolding use_pass_members [OF use] by (auto simp: admission_of_def)
  qed
  have new: "admission_of ?w x (f p)" using use by (simp add: admission_of_def usable_def spent_by_def)
  have all_used: "entry_id q \<in> admitted_pass ` set (admissions ?w)"
    if "q \<in> set (passes ?w)" "entry_status q = Pass_used" for q
    using that use prior unfolding use_pass_members [OF use] admissions_ok_def
    by (auto simp: adm usable_def spent_by_def)
  have "distinct (map admitted_pass (admissions ?w))"
    using prior fresh by (simp add: adm admissions_ok_def)
  moreover have "\<exists>q\<in>set (passes ?w). admission_of ?w y q" if "y \<in> set (admissions ?w)" for y
  proof (cases "y = x")
    case True
    then show ?thesis using new use_pass_members [OF use] by blast
  next
    case False
    then show ?thesis using that old by (simp add: adm)
  qed
  ultimately show ?thesis using all_used by (simp add: admissions_ok_def)
qed

lemma use_pass_sound:
  assumes use: "usable w p f x n"
  shows "sound (use_pass p f x n w)"
proof -
  let ?w = "use_pass p f x n w"
  have wfw: "wf w" and places: "places_ok w" and n: "next_id w \<le> n" and p: "p \<in> set (passes w)"
    using use by (simp_all add: usable_def sound_def)
  have same: "next_id ?w = n" "rsvps ?w = rsvps w" "events ?w = events w" "reservations ?w = reservations w"
    "scans ?w = scans w" by (simp_all add: use_pass_def)
  have bound: "entry_id q < n \<and> entry_key q \<in> rsvp_key ` set (rsvps w)" if "q \<in> set (passes w)" for q
    using that wfw n unfolding wf_def passes_ok_def by force
  then have "entry_id q < n \<and> entry_key q \<in> rsvp_key ` set (rsvps w)" if "q \<in> set (passes ?w)" for q
    using that use p unfolding use_pass_members [OF use] by (auto simp: usable_def spent_by_def)
  then have "passes_ok ?w"
    using wfw unfolding passes_ok_def use_pass_map [OF use] same by (simp add: wf_def passes_ok_def)
  moreover have "events_ok ?w" using wfw n unfolding wf_def events_ok_def same by force
  moreover have "answers_ok ?w" using wfw unfolding wf_def answers_ok_def same by simp
  moreover have "scans_ok ?w"
    using wfw unfolding wf_def scans_ok_def use_pass_used [OF use] admitted_scans_def same by simp
  moreover have "places_ok ?w"
    using places unfolding places_ok_def counts_ok_def confirmed_ok_def held_places_def same .
  ultimately show ?thesis using use_pass_admissions_ok [OF use] by (simp add: sound_def wf_def)
qed

section \<open>The door\<close>

lemma decide_refuses: "decide env ev v w = Refuse reply pid \<Longrightarrow> scan_state reply \<noteq> Admitted"
  unfolding decide_def Let_def
  by (auto simp: refusal_def already_used_def split: option.splits list.splits if_splits)

lemma decide_admits:
  assumes "decide env ev v w = Admit p"
  shows "p \<in> set (passes w)" "entry_status p = Pass_active" "entry_event p = event_id ev"
proof -
  have "p \<in> set (matching_passes env (event_id ev) v w) \<and> entry_status p = Pass_active"
    using assms unfolding decide_def Let_def
    by (auto simp: already_used_def split: option.splits list.splits if_splits)
  then show "p \<in> set (passes w)" "entry_status p = Pass_active" "entry_event p = event_id ev"
    by (auto simp: matching_passes_def Let_def)
qed

definition add_scan :: "scan_row \<Rightarrow> wedding \<Rightarrow> wedding" where
  "add_scan s w = w\<lparr>scans := scans w @ [s]\<rparr>"

lemma sound_add_scan:
  assumes "sound w" "scan_request s \<notin> scan_request ` set (scans w)"
    and "scan_state (scan_reply s) = Admitted \<Longrightarrow>
      \<exists>pid\<in>used_ids w. scan_pass s = Some pid \<and> scan_pass s \<notin> scan_pass ` set (admitted_scans w)"
  shows "sound (add_scan s w)"
proof -
  have used: "used_ids (add_scan s w) = used_ids w" by (simp add: used_ids_def add_scan_def)
  have "scans_ok (add_scan s w)"
    using assms unfolding sound_def wf_def scans_ok_def used by (auto simp: add_scan_def admitted_scans_def)
  moreover have same: "next_id (add_scan s w) = next_id w" "rsvps (add_scan s w) = rsvps w" "events (add_scan s w) = events w"
    "reservations (add_scan s w) = reservations w" "passes (add_scan s w) = passes w" "admissions (add_scan s w) = admissions w"
    by (simp_all add: add_scan_def)
  moreover have "events_ok (add_scan s w) = events_ok w" "passes_ok (add_scan s w) = passes_ok w"
    "answers_ok (add_scan s w) = answers_ok w" "admissions_ok (add_scan s w) = admissions_ok w"
    "places_ok (add_scan s w) = places_ok w"
    by (simp_all only: events_ok_def passes_ok_def answers_ok_def admissions_ok_def admission_of_def places_ok_def
        counts_ok_def confirmed_ok_def held_places_def same)
  ultimately show ?thesis using assms(1) by (simp add: sound_def wf_def)
qed

lemma log_scan_add_scan:
  "framed (add_scan \<lparr>scan_event = e, scan_actor = who, scan_key = key, scan_hash = door_hash env (''scan-operation:'' @ v),
      scan_reply = reply, scan_pass = pid\<rparr> w) (log_scan env who e v key reply pid w)"
  by (simp add: log_scan_def add_scan_def framed_audit)

definition scan_request_free :: "uuid \<Rightarrow> uuid \<Rightarrow> string \<Rightarrow> wedding \<Rightarrow> bool" where
  "scan_request_free who e key w = ((who, e, key) \<notin> scan_request ` set (scans w))"

lemma no_scan_found:
  "List.find (\<lambda>x. scan_actor x = who \<and> scan_event x = e \<and> scan_key x = key) (scans w) = None \<Longrightarrow>
    scan_request_free who e key w"
  by (auto simp: find_None_iff' scan_request_free_def scan_request_def)

lemma decided_event: "find_event e w = Some ev \<Longrightarrow> event_id ev = e"
  unfolding find_event_def by (drule find_SomeD) simp

lemma lawful_refusal:
  assumes "scan_request_free who e key w" "scan_state reply \<noteq> Admitted"
  shows "lawful w (log_scan env who e v key reply pid w)"
proof (rule lawful_framed [OF log_scan_add_scan])
  have "used_ids (add_scan s w) = used_ids w" for s by (simp add: used_ids_def add_scan_def)
  then show "lawful w (add_scan \<lparr>scan_event = e, scan_actor = who, scan_key = key,
      scan_hash = door_hash env (''scan-operation:'' @ v), scan_reply = reply, scan_pass = pid\<rparr> w)"
    using assms by (auto simp: lawful_def scan_request_free_def scan_request_def intro!: sound_add_scan)
qed

section \<open>An admission\<close>

definition admission_by :: "uuid \<Rightarrow> uuid \<Rightarrow> entry_pass \<Rightarrow> admission_row" where
  "admission_by who aid p = \<lparr>admission_id = aid, admitted_pass = entry_id p, admitted_event = entry_event p,
     admitted_attendee = entry_attendee p, admitted_by = Some who\<rparr>"

lemma usable_spend:
  assumes "sound w" "p \<in> set (passes w)" "entry_status p = Pass_active"
  shows "usable w p (spend env who) (admission_by who aid p) (Suc (next_id w))"
  using assms by (simp add: usable_def spent_by_def spend_def admission_by_def entry_key_def)

definition admitted_scan :: "door_env \<Rightarrow> uuid \<Rightarrow> string \<Rightarrow> string \<Rightarrow> entry_pass \<Rightarrow> wedding \<Rightarrow> scan_row" where
  "admitted_scan env who v key p w = \<lparr>scan_event = entry_event p, scan_actor = who, scan_key = key,
     scan_hash = door_hash env (''scan-operation:'' @ v),
     scan_reply = \<lparr>scan_state = Admitted, scan_name = name_of (entry_attendee p) w, scan_used_at = Some (door_now env)\<rparr>,
     scan_pass = Some (entry_id p)\<rparr>"

lemma admit_writes_framed:
  assumes "sound w" "p \<in> set (passes w)" "entry_status p = Pass_active" "entry_event p = e"
    and "admit_writes env who e v key aid p w = (reply, w')"
  shows "framed (add_scan (admitted_scan env who v key p w)
      (use_pass p (spend env who) (admission_by who aid p) (Suc (next_id w)) w)) w'"
proof -
  have "update_where (\<lambda>q. entry_id q = entry_id p \<and> entry_status q = Pass_active) (spend env who) (passes w) =
      update_where (\<lambda>q. entry_id q = entry_id p) (spend env who) (passes w)"
    using assms(1-3) only_pass [of w p] unfolding update_where_def by (auto intro!: map_cong)
  then show ?thesis
    using assms(4,5) by (auto simp: admit_writes_def Let_def framed_def log_scan_def pass_history_def audit_def
        record_history_def add_scan_def use_pass_def admitted_scan_def admission_by_def)
qed

lemma admit_writes_sound:
  assumes "sound w" "p \<in> set (passes w)" "entry_status p = Pass_active" "entry_event p = e"
    and "scan_request_free who e key w" "admit_writes env who e v key aid p w = (reply, w')"
  shows "sound w' \<and> used_ids w' = insert (entry_id p) (used_ids w)"
proof -
  let ?u = "use_pass p (spend env who) (admission_by who aid p) (Suc (next_id w)) w"
  let ?s = "admitted_scan env who v key p w"
  note use = usable_spend [OF assms(1-3), of env who aid]
  have fresh: "entry_id p \<notin> used_ids w"
    using only_pass [OF assms(1,2)] assms(3) unfolding used_ids_iff by force
  have scans: "scans ?u = scans w" by (simp add: use_pass_def)
  have "\<forall>s\<in>set (admitted_scans w). \<exists>pid\<in>used_ids w. scan_pass s = Some pid"
    using assms(1) unfolding sound_def wf_def scans_ok_def by simp
  then have "Some (entry_id p) \<notin> scan_pass ` set (admitted_scans ?u)"
    using fresh unfolding admitted_scans_def scans by force
  then have "sound (add_scan ?s ?u)"
    using assms(4,5) use_pass_sound [OF use] use_pass_used [OF use]
    by (intro sound_add_scan) (auto simp: scan_request_free_def scan_request_def admitted_scan_def scans)
  moreover have "used_ids (add_scan ?s ?u) = used_ids ?u" by (simp add: used_ids_def add_scan_def)
  ultimately show ?thesis
    using framed_wf framed_places framed_used use_pass_used [OF use] admit_writes_framed [OF assms(1-4,6)]
    by (simp add: sound_def)
qed

section \<open>The scan\<close>

text \<open>What a scan can do to the tables.\<close>

datatype scan_effect =
    No_effect
  | Refused scan_outcome "uuid option"
  | Let_in entry_pass uuid

definition scan_effect_of ::
  "door_env \<Rightarrow> uuid \<Rightarrow> uuid \<Rightarrow> string \<Rightarrow> string \<Rightarrow> wedding \<Rightarrow> scan_effect \<Rightarrow> wedding" where
  "scan_effect_of env who e v key w x =
     (case x of No_effect \<Rightarrow> w | Refused reply pid \<Rightarrow> log_scan env who e v key reply pid w
      | Let_in p aid \<Rightarrow> snd (admit_writes env who e v key aid p w))"

definition scan_possible :: "uuid \<Rightarrow> uuid \<Rightarrow> string \<Rightarrow> wedding \<Rightarrow> scan_effect \<Rightarrow> bool" where
  "scan_possible who e key w x =
     (case x of No_effect \<Rightarrow> True
      | Refused reply pid \<Rightarrow> scan_request_free who e key w \<and> scan_state reply \<noteq> Admitted
      | Let_in p aid \<Rightarrow> scan_request_free who e key w \<and> p \<in> set (passes w) \<and> entry_status p = Pass_active \<and>
          entry_event p = e)"

definition let_in_by :: "scan_effect \<Rightarrow> uuid option" where
  "let_in_by x = (case x of Let_in p _ \<Rightarrow> Some (entry_id p) | _ \<Rightarrow> None)"

lemma admit_effect:
  assumes "admit env who e v key p l w = (Inr (d, w', pr), l')"
  obtains aid where "snd (admit_writes env who e v key aid p w) = w'" "admitted_now d = Some (entry_id p)"
    "door_outcome d = fst (admit_writes env who e v key aid p w)"
proof -
  define aid where "aid previous = (case (previous :: ledger_record option) of Some r \<Rightarrow> ledger_admission r | None \<Rightarrow> next_id w)" for previous
  obtain previous where pr: "recorded env (entry_id p) l = Inr previous"
    using assms unfolding admit_def by (cases "recorded env (entry_id p) l") simp_all
  obtain reply v' where aw: "admit_writes env who e v key (aid previous) p w = (reply, v')" by fastforce
  have "v' = w'" "admitted_now d = Some (entry_id p)" "door_outcome d = reply"
    using assms aw unfolding admit_def pr aid_def [symmetric] Let_def sum.case
    by (auto split: if_splits prod.splits)
  then show thesis using that [of "aid previous"] aw by simp
qed

lemma redeem_transaction_effect:
  assumes "redeem_transaction env who e v key l w = (Inr (d, w', pr), l')"
  obtains x where "scan_possible who e key w x" "w' = scan_effect_of env who e v key w x" "admitted_now d = let_in_by x"
proof -
  from assms obtain ev where ev: "find_event e w = Some ev"
    and body: "(case List.find (\<lambda>x. scan_actor x = who \<and> scan_event x = e \<and> scan_key x = key) (scans w) of
           Some sc \<Rightarrow> (repeated env who v key sc l w, l)
         | None \<Rightarrow> (case decide env ev v w of
              Refuse reply pid \<Rightarrow> (Inr (\<lparr>door_outcome = reply, admitted_now = None\<rparr>,
                log_scan env who e v key reply pid w, None), l)
            | Admit p \<Rightarrow> admit env who e v key p l w)) = (Inr (d, w', pr), l')"
    unfolding redeem_transaction_def legacyHold_def by (auto split: sum.splits option.splits)
  show thesis
  proof (cases "List.find (\<lambda>x. scan_actor x = who \<and> scan_event x = e \<and> scan_key x = key) (scans w)")
    case (Some sc)
    have "repeated env who v key sc l w = Inr (d, w', pr)" using body unfolding Some by auto
    then have "w' = w" "admitted_now d = None"
      unfolding repeated_def Let_def by (auto split: scan_state.splits option.splits sum.splits)
    then show thesis using that [of No_effect] by (simp add: scan_possible_def scan_effect_of_def let_in_by_def)
  next
    case None
    note free = no_scan_found [OF None]
    show thesis
    proof (cases "decide env ev v w")
      case (Refuse reply pid)
      then show thesis using body None that [of "Refused reply pid"] free decide_refuses [OF Refuse]
        by (auto simp: scan_possible_def scan_effect_of_def let_in_by_def)
    next
      case (Admit p)
      with body None have "admit env who e v key p l w = (Inr (d, w', pr), l')" by simp
      then obtain aid where "snd (admit_writes env who e v key aid p w) = w'" "admitted_now d = Some (entry_id p)"
        by (rule admit_effect)
      then show thesis using that [of "Let_in p aid"] free decide_admits [OF Admit] decided_event [OF ev]
        by (simp add: scan_possible_def scan_effect_of_def let_in_by_def)
    qed
  qed
qed

lemma redeem_result:
  assumes "redeem_transaction env who e v key l w = (Inr (d, w1, pr), l1)" "redeem env who e v key l w = (r, l', w')"
  shows "w' = w1 \<and> (\<forall>d'. r = Inr d' \<longrightarrow> d' = d)"
proof (cases pr)
  case None
  show ?thesis using assms(2) unfolding redeem_def assms(1) None by auto
next
  case (Some x)
  obtain pid rec where x: "x = (pid, rec)" by (cases x)
  obtain ok l2 where put: "ledger_put (commit_write env) pid (rec\<lparr>committed := True\<rparr>) l1 = (ok, l2)" by fastforce
  show ?thesis
    using assms(2) unfolding redeem_def assms(1) Some x option.case prod.case sum.case put
    by (auto split: if_splits bool.splits)
qed

lemma redeem_effect:
  assumes "redeem env who e v key l w = (r, l', w')"
  obtains x where "scan_possible who e key w x" "w' = scan_effect_of env who e v key w x"
    "\<forall>d. r = Inr d \<longrightarrow> admitted_now d = let_in_by x"
proof (cases "redeem_transaction env who e v key l w")
  case (Pair t l1)
  show thesis
  proof (cases t)
    case (Inl err)
    have "w' = w" "\<And>d. r \<noteq> Inr d"
      using assms unfolding redeem_def Pair Inl by auto
    then show thesis using that [of No_effect] by (simp add: scan_possible_def scan_effect_of_def)
  next
    case (Inr y)
    obtain d w1 pr where y: "y = (d, w1, pr)" by (cases y)
    with Pair Inr have tr: "redeem_transaction env who e v key l w = (Inr (d, w1, pr), l1)" by simp
    obtain x where x: "scan_possible who e key w x" "w1 = scan_effect_of env who e v key w x" "admitted_now d = let_in_by x"
      using tr by (rule redeem_transaction_effect)
    have "w' = w1" "\<And>d'. r = Inr d' \<Longrightarrow> d' = d"
      using redeem_result [OF tr assms] by simp_all
    then show thesis using x by (intro that [of x]) auto
  qed
qed

lemma scan_effect_lawful:
  assumes "scan_possible who e key w x"
  shows "lawful w (scan_effect_of env who e v key w x)"
proof (cases x)
  case No_effect
  then show ?thesis by (simp add: scan_effect_of_def)
next
  case (Refused reply pid)
  then show ?thesis using assms by (simp add: scan_effect_of_def scan_possible_def lawful_refusal)
next
  case (Let_in p aid)
  obtain reply w' where "admit_writes env who e v key aid p w = (reply, w')" by (cases "admit_writes env who e v key aid p w")
  then show ?thesis using assms Let_in admit_writes_sound [of w p e who key env v aid reply w']
    by (auto simp: scan_effect_of_def scan_possible_def lawful_def)
qed

lemma scan_effect_spends:
  assumes "sound w" "scan_possible who e key w x" "let_in_by x = Some pid"
  shows "pid \<notin> used_ids w \<and> pid \<in> used_ids (scan_effect_of env who e v key w x)"
proof -
  obtain p aid where x: "x = Let_in p aid" "entry_id p = pid"
    using assms(3) by (auto simp: let_in_by_def split: scan_effect.splits)
  obtain reply w' where aw: "admit_writes env who e v key aid p w = (reply, w')"
    by (cases "admit_writes env who e v key aid p w")
  have p: "p \<in> set (passes w)" "entry_status p = Pass_active" "entry_event p = e" "scan_request_free who e key w"
    using assms(2) x by (simp_all add: scan_possible_def)
  have "pid \<notin> used_ids w" using only_pass [OF assms(1) p(1)] p(2) x(2) unfolding used_ids_iff by force
  then show ?thesis using admit_writes_sound [OF assms(1) p aw] x aw by (simp add: scan_effect_of_def)
qed

section \<open>Expiry and recovery\<close>

lemma lawful_sweep: "lawful w (sweep now w)"
  unfolding sweep_def Let_def
  by (rule lawful_framed [OF framed_fold [OF framed_pass_history] lawful_update_passes])
    (simp add: same_lineage_def expired_def entry_key_def)

lemma lawful_quarantine: "lawful w (quarantineRestoredAccess w)"
proof -
  let ?v = "w\<lparr>passes := update_where (\<lambda>p. entry_status p = Pass_active) quarantined (passes w)\<rparr>"
  have "framed ?v (quarantineRestoredAccess w)" by (simp add: framed_def quarantineRestoredAccess_def)
  then show ?thesis
    by (rule lawful_framed) (simp add: lawful_update_passes quarantined_def same_lineage_revoked)
qed

lemma replay_record_cases:
  assumes "sound w"
  obtains (framed) "framed w (replay_record known (pid, r) w)"
    | (used) p x where "usable w p (replayed known r) x (next_id w)" "entry_id p = pid"
        "framed (use_pass p (replayed known r) x (next_id w) w) (replay_record known (pid, r) w)"
proof (cases "deleted w")
  case True
  then show thesis by (intro framed) (simp add: replay_record_def)
next
  case False
  note live = this
  show thesis
  proof (cases "find_pass pid w")
    case None
    then show thesis using live by (intro framed) (simp add: replay_record_def framed_add_hold)
  next
    case (Some p)
    note p = find_pass_SomeD [OF Some]
    show thesis
    proof (cases "entry_attendee p \<noteq> ledger_attendee r \<or> entry_event p \<noteq> ledger_event r \<or> entry_status p = Pass_used \<or>
        \<not> committed r")
      case True
      then show thesis using live Some
        by (intro framed) (auto simp: replay_record_def framed_add_hold)
    next
      case False
      let ?x = "\<lparr>admission_id = ledger_admission r, admitted_pass = pid, admitted_event = ledger_event r,
        admitted_attendee = ledger_attendee r,
        admitted_by = (if known (ledger_actor r) then Some (ledger_actor r) else None)\<rparr>"
      have use: "usable w p (replayed known r) ?x (next_id w)"
        using False p assms by (simp add: usable_def spent_by_def replayed_def entry_key_def)
      then have "\<not> list_ex (\<lambda>x. admitted_pass x = pid) (admissions w)"
        using no_admission [OF use] p unfolding list_ex_iff by (metis imageI)
      then have "framed (use_pass p (replayed known r) ?x (next_id w) w) (replay_record known (pid, r) w)"
        using False Some live p
        by (simp add: replay_record_def replay_admission_def framed_def use_pass_def audit_def)
      then show thesis using use p by (intro used) auto
    qed
  qed
qed

lemma lawful_replay_record: "lawful w (replay_record known x w)"
proof (cases "sound w")
  case True
  obtain pid r where x: "x = (pid, r)" by (cases x)
  from True have "lawful w (replay_record known (pid, r) w)"
  proof (cases rule: replay_record_cases [of w known pid r])
    case framed
    then show ?thesis by (rule framed_lawful)
  next
    case (used p y)
    then have "lawful w (use_pass p (replayed known r) y (next_id w) w)"
      using use_pass_sound [OF used(1)] use_pass_used [OF used(1)] by (auto simp: lawful_def)
    then show ?thesis using used(3) by (rule lawful_framed [rotated])
  qed
  then show ?thesis by (simp only: x)
qed (simp add: lawful_def)

lemma lawful_replay: "lawful w (admissionState known rs w)"
  unfolding admissionState_def
  by (induction rs arbitrary: w) (auto intro: lawful_trans lawful_replay_record)

lemma lawful_resolve: "resolveAdmissionHold env who pid reason l w = Inr (l', w') \<Longrightarrow> lawful w w'"
  unfolding resolveAdmissionHold_def sensitive_operator_def
  by (auto split: option.splits sum.splits if_splits
      intro!: framed_lawful framed_trans [OF framed_release_hold framed_audit])

end
