(* ===== verification/PlaceRules.thy ===== *)
theory PlaceRules
  imports PlatformRules
begin

text \<open>
  The handlers that give and release places are lawful: submitting a household's answers,
  approving, removing and correcting a guest, and editing an event keep every count equal to
  the places held, within capacity, and keep places and confirmed answers the same.
\<close>

section \<open>Single statements\<close>

lemma held_release:
  assumes "distinct (reservations w)"
  shows "held_places e' (release a e w) = held_places e' w - (if e' = e \<and> (a, e) \<in> set (reservations w) then 1 else 0)"
proof -
  have "int (length (filter (\<lambda>r. snd r = e') (filter (\<lambda>r. r \<noteq> (a, e)) rs))) =
      int (length (filter (\<lambda>r. snd r = e') rs)) - (if e' = e \<and> (a, e) \<in> set rs then 1 else 0)"
    if "distinct rs" for rs :: "(uuid \<times> uuid) list"
    using that by (induction rs) (auto simp: split_paired_all intro: arg_cong [where f = int] split: if_splits)
  then show ?thesis using assms by (simp add: held_places_def release_def)
qed

lemma held_reserve: "held_places e' (reserve a e w) = held_places e' w + (if e' = e then 1 else 0)"
  by (simp add: held_places_def reserve_def)

text \<open>Tables whose passes, admissions and scans are those of a well-formed wedding.\<close>

definition same_passes :: "wedding \<Rightarrow> wedding \<Rightarrow> bool" where
  "same_passes w w' = (passes w' = passes w \<and> admissions w' = admissions w \<and> scans w' = scans w \<and>
     next_id w \<le> next_id w' \<and> rsvp_key ` set (rsvps w) \<subseteq> rsvp_key ` set (rsvps w'))"

lemma same_passes_used: "same_passes w w' \<Longrightarrow> used_ids w' = used_ids w"
  by (simp add: same_passes_def used_ids_def)

lemma wf_same_passes:
  assumes "wf w" "same_passes w w'" "events_ok w'" "answers_ok w'"
  shows "wf w'"
proof -
  have same: "passes w' = passes w" "admissions w' = admissions w" "scans w' = scans w"
    using assms(2) by (simp_all add: same_passes_def)
  have "passes_ok w'"
    using assms(1,2) unfolding wf_def passes_ok_def same_passes_def by fastforce
  moreover have "admissions_ok w'" using assms(1) unfolding wf_def admissions_ok_def admission_of_def same by simp
  moreover have "scans_ok w'"
    using assms(1) unfolding wf_def scans_ok_def admitted_scans_def same_passes_used [OF assms(2)] same by simp
  ultimately show ?thesis using assms(3,4) by (simp add: wf_def)
qed

lemma wf_events_fields:
  assumes "wf w" "map event_id evs = map event_id (events w)"
  shows "wf (w\<lparr>events := evs\<rparr>)"
proof (rule wf_same_passes [OF assms(1)])
  have ids: "event_id ` set evs = event_id ` set (events w)" using assms(2) by (metis set_map)
  show "events_ok (w\<lparr>events := evs\<rparr>)"
    using assms ids unfolding wf_def events_ok_def by (auto simp: image_iff) (metis (no_types) imageE imageI)
  show "answers_ok (w\<lparr>events := evs\<rparr>)" using assms(1) ids unfolding wf_def answers_ok_def by simp
qed (simp add: same_passes_def)

lemma set_count_ids:
  "map event_id (update_where (\<lambda>x. event_id x = e) (\<lambda>x. x\<lparr>confirmed_count := g (confirmed_count x)\<rparr>) evs) = map event_id evs"
  by (simp add: map_update_where)

lemma wf_set_count: "wf w \<Longrightarrow> wf (set_count e g w)"
  by (simp add: set_count_def wf_events_fields set_count_ids)

lemma wf_release:
  assumes "wf w"
  shows "wf (release a e w)"
proof (rule wf_same_passes [OF assms])
  show "events_ok (release a e w)" using assms by (simp add: wf_def events_ok_def release_def)
  show "answers_ok (release a e w)" using assms by (auto simp: wf_def answers_ok_def release_def)
qed (simp add: same_passes_def release_def)

lemma upsert_keys:
  "rsvp_key ` set (rsvps (upsert_rsvp a e st ans w)) = insert (a, e) (rsvp_key ` set (rsvps w))"
  "distinct (map rsvp_key (rsvps (upsert_rsvp a e st ans w))) = distinct (map rsvp_key (rsvps w))"
proof -
  have "map rsvp_key (update_where (\<lambda>r. rsvp_attendee r = a \<and> rsvp_event r = e)
      (\<lambda>r. r\<lparr>rsvp_state := st, rsvp_answers := ans, rsvp_version := Suc (rsvp_version r)\<rparr>) (rsvps w)) = map rsvp_key (rsvps w)"
    by (simp add: map_update_where rsvp_key_def)
  then have old: "map rsvp_key (rsvps (upsert_rsvp a e st ans w)) = map rsvp_key (rsvps w)" if "find_rsvp a e w \<noteq> None"
    using that by (simp add: upsert_rsvp_def)
  have new: "map rsvp_key (rsvps (upsert_rsvp a e st ans w)) = map rsvp_key (rsvps w) @ [(a, e)]" if "find_rsvp a e w = None"
    using that by (simp add: upsert_rsvp_def rsvp_key_def)
  have known: "(find_rsvp a e w = None) = ((a, e) \<notin> rsvp_key ` set (rsvps w))"
    by (auto simp: find_rsvp_def find_None_iff' rsvp_key_def)
  show "rsvp_key ` set (rsvps (upsert_rsvp a e st ans w)) = insert (a, e) (rsvp_key ` set (rsvps w))"
    using old new known by (cases "find_rsvp a e w = None") (auto simp flip: set_map)
  show "distinct (map rsvp_key (rsvps (upsert_rsvp a e st ans w))) = distinct (map rsvp_key (rsvps w))"
    using old new known by (cases "find_rsvp a e w = None") auto
qed

lemma upsert_fields:
  "events (upsert_rsvp a e st ans w) = events w" "reservations (upsert_rsvp a e st ans w) = reservations w"
  "passes (upsert_rsvp a e st ans w) = passes w" "admissions (upsert_rsvp a e st ans w) = admissions w"
  "scans (upsert_rsvp a e st ans w) = scans w" "next_id (upsert_rsvp a e st ans w) = next_id w"
  by (simp_all add: upsert_rsvp_def)

lemma upsert_states:
  assumes "r \<in> set (rsvps (upsert_rsvp a e st ans w))"
  shows "(rsvp_key r = (a, e) \<and> rsvp_state r = st) \<or> (rsvp_key r \<noteq> (a, e) \<and> r \<in> set (rsvps w))"
  using assms unfolding upsert_rsvp_def
  by (auto simp: rsvp_key_def set_update_where find_rsvp_def find_None_iff' split: if_splits)

lemma upsert_events:
  "r \<in> set (rsvps (upsert_rsvp a e st ans w)) \<Longrightarrow> rsvp_event r = e \<or> (\<exists>q\<in>set (rsvps w). rsvp_event r = rsvp_event q)"
  using upsert_states [of r a e st ans w] by (auto simp: rsvp_key_def)

text \<open>An answer and, perhaps, a place for it.\<close>

definition seat :: "bool \<Rightarrow> uuid \<Rightarrow> uuid \<Rightarrow> rsvp_state \<Rightarrow> answers \<Rightarrow> wedding \<Rightarrow> wedding" where
  "seat taken a e st ans w = upsert_rsvp a e st ans (if taken then reserve a e w else w)"

lemma wf_seat:
  assumes "wf w" "e \<in> event_id ` set (events w)" "taken \<Longrightarrow> (a, e) \<notin> set (reservations w)"
  shows "wf (seat taken a e st ans w) \<and> used_ids (seat taken a e st ans w) = used_ids w"
proof -
  let ?v = "if taken then reserve a e w else w"
  have v: "rsvps ?v = rsvps w" "events ?v = events w" "passes ?v = passes w" "admissions ?v = admissions w"
    "scans ?v = scans w" "next_id ?v = next_id w"
    by (simp_all add: reserve_def)
  have res: "set (reservations ?v) \<subseteq> insert (a, e) (set (reservations w))" "distinct (reservations ?v)"
    using assms by (auto simp: reserve_def wf_def answers_ok_def)
  have same: "same_passes w (seat taken a e st ans w)"
    unfolding same_passes_def seat_def upsert_fields upsert_keys v by auto
  moreover have "events_ok (seat taken a e st ans w)"
    using assms(1) unfolding wf_def events_ok_def seat_def upsert_fields v by simp
  moreover have "answers_ok (seat taken a e st ans w)"
  proof -
    have "rsvp_event r \<in> event_id ` set (events w)" if "r \<in> set (rsvps (seat taken a e st ans w))" for r
      using upsert_events [OF that [unfolded seat_def]] assms unfolding wf_def answers_ok_def v by auto
    then show ?thesis
      using assms(1) res unfolding wf_def answers_ok_def seat_def upsert_fields upsert_keys v by auto
  qed
  ultimately show ?thesis using wf_same_passes [OF assms(1)] same_passes_used by blast
qed

section \<open>The counter of one event\<close>

text \<open>The counts while a handler keeps the count of one event in a variable.\<close>

definition counts_at :: "uuid \<Rightarrow> int \<Rightarrow> wedding \<Rightarrow> bool" where
  "counts_at e n w = (n = held_places e w \<and> (\<forall>ev\<in>set (events w).
     fits (capacity ev) (held_places (event_id ev) w) \<and>
     (event_id ev \<noteq> e \<longrightarrow> confirmed_count ev = held_places (event_id ev) w)))"

lemma counts_ok_iff: "counts_ok w \<longleftrightarrow> (\<forall>ev\<in>set (events w).
    confirmed_count ev = held_places (event_id ev) w \<and> fits (capacity ev) (held_places (event_id ev) w))"
  unfolding counts_ok_def by metis

lemma counts_at_start:
  assumes "counts_ok w" "ev \<in> set (events w)"
  shows "counts_at (event_id ev) (confirmed_count ev) w"
  using assms by (simp add: counts_ok_iff counts_at_def)

lemma counts_at_end:
  assumes "counts_at e n w"
  shows "counts_ok (set_count e (\<lambda>_. n) w)"
proof -
  have held: "held_places e' (set_count e (\<lambda>_. n) w) = held_places e' w" for e'
    by (simp add: set_count_def held_places_def)
  show ?thesis using assms unfolding counts_ok_iff held counts_at_def
    by (auto simp: set_count_def elim!: in_update_where_cases)
qed

lemma counts_at_quiet: "quiet w w' \<Longrightarrow> counts_at e n w' = counts_at e n w"
  by (simp add: counts_at_def quiet_def held_places_def)

lemma fits_pred: "fits c n \<Longrightarrow> fits c (n - 1)"
  by (simp add: fits_def split: option.splits)

lemma counts_at_release:
  assumes "counts_at e n w" "distinct (reservations w)"
  shows "counts_at e (if (a, e) \<in> set (reservations w) then n - 1 else n) (release a e w)"
proof -
  have "events (release a e w) = events w" by (simp add: release_def)
  then show ?thesis using assms(1) unfolding counts_at_def held_release [OF assms(2)]
    by (auto intro: fits_pred)
qed

lemma counts_at_reserve:
  assumes "counts_at e n w" "\<And>ev. ev \<in> set (events w) \<Longrightarrow> event_id ev = e \<Longrightarrow> fits (capacity ev) (n + 1)"
  shows "counts_at e (n + 1) (reserve a e w)"
proof -
  have "events (reserve a e w) = events w" by (simp add: reserve_def)
  then show ?thesis using assms unfolding counts_at_def held_reserve by auto
qed

lemma counts_at_upsert: "counts_at e' n (upsert_rsvp a e st ans w) = counts_at e' n w"
  by (simp add: counts_at_def held_places_def upsert_fields)

section \<open>Submitting a household's answers\<close>

text \<open>Declined answers still to be written: their places are gone, their rows are old.\<close>

definition confirmed_but :: "(uuid \<times> uuid) set \<Rightarrow> wedding \<Rightarrow> bool" where
  "confirmed_but D w = (\<forall>r\<in>set (rsvps w). rsvp_key r \<notin> D \<longrightarrow>
     (rsvp_state r = Confirmed \<longleftrightarrow> rsvp_key r \<in> set (reservations w)))"

lemma confirmed_but_quiet: "quiet w w' \<Longrightarrow> confirmed_but D w' = confirmed_but D w"
  by (simp add: confirmed_but_def quiet_def)

definition declined_keys :: "uuid \<Rightarrow> rsvp_response list \<Rightarrow> (uuid \<times> uuid) set" where
  "declined_keys e rs = {(resp_attendee r, e) |r. r \<in> set rs \<and> \<not> resp_attending r}"

text \<open>The state between the statements of \<open>submit\<close>; \<open>w0\<close> are the tables it started from.\<close>

definition submitting :: "wedding \<Rightarrow> event_row \<Rightarrow> (uuid \<times> uuid) set \<Rightarrow> int \<Rightarrow> wedding \<Rightarrow> bool" where
  "submitting w0 ev D n w = (wf w \<and> used_ids w = used_ids w0 \<and> events w = events w0 \<and> ev \<in> set (events w0) \<and>
     counts_at (event_id ev) n w \<and> confirmed_but D w)"

lemma submitting_quiet: "quiet w w' \<Longrightarrow> submitting w0 ev D n w \<Longrightarrow> submitting w0 ev D n w'"
  using counts_at_quiet [of w w' "event_id ev" n] confirmed_but_quiet [of w w' D]
  by (simp add: submitting_def quiet_def)

lemma submitting_release:
  assumes "submitting w0 ev D n w" "(a, event_id ev) \<in> D"
  shows "submitting w0 ev D (if (a, event_id ev) \<in> set (reservations w) then n - 1 else n) (release a (event_id ev) w)"
proof -
  have "distinct (reservations w)" using assms(1) by (simp add: submitting_def wf_def answers_ok_def)
  then have "counts_at (event_id ev) (if (a, event_id ev) \<in> set (reservations w) then n - 1 else n) (release a (event_id ev) w)"
    using assms(1) by (intro counts_at_release) (simp_all add: submitting_def)
  then show ?thesis using assms wf_release [of w a "event_id ev"]
    by (auto simp: submitting_def confirmed_but_def release_def used_ids_def)
qed

lemma check_response_inv:
  assumes "check_response w0 rows (event_id ev) r (n, w) = Inr s'" "submitting w0 ev D n w"
    and "\<not> resp_attending r \<Longrightarrow> (resp_attendee r, event_id ev) \<in> D"
  shows "submitting w0 ev D (fst s') (snd s') \<and>
    set (reservations (snd s')) \<subseteq> set (reservations w) \<and>
    (\<not> resp_attending r \<longrightarrow> (resp_attendee r, event_id ev) \<notin> set (reservations (snd s')))"
proof -
  obtain a where a: "List.find (\<lambda>a. attendee_id a = resp_attendee r) rows = Some a"
    using assms(1) by (cases "List.find (\<lambda>a. attendee_id a = resp_attendee r) rows") (simp_all add: check_response_def)
  then have id: "attendee_id a = resp_attendee r" by (metis (mono_tags, lifting) find_SomeD)
  let ?w1 = "release (resp_attendee r) (event_id ev) w"
  let ?w2 = "revoke_where (\<lambda>p. entry_attendee p = resp_attendee r \<and> entry_event p = event_id ev) ''RSVP declined''
      (\<lambda>pid. pass_history pid ''revoked'' None (Some ''RSVP declined'')) ?w1"
  have s': "s' = (if resp_attending r then (n, w)
      else (if (resp_attendee r, event_id ev) \<in> set (reservations w) then n - 1 else n, ?w2))"
    using assms(1) a id unfolding check_response_def Let_def by (auto split: if_splits)
  show ?thesis
  proof (cases "resp_attending r")
    case True
    then show ?thesis using s' assms(2) by simp
  next
    case False
    have q: "quiet ?w1 ?w2" by (rule quiet_revoke_where) (rule framed_pass_history)
    have "submitting w0 ev D (fst s') (snd s')"
      using False s' submitting_quiet [OF q] submitting_release [OF assms(2) assms(3) [OF False]] by simp
    moreover have "reservations ?w2 = reservations ?w1" using q by (simp add: quiet_def)
    ultimately show ?thesis using False s' by (auto simp: release_def)
  qed
qed

lemma check_all_inv:
  assumes "each (check_response w0 rows (event_id ev)) rs (n, w) = Inr (n', w')" "submitting w0 ev D n w"
    and "\<And>r. r \<in> set rs \<Longrightarrow> \<not> resp_attending r \<Longrightarrow> (resp_attendee r, event_id ev) \<in> D"
  shows "submitting w0 ev D n' w' \<and> set (reservations w') \<subseteq> set (reservations w) \<and>
    declined_keys (event_id ev) rs \<inter> set (reservations w') = {}"
  using assms
proof (induction rs arbitrary: n w)
  case Nil
  then show ?case by (simp add: declined_keys_def)
next
  case (Cons r rs)
  obtain s1 where s1: "check_response w0 rows (event_id ev) r (n, w) = Inr s1"
    and rest: "each (check_response w0 rows (event_id ev)) rs s1 = Inr (n', w')"
    using Cons.prems(1) by (auto split: sum.splits)
  have one: "submitting w0 ev D (fst s1) (snd s1) \<and> set (reservations (snd s1)) \<subseteq> set (reservations w) \<and>
      (\<not> resp_attending r \<longrightarrow> (resp_attendee r, event_id ev) \<notin> set (reservations (snd s1)))"
    by (rule check_response_inv [OF s1 Cons.prems(2)]) (simp add: Cons.prems(3))
  have all: "submitting w0 ev D n' w' \<and> set (reservations w') \<subseteq> set (reservations (snd s1)) \<and>
      declined_keys (event_id ev) rs \<inter> set (reservations w') = {}"
    by (rule Cons.IH [of "fst s1" "snd s1"]) (use rest one Cons.prems(3) in simp_all)
  with one show ?case by (auto simp: declined_keys_def)
qed

definition takes_place :: "event_row \<Rightarrow> int \<Rightarrow> wedding \<Rightarrow> rsvp_response \<Rightarrow> uuid \<Rightarrow> bool" where
  "takes_place ev n w r i = (answered_state ev n ((i, event_id ev) \<in> set (reservations w)) r = Confirmed \<and>
     (i, event_id ev) \<notin> set (reservations w))"

lemma answer_response_seat:
  assumes "answer_response w0 ev q a r (n, w, out) = (n', w', out')"
  defines "e \<equiv> event_id ev" and "i \<equiv> attendee_id a"
  shows "n' = (if takes_place ev n w r i then n + 1 else n) \<and>
    quiet (seat (takes_place ev n w r i) i e (answered_state ev n ((i, e) \<in> set (reservations w)) r) (kept_answers q r) w) w'"
proof -
  let ?st = "answered_state ev n ((i, e) \<in> set (reservations w)) r"
  let ?s = "seat (takes_place ev n w r i) i e ?st (kept_answers q r) w"
  have taken: "(?st = Confirmed \<and> (i, e) \<notin> set (reservations w)) = takes_place ev n w r i"
    by (simp add: takes_place_def e_def)
  let ?w2 = "if resp_name r \<noteq> [] \<and> resp_name r \<noteq> attendee_name a
    then refreshTickets i None (rename i (resp_name r) ?s) else ?s"
  have "quiet ?s ?w2"
    using quiet_trans [OF framed_quiet [OF framed_rename] quiet_refreshTickets] by simp
  then have "quiet ?s (if c then add_issue_job j ?w2 else ?w2)" for c j
    using quiet_framed [OF framed_add_issue_job] by simp
  then show ?thesis
    using assms(1) unfolding answer_response_def Let_def prod.case i_def [symmetric] e_def [symmetric] taken
      seat_def [symmetric] by auto
qed

lemma takes_place_fits:
  assumes "takes_place ev n w r i"
  shows "resp_attending r \<and> fits (capacity ev) (n + 1)"
  using assms by (auto simp: takes_place_def answered_state_def fits_def split: if_splits option.splits)

lemma seat_inv:
  assumes inv: "submitting w0 ev D n w" and ids: "distinct (map event_id (events w0))"
    and declined: "\<not> resp_attending r \<Longrightarrow> (i, event_id ev) \<notin> set (reservations w)"
  defines "e \<equiv> event_id ev" and "taken \<equiv> takes_place ev n w r i"
  shows "submitting w0 ev (D - {(i, event_id ev)}) (if taken then n + 1 else n)
    (seat taken i e (answered_state ev n ((i, e) \<in> set (reservations w)) r) ans w)"
proof -
  let ?st = "answered_state ev n ((i, e) \<in> set (reservations w)) r"
  let ?s = "seat taken i e ?st ans w"
  have ev: "ev \<in> set (events w)" "events w = events w0" and w: "wf w" "used_ids w = used_ids w0"
    and cnt: "counts_at e n w" and conf: "confirmed_but D w"
    using inv by (simp_all add: submitting_def e_def)
  have wf: "wf ?s \<and> used_ids ?s = used_ids w"
    by (rule wf_seat [OF w(1)]) (use ev in \<open>auto simp: e_def taken_def takes_place_def\<close>)
  have only: "x = ev" if "x \<in> set (events w)" "event_id x = e" for x
    using that ev ids by (auto simp: distinct_map e_def dest: inj_onD)
  have evs: "events ?s = events w" by (simp add: seat_def upsert_fields reserve_def)
  have count: "counts_at e (if taken then n + 1 else n) ?s"
  proof (cases taken)
    case True
    then have "fits (capacity ev) (n + 1)" using takes_place_fits [of ev n w r i] by (simp add: taken_def)
    then have "counts_at e (n + 1) (reserve i e w)"
      by (intro counts_at_reserve [OF cnt]) (auto dest: only)
    then show ?thesis using True by (simp add: seat_def counts_at_upsert)
  next
    case False
    then show ?thesis using cnt by (simp add: seat_def counts_at_upsert)
  qed
  have "(?st = Confirmed) = ((i, e) \<in> set (reservations w) \<or> taken)"
    using declined by (auto simp: taken_def takes_place_def answered_state_def e_def split: if_splits)
  then have new: "(?st = Confirmed) = ((i, e) \<in> set (reservations ?s))"
    by (auto simp: seat_def upsert_fields reserve_def)
  have old: "(k \<in> set (reservations ?s)) = (k \<in> set (reservations w))" if "k \<noteq> (i, e)" for k
    using that by (auto simp: seat_def upsert_fields reserve_def)
  have "confirmed_but (D - {(i, e)}) ?s"
    unfolding confirmed_but_def
  proof (intro ballI impI)
    fix x assume x: "x \<in> set (rsvps ?s)" "rsvp_key x \<notin> D - {(i, e)}"
    have rs: "rsvps (if taken then reserve i e w else w) = rsvps w" by (simp add: reserve_def)
    show "(rsvp_state x = Confirmed) = (rsvp_key x \<in> set (reservations ?s))"
    proof (cases "rsvp_key x = (i, e)")
      case True
      then show ?thesis using upsert_states [OF x(1) [unfolded seat_def]] new by simp
    next
      case False
      then have "x \<in> set (rsvps w)" using upsert_states [OF x(1) [unfolded seat_def]] by (simp add: rs)
      then show ?thesis using False x(2) conf old [OF False] unfolding confirmed_but_def by auto
    qed
  qed
  then show ?thesis using wf count ev w evs by (simp add: submitting_def e_def)
qed

lemma seat_reservations:
  "set (reservations (seat taken i e st ans w)) = (if taken then insert (i, e) (set (reservations w)) else set (reservations w))"
  by (simp add: seat_def upsert_fields reserve_def)

lemma answer_all_inv:
  assumes "answer_all w0 ev q rows rs (n, w, out) = (n', w', out')"
    and "submitting w0 ev (declined_keys (event_id ev) rs) n w" "distinct (map event_id (events w0))"
    and "declined_keys (event_id ev) rs \<inter> set (reservations w) = {}"
    and "distinct (map resp_attendee rs)" "list_all (\<lambda>r. resp_attendee r \<in> attendee_id ` set rows) rs"
  shows "submitting w0 ev {} n' w'"
  using assms
proof (induction rs arbitrary: n w out)
  case Nil
  then show ?case by (simp add: declined_keys_def)
next
  case (Cons r rs)
  let ?e = "event_id ev" and ?i = "resp_attendee r"
  obtain a where a: "List.find (\<lambda>a. attendee_id a = ?i) rows = Some a"
    using Cons.prems(6) by (cases "List.find (\<lambda>a. attendee_id a = ?i) rows") (auto simp: find_None_iff')
  then have id: "attendee_id a = ?i" by (metis (mono_tags, lifting) find_SomeD)
  obtain n1 w1 out1 where step: "answer_response w0 ev q a r (n, w, out) = (n1, w1, out1)" by (metis prod_cases3)
  then have rest: "answer_all w0 ev q rows rs (n1, w1, out1) = (n', w', out')" using Cons.prems(1) a by simp
  define s where "s = seat (takes_place ev n w r ?i) ?i ?e
      (answered_state ev n ((?i, ?e) \<in> set (reservations w)) r) (kept_answers q r) w"
  have n1: "n1 = (if takes_place ev n w r ?i then n + 1 else n)" and quiet: "quiet s w1"
    using answer_response_seat [OF step] by (simp_all add: id s_def)
  let ?D = "declined_keys ?e (r # rs)"
  have here: "\<not> resp_attending r \<Longrightarrow> (?i, ?e) \<notin> set (reservations w)"
    using Cons.prems(4) by (auto simp: declined_keys_def)
  have "submitting w0 ev (?D - {(?i, ?e)}) n1 s"
    unfolding s_def n1 by (rule seat_inv [OF Cons.prems(2,3) here])
  moreover have D: "?D - {(?i, ?e)} = declined_keys ?e rs"
    using Cons.prems(5) by (auto simp: declined_keys_def) (metis imageI)
  ultimately have inv1: "submitting w0 ev (declined_keys ?e rs) n1 w1"
    using submitting_quiet [OF quiet] by simp
  have "declined_keys ?e rs \<inter> set (reservations w1) = {}"
  proof -
    have "reservations w1 = reservations s" using quiet by (simp add: quiet_def)
    moreover have "(?i, ?e) \<notin> declined_keys ?e rs" using D by blast
    moreover have "declined_keys ?e rs \<inter> set (reservations w) = {}" using Cons.prems(4) D by blast
    ultimately show ?thesis by (simp add: s_def seat_reservations)
  qed
  then show ?case using Cons.IH [OF rest inv1 Cons.prems(3)] Cons.prems(5,6) by simp
qed

lemma lawful_submit_answers:
  assumes "submit_answers env s e rs w = Inr (r, w')"
  shows "lawful w w'"
proof -
  from assms obtain ev n1 w1 n2 w2 out where ev: "find_event e w = Some ev"
    and ok: "allocation_ok (allocated w (session_party s) e) rs"
    and first: "each (check_response w (allocated w (session_party s) e) e) rs (confirmed_count ev, w) = Inr (n1, w1)"
    and second: "answer_all w ev (open_questions (submit_now env) ev) (allocated w (session_party s) e) rs (n1, w1, []) =
      (n2, w2, out)" and w': "w' = set_count e (\<lambda>_. n2) w2"
    by (auto simp: submit_answers_def Let_def split: option.splits sum.splits prod.splits)
  have mem: "ev \<in> set (events w)" and e: "e = event_id ev"
    using ev unfolding find_event_def by (metis (mono_tags, lifting) find_SomeD)+
  show ?thesis unfolding lawful_def
  proof (intro impI)
    assume snd: "sound w"
    let ?D = "declined_keys e rs"
    have start: "submitting w ev ?D (confirmed_count ev) w"
      using snd mem counts_at_start [of w ev]
      by (auto simp: submitting_def sound_def places_ok_def confirmed_ok_def confirmed_but_def)
    have mid: "submitting w ev ?D n1 w1 \<and> set (reservations w1) \<subseteq> set (reservations w) \<and> ?D \<inter> set (reservations w1) = {}"
      unfolding e by (rule check_all_inv [OF first [unfolded e] start [unfolded e]]) (auto simp: declined_keys_def)
    have ids: "distinct (map event_id (events w))" using snd by (simp add: sound_def wf_def events_ok_def)
    have fin: "submitting w ev {} n2 w2"
      using answer_all_inv [OF second _ ids] mid ok unfolding e by (simp add: allocation_ok_def)
    have "wf w'" unfolding w' by (rule wf_set_count) (use fin in \<open>simp add: submitting_def\<close>)
    moreover have "counts_ok w'" unfolding w' e by (rule counts_at_end) (use fin in \<open>simp add: submitting_def\<close>)
    moreover have "confirmed_ok w'"
      using fin by (simp add: w' submitting_def confirmed_but_def confirmed_ok_def set_count_def)
    moreover have "used_ids w' = used_ids w" using fin by (simp add: w' submitting_def set_count_def used_ids_def)
    ultimately show "sound w' \<and> used_ids w \<subseteq> used_ids w'" by (simp add: sound_def places_ok_def)
  qed
qed

lemma lawful_submit: "submit env session e rs key w = Inr (r, w') \<Longrightarrow> lawful w w'"
  unfolding submit_def
  by (auto split: option.splits sum.splits elim!: lawful_once
      intro!: lawful_framed [OF framed_audit] lawful_framed [OF framed_rsvp_mails] dest: lawful_submit_answers)

section \<open>Moving one place\<close>

text \<open>One place of attendee \<open>a\<close> at event \<open>e\<close> is taken or given up, and the answer follows.\<close>

definition moves_place :: "uuid \<Rightarrow> uuid \<Rightarrow> int \<Rightarrow> rsvp_state \<Rightarrow> wedding \<Rightarrow> wedding \<Rightarrow> bool" where
  "moves_place a e d st w w' =
     (same_passes w w' \<and>
      events w' = update_where (\<lambda>x. event_id x = e) (\<lambda>x. x\<lparr>confirmed_count := confirmed_count x + d\<rparr>) (events w) \<and>
      distinct (reservations w') \<and> set (reservations w') - {(a, e)} = set (reservations w) - {(a, e)} \<and>
      (\<forall>e'. held_places e' w' = held_places e' w + (if e' = e then d else 0)) \<and>
      map rsvp_key (rsvps w') = map rsvp_key (rsvps w) \<and>
      (st = Confirmed \<longleftrightarrow> (a, e) \<in> set (reservations w')) \<and>
      (\<forall>r\<in>set (rsvps w'). if rsvp_key r = (a, e) then rsvp_state r = st else r \<in> set (rsvps w)))"

lemma moves_place_sound:
  assumes snd: "sound w" and mv: "moves_place a e d st w w'"
    and key: "st = Confirmed \<Longrightarrow> (a, e) \<in> rsvp_key ` set (rsvps w)"
    and cap: "\<And>ev. ev \<in> set (events w) \<Longrightarrow> event_id ev = e \<Longrightarrow> fits (capacity ev) (confirmed_count ev + d)"
  shows "lawful w w'"
proof -
  have wfw: "wf w" and counts: "counts_ok w" and conf: "confirmed_ok w" using snd by (simp_all add: sound_def places_ok_def)
  note parts = mv [unfolded moves_place_def]
  note same = parts [THEN conjunct1]
    and evs = parts [THEN conjunct2, THEN conjunct1]
    and dist = parts [THEN conjunct2, THEN conjunct2, THEN conjunct1]
    and others = parts [THEN conjunct2, THEN conjunct2, THEN conjunct2, THEN conjunct1]
    and held = parts [THEN conjunct2, THEN conjunct2, THEN conjunct2, THEN conjunct2, THEN conjunct1, rule_format]
  note parts2 = parts [THEN conjunct2, THEN conjunct2, THEN conjunct2, THEN conjunct2, THEN conjunct2]
  note keys = parts2 [THEN conjunct1] and st = parts2 [THEN conjunct2, THEN conjunct1]
    and rows = parts2 [THEN conjunct2, THEN conjunct2, rule_format]
  have ids: "map event_id (events w') = map event_id (events w)" unfolding evs by (simp add: map_update_where)
  have key_set: "rsvp_key ` set (rsvps w') = rsvp_key ` set (rsvps w)" using keys by (metis set_map)
  have id_set: "event_id ` set (events w') = event_id ` set (events w)" using ids by (metis set_map)
  have "events_ok w'"
  proof -
    have "event_id x < next_id w'" if "x \<in> set (events w')" for x
    proof -
      have "event_id x \<in> event_id ` set (events w)" using that id_set by (metis imageI)
      then obtain y where "y \<in> set (events w)" "event_id x = event_id y" by blast
      then have "event_id x < next_id w" using wfw unfolding wf_def events_ok_def by simp
      also have "next_id w \<le> next_id w'" using same by (simp add: same_passes_def)
      finally show ?thesis .
    qed
    then show ?thesis using wfw ids by (simp add: wf_def events_ok_def)
  qed
  moreover have "answers_ok w'"
  proof -
    have "rsvp_event r \<in> event_id ` set (events w')" if "r \<in> set (rsvps w')" for r
    proof -
      have "rsvp_key r \<in> rsvp_key ` set (rsvps w)" using that key_set by (metis imageI)
      then obtain q where "q \<in> set (rsvps w)" "rsvp_key r = rsvp_key q" by blast
      then show ?thesis using wfw unfolding wf_def answers_ok_def id_set by (auto simp: rsvp_key_def)
    qed
    moreover have "k \<in> rsvp_key ` set (rsvps w')" if "k \<in> set (reservations w')" for k
    proof (cases "k = (a, e)")
      case True
      then show ?thesis using that st key key_set by simp
    next
      case False
      then have "k \<in> set (reservations w)" using that others by blast
      then show ?thesis using wfw unfolding wf_def answers_ok_def key_set by blast
    qed
    ultimately show ?thesis using wfw dist unfolding wf_def answers_ok_def keys by blast
  qed
  ultimately have "wf w'" using wf_same_passes [OF wfw same] by blast
  moreover have "counts_ok w'"
    unfolding counts_ok_def held
  proof (intro ballI)
    fix x assume "x \<in> set (events w')"
    then obtain y where y: "y \<in> set (events w)"
      "x = (if event_id y = e then y\<lparr>confirmed_count := confirmed_count y + d\<rparr> else y)"
      unfolding evs update_where_def by auto
    then show "confirmed_count x = held_places (event_id x) w + (if event_id x = e then d else 0) \<and>
        fits (capacity x) (confirmed_count x)"
      using counts cap [OF y(1)] unfolding counts_ok_def by auto
  qed
  moreover have "confirmed_ok w'"
    unfolding confirmed_ok_def
  proof (intro ballI)
    fix r assume r: "r \<in> set (rsvps w')"
    show "(rsvp_state r = Confirmed) = (rsvp_key r \<in> set (reservations w'))"
    proof (cases "rsvp_key r = (a, e)")
      case True
      then show ?thesis using rows [OF r] st by simp
    next
      case False
      then have "rsvp_key r \<in> set (reservations w') \<longleftrightarrow> rsvp_key r \<in> set (reservations w)" using others by blast
      then show ?thesis using False rows [OF r] conf by (simp add: confirmed_ok_def)
    qed
  qed
  ultimately show ?thesis using same_passes_used [OF same] by (simp add: lawful_def sound_def places_ok_def)
qed

lemma sound_fits: "sound w \<Longrightarrow> ev \<in> set (events w) \<Longrightarrow> fits (capacity ev) (confirmed_count ev)"
  unfolding sound_def places_ok_def counts_ok_def by blast

lemma set_rsvp_state_rows:
  "map rsvp_key (rsvps (set_rsvp_state a e st w)) = map rsvp_key (rsvps w)"
  "r \<in> set (rsvps (set_rsvp_state a e st w)) \<Longrightarrow> if rsvp_key r = (a, e) then rsvp_state r = st else r \<in> set (rsvps w)"
  by (auto simp: set_rsvp_state_def map_update_where rsvp_key_def elim!: in_update_where_cases)

lemma set_rsvp_state_fields:
  "events (set_rsvp_state a e st w) = events w" "reservations (set_rsvp_state a e st w) = reservations w"
  "held_places e' (set_rsvp_state a e st w) = held_places e' w"
  by (simp_all add: set_rsvp_state_def held_places_def)

lemma set_rsvp_state_same: "same_passes w (set_rsvp_state a e st w)"
proof -
  have "rsvp_key ` set (rsvps (set_rsvp_state a e st w)) = rsvp_key ` set (rsvps w)"
    using set_rsvp_state_rows(1) [of a e st w] by (metis set_map)
  then show ?thesis by (simp add: same_passes_def) (simp add: set_rsvp_state_def)
qed

lemma set_count_fields:
  "reservations (set_count e g w) = reservations w" "rsvps (set_count e g w) = rsvps w"
  "held_places e' (set_count e g w) = held_places e' w"
  by (simp_all add: set_count_def held_places_def)

lemma lawful_take:
  assumes "sound w" "(a, e) \<in> rsvp_key ` set (rsvps w)" "(a, e) \<notin> set (reservations w)"
    and cap: "\<And>ev. ev \<in> set (events w) \<Longrightarrow> event_id ev = e \<Longrightarrow> fits (capacity ev) (confirmed_count ev + 1)"
  shows "lawful w (set_rsvp_state a e Confirmed (set_count e (\<lambda>n. n + 1) (reserve a e w)))"
proof (rule moves_place_sound [OF assms(1) _ _ cap])
  let ?v = "set_count e (\<lambda>n. n + 1) (reserve a e w)"
  have "same_passes w ?v" by (simp add: same_passes_def set_count_def reserve_def)
  then have "same_passes w (set_rsvp_state a e Confirmed ?v)"
    using set_rsvp_state_same [of ?v a e Confirmed] by (auto simp: same_passes_def)
  moreover have "reservations ?v = reservations w @ [(a, e)]" by (simp add: set_count_def reserve_def)
  moreover have "distinct (reservations w @ [(a, e)])" using assms(1,3) by (simp add: sound_def wf_def answers_ok_def)
  moreover have "events ?v = update_where (\<lambda>x. event_id x = e) (\<lambda>x. x\<lparr>confirmed_count := confirmed_count x + 1\<rparr>) (events w)"
    by (simp add: set_count_def reserve_def)
  moreover have rs: "rsvps ?v = rsvps w" by (simp add: set_count_def reserve_def)
  ultimately show "moves_place a e 1 Confirmed w (set_rsvp_state a e Confirmed ?v)"
    using set_rsvp_state_rows(1) [of a e Confirmed ?v] set_rsvp_state_rows(2) [of _ a e Confirmed ?v, unfolded rs]
    unfolding moves_place_def set_rsvp_state_fields set_count_fields(3) held_reserve by auto
qed (use assms(2) in simp)

lemma lawful_give:
  assumes "sound w" "(a, e) \<in> set (reservations w)"
  shows "lawful w (set_rsvp_state a e Declined (set_count e (\<lambda>n. n - 1) (release a e w)))"
proof (rule moves_place_sound [OF assms(1), of a e "- 1" Declined])
  let ?v = "set_count e (\<lambda>n. n - 1) (release a e w)"
  have dist: "distinct (reservations w)" using assms(1) by (simp add: sound_def wf_def answers_ok_def)
  have "same_passes w ?v" by (simp add: same_passes_def set_count_def release_def)
  then have "same_passes w (set_rsvp_state a e Declined ?v)"
    using set_rsvp_state_same [of ?v a e Declined] by (auto simp: same_passes_def)
  moreover have "reservations ?v = filter (\<lambda>r. r \<noteq> (a, e)) (reservations w)" by (simp add: set_count_def release_def)
  moreover have "events ?v = update_where (\<lambda>x. event_id x = e) (\<lambda>x. x\<lparr>confirmed_count := confirmed_count x + - 1\<rparr>) (events w)"
    by (simp add: set_count_def release_def)
  moreover have rs: "rsvps ?v = rsvps w" by (simp add: set_count_def release_def)
  ultimately show "moves_place a e (- 1) Declined w (set_rsvp_state a e Declined ?v)"
    using set_rsvp_state_rows(1) [of a e Declined ?v] set_rsvp_state_rows(2) [of _ a e Declined ?v, unfolded rs] dist assms(2)
    unfolding moves_place_def set_rsvp_state_fields set_count_fields(3) held_release [OF dist] by auto
  show "fits (capacity ev) (confirmed_count ev + - 1)" if "ev \<in> set (events w)" for ev
    using fits_pred [OF sound_fits [OF assms(1) that]] by simp
qed simp

lemma lawful_restate:
  assumes "sound w" "st = Confirmed \<longleftrightarrow> (a, e) \<in> set (reservations w)"
  shows "lawful w (set_rsvp_state a e st w)"
proof (rule moves_place_sound [OF assms(1), of a e 0 st])
  show "moves_place a e 0 st w (set_rsvp_state a e st w)"
    using set_rsvp_state_rows(1) [of a e st w] set_rsvp_state_rows(2) [of _ a e st w] set_rsvp_state_same [of w a e st] assms
    unfolding moves_place_def set_rsvp_state_fields
    by (auto simp: sound_def wf_def answers_ok_def update_where_def)
  show "(a, e) \<in> rsvp_key ` set (rsvps w)" if "st = Confirmed"
    using that assms by (auto simp: sound_def wf_def answers_ok_def)
  show "fits (capacity ev) (confirmed_count ev + 0)" if "ev \<in> set (events w)" for ev
    using sound_fits [OF assms(1) that] by simp
qed

section \<open>Approving and correcting\<close>

lemma find_event_SomeD: "find_event e w = Some ev \<Longrightarrow> ev \<in> set (events w) \<and> event_id ev = e"
  unfolding find_event_def by (drule find_SomeD)

lemma same_event:
  assumes "sound w" "find_event e w = Some ev" "x \<in> set (events w)" "event_id x = e"
  shows "x = ev"
  using find_event_SomeD [OF assms(2)] assms(1,3,4) unfolding sound_def wf_def events_ok_def
  by (auto dest: inj_onD simp: distinct_map)

lemma room_fits:
  "(case c of None \<Rightarrow> True | Some m \<Rightarrow> n < int m) \<Longrightarrow> fits c (n + 1)"
  by (auto simp: fits_def split: option.splits)

lemma find_rsvp_SomeD: "find_rsvp a e w = Some r \<Longrightarrow> r \<in> set (rsvps w) \<and> rsvp_key r = (a, e)"
  unfolding find_rsvp_def by (drule find_SomeD) (simp add: rsvp_key_def)

lemma lawful_approve:
  assumes "approve who e a version w = Inr w'"
  shows "lawful w w'"
proof (cases "sound w")
  case True
  from assms obtain ev r where ev: "find_event e w = Some ev" and r: "find_rsvp a e w = Some r"
    and open_state: "rsvp_state r \<in> {Pending, Waitlisted}"
    and room: "case capacity ev of Some c \<Rightarrow> confirmed_count ev < int c | None \<Rightarrow> True"
    by (auto simp: approve_def Let_def split: option.splits)
  let ?v = "set_rsvp_state a e Confirmed (set_count e (\<lambda>n. n + 1) (reserve a e w))"
  have w': "w' = audit (Some who) ''rsvp.approved'' a (if admission ev = Adm_automatic
      then add_issue_job (Issue_job ''pass-issue'' a e (Suc version)) ?v else ?v)"
    using assms ev r by (auto simp: approve_def Let_def set_rsvp_state_def split: option.splits)
  have "framed ?v w'" unfolding w'
    by (cases "admission ev = Adm_automatic") (auto intro: framed_audit framed_trans framed_add_issue_job)
  moreover have "lawful w ?v"
  proof (rule lawful_take [OF True])
    show "(a, e) \<in> rsvp_key ` set (rsvps w)" using find_rsvp_SomeD [OF r] by (metis imageI)
    show "(a, e) \<notin> set (reservations w)"
      using find_rsvp_SomeD [OF r] open_state True unfolding sound_def places_ok_def confirmed_ok_def by fastforce
    show "fits (capacity x) (confirmed_count x + 1)" if "x \<in> set (events w)" "event_id x = e" for x
      using same_event [OF True ev that] room by (auto intro: room_fits)
  qed
  ultimately show ?thesis by (rule lawful_framed)
qed (simp add: lawful_def)

lemma admitted_key:
  assumes "wf w" "x \<in> set (admissions w)"
  shows "(admitted_attendee x, admitted_event x) \<in> rsvp_key ` set (rsvps w)"
proof -
  obtain p where "p \<in> set (passes w)" "entry_key p = (admitted_attendee x, admitted_event x)"
    using assms unfolding wf_def admissions_ok_def admission_of_def by metis
  then show ?thesis using assms(1) unfolding wf_def passes_ok_def by metis
qed

lemma lawful_correct_place:
  assumes snd: "sound w" and ev: "find_event (correct_event c) w = Some ev"
    and key: "(correct_attendee c, correct_event c) \<in> rsvp_key ` set (rsvps w)"
    and res: "correct_place c ev w = Inr w'"
  shows "lawful w w'"
proof -
  let ?a = "correct_attendee c" and ?e = "correct_event c"
  have id: "event_id ev = ?e" using find_event_SomeD [OF ev] by simp
  consider "correct_state c = None" | "correct_state c = Some False" | "correct_state c = Some True" by (cases "correct_state c") auto
  then show ?thesis
  proof cases
    case 1
    then show ?thesis using res by (simp add: correct_place_def)
  next
    case 2
    then have w': "w' = set_rsvp_state ?a ?e Declined (give_up_place ?a ?e w)" using res by (simp add: correct_place_def Let_def)
    show ?thesis
    proof (cases "(?a, ?e) \<in> set (reservations w)")
      case True
      then show ?thesis using lawful_give [OF snd True] by (simp add: w' give_up_place_def)
    next
      case False
      then show ?thesis using lawful_restate [OF snd, of Declined ?a ?e] by (simp add: w' give_up_place_def)
    qed
  next
    case 3
    show ?thesis
    proof (cases "(?a, ?e) \<in> set (reservations w)")
      case True
      then have "w' = set_rsvp_state ?a ?e Confirmed w" using 3 res by (simp add: correct_place_def take_place_def id Let_def)
      then show ?thesis using lawful_restate [OF snd, of Confirmed ?a ?e] True by simp
    next
      case False
      then have room: "case capacity ev of Some m \<Rightarrow> confirmed_count ev < int m | None \<Rightarrow> True"
        and w': "w' = set_rsvp_state ?a ?e Confirmed (set_count ?e (\<lambda>n. n + 1) (reserve ?a ?e w))"
        using 3 res by (auto simp: correct_place_def take_place_def id Let_def split: sum.splits)
      show ?thesis unfolding w'
        by (rule lawful_take [OF snd key False]) (use same_event [OF snd ev] room in \<open>auto intro: room_fits\<close>)
    qed
  qed
qed

lemma lawful_correction_body:
  assumes "correction_body who c ev w = Inr (r, w')" "find_event (correct_event c) w = Some ev"
  shows "lawful w w'"
proof (cases "sound w")
  case True
  let ?v = "correct_name_in c w"
  have fr: "framed w ?v" by (rule framed_correct_name)
  then have v: "sound ?v" "find_event (correct_event c) ?v = Some ev"
    "rsvps ?v = rsvps w"
    using True assms(2) framed_wf [OF fr] framed_places [OF fr] by (simp_all add: sound_def framed_def find_event_def)
  from assms(1) obtain row v' x where x: "x \<in> set (admissions w)" "admitted_attendee x = correct_attendee c"
      "admitted_event x = correct_event c"
    and v': "correct_place c ev ?v = Inr v'"
    and w': "w' = audit (Some who) ''admission.corrected'' (correct_attendee c) (v'\<lparr>corrections := corrections v' @ [row]\<rparr>)"
    by (auto simp: correction_body_def Let_def list_ex_iff split: sum.splits)
  have key: "(correct_attendee c, correct_event c) \<in> rsvp_key ` set (rsvps ?v)"
    using admitted_key [of w x] True x v(3) by (simp add: sound_def)
  have "framed v' w'" by (simp add: w' framed_def audit_def)
  then show ?thesis
    using lawful_correct_place [OF v(1,2) key v'] framed_lawful [OF fr] by (blast intro: lawful_framed lawful_trans)
qed (simp add: lawful_def)

lemma lawful_correction: "correction env who c key w = Inr (r, w') \<Longrightarrow> lawful w w'"
  unfolding correction_def by (auto split: if_splits option.splits elim!: lawful_once intro: lawful_correction_body)

section \<open>Editing an event\<close>

lemma quiet_apply_policy: "quiet w (apply_policy who e version i w)"
proof -
  let ?v = "if in_admission i = Adm_automatic then queue_policy_passes e version w else w"
  have "quiet w ?v" using framed_quiet [OF framed_queue_policy_passes] by simp
  moreover have "quiet v (disable_passes who e v)" for v
    unfolding disable_passes_def by (rule quiet_revoke_where) (rule framed_record_history)
  ultimately show ?thesis unfolding apply_policy_def Let_def by (auto intro: quiet_trans)
qed

lemma lawful_write_event:
  assumes snd: "sound w" and ev: "find_event e w = Some ev" and cap: "fits (in_capacity i) (confirmed_count ev)"
  shows "lawful w (w\<lparr>events := update_where (\<lambda>x. event_id x = e) (write_event i) (events w)\<rparr>)"
proof -
  let ?w = "w\<lparr>events := update_where (\<lambda>x. event_id x = e) (write_event i) (events w)\<rparr>"
  have "map event_id (events ?w) = map event_id (events w)" by (simp add: map_update_where write_event_def)
  then have "wf ?w" using wf_events_fields [of w "events ?w"] snd by (simp add: sound_def)
  moreover have "counts_ok ?w"
    unfolding counts_ok_def
  proof (intro ballI)
    fix x assume "x \<in> set (events ?w)"
    then obtain y where y: "y \<in> set (events w)" "x = (if event_id y = e then write_event i y else y)"
      by (auto simp: update_where_def)
    have held: "held_places k ?w = held_places k w" for k by (simp add: held_places_def)
    have ok: "confirmed_count y = held_places (event_id y) w \<and> fits (capacity y) (confirmed_count y)"
      using y(1) snd unfolding sound_def places_ok_def counts_ok_def by blast
    show "confirmed_count x = held_places (event_id x) ?w \<and> fits (capacity x) (confirmed_count x)"
    proof (cases "event_id y = e")
      case True
      then have "y = ev" using same_event [OF snd ev y(1)] by simp
      then show ?thesis using True y(2) ok cap unfolding held by (simp add: write_event_def)
    next
      case False
      then have "x = y" using y(2) by simp
      then show ?thesis using ok unfolding held by blast
    qed
  qed
  moreover have "confirmed_ok ?w" using snd by (simp add: sound_def places_ok_def confirmed_ok_def)
  ultimately show ?thesis by (simp add: lawful_def sound_def places_ok_def used_ids_def)
qed

lemma lawful_new_event:
  assumes snd: "sound w"
  shows "lawful w (w\<lparr>events := events w @ [new_event (next_id w) i], next_id := Suc (next_id w)\<rparr>)"
proof -
  let ?w = "w\<lparr>events := events w @ [new_event (next_id w) i], next_id := Suc (next_id w)\<rparr>"
  have wfw: "wf w" using snd by (simp add: sound_def)
  have id: "event_id (new_event (next_id w) i) = next_id w" by (simp add: new_event_def)
  have below: "event_id ev < next_id w" if "ev \<in> set (events w)" for ev
    using that wfw by (simp add: wf_def events_ok_def)
  have snds: "snd k < next_id w" if "k \<in> set (reservations w)" for k
  proof -
    have "k \<in> rsvp_key ` set (rsvps w)" using that wfw by (simp add: wf_def answers_ok_def)
    then obtain r where r: "r \<in> set (rsvps w)" "rsvp_key r = k" by blast
    then obtain ev where "ev \<in> set (events w)" "event_id ev = rsvp_event r" using wfw unfolding wf_def answers_ok_def by force
    then show ?thesis using below [of ev] r by (auto simp: rsvp_key_def)
  qed
  have "wf ?w"
  proof (rule wf_same_passes [OF wfw])
    have "next_id w \<notin> event_id ` set (events w)" using below by (metis imageE less_irrefl)
    then show "events_ok ?w" using wfw below unfolding events_ok_def wf_def by (auto simp: id less_Suc_eq)
    show "answers_ok ?w" using wfw unfolding wf_def answers_ok_def by auto
  qed (simp add: same_passes_def)
  moreover have "counts_ok ?w"
  proof -
    have none: "filter (\<lambda>r. snd r = next_id w) (reservations w) = []" by (auto simp: filter_empty_conv dest!: snds)
    have "held_places k ?w = held_places k w" for k by (simp add: held_places_def)
    then show ?thesis using snd unfolding sound_def places_ok_def counts_ok_def
      by (auto simp: new_event_def fits_def held_places_def none split: option.splits)
  qed
  moreover have "confirmed_ok ?w" using snd by (simp add: sound_def places_ok_def confirmed_ok_def)
  ultimately show ?thesis by (simp add: lawful_def sound_def places_ok_def used_ids_def)
qed

lemma lawful_saveEvent:
  assumes "saveEvent who i target w = Inr w'"
  shows "lawful w w'"
proof (cases "sound w")
  case True
  show ?thesis
  proof (cases target)
    case None
    then obtain role where "create_event role who i w = Inr w'"
      using assms by (auto simp: saveEvent_def split: sum.splits)
    then show ?thesis
      by (auto simp: create_event_def Let_def intro!: lawful_framed [OF framed_audit]
          lawful_trans [OF lawful_new_event [OF True] quiet_lawful [OF quiet_apply_policy]])
  next
    case (Some t)
    obtain e version where t: "t = (e, version)" by (cases t)
    obtain role where up: "update_event role who i e version w = Inr w'"
      using assms Some t by (auto simp: saveEvent_def split: sum.splits)
    then obtain ev where ev: "find_event e w = Some ev" by (auto simp: update_event_def split: option.splits)
    define w1 where "w1 = w\<lparr>events := update_where (\<lambda>x. event_id x = e) (write_event i) (events w)\<rparr>"
    define w2 where "w2 = apply_policy who e (Suc version) i w1"
    define w3 where "w3 = (if details_changed ev i
      then renew_tickets (\<lambda>p. entry_event p = e) ''event-ticket'' ''Event details changed'' (Some who) w2 else w2)"
    have cap: "fits (in_capacity i) (confirmed_count ev)" and w': "w' = audit (Some who) ''event.updated'' e w3"
      using up ev unfolding update_event_def event_guards_def Let_def w3_def w2_def w1_def
      by (auto simp: fits_def split: option.splits)
    have "quiet w2 w3" using quiet_renew_tickets by (simp add: w3_def)
    then have "quiet w1 w3" using quiet_apply_policy quiet_trans unfolding w2_def by blast
    then show ?thesis
      using lawful_write_event [OF True ev cap] unfolding w' w1_def [symmetric]
      by (intro lawful_framed [OF framed_audit]) (blast intro: lawful_trans quiet_lawful)
  qed
qed (simp add: lawful_def)

section \<open>Removing a guest\<close>

definition drop_places :: "uuid \<Rightarrow> wedding \<Rightarrow> wedding" where
  "drop_places i w =
     fold (\<lambda>r. set_count (snd r) (\<lambda>n. n - 1)) (filter (\<lambda>r. fst r = i) (reservations w))
       (w\<lparr>reservations := filter (\<lambda>r. fst r \<noteq> i) (reservations w)\<rparr>)"

definition decline_all :: "uuid \<Rightarrow> wedding \<Rightarrow> wedding" where
  "decline_all i w = w\<lparr>rsvps := update_where (\<lambda>x. rsvp_attendee x = i)
     (\<lambda>x. x\<lparr>rsvp_state := Declined, rsvp_answers := no_answers, rsvp_version := Suc (rsvp_version x)\<rparr>) (rsvps w)\<rparr>"

definition lowered :: "(uuid \<times> uuid) list \<Rightarrow> event_row \<Rightarrow> event_row" where
  "lowered ks x = x\<lparr>confirmed_count := confirmed_count x - int (length (filter (\<lambda>r. snd r = event_id x) ks))\<rparr>"

lemma fold_set_count:
  "fold (\<lambda>r. set_count (snd r) (\<lambda>n. n - 1)) ks w = w\<lparr>events := map (lowered ks) (events w)\<rparr>"
proof (induction ks arbitrary: w)
  case Nil
  have "lowered [] x = x" for x by (simp add: lowered_def)
  then have "map (lowered []) (events w) = events w" by (simp add: map_idI)
  then show ?case by simp
next
  case (Cons k ks)
  have "lowered ks (if event_id x = snd k then x\<lparr>confirmed_count := confirmed_count x - 1\<rparr> else x) = lowered (k # ks) x" for x
    by (simp add: lowered_def)
  then have "map (lowered ks) (update_where (\<lambda>x. event_id x = snd k) (\<lambda>x. x\<lparr>confirmed_count := confirmed_count x - 1\<rparr>) evs) =
      map (lowered (k # ks)) evs" for evs
    by (simp add: update_where_def)
  then show ?case using Cons.IH [of "set_count (snd k) (\<lambda>n. n - 1) w"] by (simp add: set_count_def)
qed

lemma drop_places_eq: "drop_places i w =
    w\<lparr>reservations := filter (\<lambda>r. fst r \<noteq> i) (reservations w),
      events := map (lowered (filter (\<lambda>r. fst r = i) (reservations w))) (events w)\<rparr>"
  by (simp add: drop_places_def fold_set_count)

lemma split_count:
  "length (filter P (filter Q xs)) + length (filter P (filter (\<lambda>x. \<not> Q x) xs)) = length (filter P xs)"
  by (induction xs) auto

lemma lawful_drop_all:
  assumes snd: "sound w"
  shows "lawful w (decline_all i (drop_places i w))"
proof -
  let ?w = "decline_all i (drop_places i w)"
  have wfw: "wf w" using snd by (simp add: sound_def)
  have res: "reservations ?w = filter (\<lambda>r. fst r \<noteq> i) (reservations w)"
    and evs: "events ?w = map (lowered (filter (\<lambda>r. fst r = i) (reservations w))) (events w)"
    and same: "passes ?w = passes w" "admissions ?w = admissions w" "scans ?w = scans w" "next_id ?w = next_id w"
    by (simp_all add: decline_all_def drop_places_eq)
  have keys: "map rsvp_key (rsvps ?w) = map rsvp_key (rsvps w)"
    by (simp add: decline_all_def drop_places_eq map_update_where rsvp_key_def)
  then have key_set: "rsvp_key ` set (rsvps ?w) = rsvp_key ` set (rsvps w)" by (metis set_map)
  have rows: "if rsvp_attendee r = i then rsvp_state r = Declined else r \<in> set (rsvps w)" if "r \<in> set (rsvps ?w)" for r
    using that by (auto simp: decline_all_def drop_places_eq elim!: in_update_where_cases)
  have ids: "map event_id (events ?w) = map event_id (events w)" unfolding evs by (simp add: lowered_def)
  then have id_set: "event_id ` set (events ?w) = event_id ` set (events w)" by (metis set_map)
  have held: "held_places e ?w = held_places e w -
      int (length (filter (\<lambda>r. snd r = e) (filter (\<lambda>r. fst r = i) (reservations w))))" for e
    using split_count [of "\<lambda>r. snd r = e" "\<lambda>r. fst r = i" "reservations w"] unfolding held_places_def res by linarith
  have "wf ?w"
  proof (rule wf_same_passes [OF wfw])
    show "same_passes w ?w" using key_set by (simp add: same_passes_def same)
    have "event_id x < next_id w" if "x \<in> set (events ?w)" for x
      using that wfw unfolding evs wf_def events_ok_def by (auto simp: lowered_def)
    then show "events_ok ?w" using wfw unfolding events_ok_def ids same wf_def by blast
    have "rsvp_event r \<in> event_id ` set (events ?w)" if "r \<in> set (rsvps ?w)" for r
    proof -
      have "rsvp_key r \<in> rsvp_key ` set (rsvps w)" using that key_set by (metis imageI)
      then obtain q where "q \<in> set (rsvps w)" "rsvp_key r = rsvp_key q" by blast
      then show ?thesis using wfw unfolding wf_def answers_ok_def id_set by (auto simp: rsvp_key_def)
    qed
    then show "answers_ok ?w" using wfw unfolding wf_def answers_ok_def keys key_set res by simp
  qed
  moreover have "counts_ok ?w"
    unfolding counts_ok_def held
  proof (intro ballI)
    fix x assume "x \<in> set (events ?w)"
    then obtain y where y: "y \<in> set (events w)" "x = lowered (filter (\<lambda>r. fst r = i) (reservations w)) y"
      unfolding evs by auto
    have ok: "confirmed_count y = held_places (event_id y) w \<and> fits (capacity y) (confirmed_count y)"
      using y(1) snd unfolding sound_def places_ok_def counts_ok_def by blast
    have "fits (capacity y) (confirmed_count y - int n)" for n
      using ok by (auto simp: fits_def split: option.splits)
    then show "confirmed_count x = held_places (event_id x) w -
        int (length (filter (\<lambda>r. snd r = event_id x) (filter (\<lambda>r. fst r = i) (reservations w)))) \<and>
        fits (capacity x) (confirmed_count x)"
      using ok unfolding y(2) lowered_def by simp
  qed
  moreover have "confirmed_ok ?w"
    unfolding confirmed_ok_def res
  proof (intro ballI)
    fix r assume r: "r \<in> set (rsvps ?w)"
    show "(rsvp_state r = Confirmed) = (rsvp_key r \<in> set (filter (\<lambda>r. fst r \<noteq> i) (reservations w)))"
    proof (cases "rsvp_attendee r = i")
      case True
      then show ?thesis using rows [OF r] by (simp add: rsvp_key_def)
    next
      case False
      then show ?thesis using rows [OF r] snd by (simp add: sound_def places_ok_def confirmed_ok_def) (simp add: rsvp_key_def)
    qed
  qed
  moreover have "used_ids ?w = used_ids w" by (simp add: used_ids_def same)
  ultimately show ?thesis by (simp add: lawful_def sound_def places_ok_def)
qed

lemma lawful_remove_row:
  assumes "remove_row who i w = Inr w'"
  shows "lawful w w'"
proof (cases "sound w")
  case True
  let ?v = "decline_all i (drop_places i w)"
  let ?u = "revoke_where (\<lambda>p. entry_attendee p = i) ''Guest removed''
      (\<lambda>pid. pass_history pid ''revoked'' (Some who) (Some ''Guest removed'')) ?v"
  have "framed ?u w'"
    using assms by (auto simp: remove_row_def Let_def framed_def drop_places_def decline_all_def)
  moreover have "quiet ?v ?u" by (rule quiet_revoke_where) (rule framed_pass_history)
  ultimately show ?thesis
    using lawful_drop_all [OF True] by (blast intro: lawful_framed lawful_trans quiet_lawful)
qed (simp add: lawful_def)

lemma lawful_remove_guest:
  assumes "remove_guest who a version w = Inr w'"
  shows "lawful w w'"
proof -
  obtain ids v where each: "each (remove_row who) ids w = Inr v" and w': "w' = audit (Some who) ''guest.deleted'' a v"
    using assms by (auto simp: remove_guest_def split: option.splits sum.splits)
  have "lawful w v"
    by (rule each_invariant [OF each lawful_refl]) (blast intro: lawful_trans lawful_remove_row)
  then show ?thesis unfolding w' by (rule lawful_framed [OF framed_audit])
qed

end
