(* ===== verification/PlatformTheorems.thy ===== *)
theory PlatformTheorems
  imports PassRules PlaceRules
begin

text \<open>
  What the platform guarantees over every history of its handlers: the tables stay well formed,
  no event is overbooked, a pass lets its holder in once, and an admission the scanner was told
  of survives the restoration of an older database.
\<close>

section \<open>Every operation is lawful\<close>

lemma lawful_apply: "lawful w (apply_op op w)"
  by (cases op) (auto intro!: lawful_kept lawful_kept_op intro: lawful_submit lawful_approve lawful_remove_guest
      lawful_saveEvent lawful_issue lawful_process lawful_revoke lawful_correction lawful_sweep lawful_quarantine)

lemma lawful_exec: "lawful w (snd (snd (exec_op op (l, w))))"
proof (cases op)
  case (Scan_op env who e v key)
  obtain r l' w' where red: "redeem env who e v key l w = (r, l', w')" by (metis prod_cases3)
  then obtain x where "scan_possible who e key w x" "w' = scan_effect_of env who e v key w x"
    by (rule redeem_effect)
  then show ?thesis using Scan_op red scan_effect_lawful by simp
next
  case (Reissue_op env who pid version reason key)
  then show ?thesis by (auto intro: lawful_kept_op lawful_reissue)
next
  case (Replay_op known ids)
  then show ?thesis by (simp add: lawful_replay)
next
  case (Resolve_op env who pid reason)
  then show ?thesis by (auto split: sum.splits intro: lawful_resolve)
qed (simp_all add: lawful_apply del: apply_op.simps)

lemma exec_sound: "sound (snd s) \<Longrightarrow> sound (snd (snd (exec_op op s)))"
  using lawful_exec [of "snd s" op "fst s"] by (simp add: lawful_def)

lemma exec_used: "sound (snd s) \<Longrightarrow> used_ids (snd s) \<subseteq> used_ids (snd (snd (exec_op op s)))"
  using lawful_exec [of "snd s" op "fst s"] by (simp add: lawful_def)

lemma exec_lets_in:
  assumes "sound (snd s)" "lets_in pid (fst (exec_op op s))"
  shows "pid \<notin> used_ids (snd s) \<and> pid \<in> used_ids (snd (snd (exec_op op s)))"
proof -
  obtain l w where s: "s = (l, w)" by (cases s)
  obtain env who e v key where op: "op = Scan_op env who e v key"
    using assms(2) unfolding s by (cases op) (simp_all add: lets_in_def)
  obtain r l' w' where red: "redeem env who e v key l w = (r, l', w')" by (metis prod_cases3)
  then obtain d where d: "r = Inr d" "admitted_now d = Some pid"
    using assms(2) unfolding s op by (auto simp: lets_in_def split: sum.splits)
  obtain x where x: "scan_possible who e key w x" "w' = scan_effect_of env who e v key w x"
      "\<forall>d. r = Inr d \<longrightarrow> admitted_now d = let_in_by x"
    using red by (rule redeem_effect)
  then show ?thesis using scan_effect_spends [of w who e key x pid env v] assms(1) d red unfolding s op by simp
qed

interpretation entry: single_use exec_op "\<lambda>s. sound (snd s)" "\<lambda>pid s. pid \<in> used_ids (snd s)" lets_in
  by unfold_locales (auto simp: exec_sound dest: exec_used exec_lets_in)

section \<open>The ledger and the restored backup\<close>

text \<open>A deployment with a ledger, whose database may be replaced by any other contents.\<close>

datatype deployment_op = Live platform_op | Restore wedding

fun with_ledger :: "platform_op \<Rightarrow> platform_op" where
  "with_ledger (Scan_op env who e v key) = Scan_op (env\<lparr>ledger_on := True\<rparr>) who e v key"
| "with_ledger (Reissue_op env who pid version reason key) =
     Reissue_op (env\<lparr>ledger_on := True\<rparr>) who pid version reason key"
| "with_ledger op = op"

fun deployed :: "deployment_op \<Rightarrow> platform \<Rightarrow> door_reply outcome option \<times> platform" where
  "deployed (Live op) s = exec_op (with_ledger op) s"
| "deployed (Restore w) (l, _) = (None, l, w)"

definition is_committed :: "uuid \<Rightarrow> ledger \<Rightarrow> bool" where
  "is_committed pid l = (case l pid of Some r \<Rightarrow> committed r | None \<Rightarrow> False)"

lemma put_keeps:
  assumes "ledger_put how pid r l = (ok, l')" "\<not> is_committed pid l \<or> committed r" "is_committed k l"
  shows "is_committed k l'"
  using assms by (cases how) (auto simp: ledger_put_def is_committed_def)

lemma admit_ledger:
  assumes "admit env who e v key p l w = (t, l')" "ledger_on env"
  shows "(is_committed k l \<longrightarrow> is_committed k l') \<and>
    (\<forall>d w' pr. t = Inr (d, w', pr) \<longrightarrow> \<not> is_committed (entry_id p) l \<and> (\<exists>r. pr = Some (entry_id p, r)) \<and>
       admitted_now d = Some (entry_id p))"
proof (cases "recorded env (entry_id p) l")
  case (Inl err)
  then show ?thesis using assms unfolding admit_def by auto
next
  case (Inr previous)
  then have prev: "previous = l (entry_id p)" using assms(2) by (auto simp: recorded_def split: if_splits)
  define held where "held = (case previous of None \<Rightarrow> False | Some r \<Rightarrow> committed r \<or> ledger_key r \<noteq> key \<or>
      ledger_actor r \<noteq> who \<or> ledger_version r \<noteq> entry_version p)"
  show ?thesis
  proof (cases held)
    case True
    then show ?thesis using assms(1) Inr unfolding admit_def held_def by auto
  next
    case False
    then have fresh: "\<not> is_committed (entry_id p) l"
      by (auto simp: held_def prev is_committed_def split: option.splits)
    define aid where "aid = (case previous of Some r \<Rightarrow> ledger_admission r | None \<Rightarrow> next_id w)"
    define r where "r = intent_record env who e key aid p"
    obtain ok l1 where put: "ledger_put (intent_write env) (entry_id p) r l = (ok, l1)" by fastforce
    obtain reply v' where aw: "admit_writes env who e v key aid p w = (reply, v')" by fastforce
    have t: "l' = l1 \<and> t = (if ok then Inr (\<lparr>door_outcome = reply, admitted_now = Some (entry_id p)\<rparr>, v', Some (entry_id p, r))
        else Inl (Domain_error 503 ''ADMISSION_LEDGER_UNAVAILABLE''))"
      using assms Inr False unfolding admit_def Inr sum.case held_def [symmetric] aid_def [symmetric] r_def [symmetric]
        Let_def put aw by (auto simp: put aw r_def aid_def split: if_splits)
    have "is_committed k l \<longrightarrow> is_committed k l'" using put_keeps [OF put] fresh t by blast
    then show ?thesis using t fresh by auto
  qed
qed

lemma redeem_transaction_ledger:
  assumes "redeem_transaction env who e v key l w = (t, l')" "ledger_on env"
  shows "(is_committed k l \<longrightarrow> is_committed k l') \<and>
    (\<forall>d w' pr pid. t = Inr (d, w', pr) \<longrightarrow> admitted_now d = Some pid \<longrightarrow>
       \<not> is_committed pid l \<and> (\<exists>r. pr = Some (pid, r)))"
proof -
  consider "l' = l" "\<And>d w' pr. t = Inr (d, w', pr) \<Longrightarrow> admitted_now d = None"
    | p where "admit env who e v key p l w = (t, l')"
    using assms(1) unfolding redeem_transaction_def repeated_def Let_def legacyHold_def
    by (auto split: sum.splits option.splits door_decision.splits scan_state.splits)
  then show ?thesis
  proof cases
    case 1
    then show ?thesis by auto
  next
    case (2 p)
    then show ?thesis using admit_ledger [OF 2 assms(2)] by auto
  qed
qed

lemma redeem_ledger:
  assumes "redeem env who e v key l w = (r, l', w')" "ledger_on env"
  shows "(is_committed k l \<longrightarrow> is_committed k l') \<and>
    (\<forall>d pid. r = Inr d \<longrightarrow> admitted_now d = Some pid \<longrightarrow> \<not> is_committed pid l \<and> is_committed pid l')"
proof -
  obtain t l1 where tr: "redeem_transaction env who e v key l w = (t, l1)" by fastforce
  note inner = redeem_transaction_ledger [OF tr assms(2)]
  show ?thesis
  proof (cases t)
    case (Inl err)
    then show ?thesis using assms(1) inner unfolding redeem_def tr by auto
  next
    case (Inr y)
    obtain d w1 pr where y: "y = (d, w1, pr)" by (cases y)
    show ?thesis
    proof (cases pr)
      case None
      then have "r = Inr d" "l' = l1" using assms(1) unfolding redeem_def tr Inr y by auto
      then show ?thesis using inner Inr y None by auto
    next
      case (Some x)
      obtain pid rec where x: "x = (pid, rec)" by (cases x)
      obtain ok l2 where put: "ledger_put (commit_write env) pid (rec\<lparr>committed := True\<rparr>) l1 = (ok, l2)" by fastforce
      have res: "l' = l2 \<and> r = (if ok then Inr d else Inl (Domain_error 503 ''ADMISSION_LEDGER_UNAVAILABLE''))"
        using assms unfolding redeem_def tr Inr y Some x sum.case prod.case option.case put
        by (auto split: bool.splits)
      have "is_committed k l1 \<longrightarrow> is_committed k l2" using put_keeps [OF put] by simp
      moreover have "ok \<longrightarrow> is_committed pid l2"
        using put by (cases "commit_write env") (auto simp: ledger_put_def is_committed_def)
      ultimately show ?thesis using res inner Inr y Some x by auto
    qed
  qed
qed

lemma resolve_ledger:
  assumes "resolveAdmissionHold env who pid reason l w = Inr (l', w')" "is_committed k l"
  shows "is_committed k l'"
proof -
  have "discardIntent pid l = Inr l'" using assms(1)
    by (auto simp: resolveAdmissionHold_def sensitive_operator_def split: option.splits sum.splits if_splits)
  then show ?thesis using assms(2) by (auto simp: discardIntent_def is_committed_def split: option.splits if_splits)
qed

lemma exec_committed:
  assumes "is_committed k l"
  shows "is_committed k (fst (snd (exec_op (with_ledger op) (l, w))))"
proof (cases op)
  case (Scan_op env who e v key)
  obtain r l' w' where "redeem (env\<lparr>ledger_on := True\<rparr>) who e v key l w = (r, l', w')" by (metis prod_cases3)
  then show ?thesis using Scan_op assms redeem_ledger by auto
next
  case (Resolve_op env who pid reason)
  then show ?thesis using assms by (auto split: sum.splits dest: resolve_ledger)
qed (use assms in simp_all)

lemma deployed_committed: "is_committed k (fst s) \<Longrightarrow> is_committed k (fst (snd (deployed op s)))"
  by (cases s; cases op) (simp_all add: exec_committed)

lemma deployed_lets_in:
  assumes "lets_in pid (fst (deployed op s))"
  shows "\<not> is_committed pid (fst s) \<and> is_committed pid (fst (snd (deployed op s)))"
proof -
  obtain l w where s: "s = (l, w)" by (cases s)
  obtain env who e v key where op: "op = Live (Scan_op env who e v key)"
  proof (cases op)
    case (Live pop)
    then show thesis using assms that unfolding s by (cases pop) (simp_all add: lets_in_def)
  next
    case (Restore w')
    then show thesis using assms unfolding s by (simp add: lets_in_def)
  qed
  obtain r l' w' where red: "redeem (env\<lparr>ledger_on := True\<rparr>) who e v key l w = (r, l', w')" by (metis prod_cases3)
  then show ?thesis using assms redeem_ledger [OF red] unfolding s op
    by (auto simp: lets_in_def split: sum.splits)
qed

interpretation ledger: single_use deployed "\<lambda>s. True" "\<lambda>pid s. is_committed pid (fst s)" lets_in
  by unfold_locales (auto simp: deployed_committed dest: deployed_lets_in)

section \<open>A wedding at the door\<close>

definition demo_event :: event_row where
  "demo_event = \<lparr>event_id = 1, event_title = ''Supper'', event_venue = ''Hall'', event_timezone = ''UTC'', event_version = 1,
     capacity = Some 2, confirmed_count = 1, approval_policy = Approve_automatic, admission = Adm_owner,
     starts_at = Some 0, ends_at = None, rsvp_cutoff = None, admission_starts = None, admission_ends = None,
     asked = \<lparr>ask_meal = True, ask_dietary = False, ask_accessibility = False, ask_note = False\<rparr>\<rparr>"

definition demo_pass :: entry_pass where
  "demo_pass = \<lparr>entry_id = 7, entry_attendee = 3, entry_event = 1, entry_status = Pass_active,
     credential_hash = ''admission:CODE'', manual_hash = ''admission:ADMX'', sealed_payload = True, entry_version = 1,
     entry_used_at = None, entry_used_by = None, revoked_reason = None, issued_at = 0\<rparr>"

definition demo_wedding :: wedding where
  "demo_wedding = \<lparr>deleted = False, archived = False, ownership_hold = False, legacy_held = False, primary_owner = 2,
     members = [\<lparr>member_user = 2, member_role = Owner, member_events = [], member_albums = []\<rparr>],
     events = [demo_event],
     attendees = [\<lparr>attendee_id = 3, attendee_party = 4, attendee_name = ''Ada'', attendee_email = None, plus_one_of = None,
        attendee_version = 1, attendee_deleted = False\<rparr>,
       \<lparr>attendee_id = 5, attendee_party = 6, attendee_name = ''Bo'', attendee_email = None, plus_one_of = None,
        attendee_version = 1, attendee_deleted = False\<rparr>],
     eligible = [(3, 1), (5, 1)],
     rsvps = [\<lparr>rsvp_attendee = 3, rsvp_event = 1, rsvp_state = Confirmed, rsvp_answers = no_answers, rsvp_version = 1\<rparr>],
     reservations = [(3, 1)], passes = [demo_pass], pass_files = [], admissions = [], scans = [], operations = [],
     history = [], corrections = [], holds = [], jobs = [], audits = [], next_id = 9\<rparr>"

definition demo_door :: door_env where
  "demo_door = \<lparr>door_now = 60, door_hash = (\<lambda>s. s), door_candidates = (\<lambda>s. [s]), door_digest = concat,
     encryption_key = True, fresh_token = show_nat, fresh_manual = show_nat, ledger_on = True, ledger_readable = True,
     intent_write = Write_ok, commit_write = Write_ok\<rparr>"

definition demo_scan :: "string \<Rightarrow> platform_op" where
  "demo_scan key = Scan_op demo_door 2 1 ''adm-x'' key"

definition demo_answers :: "platform_op" where
  "demo_answers = Submit_op \<lparr>submit_now = 0, submit_hash = (\<lambda>_. ''h''), mail_hash = (\<lambda>m. m)\<rparr>
     (Some \<lparr>session_grant = 8, session_party = 6\<rparr>) 1
     [\<lparr>resp_attendee = 5, resp_version = 0, resp_attendee_version = 1, resp_attending = True, resp_name = ''Bo'',
       resp_answers = no_answers\<rparr>] ''answers''"

text \<open>Bo's household answers, a scan of Ada's pass if it comes first, and Ada is taken off the list.\<close>

definition demo_history :: "platform_op list" where
  "demo_history = [demo_answers, Remove_op 2 3 1]"

lemma demo_sound: "sound demo_wedding"
  by (simp add: sound_def wf_def events_ok_def passes_ok_def answers_ok_def admissions_ok_def scans_ok_def
      admitted_scans_def places_ok_def counts_ok_def confirmed_ok_def held_places_def fits_def demo_wedding_def
      demo_event_def demo_pass_def entry_key_def rsvp_key_def)

lemma demo_door_opens:
  "map (map_option (map_sum id (\<lambda>d. (scan_state (door_outcome d), admitted_now d))))
     (fst (run_ops exec_op [demo_scan ''k1'', demo_scan ''k2'', demo_scan ''k1''] (Map.empty, demo_wedding))) =
   [Some (Inr (Admitted, Some 7)), Some (Inr (Already_used, None)), Some (Inr (Admitted, None))]"
  by code_simp

section \<open>Properties\<close>

lemma run_sound: "sound w \<Longrightarrow> sound (snd (snd (run_ops exec_op ops (l, w))))"
  using entry.run_inv [of "(l, w)"] by simp

lemma framed_admitted_scans: "framed w w' \<Longrightarrow> admitted_scans w' = admitted_scans w"
  by (simp add: framed_def admitted_scans_def)

lemma repeated_logged:
  assumes "repeated env who v key sc l w = Inr (d, w', pr)" "sc \<in> set (scans w)" "scan_state (door_outcome d) = Admitted"
  shows "sc \<in> set (admitted_scans w')"
proof -
  have "w' = w \<and> door_outcome d = scan_reply sc"
    using assms(1) unfolding repeated_def Let_def by (auto split: scan_state.splits option.splits sum.splits)
  then show ?thesis using assms(2,3) by (simp add: admitted_scans_def)
qed

lemma admit_logged:
  assumes "sound w" "decide env ev v w = Admit p" "event_id ev = e" "admit env who e v key p l w = (Inr (d, w', pr), l')"
  shows "\<exists>s\<in>set (admitted_scans w'). scan_request s = (who, e, key)"
proof -
  obtain aid where "snd (admit_writes env who e v key aid p w) = w'" using assms(4) by (rule admit_effect)
  then obtain reply where aw: "admit_writes env who e v key aid p w = (reply, w')" by (metis prod.collapse)
  have "framed (add_scan (admitted_scan env who v key p w)
      (use_pass p (spend env who) (admission_by who aid p) (Suc (next_id w)) w)) w'"
    by (rule admit_writes_framed [OF assms(1) _ _ _ aw]) (use decide_admits [OF assms(2)] assms(3) in simp_all)
  then have "admitted_scan env who v key p w \<in> set (admitted_scans w')"
    using framed_admitted_scans by (fastforce simp: admitted_scans_def add_scan_def admitted_scan_def)
  then show ?thesis
    using decide_admits(3) [OF assms(2)] assms(3) by (force simp: scan_request_def admitted_scan_def)
qed

lemma transaction_logged:
  assumes "sound w" "redeem_transaction env who e v key l w = (Inr (d, w', pr), l')" "scan_state (door_outcome d) = Admitted"
  shows "\<exists>s\<in>set (admitted_scans w'). scan_request s = (who, e, key)"
proof -
  let ?found = "List.find (\<lambda>x. scan_actor x = who \<and> scan_event x = e \<and> scan_key x = key) (scans w)"
  consider sc where "?found = Some sc" "repeated env who v key sc l w = Inr (d, w', pr)"
    | ev reply pid where "decide env ev v w = Refuse reply pid" "door_outcome d = reply"
    | ev p where "decide env ev v w = Admit p" "find_event e w = Some ev" "admit env who e v key p l w = (Inr (d, w', pr), l')"
    using assms(2) unfolding redeem_transaction_def legacyHold_def
    by (auto split: sum.splits option.splits door_decision.splits)
  then show ?thesis
  proof cases
    case (1 sc)
    then have "sc \<in> set (scans w)" "scan_request sc = (who, e, key)"
      by (auto dest: find_SomeD simp: scan_request_def)
    then show ?thesis using repeated_logged [OF 1(2) _ assms(3)] by blast
  next
    case (2 ev reply pid)
    then show ?thesis using decide_refuses [OF 2(1)] assms(3) by simp
  next
    case (3 ev p)
    then show ?thesis using admit_logged [OF assms(1) 3(1) decided_event [OF 3(2)] 3(3)] by blast
  qed
qed

text \<open>
  C18. The door lets a holder in once per pass: in every history of the platform's handlers (answers,
  approvals, removals, event edits, issues, revocations, reissues, scans, corrections, sweeps, replays,
  quarantines and released holds), starting from sound tables and any ledger, at most one reply
  admits the holder of a given pass.
\<close>

theorem platform_admits_once:
  "sound w \<Longrightarrow> length (filter (lets_in pid) (fst (run_ops exec_op ops (l, w)))) \<le> 1"
  using entry.at_most_once [where s = "(l, w)" and k = pid and ops = ops] by simp

theorem platform_admits_once_witness:
  "let replies = fst (run_ops exec_op [demo_scan ''k1'', demo_scan ''k2'', demo_scan ''k1''] (Map.empty, demo_wedding))
   in length (filter (lets_in 7) replies) = 1 \<and> length (filter (lets_in 7) replies) \<le> 1"
proof -
  have "length (filter (lets_in 7)
      (fst (run_ops exec_op [demo_scan ''k1'', demo_scan ''k2'', demo_scan ''k1''] (Map.empty, demo_wedding)))) = 1"
    by code_simp
  then show ?thesis using platform_admits_once [OF demo_sound] by (simp only: Let_def simp_thms)
qed


text \<open>
  Every scan the scanner is told is an admission, a repeated one included, stands in the scan
  log as the only admission of its pass, under the actor, event and operation key of the request,
  and the pass is used.
\<close>

theorem admitted_reply_is_logged_once:
  assumes "sound w" "redeem env who e v key l w = (Inr d, l', w')" "scan_state (door_outcome d) = Admitted"
  shows "\<exists>pid\<in>used_ids w'. map scan_request (filter (\<lambda>s. scan_pass s = Some pid) (admitted_scans w')) = [(who, e, key)]"
proof -
  obtain t l1 where tr: "redeem_transaction env who e v key l w = (t, l1)" by fastforce
  then obtain d1 w1 pr where t: "t = Inr (d1, w1, pr)"
    using assms(2) unfolding redeem_def by (cases t) auto
  have same: "w' = w1" "d = d1" using redeem_result [OF tr [unfolded t] assms(2)] by auto
  obtain s where s: "s \<in> set (admitted_scans w')" "scan_request s = (who, e, key)"
    using transaction_logged [OF assms(1) tr [unfolded t]] assms(3) same by blast
  have "sound w'" using lawful_exec [of w "Scan_op env who e v key" l] assms(1,2) by (simp add: lawful_def)
  then have ok: "distinct (map scan_pass (admitted_scans w'))"
      "\<forall>s\<in>set (admitted_scans w'). \<exists>pid\<in>used_ids w'. scan_pass s = Some pid"
    unfolding sound_def wf_def scans_ok_def by simp_all
  obtain pid where "pid \<in> used_ids w'" "scan_pass s = Some pid" using ok(2) s(1) by blast
  moreover from this have "filter (\<lambda>x. scan_pass x = Some pid) (admitted_scans w') = [s]"
    using distinct_map_filter_one [OF ok(1) s(1)] by simp
  ultimately show ?thesis using s(2) by (intro bexI [of _ pid]) simp_all
qed

theorem admitted_reply_is_logged_once_witness:
  "\<exists>d l' w'. redeem demo_door 2 1 ''adm-x'' ''k1'' Map.empty demo_wedding = (Inr d, l', w') \<and>
     (\<exists>pid\<in>used_ids w'. map scan_request (filter (\<lambda>s. scan_pass s = Some pid) (admitted_scans w')) = [(2, 1, ''k1'')])"
proof -
  obtain r l' w' where red: "redeem demo_door 2 1 ''adm-x'' ''k1'' Map.empty demo_wedding = (r, l', w')" by (metis prod_cases3)
  have "map_sum id (\<lambda>d. scan_state (door_outcome d)) (fst (redeem demo_door 2 1 ''adm-x'' ''k1'' Map.empty demo_wedding)) = Inr Admitted"
    by code_simp
  then have "map_sum id (\<lambda>d. scan_state (door_outcome d)) r = Inr Admitted" unfolding red by simp
  then obtain d where "r = Inr d" "scan_state (door_outcome d) = Admitted" by (cases r) auto
  then show ?thesis
    using admitted_reply_is_logged_once [OF demo_sound red [unfolded \<open>r = Inr d\<close>]] red [unfolded \<open>r = Inr d\<close>]
    by (intro exI [of _ d] exI [of _ l'] exI [of _ w'] conjI) simp_all
qed

text \<open>
  C20. No event is overbooked: after every history, each event's counter equals the number of places
  held for it and is within its capacity, and an attendee's answer reads confirmed exactly if a
  place is held.
\<close>

theorem places_stay_within_capacity:
  assumes "sound w"
  shows "let w' = snd (snd (run_ops exec_op ops (l, w))) in
    (\<forall>ev\<in>set (events w'). confirmed_count ev = held_places (event_id ev) w' \<and> fits (capacity ev) (confirmed_count ev)) \<and>
    (\<forall>r\<in>set (rsvps w'). rsvp_state r = Confirmed \<longleftrightarrow> rsvp_key r \<in> set (reservations w'))"
  using run_sound [OF assms(1), of ops l]
  unfolding Let_def sound_def places_ok_def counts_ok_def confirmed_ok_def by blast

theorem places_stay_within_capacity_witness:
  "let w' = snd (snd (run_ops exec_op demo_history (Map.empty, demo_wedding))) in
    map confirmed_count (events w') = [1] \<and> map rsvp_state (rsvps w') = [Declined, Confirmed] \<and>
    (\<forall>ev\<in>set (events w'). confirmed_count ev = held_places (event_id ev) w' \<and> fits (capacity ev) (confirmed_count ev)) \<and>
    (\<forall>r\<in>set (rsvps w'). rsvp_state r = Confirmed \<longleftrightarrow> rsvp_key r \<in> set (reservations w'))"
proof -
  have "map confirmed_count (events (snd (snd (run_ops exec_op demo_history (Map.empty, demo_wedding))))) = [1] \<and>
      map rsvp_state (rsvps (snd (snd (run_ops exec_op demo_history (Map.empty, demo_wedding))))) = [Declined, Confirmed]"
    by code_simp
  then show ?thesis
    using places_stay_within_capacity [OF demo_sound, of demo_history Map.empty] unfolding Let_def by (elim conjE) (intro conjI)
qed

text \<open>
  C21. The tables stay well formed: after every history the keys of events, passes, answers,
  admissions and scans are unique, every reference points to a row, there is one pass per attendee
  and event, and the used passes are exactly the admitted ones.
\<close>

theorem tables_stay_well_formed:
  "sound w \<Longrightarrow> wf (snd (snd (run_ops exec_op ops (l, w))))"
  using run_sound [of w ops l] by (simp add: sound_def)

theorem tables_stay_well_formed_witness:
  "let w' = snd (snd (run_ops exec_op (demo_scan ''k1'' # demo_history) (Map.empty, demo_wedding))) in
    map entry_status (passes w') = [Pass_used] \<and> length (admissions w') = 1 \<and> wf w'"
proof -
  have "map entry_status (passes (snd (snd (run_ops exec_op (demo_scan ''k1'' # demo_history) (Map.empty, demo_wedding))))) =
        [Pass_used] \<and>
      length (admissions (snd (snd (run_ops exec_op (demo_scan ''k1'' # demo_history) (Map.empty, demo_wedding))))) = 1"
    by code_simp
  then show ?thesis
    using tables_stay_well_formed [OF demo_sound, of "demo_scan ''k1'' # demo_history" Map.empty]
    unfolding Let_def by (elim conjE) (intro conjI)
qed

end
