(* ===== verification/JobTheorems.thy ===== *)
theory JobTheorems
  imports JobQueue SingleUse
begin

text \<open>
  What the queue guarantees: a worker that keeps polling settles every job after at most five
  attempts each, and a message is handed to a provider without idempotency keys at most once,
  whatever the provider answers and whenever the worker dies while sending.
\<close>

section \<open>The queue under a poll\<close>

definition settled :: "queue_job \<Rightarrow> bool" where
  "settled j = (job_state j \<in> {Job_succeeded, Job_failed, Job_cancelled, Job_unknown})"

lemma queue_simps [simp]:
  "queue (reconcile ref s) = queue s" "queue (submitted i st ref s) = queue s" "queue (receive erased e s) = queue s"
  "queue (set_mail i st s) = queue s" "queue (mark_failure i err s) = queue s"
  "queue (with_job P f s) = update_where P f (queue s)"
  by (simp_all add: reconcile_def submitted_def receive_def set_mail_def mark_failure_def with_job_def)

lemma queue_ack: "queue (ack j s) = update_where (held_by j) (\<lambda>x. x\<lparr>job_state := Job_succeeded, lease_until := None\<rparr>) (queue s)"
  by (simp add: ack_def)

definition fail_row :: "poll \<Rightarrow> queue_job \<Rightarrow> raised \<Rightarrow> queue_job \<Rightarrow> queue_job" where
  "fail_row p j e x = x\<lparr>job_state := failed_state (error_code e) (retryable e) (job_attempts j), job_error := Some (error_code e),
     retry_at := poll_end p + backoff (job_attempts j), lease_until := None\<rparr>"

lemma queue_thrown: "queue (thrown p j e s) = update_where (held_by j) (fail_row p j e) (queue s)"
  by (simp add: thrown_def fail_job_def fail_row_def [abs_def] Let_def split: option.splits)

text \<open>The row the worker holds is the one it leased.\<close>

lemma update_held:
  "update_where (held_by (leased_row owner now j)) f
     (update_where (\<lambda>x. job_key x = job_key j) (leased_row owner now) rows) =
   update_where (\<lambda>x. job_key x = job_key j) (f \<circ> leased_row owner now) rows"
  by (simp add: update_where_def held_by_def leased_row_def)

lemma leaseE:
  assumes "lease owner now s = Some (j, s1)"
  obtains j0 where "List.find (job_ready now) (queue s) = Some j0" "j = leased_row owner now j0"
    "s1 = with_job (\<lambda>x. job_key x = job_key j0) (leased_row owner now) s"
  using assms by (auto simp: lease_def split: option.splits)

text \<open>What a poll may leave in the row it worked on.\<close>

definition row_after :: "poll \<Rightarrow> queue_job \<Rightarrow> queue_job \<Rightarrow> bool" where
  "row_after p j x = (job_key x = job_key j \<and> job_mail x = job_mail j \<and>
     (settled x \<or> (job_state x = Job_pending \<and> job_attempts x = job_attempts j \<and> job_attempts j < 5 \<and>
        retry_at x \<le> poll_end p + 300000)))"

lemma row_after_ack: "row_after p j (j\<lparr>job_state := Job_succeeded, lease_until := None\<rparr>)"
  by (simp add: row_after_def settled_def)

lemma backoff_bound: "backoff n \<le> 300000"
  by (simp add: backoff_def)

lemma row_after_fail: "row_after p j (fail_row p j e j)"
  using backoff_bound [of "job_attempts j"]
  by (auto simp: row_after_def settled_def fail_row_def failed_state_def)

definition survives :: "poll \<Rightarrow> bool" where
  "survives p = ((\<forall>i. send p i \<noteq> Dies_sending) \<and> (\<forall>j. handler p j \<noteq> Dies))"

lemma process_mail_row:
  assumes "survives p"
  obtains f where "queue (snd (process_mail p j i s)) = update_where (held_by j) f (queue s)" "row_after p j (f j)"
proof (cases "may_send p i s")
  case (Inl e)
  then show thesis using that [of "fail_row p j e"] by (simp add: process_mail_def queue_thrown row_after_fail)
next
  case (Inr b)
  let ?ack = "\<lambda>x. x\<lparr>job_state := Job_succeeded, lease_until := None\<rparr>"
  show thesis
  proof (cases b)
    case False
    then show thesis using Inr that [of ?ack] by (simp add: process_mail_def queue_ack row_after_ack)
  next
    case True
    show thesis
    proof (cases "send p i")
      case (Sent st ref)
      then show thesis using Inr True that [of ?ack] by (simp add: process_mail_def queue_ack row_after_ack Let_def)
    next
      case (Unrecorded e)
      then show thesis using Inr True that [of "fail_row p j e"]
        by (simp add: process_mail_def queue_thrown row_after_fail Let_def)
    next
      case (Refused e)
      then show thesis using Inr True that [of "fail_row p j e"]
        by (simp add: process_mail_def queue_thrown row_after_fail Let_def)
    next
      case Dies_sending
      then show thesis using assms by (simp add: survives_def)
    qed
  qed
qed

lemma processOne_row:
  assumes "survives p" "lease owner (poll_at p) s = Some (j, s1)"
  obtains f where "queue (snd (processOne owner p s)) = update_where (held_by j) f (queue s1)" "row_after p j (f j)"
proof (cases "job_mail j")
  case (Some i)
  then show thesis using process_mail_row [OF assms(1), of j i s1] that assms(2) by (auto simp: processOne_def)
next
  case None
  show thesis
  proof (cases "handler p j")
    case Returns
    then show thesis using None that [of "\<lambda>x. x\<lparr>job_state := Job_succeeded, lease_until := None\<rparr>"] assms(2)
      by (simp add: processOne_def queue_ack row_after_ack)
  next
    case (Throws e)
    then show thesis using None that [of "fail_row p j e"] assms(2)
      by (simp add: processOne_def queue_thrown row_after_fail)
  next
    case Dies
    then show thesis using assms(1) by (simp add: survives_def)
  qed
qed

section \<open>The queue drains\<close>

definition effort :: "queue_job \<Rightarrow> nat" where
  "effort j = (if settled j then 0 else 5 - min 4 (job_attempts j))"

definition total_effort :: "mail_store \<Rightarrow> nat" where
  "total_effort s = sum_list (map effort (queue s))"

text \<open>Nothing is leased and every open job is due.\<close>

definition all_due :: "instant \<Rightarrow> mail_store \<Rightarrow> bool" where
  "all_due now s = (distinct (map job_key (queue s)) \<and>
     (\<forall>j\<in>set (queue s). settled j \<or> (job_state j = Job_pending \<and> retry_at j \<le> now)))"

fun spaced :: "instant \<Rightarrow> poll list \<Rightarrow> bool" where
  "spaced t [] = True"
| "spaced t (p # ps) = (t \<le> poll_at p \<and> poll_at p \<le> poll_end p \<and> spaced (poll_end p + 300000) ps)"

lemma update_where_one:
  assumes "distinct (map job_key (xs @ j # ys))"
  shows "update_where (\<lambda>x. job_key x = job_key j) f (xs @ j # ys) = xs @ f j # ys"
proof -
  have "\<forall>x\<in>set xs \<union> set ys. job_key x \<noteq> job_key j" using assms by (auto simp: image_iff)
  then have "map (\<lambda>x. if job_key x = job_key j then f x else x) xs = xs" "map (\<lambda>x. if job_key x = job_key j then f x else x) ys = ys"
    by (auto intro: map_idI)
  then show ?thesis by (simp add: update_where_def)
qed

lemma poll_progress:
  assumes due: "all_due t s" and t: "t \<le> poll_at p" "poll_at p \<le> poll_end p" and p: "survives p"
  shows "all_due (poll_end p + 300000) (snd (processOne owner p s)) \<and>
    (total_effort (snd (processOne owner p s)) < total_effort s \<or> (\<forall>j\<in>set (queue s). settled j) \<and> snd (processOne owner p s) = s)"
proof (cases "lease owner (poll_at p) s")
  case None
  then have "\<forall>j\<in>set (queue s). \<not> job_ready (poll_at p) j" by (auto simp: lease_def find_None_iff' split: option.splits)
  then have "\<forall>j\<in>set (queue s). settled j" using due t by (fastforce simp: all_due_def job_ready_def)
  moreover have "snd (processOne owner p s) = s" using None by (simp add: processOne_def)
  ultimately show ?thesis using due by (simp add: all_due_def)
next
  case (Some js)
  obtain j s1 where js: "js = (j, s1)" by (cases js)
  obtain j0 where j0: "List.find (job_ready (poll_at p)) (queue s) = Some j0" "j = leased_row owner (poll_at p) j0"
    "s1 = with_job (\<lambda>x. job_key x = job_key j0) (leased_row owner (poll_at p)) s"
    using Some js by (auto elim: leaseE)
  obtain f where f: "queue (snd (processOne owner p s)) = update_where (held_by j) f (queue s1)" "row_after p j (f j)"
    using processOne_row [OF p] Some js by blast
  obtain xs ys where q: "queue s = xs @ j0 # ys" using find_SomeD [OF j0(1)] by (meson in_set_conv_decomp)
  have keys: "distinct (map job_key (xs @ j0 # ys))" using due q by (simp add: all_due_def)
  have after: "queue (snd (processOne owner p s)) = xs @ f j # ys"
    using f(1) unfolding j0(2,3) queue_simps update_held unfolding q update_where_one [OF keys] by (simp only: o_apply)
  have key: "job_key (f j) = job_key j0" and attempts: "job_attempts j = Suc (job_attempts j0)"
    using f(2) by (simp_all add: row_after_def j0(2) leased_row_def)
  have open0: "\<not> settled j0" using find_SomeD [OF j0(1)] by (auto simp: job_ready_def settled_def)
  have "effort (f j) < effort j0"
    using f(2) open0 attempts by (auto simp: effort_def row_after_def)
  then have "total_effort (snd (processOne owner p s)) < total_effort s" by (simp add: total_effort_def after q)
  moreover have "all_due (poll_end p + 300000) (snd (processOne owner p s))"
  proof -
    have "settled x \<or> (job_state x = Job_pending \<and> retry_at x \<le> poll_end p + 300000)" if "x \<in> set xs \<union> set ys" for x
      using that due t unfolding all_due_def q by force
    moreover have "settled (f j) \<or> (job_state (f j) = Job_pending \<and> retry_at (f j) \<le> poll_end p + 300000)"
      using f(2) by (auto simp: row_after_def)
    ultimately show ?thesis using keys key unfolding all_due_def after by auto
  qed
  ultimately show ?thesis by blast
qed

lemma drains:
  assumes "all_due t s" "spaced t ps" "\<forall>p\<in>set ps. survives p" "total_effort s \<le> length ps"
  shows "\<forall>j\<in>set (queue (snd (run_ops queue_step (map (Poll owner) ps) s))). settled j"
  using assms
proof (induction ps arbitrary: t s)
  case Nil
  have "settled j" if "j \<in> set (queue s)" for j
  proof (rule ccontr)
    assume "\<not> settled j"
    then have "0 < effort j" by (simp add: effort_def)
    moreover have "effort j \<le> total_effort s" using that unfolding total_effort_def by (simp add: member_le_sum_list)
    ultimately show False using Nil.prems(4) by simp
  qed
  then show ?case by simp
next
  case (Cons p ps)
  let ?s = "snd (processOne owner p s)"
  have step: "all_due (poll_end p + 300000) ?s \<and> (total_effort ?s < total_effort s \<or> (\<forall>j\<in>set (queue s). settled j) \<and> ?s = s)"
    using poll_progress [OF Cons.prems(1), of p owner] Cons.prems(2,3) by simp
  have "total_effort s = 0" if "\<forall>j\<in>set (queue s). settled j"
    using that by (simp add: total_effort_def effort_def sum_list_eq_0_iff)
  then have "total_effort ?s \<le> length ps" using step Cons.prems(4) by auto
  then show ?case using Cons.IH [of "poll_end p + 300000" ?s] step Cons.prems(2,3) by simp
qed

text \<open>
  C27. The queue drains: a worker that polls on with pauses of at least the longest retry delay
  (three hundred seconds) and does not die leaves every job succeeded, failed or marked
  uncertain after five polls per job, whatever the handlers and the mail provider do.
\<close>

theorem queue_drains:
  assumes "all_due t s" "spaced t ps" "\<forall>p\<in>set ps. survives p" "5 * length (queue s) \<le> length ps"
  shows "\<forall>j\<in>set (queue (snd (run_ops queue_step (map (Poll owner) ps) s))). settled j"
proof (rule drains [OF assms(1-3)])
  have "effort j \<le> 5" for j by (simp add: effort_def)
  then have "total_effort s \<le> 5 * length (queue s)"
    using sum_list_mono [of "queue s" effort "\<lambda>_. 5"] by (simp add: total_effort_def sum_list_triv)
  then show "total_effort s \<le> length ps" using assms(4) by simp
qed

definition demo_queue :: mail_store where
  "demo_queue = \<lparr>queue =
      [\<lparr>job_key = 1, job_mail = Some 10, job_state = Job_pending, job_attempts = 0, lease_owner = None, lease_until = None,
        retry_at = 0, job_error = None\<rparr>],
     mails = [\<lparr>mail_id = 10, mail_recipient = ''a@b.c'', mail_state = Queued, provider_ref = None,
        provider_event_at = None, mail_error = None\<rparr>], inbox = []\<rparr>"

definition demo_poll :: "bool \<Rightarrow> delivery \<Rightarrow> instant \<Rightarrow> poll" where
  "demo_poll safe d now = \<lparr>poll_at = now, poll_end = now + 1000, handler = (\<lambda>_. Returns), idempotent = safe,
     wedding_live = True, context_error = None, send = (\<lambda>_. d)\<rparr>"

definition demo_refusals :: "poll list" where
  "demo_refusals = map (\<lambda>n. demo_poll True (Refused (Email_error ''EMAIL_RATE_LIMITED'' True)) (400000 * n)) [1, 2, 3, 4, 5]"

theorem queue_drains_witness:
  "map job_state (queue (snd (run_ops queue_step (map (Poll ''w'') (take 4 demo_refusals)) demo_queue))) = [Job_pending] \<and>
   list_all settled (queue (snd (run_ops queue_step (map (Poll ''w'') demo_refusals) demo_queue)))"
proof
  show "map job_state (queue (snd (run_ops queue_step (map (Poll ''w'') (take 4 demo_refusals)) demo_queue))) = [Job_pending]"
    by code_simp
  have "all_due 0 demo_queue" by (simp add: all_due_def demo_queue_def)
  moreover have "spaced 0 demo_refusals" by (simp add: demo_refusals_def demo_poll_def)
  moreover have "\<forall>p\<in>set demo_refusals. survives p" by (simp add: demo_refusals_def demo_poll_def survives_def)
  moreover have "5 * length (queue demo_queue) \<le> length demo_refusals" by (simp add: demo_queue_def demo_refusals_def)
  ultimately show "list_all settled (queue (snd (run_ops queue_step (map (Poll ''w'') demo_refusals) demo_queue)))"
    unfolding list_all_iff by (rule queue_drains)
qed

section \<open>At most one submission\<close>


definition mail_rows :: "uuid \<Rightarrow> mail_store \<Rightarrow> mail_row list" where
  "mail_rows i s = filter (\<lambda>m. mail_id m = i) (mails s)"

definition unsent_ref :: "uuid \<Rightarrow> mail_store \<Rightarrow> bool" where
  "unsent_ref i s = list_all (\<lambda>m. provider_ref m = None) (mail_rows i s)"





text \<open>What a step does to the rest: other jobs and the messages with an open job are left alone.\<close>

definition quiet_mails :: "uuid option \<Rightarrow> mail_store \<Rightarrow> mail_store \<Rightarrow> bool" where
  "quiet_mails k s s' = (map mail_id (mails s') = map mail_id (mails s) \<and>
     (\<forall>i. Some i \<noteq> k \<longrightarrow> unsent_ref i s \<longrightarrow> mail_rows i s' = mail_rows i s))"


lemma quiet_mails_refl [simp]: "quiet_mails k s s"
  by (simp add: quiet_mails_def)














section \<open>The message of the polled job\<close>




lemma rows_with_job [simp]: "mail_rows i (with_job P f s) = mail_rows i s"
  by (simp add: mail_rows_def with_job_def)

lemma rows_fail_job [simp]: "mail_rows i (fail_job j c r t s) = mail_rows i s"
  by (simp add: fail_job_def)











section \<open>Every step\<close>
















text \<open>
  A submission the provider accepted and the database then failed to record leaves the message
  failed, the one state in which the owner is offered a new attempt.
\<close>

lemma unrecorded_reads_failed:
  "let (out, s) = queue_step (Poll ''w'' (demo_poll True (Unrecorded (Other_error ''ECONNRESET'')) 5)) demo_queue
   in out = Some 10 \<and> map mail_state (mails s) = [Mail_failed] \<and> map job_state (queue s) = [Job_failed]"
  by code_simp

end
