(* ===== verification/GuestCsv.thy ===== *)
theory GuestCsv
  imports Tenancy
begin

text \<open>
  Spreadsheet text: \<open>csvCell\<close>, \<open>parseCsv\<close> and \<open>csvExport\<close> of
  \<^verbatim>\<open>packages/persistence/src/guests.ts\<close>. A cell is quoted, its quotes are doubled,
  and text a spreadsheet would read as a formula gets a leading apostrophe.
\<close>

section \<open>Writing\<close>

definition formula_start :: "string \<Rightarrow> bool" where
  "formula_start s = (case dropWhile is_space s of [] \<Rightarrow> False | c # _ \<Rightarrow> c \<in> set ''=+-@'')"

definition guarded :: "string \<Rightarrow> string" where
  "guarded s = (if formula_start s then CHR 0x27 # s else s)"

abbreviation dquote :: char where
  "dquote \<equiv> CHR 0x22"

definition csvCell :: "string \<Rightarrow> string" where
  "csvCell s = dquote # js_replace_all dquote [dquote, dquote] (guarded s) @ [dquote]"

definition crlf :: string where
  "crlf = [CHR 0x0D, CHR 0x0A]"

definition csv_row :: "string list \<Rightarrow> string" where
  "csv_row cells = js_join '','' (map csvCell cells)"

section \<open>Reading\<close>

record csv_state =
  csv_rows :: "string list list"
  csv_cells :: "string list"
  csv_text :: string
  csv_quoted :: bool

definition csv_start :: csv_state where
  "csv_start = \<lparr>csv_rows = [], csv_cells = [], csv_text = [], csv_quoted = False\<rparr>"

definition push_char :: "char \<Rightarrow> csv_state \<Rightarrow> csv_state" where
  "push_char c s = s\<lparr>csv_text := csv_text s @ [c]\<rparr>"

definition push_cell :: "csv_state \<Rightarrow> csv_state" where
  "push_cell s = s\<lparr>csv_cells := csv_cells s @ [csv_text s], csv_text := []\<rparr>"

text \<open>\<open>row.some(c => c)\<close>: rows of empty cells are left out.\<close>

definition kept_row :: "string list \<Rightarrow> bool" where
  "kept_row cells = list_ex (\<lambda>c. c \<noteq> []) cells"

definition push_row :: "csv_state \<Rightarrow> csv_state" where
  "push_row s = (let s' = push_cell s in
     s'\<lparr>csv_rows := (if kept_row (csv_cells s') then csv_rows s' @ [csv_cells s'] else csv_rows s'), csv_cells := []\<rparr>)"

fun csv_loop :: "string \<Rightarrow> csv_state \<Rightarrow> csv_state outcome" where
  "csv_loop [] s = Inr s"
| "csv_loop (c # cs) s =
     (if c = dquote then
        if csv_quoted s \<and> starts_with [dquote] cs then csv_loop (drop 1 cs) (push_char dquote s)
        else if csv_text s = [] \<or> csv_quoted s then csv_loop cs (s\<lparr>csv_quoted := \<not> csv_quoted s\<rparr>)
        else Inl (Domain_error 400 ''CSV_INVALID'')
      else if c = CHR '','' \<and> \<not> csv_quoted s then csv_loop cs (push_cell s)
      else if (c = CHR 0x0A \<or> c = CHR 0x0D) \<and> \<not> csv_quoted s
      then csv_loop (if c = CHR 0x0D \<and> starts_with [CHR 0x0A] cs then drop 1 cs else cs) (push_row s)
      else csv_loop cs (push_char c s))"

definition parseCsv :: "string \<Rightarrow> string list list outcome" where
  "parseCsv text =
     (case csv_loop text csv_start of
        Inl e \<Rightarrow> Inl e
      | Inr s \<Rightarrow> if csv_quoted s then Inl (Domain_error 400 ''CSV_INVALID'')
          else (let rows = csv_rows (push_row s)
                in if 1001 < length rows then Inl (Domain_error 400 ''CSV_TOO_LARGE'') else Inr rows))"

section \<open>The guest list\<close>

record csv_party =
  csv_party_id :: uuid
  csv_party_name :: string

record csv_guest =
  csv_guest_id :: uuid
  csv_guest_party :: uuid
  csv_guest_name :: string
  csv_guest_email :: "string option"
  csv_guest_phone :: string
  csv_guest_group :: string
  csv_guest_events :: "string list"
  csv_plus_one_of :: "uuid option"

definition csv_header :: string where
  "csv_header = ''household,name,email,phone,group,event_ids,plus_ones''"

definition guest_cells :: "csv_party list \<Rightarrow> csv_guest list \<Rightarrow> csv_guest \<Rightarrow> string list" where
  "guest_cells parties guests g =
     [case List.find (\<lambda>p. csv_party_id p = csv_guest_party g) parties of Some p \<Rightarrow> csv_party_name p | None \<Rightarrow> [],
      csv_guest_name g, (case csv_guest_email g of Some e \<Rightarrow> e | None \<Rightarrow> []), csv_guest_phone g, csv_guest_group g,
      js_join ''|'' (csv_guest_events g),
      show_nat (length (filter (\<lambda>p. csv_plus_one_of p = Some (csv_guest_id g)) guests))]"

definition csvExport :: "csv_party list \<Rightarrow> csv_guest list \<Rightarrow> string" where
  "csvExport parties guests =
     csv_header @ crlf @
     js_join crlf (map (\<lambda>g. csv_row (guest_cells parties guests g)) (filter (\<lambda>g. csv_plus_one_of g = None) guests))"

section \<open>Reading what was written\<close>

lemma starts_with_Cons: "starts_with [c] (x # xs) \<longleftrightarrow> x = c"
  by (auto simp: starts_with_def)

lemma starts_with_Nil: "\<not> starts_with [c] []"
  by (simp add: starts_with_def)

text \<open>Inside quotes everything is text; the closing quote is not followed by another one.\<close>

lemma read_quoted:
  assumes "\<not> starts_with [dquote] rest" "csv_quoted s"
  shows "csv_loop (js_replace_all dquote [dquote, dquote] t @ dquote # rest) s =
    csv_loop rest (s\<lparr>csv_text := csv_text s @ t, csv_quoted := False\<rparr>)"
  using assms(2)
proof (induction t arbitrary: s)
  case Nil
  then show ?case using assms(1) by simp
next
  case (Cons c t)
  show ?case
  proof (cases "c = dquote")
    case True
    then show ?thesis using Cons.prems Cons.IH [of "push_char dquote s"]
      by (simp add: starts_with_Cons push_char_def)
  next
    case False
    then show ?thesis using Cons.prems Cons.IH [of "push_char c s"] by (simp add: push_char_def)
  qed
qed

lemma read_cell:
  assumes "\<not> starts_with [dquote] rest" "\<not> csv_quoted s" "csv_text s = []"
  shows "csv_loop (csvCell t @ rest) s = csv_loop rest (s\<lparr>csv_text := guarded t\<rparr>)"
proof -
  have "s\<lparr>csv_text := guarded t, csv_quoted := False\<rparr> = s\<lparr>csv_text := guarded t\<rparr>" using assms(2) by (cases s) simp
  moreover have "csv_loop (csvCell t @ rest) s = csv_loop rest (s\<lparr>csv_text := guarded t, csv_quoted := False\<rparr>)"
    using read_quoted [OF assms(1), of "s\<lparr>csv_quoted := True\<rparr>" "guarded t"] assms(2,3) by (simp add: csvCell_def)
  ultimately show ?thesis by (simp only:)
qed

text \<open>A state between cells.\<close>

definition between :: "string list list \<Rightarrow> string list \<Rightarrow> string \<Rightarrow> csv_state" where
  "between rows cells t = \<lparr>csv_rows = rows, csv_cells = cells, csv_text = t, csv_quoted = False\<rparr>"

lemma between_simps [simp]:
  "push_cell (between rows cells t) = between rows (cells @ [t]) []"
  "push_row (between rows cells t) =
     between (if kept_row (cells @ [t]) then rows @ [cells @ [t]] else rows) [] []"
  "csv_quoted (between rows cells t) = False"
  by (simp_all add: between_def push_cell_def push_row_def Let_def)

lemma read_cell_between:
  "\<not> starts_with [dquote] rest \<Longrightarrow> csv_loop (csvCell t @ rest) (between rows cells []) = csv_loop rest (between rows cells (guarded t))"
  using read_cell [of rest "between rows cells []" t] by (simp add: between_def)

lemma read_row:
  assumes "\<not> starts_with [dquote] rest" "xs \<noteq> []"
  shows "csv_loop (csv_row xs @ rest) (between rows cells []) =
    csv_loop rest (between rows (cells @ map guarded (butlast xs)) (guarded (last xs)))"
  using assms(2)
proof (induction xs arbitrary: cells)
  case Nil
  then show ?case by simp
next
  case (Cons x xs)
  show ?case
  proof (cases xs)
    case Nil
    then show ?thesis using read_cell_between [OF assms(1)] by (simp add: csv_row_def)
  next
    case (Cons y ys)
    have "csv_row (x # xs) @ rest = csvCell x @ CHR '','' # (csv_row xs @ rest)" by (simp add: csv_row_def Cons)
    moreover have "csv_loop (csvCell x @ CHR '','' # (csv_row xs @ rest)) (between rows cells []) =
        csv_loop (csv_row xs @ rest) (between rows (cells @ [guarded x]) [])"
      by (subst read_cell_between) (simp_all add: starts_with_Cons between_def push_cell_def)
    ultimately show ?thesis using Cons.IH [of "cells @ [guarded x]"] Cons by simp
  qed
qed

lemma read_plain:
  assumes "\<forall>c\<in>set t. c \<noteq> dquote \<and> c \<noteq> CHR '','' \<and> c \<noteq> CHR 0x0A \<and> c \<noteq> CHR 0x0D"
  shows "csv_loop (t @ rest) (between rows cells u) = csv_loop rest (between rows cells (u @ t))"
  using assms
proof (induction t arbitrary: u)
  case (Cons c t)
  then show ?case using Cons.IH [of "u @ [c]"] by (simp add: between_def push_char_def)
qed simp

lemma read_line_end:
  "csv_loop (crlf @ rest) (between rows cells t) =
    csv_loop rest (between (if kept_row (cells @ [t]) then rows @ [cells @ [t]] else rows) [] [])"
  by (simp add: crlf_def starts_with_Cons)

lemma read_comma: "csv_loop (CHR '','' # rest) (between rows cells t) = csv_loop rest (between rows (cells @ [t]) [])"
  by (simp add: between_def push_cell_def)

definition header_cells :: "string list" where
  "header_cells = [''household'', ''name'', ''email'', ''phone'', ''group'', ''event_ids'', ''plus_ones'']"

definition plain_cell :: "string \<Rightarrow> bool" where
  "plain_cell t = (\<forall>c\<in>set t. c \<noteq> dquote \<and> c \<noteq> CHR '','' \<and> c \<noteq> CHR 0x0A \<and> c \<noteq> CHR 0x0D)"

lemma read_plain_cells:
  assumes "\<forall>t\<in>set xs. plain_cell t" "xs \<noteq> []"
  shows "csv_loop (js_join '','' xs @ rest) (between rows cells []) = csv_loop rest (between rows (cells @ butlast xs) (last xs))"
  using assms
proof (induction xs arbitrary: cells)
  case Nil
  then show ?case by simp
next
  case (Cons x xs)
  have x: "\<forall>c\<in>set x. c \<noteq> dquote \<and> c \<noteq> CHR '','' \<and> c \<noteq> CHR 0x0A \<and> c \<noteq> CHR 0x0D" using Cons.prems by (simp add: plain_cell_def)
  show ?case
  proof (cases xs)
    case Nil
    then show ?thesis using read_plain [OF x, of rest rows cells "[]"] by simp
  next
    case (Cons y ys)
    then show ?thesis
      using read_plain [OF x, of "CHR '','' # js_join '','' xs @ rest" rows cells "[]"] read_comma Cons.IH [of "cells @ [x]"] Cons.prems
      by simp
  qed
qed

lemma header_join: "csv_header = js_join '','' header_cells" "\<forall>t\<in>set header_cells. plain_cell t"
  by (simp_all add: csv_header_def header_cells_def plain_cell_def)

lemma guarded_Nil_iff [simp]: "guarded t = [] \<longleftrightarrow> t = []"
  by (auto simp: guarded_def formula_start_def)

lemma kept_guarded: "kept_row (map guarded xs) = kept_row xs"
  by (simp add: kept_row_def list_ex_iff)

lemma csv_row_no_quote: "xs = [] \<or> \<not> starts_with [dquote] (crlf @ rest)"
  by (simp add: crlf_def starts_with_Cons)

lemma snoc_guarded: "xs \<noteq> [] \<Longrightarrow> map guarded (butlast xs) @ [guarded (last xs)] = map guarded xs"
  by (metis append_butlast_last_id list.map(1,2) map_append)

text \<open>A list of rows, joined by line ends, is read back row by row; the last row stays pending.\<close>

lemma read_rows:
  assumes "\<forall>xs\<in>set rs. xs \<noteq> [] \<and> kept_row xs" "rs \<noteq> []"
  shows "\<exists>s. csv_loop (js_join crlf (map csv_row rs)) (between rows [] []) = Inr s \<and> \<not> csv_quoted s \<and>
    csv_rows (push_row s) = rows @ map (map guarded) rs"
  using assms
proof (induction rs arbitrary: rows)
  case Nil
  then show ?case by simp
next
  case (Cons r rs)
  have r: "r \<noteq> []" "kept_row (map guarded r)" using Cons.prems(1) kept_guarded by auto
  show ?case
  proof (cases rs)
    case Nil
    have "csv_loop (csv_row r) (between rows [] []) = Inr (between rows (map guarded (butlast r)) (guarded (last r)))"
      using read_row [of "[]" r rows "[]"] r(1) starts_with_Nil by simp
    then show ?thesis using r Nil snoc_guarded [OF r(1)] by (simp add: between_def push_row_def push_cell_def Let_def)
  next
    case (Cons y ys)
    have "csv_loop (csv_row r @ crlf @ js_join crlf (map csv_row rs)) (between rows [] []) =
        csv_loop (js_join crlf (map csv_row rs)) (between (rows @ [map guarded r]) [] [])"
      using read_row [of "crlf @ js_join crlf (map csv_row rs)" r rows "[]"] read_line_end r snoc_guarded [OF r(1)]
      by (simp add: crlf_def starts_with_Cons)
    moreover have "js_join crlf (map csv_row (r # rs)) = csv_row r @ crlf @ js_join crlf (map csv_row rs)"
      by (simp add: Cons)
    ultimately show ?thesis using Cons.IH [of "rows @ [map guarded r]"] Cons.prems(1) Cons by simp
  qed
qed

lemma guest_cells_kept: "guest_cells parties guests g \<noteq> [] \<and> kept_row (guest_cells parties guests g)"
  by (simp add: guest_cells_def kept_row_def)

definition exported_rows :: "csv_party list \<Rightarrow> csv_guest list \<Rightarrow> string list list" where
  "exported_rows parties guests =
     header_cells # map (\<lambda>g. map guarded (guest_cells parties guests g)) (filter (\<lambda>g. csv_plus_one_of g = None) guests)"

lemma read_export:
  "\<exists>s. csv_loop (csvExport parties guests) csv_start = Inr s \<and> \<not> csv_quoted s \<and>
    csv_rows (push_row s) = exported_rows parties guests"
proof -
  let ?main = "filter (\<lambda>g. csv_plus_one_of g = None) guests"
  let ?rs = "map (guest_cells parties guests) ?main"
  have hd: "csv_loop (csvExport parties guests) csv_start = csv_loop (js_join crlf (map csv_row ?rs)) (between [header_cells] [] [])"
  proof -
    have "csv_loop (csvExport parties guests) csv_start =
        csv_loop (crlf @ js_join crlf (map csv_row ?rs)) (between [] (butlast header_cells) (last header_cells))"
      using read_plain_cells [OF header_join(2), of "crlf @ js_join crlf (map csv_row ?rs)" "[]" "[]"]
      by (simp add: csvExport_def header_join(1) csv_start_def between_def o_def header_cells_def)
    moreover have "kept_row header_cells" by (simp add: kept_row_def header_cells_def)
    ultimately show ?thesis
      using read_line_end [of "js_join crlf (map csv_row ?rs)" "[]" "butlast header_cells" "last header_cells"]
      by (simp add: header_cells_def)
  qed
  show ?thesis
  proof (cases "?rs = []")
    case True
    then show ?thesis by (simp add: hd exported_rows_def between_def push_row_def push_cell_def kept_row_def Let_def)
  next
    case False
    then show ?thesis using read_rows [of ?rs "[header_cells]"] guest_cells_kept by (simp add: hd exported_rows_def o_def)
  qed
qed

text \<open>
  C29. The exported guest list reads back: parsing the text of an export gives its header and, for
  every guest who is not a plus one, the exported cells unchanged but for the apostrophe in front
  of a formula; a list of more than a thousand guests is refused as too large.
\<close>

theorem export_reads_back:
  "parseCsv (csvExport parties guests) =
    (if 1001 < length (exported_rows parties guests) then Inl (Domain_error 400 ''CSV_TOO_LARGE'')
     else Inr (exported_rows parties guests))"
  using read_export [of parties guests] by (auto simp: parseCsv_def Let_def)

end
