(* ===== verification/Cursors.thy ===== *)
theory Cursors
  imports Session Tenancy
begin

text \<open>
  List positions, \<^verbatim>\<open>packages/persistence/src/cursors.ts\<close>: the schema of a cursor, its
  encoding as base64url of JSON, and the decoding that refuses any text that is not a position
  in the very list it is used for. The schema library's tests of a uuid and of a
  timestamp are parameters; uuids and timestamps are texts here.
\<close>

section \<open>The schema\<close>

record list_cursor =
  cursor_kind :: string
  cursor_wedding :: string
  cursor_id :: string
  cursor_created :: "string option"
  cursor_event :: "string option"
  cursor_label :: "string option"
  cursor_filter :: "string option"
  cursor_position :: "nat option"

record text_formats =
  uuid_text :: "string \<Rightarrow> bool"
  datetime_text :: "string \<Rightarrow> bool"

definition cursor_kinds :: "string list" where
  "cursor_kinds =
     [''albums'', ''invitation-designs'', ''events'', ''members'', ''member-invites'', ''workspaces'', ''media'',
      ''invitation-exports'', ''creative-runs'', ''public-posts'', ''staff-posts'', ''upload-grants'', ''passes'',
      ''pass-eligible'', ''guests'', ''guest-requests'', ''archive-exports'', ''creative-concepts'', ''creative-briefs'',
      ''creative-references'']"

definition opt_all :: "('a \<Rightarrow> bool) \<Rightarrow> 'a option \<Rightarrow> bool" where
  "opt_all p x = (case x of None \<Rightarrow> True | Some y \<Rightarrow> p y)"

text \<open>\<^verbatim>\<open>/^[a-f0-9]{64}$/\<close>\<close>

definition sha256_text :: "string \<Rightarrow> bool" where
  "sha256_text s = (length s = 64 \<and> list_all (\<lambda>c. is_digit c \<or> (97 \<le> code_of c \<and> code_of c \<le> 102)) s)"

definition valid_cursor :: "text_formats \<Rightarrow> list_cursor \<Rightarrow> bool" where
  "valid_cursor f c = (cursor_kind c \<in> set cursor_kinds \<and> uuid_text f (cursor_wedding c) \<and> uuid_text f (cursor_id c)
     \<and> opt_all (datetime_text f) (cursor_created c) \<and> opt_all (uuid_text f) (cursor_event c)
     \<and> opt_all (\<lambda>s. length s \<le> 300) (cursor_label c) \<and> opt_all sha256_text (cursor_filter c)
     \<and> opt_all (\<lambda>n. n \<le> 100000) (cursor_position c))"

section \<open>Encoding\<close>

text \<open>\<open>JSON.stringify\<close> of an object of texts and counts; an undefined member is left out.\<close>

fun json_text :: "json \<Rightarrow> string" where
  "json_text (JStr s) = json_quote s"
| "json_text (JNum q) = show_nat (nat (floor q))"
| "json_text _ = ''null''"

definition json_object_text :: "(string \<times> json) list \<Rightarrow> string" where
  "json_object_text ms = ''{'' @ js_join '','' (map (\<lambda>(k, v). json_quote k @ '':'' @ json_text v) ms) @ ''}''"

definition optional_member :: "string \<Rightarrow> ('a \<Rightarrow> json) \<Rightarrow> 'a option \<Rightarrow> (string \<times> json) list" where
  "optional_member k f x = (case x of None \<Rightarrow> [] | Some y \<Rightarrow> [(k, f y)])"

definition cursor_members :: "list_cursor \<Rightarrow> (string \<times> json) list" where
  "cursor_members c =
     [(''version'', JNum 1), (''kind'', JStr (cursor_kind c)), (''weddingId'', JStr (cursor_wedding c)), (''id'', JStr (cursor_id c))]
     @ optional_member ''createdAt'' JStr (cursor_created c) @ optional_member ''eventId'' JStr (cursor_event c)
     @ optional_member ''label'' JStr (cursor_label c) @ optional_member ''filterHash'' JStr (cursor_filter c)
     @ optional_member ''position'' (\<lambda>n. JNum (of_nat n)) (cursor_position c)"

definition encodeCursor :: "text_formats \<Rightarrow> list_cursor \<Rightarrow> string option" where
  "encodeCursor f c =
     (if valid_cursor f c then Some (base64url_encode (utf8_encode (json_object_text (cursor_members c)))) else None)"

section \<open>Decoding\<close>

text \<open>A strict object schema: known members of their types only.\<close>

definition known_members :: "string list" where
  "known_members = [''version'', ''kind'', ''weddingId'', ''id'', ''createdAt'', ''eventId'', ''label'', ''filterHash'', ''position'']"

definition str_member :: "string \<Rightarrow> json \<Rightarrow> string option option" where
  "str_member k v = (case json_get k v of None \<Rightarrow> Some None | Some (JStr s) \<Rightarrow> Some (Some s) | _ \<Rightarrow> None)"

definition nat_member :: "string \<Rightarrow> json \<Rightarrow> nat option option" where
  "nat_member k v = (case json_get k v of
     None \<Rightarrow> Some None
   | Some (JNum q) \<Rightarrow> if 0 \<le> q \<and> q = of_int (floor q) then Some (Some (nat (floor q))) else None
   | _ \<Rightarrow> None)"

definition read_cursor :: "text_formats \<Rightarrow> json \<Rightarrow> list_cursor option" where
  "read_cursor f v = (case v of
     JObj ms \<Rightarrow>
       (if \<not> list_all (\<lambda>m. fst m \<in> set known_members) ms \<or> json_get ''version'' v \<noteq> Some (JNum 1) then None
        else (case (json_str ''kind'' v, json_str ''weddingId'' v, json_str ''id'' v, str_member ''createdAt'' v,
                    str_member ''eventId'' v, str_member ''label'' v, str_member ''filterHash'' v, nat_member ''position'' v) of
            (Some k, Some w, Some i, Some t, Some e, Some l, Some h, Some p) \<Rightarrow>
              (let c = \<lparr>cursor_kind = k, cursor_wedding = w, cursor_id = i, cursor_created = t, cursor_event = e,
                 cursor_label = l, cursor_filter = h, cursor_position = p\<rparr>
               in if valid_cursor f c then Some c else None)
          | _ \<Rightarrow> None))
   | _ \<Rightarrow> None)"

text \<open>A cursor of a list holds what the list sorts by.\<close>

definition complete_cursor :: "text_formats \<Rightarrow> list_cursor \<Rightarrow> bool" where
  "complete_cursor f c =
     ((if cursor_kind c = ''albums'' then cursor_label c \<noteq> None else opt_all (\<lambda>t. t \<noteq> []) (cursor_created c) \<and> cursor_created c \<noteq> None)
      \<and> (cursor_kind c = ''events'' \<longrightarrow> (case cursor_label c of None \<Rightarrow> False | Some l \<Rightarrow> l = [] \<or> datetime_text f l))
      \<and> (cursor_kind c = ''media'' \<or> cursor_kind c = ''albums'' \<longrightarrow> cursor_position c \<noteq> None)
      \<and> (cursor_kind c = ''pass-eligible'' \<longrightarrow> cursor_event c \<noteq> None)
      \<and> (cursor_kind c = ''guests'' \<longrightarrow> cursor_label c \<noteq> None \<and> cursor_filter c \<noteq> None))"

definition invalidCursor :: domain_error where
  "invalidCursor = Domain_error 400 ''INVALID_CURSOR''"

definition base64url_letter :: "char \<Rightarrow> bool" where
  "base64url_letter c = (c \<in> set base64url_alphabet)"

definition decodeCursor :: "text_formats \<Rightarrow> string option \<Rightarrow> string \<Rightarrow> string \<Rightarrow> list_cursor option outcome" where
  "decodeCursor f raw kind wedding =
     (case raw of
        None \<Rightarrow> Inr None
      | Some s \<Rightarrow>
          if 2048 < length s \<or> s = [] \<or> \<not> list_all base64url_letter s then Inl invalidCursor
          else (case Option.bind (json_parse (utf8_decode (base64_decode s))) (read_cursor f) of
              None \<Rightarrow> Inl invalidCursor
            | Some c \<Rightarrow> if complete_cursor f c \<and> cursor_kind c = kind \<and> cursor_wedding c = js_lower wedding
                then Inr (Some c) else Inl invalidCursor))"

section \<open>Reading back what was written\<close>

text \<open>Objects of texts and counts, as \<open>JSON.stringify\<close> writes them, parse to their members.\<close>

definition plain_value :: "json \<Rightarrow> bool" where
  "plain_value v = ((\<exists>s. v = JStr s) \<or> (\<exists>n. v = JNum (of_nat n)))"

abbreviation member_text :: "string \<times> json \<Rightarrow> string" where
  "member_text \<equiv> \<lambda>(k, v). json_quote k @ '':'' @ json_text v"

lemma json_value_text:
  assumes "plain_value v" "r \<noteq> []" "hd r = CHR '','' \<or> hd r = CHR ''}''"
  shows "json_value (Suc n) (json_text v @ r) = Some (v, r)"
proof (cases "\<exists>s. v = JStr s")
  case True
  then show ?thesis by (auto simp: json_value_quote simp del: json_value.simps)
next
  case False
  then obtain m where "v = JNum (of_nat m)" using assms(1) by (auto simp: plain_value_def)
  moreover have "json_value (Suc n) (show_nat m @ r) = Some (JNum (of_nat m), r)"
    by (rule json_value_show) (use assms in \<open>auto simp: is_digit_def code_of_def\<close>)
  ultimately show ?thesis by (simp del: json_value.simps)
qed

lemma json_members_text:
  "ms \<noteq> [] \<Longrightarrow> list_all (\<lambda>m. plain_value (snd m)) ms \<Longrightarrow> length ms \<le> n
    \<Longrightarrow> json_members (Suc n) (js_join '','' (map member_text ms) @ ''}'') = Some (ms, [])"
proof (induction ms arbitrary: n)
  case Nil
  then show ?case by simp
next
  case (Cons m ms)
  obtain k v where m: "m = (k, v)" by force
  obtain n' where n: "n = Suc n'" using Cons.prems by (cases n) auto
  have v: "plain_value v" using Cons.prems m by simp
  show ?case
  proof (cases ms)
    case Nil
    then show ?thesis
      using json_value_text [OF v, of "''}''" n'] by (simp add: m n json_members_quote del: json_members.simps json_value.simps)
  next
    case (Cons m' ms')
    have rest: "json_members n (js_join '','' (map member_text ms) @ ''}'') = Some (ms, [])"
      using Cons.IH [of n'] Cons.prems Cons n by simp
    have "json_value n (json_text v @ '','' @ js_join '','' (map member_text ms) @ ''}'')
        = Some (v, '','' @ js_join '','' (map member_text ms) @ ''}'')"
      using json_value_text [OF v, of _ n'] by (simp add: n del: json_value.simps)
    then show ?thesis
      using rest Cons by (simp add: m json_members_quote del: json_members.simps json_value.simps)
  qed
qed

lemma member_text_length: "length ms \<le> length (js_join '','' (map member_text ms))"
  by (induction ms rule: induct_list012) (auto simp: json_quote_def split: prod.splits)

lemma json_parse_object:
  assumes "ms \<noteq> []" "list_all (\<lambda>m. plain_value (snd m)) ms"
  shows "json_parse (json_object_text ms) = Some (JObj ms)"
proof -
  let ?tail = "js_join '','' (map member_text ms) @ ''}''"
  have s: "json_object_text ms = CHR ''{'' # ?tail"
    by (simp add: json_object_text_def)
  obtain k v ms' where ms: "ms = (k, v) # ms'"
    using assms(1) by (cases ms) auto
  have "\<exists>t. ?tail = CHR 0x22 # t"
    by (cases ms') (simp_all add: ms json_quote_def)
  then have head: "take 1 (skip_ws ?tail) \<noteq> ''}''"
    by (auto simp: skip_ws_def code_of_def)
  have "length ms \<le> length ?tail"
    using member_text_length [of ms] by simp
  then have "json_members (Suc (length ?tail)) ?tail = Some (ms, [])"
    by (rule json_members_text [OF assms])
  then show ?thesis
    using head by (simp add: json_parse_def s del: json_members.simps)
qed

lemma plain_str: "plain_value (JStr s)" and plain_num: "plain_value (JNum (of_nat n))" and plain_one: "plain_value (JNum 1)"
  unfolding plain_value_def by (auto intro: exI [of _ "1::nat"])

lemma plain_members: "list_all (\<lambda>m. plain_value (snd m)) (cursor_members c)"
  by (auto simp: cursor_members_def optional_member_def plain_str plain_num plain_one split: option.split)

lemma read_own_members:
  assumes "valid_cursor f c"
  shows "read_cursor f (JObj (cursor_members c)) = Some c"
proof -
  obtain k w i t e l h p where c: "c = \<lparr>cursor_kind = k, cursor_wedding = w, cursor_id = i, cursor_created = t,
      cursor_event = e, cursor_label = l, cursor_filter = h, cursor_position = p\<rparr>"
    by (cases c)
  have ms: "list_all (\<lambda>m. fst m \<in> set known_members) (cursor_members c)"
    by (auto simp: cursor_members_def optional_member_def known_members_def split: option.split)
  have fixed: "json_get ''version'' (JObj (cursor_members c)) = Some (JNum 1)" "json_str ''kind'' (JObj (cursor_members c)) = Some k"
    "json_str ''weddingId'' (JObj (cursor_members c)) = Some w" "json_str ''id'' (JObj (cursor_members c)) = Some i"
    by (simp_all add: c json_get_def json_str_def cursor_members_def optional_member_def map_add_def split: option.split)
  have optional: "str_member ''createdAt'' (JObj (cursor_members c)) = Some t" "str_member ''eventId'' (JObj (cursor_members c)) = Some e"
    "str_member ''label'' (JObj (cursor_members c)) = Some l" "str_member ''filterHash'' (JObj (cursor_members c)) = Some h"
    "nat_member ''position'' (JObj (cursor_members c)) = Some p"
    by (simp_all add: c str_member_def nat_member_def json_get_def cursor_members_def optional_member_def map_add_def
        split: option.split)
  show ?thesis
    using assms ms fixed optional by (simp add: read_cursor_def c)
qed

lemma encoded_letters: "list_all base64url_letter (base64url_encode s)"
proof -
  have "length base64url_alphabet = 64"
    by (simp add: base64url_alphabet_def)
  then show ?thesis
    using sextets_range [OF codes_range [of s]] by (auto simp: list_all_iff base64url_letter_def base64url_encode_def)
qed

text \<open>C30. A position is accepted in exactly the list it was made for: the text of a cursor, within the length
  the service takes, decodes to that cursor when the list's kind and wedding are its own and it holds
  what the list sorts by, and is refused with INVALID_CURSOR in every other list.\<close>

theorem cursors_hold_in_their_own_list:
  assumes "encodeCursor f c = Some s" "length s \<le> 2048"
  shows "decodeCursor f (Some s) kind wedding =
    (if complete_cursor f c \<and> cursor_kind c = kind \<and> cursor_wedding c = js_lower wedding
     then Inr (Some c) else Inl invalidCursor)"
proof -
  have valid: "valid_cursor f c" and s: "s = base64url_encode (utf8_encode (json_object_text (cursor_members c)))"
    using assms(1) by (auto simp: encodeCursor_def split: if_splits)
  have "s \<noteq> []"
    by (simp add: s utf8_encode_def json_object_text_def utf8_char_def code_of_def)
  moreover have "json_parse (utf8_decode (base64_decode s)) = Some (JObj (cursor_members c))"
    unfolding s base64url_round_trip utf8_round_trip
    by (rule json_parse_object [OF _ plain_members]) (simp add: cursor_members_def)
  ultimately show ?thesis
    using assms(2) encoded_letters read_own_members [OF valid] by (simp add: decodeCursor_def s)
qed

text \<open>The position of a list of passes, taken to another wedding's list.\<close>

definition shown_position :: list_cursor where
  "shown_position = \<lparr>cursor_kind = ''passes'', cursor_wedding = ''w1'', cursor_id = ''p7'', cursor_created = Some ''t5'',
     cursor_event = None, cursor_label = None, cursor_filter = None, cursor_position = None\<rparr>"

definition short_formats :: text_formats where
  "short_formats = \<lparr>uuid_text = (\<lambda>s. length s = 2), datetime_text = (\<lambda>s. length s = 2)\<rparr>"

lemma shown_encoded: "\<exists>s. encodeCursor short_formats shown_position = Some s \<and> length s \<le> 2048"
proof -
  have "valid_cursor short_formats shown_position"
    by (simp add: valid_cursor_def short_formats_def shown_position_def cursor_kinds_def opt_all_def)
  moreover have "length (base64url_encode (utf8_encode (json_object_text (cursor_members shown_position)))) \<le> 2048"
    by code_simp
  ultimately show ?thesis by (simp add: encodeCursor_def)
qed

theorem cursors_hold_in_their_own_list_witness:
  "\<exists>s. decodeCursor short_formats (Some s) ''passes'' ''w1'' = Inr (Some shown_position)
    \<and> decodeCursor short_formats (Some s) ''passes'' ''w2'' = Inl invalidCursor"
proof -
  obtain s where s: "encodeCursor short_formats shown_position = Some s" "length s \<le> 2048"
    using shown_encoded by blast
  have "complete_cursor short_formats shown_position" "cursor_kind shown_position = ''passes''"
    "cursor_wedding shown_position = ''w1''" "js_lower ''w1'' = ''w1''" "js_lower ''w2'' = ''w2''"
    by (simp_all add: complete_cursor_def shown_position_def opt_all_def js_lower_def lower_char_def is_upper_def code_of_def)
  then show ?thesis
    using cursors_hold_in_their_own_list [OF s] by (intro exI [of _ s]) simp
qed

end
