(* ===== verification/Spec2Isabelle.thy ===== *)
theory Spec2Isabelle
  imports ApiTheorems AccountTheorems UploadTheorems HallTheorems ListingTheorems SessionTheorems PassEmailTheorems WebTheorems MediaTheorems ScannerTheorems UploaderTheorems DashboardTheorems PlatformTheorems JobTheorems GuestCsv Cursors
begin

text \<open>
  A verification library for the save-the-date repository: a wedding site with hall passes, a
  photo gallery and a door scanner (\<^verbatim>\<open>apps/web\<close>), and the platform behind it that
  keeps guests, events, entry passes, mail and jobs for many weddings
  (\<^verbatim>\<open>packages\<close>, \<^verbatim>\<open>apps/api\<close>, \<^verbatim>\<open>apps/worker\<close>).

  \<^bold>\<open>How the code is modelled.\<close> A handler is a function from its arguments and the tables
  it reads to its reply and the tables it leaves; an error is a value (the left side of a sum), and
  a transaction that fails leaves the tables as they were. A table is a list of records, a SQL
  statement an update of the rows a condition selects (\<open>update_where\<close>). Handlers that lock a
  row run one after the other, so a history is a list of operations (\<open>run_ops\<close>). React
  components are functions from their state to the widgets shown, and from an event to the next
  state. Strings are lists of one-byte characters; instants are milliseconds as integers;
  identifiers are numbers. Hashing, encryption, random bytes, the clock, the mail provider, the
  database connection and the browser are arguments of the functions that use them.

  \<^bold>\<open>Shared theories.\<close> \<^verbatim>\<open>Prelude\<close>: results, characters, the string operations of
  JavaScript, list facts. \<^verbatim>\<open>Json\<close>, \<^verbatim>\<open>Codec\<close>, \<^verbatim>\<open>Uri\<close>: JSON text, base64
  and percent encoding as the code uses them. \<^verbatim>\<open>SingleUse\<close>: runs of operations and the
  locales \<open>guarded_store\<close> and \<open>single_use\<close>, the contract of everything that may happen
  once; it is interpreted on the hall-pass registry, on its HTTP routes, on the platform's entry
  passes, on the admission ledger and on mail submissions.

  \<^bold>\<open>Hall passes\<close> (\<^verbatim>\<open>apps/web/src/lib/hallPasses.ts\<close>, \<^verbatim>\<open>hallPassPaging.ts\<close>,
  \<^verbatim>\<open>db/migrations\<close>). \<^verbatim>\<open>HallTypes\<close> holds the rows, \<^verbatim>\<open>HallPasses\<close> issuing,
  redemption, limits, invalidation and mail marks, \<^verbatim>\<open>HallListing\<close> searching, counting and
  paging, \<^verbatim>\<open>HallRegistry\<close> the operations and the invariant they keep. \<^verbatim>\<open>HallTheorems\<close>
  and \<^verbatim>\<open>ListingTheorems\<close>: a pass is admitted once, verdicts are right, a batch is issued whole
  or not at all, keys stay unique, invalidation is final, a frozen registry does not change, tokens
  have their form, pages partition the rows. A token clash is retried by the code five times; the
  model takes the random bytes of each attempt as an argument.

  \<^bold>\<open>The web server\<close> (\<^verbatim>\<open>apps/web/app/api\<close>, \<^verbatim>\<open>apps/web/src/lib\<close>).
  \<^verbatim>\<open>Session\<close> (\<^verbatim>\<open>auth.ts\<close>, \<^verbatim>\<open>users.ts\<close>, the login routes), \<^verbatim>\<open>WebRegistry\<close> and
  \<^verbatim>\<open>HallRoutes\<close> (the routes over the registry with their role and write-fence checks),
  \<^verbatim>\<open>PassEmail\<close> and \<^verbatim>\<open>PassPdf\<close> (\<^verbatim>\<open>passEmail.ts\<close>, \<^verbatim>\<open>maileroo.ts\<close>,
  \<^verbatim>\<open>passPdf.ts\<close>), \<^verbatim>\<open>MediaLib\<close> (\<^verbatim>\<open>cloudinaryMedia.ts\<close>, \<^verbatim>\<open>r2.ts\<close> and their
  routes). \<^verbatim>\<open>SessionTheorems\<close>, \<^verbatim>\<open>WebTheorems\<close>, \<^verbatim>\<open>PassEmailTheorems\<close> and
  \<^verbatim>\<open>MediaTheorems\<close>: sessions last twelve hours and are signed, requests admit once, guards come
  before effects, a mail contains no markup of a guest, a printed pass stays on its page, the
  gallery search ends. The search loop carries fuel; it is shown that one round per page suffices.

  \<^bold>\<open>The browser\<close> (\<^verbatim>\<open>apps/web/src/components\<close>, \<^verbatim>\<open>apps/web/src/views\<close>).
  \<^verbatim>\<open>Scanner\<close> (\<^verbatim>\<open>HallPassScanner.tsx\<close>), \<^verbatim>\<open>Uploader\<close>
  (\<^verbatim>\<open>CloudinaryImageUploader.tsx\<close>), \<^verbatim>\<open>MediaView\<close> (\<^verbatim>\<open>MediaPage.tsx\<close>),
  \<^verbatim>\<open>Dashboard\<close> and \<^verbatim>\<open>DashboardView\<close> (\<^verbatim>\<open>PassDashboard.tsx\<close>) with
  \<^verbatim>\<open>ScannerTheorems\<close>, \<^verbatim>\<open>UploaderTheorems\<close> and \<^verbatim>\<open>DashboardTheorems\<close>: what the
  scanner shows was answered, a camera session posts one code, an upload settles its queue, a photo
  stays in bounds, and a batch the dashboard offers is one the route accepts.

  \<^bold>\<open>The platform\<close> (\<^verbatim>\<open>packages/domain\<close>, \<^verbatim>\<open>packages/persistence\<close>,
  \<^verbatim>\<open>packages/adapters\<close>). \<^verbatim>\<open>Tenancy\<close>: domain errors, roles, capabilities.
  \<^verbatim>\<open>Wedding\<close>: the tables of one wedding and the statements handlers share.
  \<^verbatim>\<open>Attendance\<close>: \<open>submit\<close>, \<open>approve\<close> and \<open>remove\<close> of \<^verbatim>\<open>guests.ts\<close>.
  \<^verbatim>\<open>Admission\<close>: issuing, revoking, reissuing and the scan of \<^verbatim>\<open>passes.ts\<close> with the
  ledger of \<^verbatim>\<open>admission-ledger.ts\<close>. \<^verbatim>\<open>Reconcile\<close>: corrections, the expiry sweep, the
  replay and quarantine of \<^verbatim>\<open>recovery.ts\<close> and the operator's release of a hold.
  \<^verbatim>\<open>EventEdit\<close>: \<open>saveEvent\<close> of \<^verbatim>\<open>index.ts\<close>. \<^verbatim>\<open>Platform\<close>: these handlers as
  operations on the ledger and the tables. \<^verbatim>\<open>PlatformRules\<close> states what holds in every state
  (\<open>wf\<close>: keys and references; \<open>places_ok\<close>: counters, capacity, confirmed answers) and what a
  lawful change is; \<^verbatim>\<open>PassRules\<close> and \<^verbatim>\<open>PlaceRules\<close> show handler by handler that the
  changes are lawful; \<^verbatim>\<open>PlatformTheorems\<close> draws the conclusions: a pass is admitted once, an
  acknowledged admission survives a restored database, no event is overbooked, the tables stay well
  formed. \<^verbatim>\<open>JobQueue\<close> and
  \<^verbatim>\<open>JobTheorems\<close> (\<^verbatim>\<open>jobs.ts\<close>, \<^verbatim>\<open>notifications.ts\<close>): the queue drains within five
  polls per job, and a message is submitted at most once to a provider without idempotency keys.
  \<^verbatim>\<open>GuestCsv\<close>: the exported guest list reads back. \<^verbatim>\<open>Cursors\<close>
  (\<^verbatim>\<open>cursors.ts\<close>): a list position is accepted in its own list only.

  \<^bold>\<open>Accounts and workspaces\<close> (\<^verbatim>\<open>packages/persistence/src/index.ts\<close>, migrations
  001 and 003). \<^verbatim>\<open>Directory\<close> holds the tables of all users and weddings,
  \<^verbatim>\<open>Identity\<close> registration, links, sessions and the rate limit, \<^verbatim>\<open>Workspace\<close> the
  creation, change, transfer, deletion and recovery of weddings with their invitations and
  members; \<^verbatim>\<open>Accounts\<close> is the step relation over all of them. \<^verbatim>\<open>AccountRules\<close> shows
  its invariant, \<^verbatim>\<open>AccountProgress\<close> that nothing used or closed opens again,
  \<^verbatim>\<open>MemberRoles\<close> which steps give a role, and
  \<^verbatim>\<open>AccountTheorems\<close> the conclusions: owners, single-use links, ended sessions, where
  roles come from, and the bound of the rate limit.

  \<^bold>\<open>Media and uploads\<close> (\<^verbatim>\<open>uploads.ts\<close>, \<^verbatim>\<open>media.ts\<close>, \<^verbatim>\<open>operator.ts\<close>).
  \<^verbatim>\<open>Uploads\<close> holds the tables and handlers; \<^verbatim>\<open>UploadRules\<close> states the quota and
  the allowance of a visitor (\<open>metered_space\<close>), \<^verbatim>\<open>StaffRows\<close> that the platform's
  handlers leave the members alone, and \<^verbatim>\<open>UploadSteps\<close> composes the whole system: a step is
  an account request, a platform handler on one wedding, or a media handler, and a
  history is a sequence of steps. \<^verbatim>\<open>AssetViews\<close> is the contract of a view on one photo (the
  locale \<open>asset_view\<close>), interpreted in \<^verbatim>\<open>UploadTheorems\<close> for approval and for removal.

  \<^bold>\<open>The API\<close> (\<^verbatim>\<open>apps/api/src\<close>). \<^verbatim>\<open>ApiRoutes\<close> and \<^verbatim>\<open>WeddingRoutes\<close>
  are \<open>dispatch\<close> of \<^verbatim>\<open>application.ts\<close>, gate by gate and route by route; a request yields
  the trace of what was counted, who was signed in and which handlers were called with
  which identifiers, and the status sent. The handlers are named there, not called: their
  models are the theories above. \<^verbatim>\<open>RouteRules\<close> traverses the routes once for every
  property of all events; \<^verbatim>\<open>ApiTheorems\<close>: forged requests and reads change nothing, every
  handler has its credential, a request stays in its wedding. \<^verbatim>\<open>ApiDocument\<close> is the table of
  \<^verbatim>\<open>openapi.ts\<close> and the request a client writes by it, \<^verbatim>\<open>ApiConformance\<close> shows
  endpoint by endpoint that dispatch answers as documented. \<^verbatim>\<open>ByteRange\<close>: answers to range
  requests.

  \<^bold>\<open>Limits of the model.\<close> Serialisation failures, connection losses other than those named,
  and interleavings finer than a transaction are not modelled; a repeated read of the clock within
  one handler is one reading. Case mapping and white space follow ASCII (and the no-break space).
  Record columns that a handler only stores are left out, and so are the texts of error messages.
  A write of the ledger succeeds, is lost, or is carried out although reported as failed.

  \<^bold>\<open>Not modelled.\<close> Saving and importing guests and their private access, ticket files and
  their downloads, publication, creative planning, invitations, retention and erasure, the
  operator's dashboards and the legacy transfer: their reasons are in the manifest; their
  routes are part of the API's model. Of the API, cookies and the bodies of the answers; the
  worker's loop, contracts (schemas of a library), configuration and adapters are wiring over the
  handlers above or calls of libraries. Pages without state, styles, scripts, tests and
  deployment files have nothing to verify beyond their text.
\<close>

end
